(* ===== verification/Giblet_Prelude.thy ===== *)
theory Giblet_Prelude
  imports Main "HOL-Library.Word" "HOL-Library.Char_ord" "HOL-Library.List_Lexorder"
begin

text \<open>
  What every component of the development shares: the exceptions of the program as values,
  stateful C++ functions as state transformers that may throw, a weakest-precondition
  calculus for them, and small facts on lists and bytes.

  A C++ exception does not roll anything back: what the function wrote before the throw
  stays written and what it sent stays sent. A stateful function is therefore a map from
  the old state to a pair of the outcome (\<open>Inl\<close> the exception, \<open>Inr\<close> the value) and
  the new state, and sequencing keeps the state of the part that threw.
\<close>

section \<open>Exceptions\<close>

text \<open>
  The exception classes the sources throw, with the text they carry. \<open>Undefined\<close> is not
  an exception of the program: it marks a call for which the C++ standard (or the C
  library) gives no behaviour, such as reading past the end of a buffer. \<open>Aborted\<close> is
  the end of the process: a failed \<open>assert\<close> of a debug build, or a call of
  \<open>ExitProcess\<close>.
\<close>

datatype exn =
    Runtime_error string
  | Invalid_argument string
  | Out_of_range string
  | Undefined string
  | Aborted string

definition is_undefined :: "exn \<Rightarrow> bool" where
  "is_undefined e = (case e of Undefined _ \<Rightarrow> True | _ \<Rightarrow> False)"

lemma is_undefined_simps [simp]:
  "is_undefined (Undefined m)"
  "\<not> is_undefined (Runtime_error m)"
  "\<not> is_undefined (Invalid_argument m)"
  "\<not> is_undefined (Out_of_range m)"
  "\<not> is_undefined (Aborted m)"
  by (simp_all add: is_undefined_def)

section \<open>Pure functions that may throw\<close>

definition bind_res :: "exn + 'a \<Rightarrow> ('a \<Rightarrow> exn + 'b) \<Rightarrow> exn + 'b" where
  "bind_res m f = (case m of Inl e \<Rightarrow> Inl e | Inr x \<Rightarrow> f x)"

lemma bind_res_simps [simp]:
  "bind_res (Inl e) f = Inl e"
  "bind_res (Inr x) f = f x"
  by (simp_all add: bind_res_def)

lemma bind_res_cong [fundef_cong]:
  "m = m' \<Longrightarrow> (\<And>x. m' = Inr x \<Longrightarrow> f x = f' x) \<Longrightarrow> bind_res m f = bind_res m' f'"
  by (cases m') simp_all

lemma bind_res_Inr_iff:
  "bind_res m f = Inr y \<longleftrightarrow> (\<exists>x. m = Inr x \<and> f x = Inr y)"
  by (cases m) auto

lemma bind_res_Inl_iff:
  "bind_res m f = Inl e \<longleftrightarrow> m = Inl e \<or> (\<exists>x. m = Inr x \<and> f x = Inl e)"
  by (cases m) auto

lemma bind_res_assoc: "bind_res (bind_res m f) g = bind_res m (\<lambda>x. bind_res (f x) g)"
  by (cases m) simp_all

section \<open>Stateful functions that may throw\<close>

type_synonym ('s, 'a) cpp = "'s \<Rightarrow> (exn + 'a) \<times> 's"

definition ret :: "'a \<Rightarrow> ('s, 'a) cpp" where
  "ret x s = (Inr x, s)"

definition throw :: "exn \<Rightarrow> ('s, 'a) cpp" where
  "throw e s = (Inl e, s)"

definition and_then :: "('s, 'a) cpp \<Rightarrow> ('a \<Rightarrow> ('s, 'b) cpp) \<Rightarrow> ('s, 'b) cpp" where
  "and_then m f s = (case m s of (Inl e, s') \<Rightarrow> (Inl e, s') | (Inr x, s') \<Rightarrow> f x s')"

definition get_state :: "('s \<Rightarrow> 'a) \<Rightarrow> ('s, 'a) cpp" where
  "get_state f s = (Inr (f s), s)"

definition modify :: "('s \<Rightarrow> 's) \<Rightarrow> ('s, unit) cpp" where
  "modify f s = (Inr (), f s)"

definition lift_res :: "exn + 'a \<Rightarrow> ('s, 'a) cpp" where
  "lift_res r s = (r, s)"

text \<open>A range-based \<open>for\<close> over a sequence the body does not change.\<close>

fun for_each :: "('b \<Rightarrow> ('s, unit) cpp) \<Rightarrow> 'b list \<Rightarrow> ('s, unit) cpp" where
  "for_each f [] = ret ()"
| "for_each f (x # xs) = and_then (f x) (\<lambda>_. for_each f xs)"

section \<open>Weakest preconditions\<close>

text \<open>
  \<open>wp m Q E s\<close>: run from \<open>s\<close>, \<open>m\<close> either returns a value and a state that satisfy
  \<open>Q\<close>, or throws an exception in a state that satisfy \<open>E\<close>. Every stateful function
  here is total, so \<open>wp\<close> is total correctness. The collection \<open>wp\<close> holds the
  equations of the combinators; each component adds the rules of its operations.
\<close>

named_theorems wp

definition wp :: "('s, 'a) cpp \<Rightarrow> ('a \<Rightarrow> 's \<Rightarrow> bool) \<Rightarrow> (exn \<Rightarrow> 's \<Rightarrow> bool) \<Rightarrow> 's \<Rightarrow> bool" where
  "wp m Q E s = (case m s of (Inl e, s') \<Rightarrow> E e s' | (Inr x, s') \<Rightarrow> Q x s')"

lemma wp_ret [wp]: "wp (ret x) Q E s = Q x s"
  by (simp add: wp_def ret_def)

lemma wp_throw [wp]: "wp (throw e) Q E s = E e s"
  by (simp add: wp_def throw_def)

lemma wp_and_then [wp]: "wp (and_then m f) Q E s = wp m (\<lambda>x. wp (f x) Q E) E s"
  by (simp add: wp_def and_then_def split: prod.splits sum.splits)

lemma wp_get_state [wp]: "wp (get_state f) Q E s = Q (f s) s"
  by (simp add: wp_def get_state_def)

lemma wp_modify [wp]: "wp (modify f) Q E s = Q () (f s)"
  by (simp add: wp_def modify_def)

lemma wp_lift_res [wp]:
  "wp (lift_res r) Q E s = (case r of Inl e \<Rightarrow> E e s | Inr x \<Rightarrow> Q x s)"
  by (simp add: wp_def lift_res_def split: sum.splits)

lemma wp_if [wp]:
  "wp (if b then m else n) Q E s = (if b then wp m Q E s else wp n Q E s)"
  by simp

lemma wp_mono:
  assumes "wp m Q E s"
    and "\<And>x s'. Q x s' \<Longrightarrow> Q' x s'"
    and "\<And>e s'. E e s' \<Longrightarrow> E' e s'"
  shows "wp m Q' E' s"
  using assms by (auto simp: wp_def split: prod.splits sum.splits)

lemma wp_conj:
  "wp m Q E s \<Longrightarrow> wp m Q' E' s \<Longrightarrow> wp m (\<lambda>x s'. Q x s' \<and> Q' x s') (\<lambda>e s'. E e s' \<and> E' e s') s"
  by (auto simp: wp_def split: prod.splits sum.splits)

text \<open>Reading a fact about a run back from a \<open>wp\<close> fact, and the other way.\<close>

lemma wp_Inr: "wp m Q E s \<Longrightarrow> m s = (Inr x, s') \<Longrightarrow> Q x s'"
  by (simp add: wp_def)

lemma wp_Inl: "wp m Q E s \<Longrightarrow> m s = (Inl e, s') \<Longrightarrow> E e s'"
  by (simp add: wp_def)

lemma wp_state: "wp m (\<lambda>_. P) (\<lambda>_. P) s \<Longrightarrow> P (snd (m s))"
  by (auto simp: wp_def split: prod.splits sum.splits)

lemma wpI:
  assumes "\<And>x s'. m s = (Inr x, s') \<Longrightarrow> Q x s'"
    and "\<And>e s'. m s = (Inl e, s') \<Longrightarrow> E e s'"
  shows "wp m Q E s"
  using assms by (auto simp: wp_def split: prod.splits sum.splits)

lemma wp_run_Inr: "wp m (\<lambda>x t. x = v \<and> t = s') (\<lambda>_ _. False) s \<Longrightarrow> m s = (Inr v, s')"
  by (auto simp: wp_def split: prod.splits sum.splits)

lemma wp_run_Inl: "wp m (\<lambda>_ _. False) (\<lambda>e t. e = v \<and> t = s') s \<Longrightarrow> m s = (Inl v, s')"
  by (auto simp: wp_def split: prod.splits sum.splits)

lemma run_eqI: "wp m (\<lambda>x t. r = (Inr x, t)) (\<lambda>e t. r = (Inl e, t)) s \<Longrightarrow> m s = r"
  by (auto simp: wp_def split: prod.splits sum.splits)

text \<open>The loop rule: an invariant of the body is an invariant of the loop.\<close>

lemma wp_for_each:
  assumes "I s"
    and "\<And>x s. x \<in> set xs \<Longrightarrow> I s \<Longrightarrow> wp (f x) (\<lambda>_. I) E s"
  shows "wp (for_each f xs) (\<lambda>_. I) E s"
  using assms
proof (induction xs arbitrary: s)
  case Nil
  then show ?case by (simp add: wp)
next
  case (Cons x xs)
  have "wp (f x) (\<lambda>_. I) E s"
    using Cons.prems by simp
  then show ?case
    by (simp add: wp, rule wp_mono) (use Cons in auto)
qed

text \<open>
  A function keeps a predicate when it holds afterwards on both outcomes. The
  collection \<open>keeps\<close> holds the closure rules and each operation's own rule.
\<close>

named_theorems keeps_intros

definition keeps :: "('s \<Rightarrow> bool) \<Rightarrow> ('s, 'a) cpp \<Rightarrow> bool" where
  "keeps P m = (\<forall>s. P s \<longrightarrow> wp m (\<lambda>_. P) (\<lambda>_. P) s)"

lemma keepsI: "(\<And>s. P s \<Longrightarrow> wp m (\<lambda>_. P) (\<lambda>_. P) s) \<Longrightarrow> keeps P m"
  by (simp add: keeps_def)

lemma keepsD: "keeps P m \<Longrightarrow> P s \<Longrightarrow> P (snd (m s))"
  by (auto simp: keeps_def intro: wp_state)

lemma keeps_wp: "keeps P m \<Longrightarrow> P s \<Longrightarrow> wp m (\<lambda>_. P) (\<lambda>_. P) s"
  by (simp add: keeps_def)

lemma keeps_ret [keeps_intros]: "keeps P (ret x)"
  by (rule keepsI) (simp add: wp)

lemma keeps_throw [keeps_intros]: "keeps P (throw e)"
  by (rule keepsI) (simp add: wp)

lemma keeps_get_state [keeps_intros]: "keeps P (get_state f)"
  by (rule keepsI) (simp add: wp)

lemma keeps_lift_res [keeps_intros]: "keeps P (lift_res r)"
  by (rule keepsI) (simp add: wp split: sum.split)

lemma keeps_modify: "(\<And>s. P s \<Longrightarrow> P (f s)) \<Longrightarrow> keeps P (modify f)"
  by (rule keepsI) (simp add: wp)

lemma keeps_and_then [keeps_intros]:
  "keeps P m \<Longrightarrow> (\<And>x. keeps P (f x)) \<Longrightarrow> keeps P (and_then m f)"
  unfolding keeps_def by (auto simp: wp elim!: wp_mono)

lemma keeps_if [keeps_intros]:
  "(b \<Longrightarrow> keeps P m) \<Longrightarrow> (\<not> b \<Longrightarrow> keeps P n) \<Longrightarrow> keeps P (if b then m else n)"
  by simp

lemma keeps_for_each [keeps_intros]:
  "(\<And>x. keeps P (f x)) \<Longrightarrow> keeps P (for_each f xs)"
  by (rule keepsI) (rule wp_for_each, auto simp: keeps_def)

text \<open>
  An object reached through a pointer member: run \<open>m\<close> on the part of the state that
  \<open>view\<close> shows and write it back with \<open>put\<close>.
\<close>

definition zoom :: "('s \<Rightarrow> 't) \<Rightarrow> ('t \<Rightarrow> 's \<Rightarrow> 's) \<Rightarrow> ('t, 'a) cpp \<Rightarrow> ('s, 'a) cpp" where
  "zoom view put m s = (case m (view s) of (r, t) \<Rightarrow> (r, put t s))"

lemma wp_zoom [wp]:
  "wp (zoom view put m) Q E s = wp m (\<lambda>x t. Q x (put t s)) (\<lambda>e t. E e (put t s)) (view s)"
  by (simp add: wp_def zoom_def split: prod.splits sum.splits)

text \<open>
  The exceptions a function can throw, whatever its state: \<open>only_raises X m\<close>, with its own
  closure rules.
\<close>

named_theorems raises_intros

definition only_raises :: "(exn \<Rightarrow> bool) \<Rightarrow> ('s, 'a) cpp \<Rightarrow> bool" where
  "only_raises X m = (\<forall>s. wp m (\<lambda>_ _. True) (\<lambda>e _. X e) s)"

lemma only_raisesI: "(\<And>s. wp m (\<lambda>_ _. True) (\<lambda>e _. X e) s) \<Longrightarrow> only_raises X m"
  by (simp add: only_raises_def)

lemma only_raisesD: "only_raises X m \<Longrightarrow> m s = (Inl e, s') \<Longrightarrow> X e"
  by (auto simp: only_raises_def dest: wp_Inl)

lemma only_raises_mono: "only_raises X m \<Longrightarrow> (\<And>e. X e \<Longrightarrow> Y e) \<Longrightarrow> only_raises Y m"
  by (rule only_raisesI, rule wp_mono [of m "\<lambda>_ _. True" "\<lambda>e _. X e"])
    (auto simp: only_raises_def)

lemma raises_ret [raises_intros]: "only_raises X (ret x)"
  by (rule only_raisesI) (simp add: wp)

lemma raises_throw [raises_intros]: "X e \<Longrightarrow> only_raises X (throw e)"
  by (rule only_raisesI) (simp add: wp)

lemma raises_get_state [raises_intros]: "only_raises X (get_state f)"
  by (rule only_raisesI) (simp add: wp)

lemma raises_modify [raises_intros]: "only_raises X (modify f)"
  by (rule only_raisesI) (simp add: wp)

lemma raises_lift_res [raises_intros]: "(\<And>e. r = Inl e \<Longrightarrow> X e) \<Longrightarrow> only_raises X (lift_res r)"
  by (rule only_raisesI) (simp add: wp split: sum.split)

lemma raises_and_then [raises_intros]:
  "only_raises X m \<Longrightarrow> (\<And>x. only_raises X (f x)) \<Longrightarrow> only_raises X (and_then m f)"
  by (rule only_raisesI, unfold wp, rule wp_mono [of m "\<lambda>_ _. True" "\<lambda>e _. X e"])
    (auto simp: only_raises_def)

lemma raises_if [raises_intros]:
  "(b \<Longrightarrow> only_raises X m) \<Longrightarrow> (\<not> b \<Longrightarrow> only_raises X n) \<Longrightarrow> only_raises X (if b then m else n)"
  by simp

lemma raises_for_each [raises_intros]:
  "(\<And>x. only_raises X (f x)) \<Longrightarrow> only_raises X (for_each f xs)"
  by (rule only_raisesI, rule wp_for_each [where I = "\<lambda>_. True"]) (auto simp: only_raises_def)

lemma raises_zoom [raises_intros]: "only_raises X m \<Longrightarrow> only_raises X (zoom view put m)"
  by (simp add: only_raises_def wp)

section \<open>Lists\<close>

text \<open>\<open>contains_sub p xs\<close>: the sequence \<open>p\<close> occurs in \<open>xs\<close> as adjacent elements.\<close>

definition contains_sub :: "'a list \<Rightarrow> 'a list \<Rightarrow> bool" where
  "contains_sub p xs = (\<exists>us vs. xs = us @ p @ vs)"

lemma contains_sub_take_drop:
  "length p \<le> length xs \<Longrightarrow> take (length p) (drop n xs) = p \<Longrightarrow> contains_sub p xs"
  unfolding contains_sub_def by (metis append_take_drop_id)

lemma dropWhile_head: "dropWhile P xs = y # ys \<Longrightarrow> \<not> P y"
  by (metis hd_dropWhile list.discI list.sel(1))

lemma takeWhile_all: "(\<And>x. x \<in> set xs \<Longrightarrow> P x) \<Longrightarrow> takeWhile P xs = xs"
  by (induction xs) auto

section \<open>Bytes\<close>

text \<open>A \<open>char\<close> is a byte; \<open>char_of\<close> of a number keeps its low eight bits.\<close>

lemma of_char_char_of_nat [simp]: "(of_char (char_of (n::nat)) :: nat) = n mod 256"
  by simp

lemma of_char_lt_256: "(of_char c :: nat) < 256"
  by simp

end
