(* ===== verification/CString.thy ===== *)
theory CString
  imports Giblet_Prelude
begin

text \<open>
  The string facilities of the C++ standard library the program uses: \<open>std::string_view\<close>,
  \<open>std::strtol\<close>, \<open>std::atoi\<close>, \<open>std::stol\<close> and \<open>std::to_string\<close>. The program is built for
  32-bit Windows (WinSock, Visual Studio), where \<open>int\<close> and \<open>long\<close> have 32 bits and
  conversions out of range clamp. The lemmas show that \<open>to_string\<close> is undone by the
  number parsers and when reading a number stays inside the buffer.
\<close>

section \<open>String views\<close>

text \<open>
  A \<open>std::string_view\<close> is a pointer and a length. Its \<open>data()\<close> points into a larger
  buffer, and some callers (\<open>to_enum\<close>, \<open>SetAway\<close>) hand that bare pointer to a C function
  that does not know the length. \<open>View s r\<close> is a view of \<open>s\<close> where \<open>r\<close> is what the
  buffer holds behind it; \<open>Null_view\<close> is the default-constructed view, whose \<open>data()\<close> is
  the null pointer.
\<close>

datatype string_view = Null_view | View string string

fun sv_str :: "string_view \<Rightarrow> string" where
  "sv_str Null_view = []"
| "sv_str (View s r) = s"

definition sv_empty :: "string_view \<Rightarrow> bool" where
  "sv_empty v = (sv_str v = [])"

section \<open>Reading numbers\<close>

definition is_space :: "char \<Rightarrow> bool" where
  "is_space c = (c = CHR '' '' \<or> (9 \<le> (of_char c :: nat) \<and> (of_char c :: nat) \<le> 13))"

definition is_digit :: "char \<Rightarrow> bool" where
  "is_digit c = (48 \<le> (of_char c :: nat) \<and> (of_char c :: nat) \<le> 57)"

definition digit_val :: "char \<Rightarrow> int" where
  "digit_val c = int (of_char c) - 48"

fun digits_val :: "int \<Rightarrow> string \<Rightarrow> int" where
  "digits_val acc [] = acc"
| "digits_val acc (c # cs) = digits_val (acc * 10 + digit_val c) cs"

text \<open>
  One scan of \<open>strtol\<close> in base ten: white space, an optional sign, digits. The result is
  the number (\<open>None\<close> when there is no digit) and what is left of the memory.
\<close>

definition scan_sign :: "string \<Rightarrow> bool \<times> string" where
  "scan_sign s = (case s of
      [] \<Rightarrow> (False, [])
    | c # cs \<Rightarrow> (if c = CHR ''-'' then (True, cs) else if c = CHR ''+'' then (False, cs) else (False, s)))"

definition scan_long :: "string \<Rightarrow> int option \<times> string" where
  "scan_long s =
     (let (neg, t) = scan_sign (dropWhile is_space s);
          ds = takeWhile is_digit t;
          v = digits_val 0 ds
      in (if ds = [] then None else Some (if neg then - v else v), dropWhile is_digit t))"

definition LONG_MAX :: int where "LONG_MAX = 2147483647"
definition LONG_MIN :: int where "LONG_MIN = - 2147483648"

definition clamp_long :: "int \<Rightarrow> int" where
  "clamp_long n = (if n < LONG_MIN then LONG_MIN else if n > LONG_MAX then LONG_MAX else n)"

text \<open>
  \<open>std::strtol(s.c_str(), nullptr, 10)\<close> on a \<open>std::string\<close>: the terminating NUL bounds the
  scan, so it is total, and a string without a number gives \<open>0\<close>.
\<close>

definition strtol :: "string \<Rightarrow> int" where
  "strtol s = (case fst (scan_long s) of None \<Rightarrow> 0 | Some n \<Rightarrow> clamp_long n)"

text \<open>
  \<open>std::atoi(v.data())\<close> on the pointer of a view. The scan only stops at a byte that is
  not part of a number. When the buffer ends first it reads past the end, and when the
  pointer is null there is nothing to read: both are undefined. A number outside \<open>int\<close>, which
  the C standard leaves open, gives the nearest bound, as the platform's library documents.
\<close>

definition atoi_data :: "string_view \<Rightarrow> exn + int" where
  "atoi_data v = (case v of
      Null_view \<Rightarrow> Inl (Undefined ''atoi of a null pointer'')
    | View s r \<Rightarrow>
        (case scan_long (s @ r) of
           (n, []) \<Rightarrow> Inl (Undefined ''atoi reads past the end of the buffer'')
         | (n, _ # _) \<Rightarrow> Inr (case n of None \<Rightarrow> 0 | Some k \<Rightarrow> clamp_long k)))"

text \<open>
  \<open>std::stol(v.data())\<close> first makes a \<open>std::string\<close> of the pointer, which reads up to the
  next NUL byte of the buffer, and then throws when there is no number or it is too big.
\<close>

definition stol_data :: "string_view \<Rightarrow> exn + int" where
  "stol_data v = (case v of
      Null_view \<Rightarrow> Inl (Undefined ''string from a null pointer'')
    | View s r \<Rightarrow>
        (if CHR 0x00 \<notin> set (s @ r)
         then Inl (Undefined ''string reads past the end of the buffer'')
         else (case fst (scan_long (takeWhile (\<lambda>c. c \<noteq> CHR 0x00) (s @ r))) of
                 None \<Rightarrow> Inl (Invalid_argument ''invalid stol argument'')
               | Some n \<Rightarrow>
                   (if n < LONG_MIN \<or> n > LONG_MAX
                    then Inl (Out_of_range ''stol argument out of range'') else Inr n))))"

text \<open>The undefined conversions: of a null pointer, and of a text without an end.\<close>

definition conversion_faults :: "exn set" where
  "conversion_faults =
     {Undefined ''atoi of a null pointer'', Undefined ''atoi reads past the end of the buffer'',
      Undefined ''string from a null pointer'', Undefined ''string reads past the end of the buffer''}"

section \<open>Writing numbers\<close>

definition digit_char :: "nat \<Rightarrow> char" where
  "digit_char d = char_of (48 + d)"

fun nat_to_string :: "nat \<Rightarrow> string" where
  "nat_to_string n =
     (if n < 10 then [digit_char n] else nat_to_string (n div 10) @ [digit_char (n mod 10)])"

declare nat_to_string.simps [simp del]

definition to_string :: "int \<Rightarrow> string" where
  "to_string n = (if n < 0 then CHR ''-'' # nat_to_string (nat (- n)) else nat_to_string (nat n))"

lemma is_digit_digit_char [simp]: "d < 10 \<Longrightarrow> is_digit (digit_char d)"
  by (simp add: is_digit_def digit_char_def)

lemma digit_val_digit_char [simp]: "d < 10 \<Longrightarrow> digit_val (digit_char d) = int d"
  by (simp add: digit_val_def digit_char_def)

lemma nat_to_string_digits: "c \<in> set (nat_to_string n) \<Longrightarrow> is_digit c"
proof (induction n rule: nat_to_string.induct)
  case (1 n)
  then show ?case
    by (subst (asm) nat_to_string.simps) (auto split: if_splits)
qed

lemma nat_to_string_nonempty [simp]: "nat_to_string n \<noteq> []"
  by (subst nat_to_string.simps) simp

lemma digits_val_append: "digits_val acc (xs @ ys) = digits_val (digits_val acc xs) ys"
  by (induction xs arbitrary: acc) simp_all

lemma digits_val_nat_to_string: "digits_val 0 (nat_to_string n) = int n"
proof (induction n rule: nat_to_string.induct)
  case (1 n)
  show ?case
  proof (cases "n < 10")
    case True
    then show ?thesis by (subst nat_to_string.simps) simp
  next
    case False
    with "1.IH" have "digits_val 0 (nat_to_string (n div 10)) = int (n div 10)" by simp
    with False show ?thesis
      by (subst nat_to_string.simps) (simp add: digits_val_append zdiv_int zmod_int)
  qed
qed

lemma length_nat_to_string: "n < 10 ^ k \<Longrightarrow> 0 < k \<Longrightarrow> length (nat_to_string n) \<le> k"
proof (induction k arbitrary: n)
  case 0
  then show ?case by simp
next
  case (Suc k)
  show ?case
  proof (cases "n < 10")
    case True
    then show ?thesis by (subst nat_to_string.simps) simp
  next
    case False
    then have "0 < k" using Suc.prems by (cases k) auto
    moreover have "n div 10 < 10 ^ k" using Suc.prems by (simp add: div_less_iff_less_mult)
    ultimately have "length (nat_to_string (n div 10)) \<le> k" using Suc.IH by blast
    with False show ?thesis by (subst nat_to_string.simps) simp
  qed
qed

lemma length_to_string_int:
  assumes "LONG_MIN \<le> n" "n \<le> LONG_MAX"
  shows "length (to_string n) \<le> 11"
proof -
  have "nat \<bar>n\<bar> < 10 ^ 10" using assms by (simp add: LONG_MIN_def LONG_MAX_def)
  then have "length (nat_to_string (nat \<bar>n\<bar>)) \<le> 10"
    by (rule length_nat_to_string) simp
  then show ?thesis by (auto simp: to_string_def)
qed

section \<open>Scanning what was written\<close>

definition no_digit_first :: "string \<Rightarrow> bool" where
  "no_digit_first r = (case r of [] \<Rightarrow> True | c # _ \<Rightarrow> \<not> is_digit c)"

lemma no_digit_first_Nil [simp]: "no_digit_first []"
  by (simp add: no_digit_first_def)

lemma no_digit_first_Cons [simp]: "no_digit_first (c # cs) = (\<not> is_digit c)"
  by (simp add: no_digit_first_def)

lemma scan_digits:
  assumes "\<And>c. c \<in> set ds \<Longrightarrow> is_digit c" "no_digit_first r"
  shows "takeWhile is_digit (ds @ r) = ds" "dropWhile is_digit (ds @ r) = r"
  using assms by (induction ds) (auto simp: no_digit_first_def split: list.splits)

lemma scan_nat_to_string:
  assumes "no_digit_first r"
  shows "takeWhile is_digit (nat_to_string n @ r) = nat_to_string n"
    and "dropWhile is_digit (nat_to_string n @ r) = r"
  using scan_digits [of "nat_to_string n" r] nat_to_string_digits assms by blast+

lemma is_digit_not_space: "is_digit c \<Longrightarrow> \<not> is_space c"
  by (auto simp: is_digit_def is_space_def)

lemma is_digit_not_sign: "is_digit c \<Longrightarrow> c \<noteq> CHR ''-'' \<and> c \<noteq> CHR ''+''"
  by (auto simp: is_digit_def)

lemma minus_not_space [simp]: "\<not> is_space CHR ''-''"
  by (simp add: is_space_def)

lemma scan_long_nat_to_string:
  assumes "no_digit_first r"
  shows "scan_long (nat_to_string n @ r) = (Some (int n), r)"
proof -
  obtain c cs where c: "nat_to_string n = c # cs" by (cases "nat_to_string n") auto
  then have d: "is_digit c" using nat_to_string_digits [of c n] by simp
  then have "scan_sign (dropWhile is_space (nat_to_string n @ r)) = (False, nat_to_string n @ r)"
    using c is_digit_not_sign [OF d] is_digit_not_space [OF d] by (simp add: scan_sign_def)
  then show ?thesis
    using scan_nat_to_string [OF assms, of n]
    by (simp add: scan_long_def digits_val_nat_to_string)
qed

lemma scan_long_to_string:
  assumes "no_digit_first r"
  shows "scan_long (to_string n @ r) = (Some n, r)"
proof (cases "n < 0")
  case True
  have "scan_long (CHR ''-'' # nat_to_string (nat (- n)) @ r) = (Some n, r)"
    using True scan_nat_to_string [OF assms, of "nat (- n)"]
    by (simp add: scan_long_def scan_sign_def digits_val_nat_to_string)
  with True show ?thesis by (simp add: to_string_def)
next
  case False
  then show ?thesis
    using scan_long_nat_to_string [OF assms, of "nat n"] by (simp add: to_string_def)
qed

lemma clamp_long_id: "LONG_MIN \<le> n \<Longrightarrow> n \<le> LONG_MAX \<Longrightarrow> clamp_long n = n"
  by (simp add: clamp_long_def)

lemma clamp_long_range: "LONG_MIN \<le> clamp_long n \<and> clamp_long n \<le> LONG_MAX"
  by (simp add: clamp_long_def LONG_MIN_def LONG_MAX_def)

lemma strtol_to_string:
  "LONG_MIN \<le> n \<Longrightarrow> n \<le> LONG_MAX \<Longrightarrow> strtol (to_string n) = n"
  using scan_long_to_string [of "[]" n] by (simp add: strtol_def clamp_long_id)

lemma strtol_range: "LONG_MIN \<le> strtol s \<and> strtol s \<le> LONG_MAX"
  using clamp_long_range by (auto simp: strtol_def LONG_MIN_def LONG_MAX_def split: option.splits)

lemma atoi_data_range:
  "atoi_data v = Inr n \<Longrightarrow> LONG_MIN \<le> n \<and> n \<le> LONG_MAX"
  using clamp_long_range
  by (auto simp: atoi_data_def LONG_MIN_def LONG_MAX_def
      split: string_view.splits prod.splits list.splits option.splits)

lemma atoi_data_fault: "atoi_data v = Inl e \<Longrightarrow> e \<in> conversion_faults"
  by (auto simp: atoi_data_def conversion_faults_def split: string_view.splits prod.splits list.splits)

lemma stol_data_fault: "stol_data v = Inl e \<Longrightarrow> is_undefined e \<Longrightarrow> e \<in> conversion_faults"
  by (auto simp: stol_data_def conversion_faults_def split: string_view.splits option.splits if_splits)

lemma conversion_faults_undefined: "e \<in> conversion_faults \<Longrightarrow> is_undefined e"
  by (auto simp: conversion_faults_def)

lemma atoi_data_error_undefined: "atoi_data v = Inl e \<Longrightarrow> is_undefined e"
  by (auto simp: atoi_data_def split: string_view.splits prod.splits list.splits)

lemma atoi_data_to_string:
  assumes "LONG_MIN \<le> n" "n \<le> LONG_MAX" "\<not> is_digit c"
  shows "atoi_data (View (to_string n) (c # cs)) = Inr n"
  using assms scan_long_to_string [of "c # cs" n] by (simp add: atoi_data_def clamp_long_id)

lemma to_string_nonempty [simp]: "to_string n \<noteq> []"
  by (simp add: to_string_def)

lemma to_string_chars:
  assumes "c \<in> set (to_string n)"
  shows "c = CHR ''-'' \<or> is_digit c"
  using assms nat_to_string_digits by (auto simp: to_string_def split: if_splits)

lemma to_string_not_high:
  assumes "c \<in> set (to_string n)"
  shows "c \<noteq> CHR 0xC0 \<and> c \<noteq> CHR 0x00"
  using to_string_chars [OF assms] by (auto simp: is_digit_def)

lemma stol_data_to_string:
  assumes "LONG_MIN \<le> n" "n \<le> LONG_MAX" "\<not> is_digit c" "CHR 0x00 \<in> set (c # cs)"
  shows "stol_data (View (to_string n) (c # cs)) = Inr n"
proof -
  let ?r = "takeWhile (\<lambda>c. c \<noteq> CHR 0x00) (c # cs)"
  have "takeWhile (\<lambda>c. c \<noteq> CHR 0x00) (to_string n @ c # cs) = to_string n @ ?r"
    using to_string_not_high by (intro takeWhile_append2) blast
  moreover have "no_digit_first ?r" using assms(3) by simp
  ultimately show ?thesis
    using assms(1,2,4) scan_long_to_string [of ?r n] by (simp add: stol_data_def del: takeWhile.simps)
qed

end
