(* ===== verification/YMsg_Parser.thy ===== *)
theory YMsg_Parser
  imports CString
begin

text \<open>
  The payload parser, \<open>include/Protocols/YMsg/Parser.h\<close> and \<open>src/Parser.cpp\<close>. A payload is a
  sequence of key and value strings, each followed by the two-byte terminator \<open>C0 80\<close>. A
  sub-class of \<open>Payload\<close> is its \<open>OnKeyPair\<close>: a function of the key, the value and the
  fields collected so far. The lemmas give the pairs a payload holds independently of who
  consumes them, and characterise the values that reach a payload.
\<close>

section \<open>FindTerminator\<close>

abbreviation TerminatorByte1 :: char where "TerminatorByte1 \<equiv> CHR 0xC0"
abbreviation TerminatorByte2 :: char where "TerminatorByte2 \<equiv> CHR 0x80"
abbreviation terminator :: string where "terminator \<equiv> [TerminatorByte1, TerminatorByte2]"

text \<open>
  The iterator pair \<open>(begin, end)\<close> is the string between them. The position pair the code
  returns is given as the two strings it delimits: from \<open>begin\<close> to \<open>first\<close>, and from
  \<open>second\<close> to \<open>end\<close>. A lone \<open>C0\<close> as the last byte counts as a terminator.
\<close>

fun FindTerminator :: "string \<Rightarrow> string \<times> string" where
  "FindTerminator [] = ([], [])"
| "FindTerminator (c # s) =
     (if c = TerminatorByte1 \<and> s = [] then ([], [])
      else if c = TerminatorByte1 \<and> hd s = TerminatorByte2 then ([], tl s)
      else (let (before, next) = FindTerminator s in (c # before, next)))"

lemma FindTerminator_length:
  "length (fst (FindTerminator s)) + length (snd (FindTerminator s)) \<le> length s"
  by (induction s rule: FindTerminator.induct)
    (auto simp: Let_def split: prod.splits)

lemma FindTerminator_shrinks:
  "s \<noteq> [] \<Longrightarrow> length (snd (FindTerminator s)) < length s"
proof (induction s rule: FindTerminator.induct)
  case (2 c s)
  then show ?case
    by (cases "s = []") (auto simp: Let_def split: prod.splits)
qed simp

lemma FindTerminator_le: "length (snd (FindTerminator s)) \<le> length s"
  using FindTerminator_length [of s] by linarith

lemma FindTerminator_prefix:
  "s = fst (FindTerminator s) @ drop (length (fst (FindTerminator s))) s"
proof (induction s rule: FindTerminator.induct)
  case (2 c s)
  then show ?case by (auto simp: Let_def split: prod.splits)
qed simp

lemma FindTerminator_suffix: "\<exists>u. s = u @ snd (FindTerminator s)"
proof (induction s rule: FindTerminator.induct)
  case (2 c s)
  show ?case
  proof (cases "c = TerminatorByte1 \<and> (s = [] \<or> hd s = TerminatorByte2)")
    case True
    then have "c # s = [c] @ s \<and> (s = [] \<or> s = [hd s] @ tl s)" by (cases s) auto
    with True show ?thesis by (cases s) auto
  next
    case False
    then have "\<exists>u. s = u @ snd (FindTerminator s)" using 2 by blast
    then obtain u where "c # s = (c # u) @ snd (FindTerminator s)" by auto
    with False show ?thesis by (auto simp: Let_def split: prod.splits)
  qed
qed simp

text \<open>A string that holds no terminator is found whole in front of one.\<close>

lemma contains_sub_Cons:
  "contains_sub p xs \<Longrightarrow> contains_sub p (x # xs)"
  unfolding contains_sub_def by (metis append_Cons)

lemma contains_sub_start: "contains_sub p (p @ r)"
  unfolding contains_sub_def by (metis append_Nil)

lemma FindTerminator_append:
  assumes "\<not> contains_sub terminator v"
  shows "FindTerminator (v @ terminator @ r) = (v, r)"
  using assms
proof (induction v)
  case (Cons c v)
  have no: "\<not> contains_sub terminator v"
    using Cons.prems contains_sub_Cons by metis
  have "\<not> (c = TerminatorByte1 \<and> hd (v @ terminator @ r) = TerminatorByte2)"
  proof
    assume h: "c = TerminatorByte1 \<and> hd (v @ terminator @ r) = TerminatorByte2"
    then obtain v' where "v = TerminatorByte2 # v'" by (cases v) auto
    with h have "c # v = terminator @ v'" by simp
    with Cons.prems show False using contains_sub_start [of terminator v'] by simp
  qed
  with Cons.IH [OF no] show ?case by (auto simp: Let_def)
qed simp

text \<open>What is found in front of a terminator holds none itself.\<close>

lemma FindTerminator_no_terminator:
  "\<not> contains_sub terminator (fst (FindTerminator s))"
proof (induction s rule: FindTerminator.induct)
  case 1
  then show ?case by (simp add: contains_sub_def)
next
  case (2 c s)
  show ?case
  proof (cases "c = TerminatorByte1 \<and> (s = [] \<or> hd s = TerminatorByte2)")
    case True
    then show ?thesis by (auto simp: contains_sub_def)
  next
    case False
    then have IH: "\<not> contains_sub terminator (fst (FindTerminator s))" using 2 by blast
    have eq: "fst (FindTerminator (c # s)) = c # fst (FindTerminator s)"
      using False by (auto simp: Let_def split: prod.splits)
    show ?thesis
    proof
      assume "contains_sub terminator (fst (FindTerminator (c # s)))"
      then obtain us vs where u: "c # fst (FindTerminator s) = us @ terminator @ vs"
        unfolding eq contains_sub_def by blast
      show False
      proof (cases us)
        case Nil
        then have "c = TerminatorByte1" "fst (FindTerminator s) = TerminatorByte2 # vs"
          using u by simp_all
        then have "hd s = TerminatorByte2" using FindTerminator_prefix [of s] by (cases s) auto
        then show False
          using False \<open>c = TerminatorByte1\<close> \<open>fst (FindTerminator s) = TerminatorByte2 # vs\<close>
          by (cases s) auto
      next
        case (Cons a us')
        then have "fst (FindTerminator s) = us' @ terminator @ vs" using u by simp
        then show False using IH unfolding contains_sub_def by blast
      qed
    qed
  qed
qed

section \<open>Parse\<close>

type_synonym 'p on_key_pair = "int \<Rightarrow> string_view \<Rightarrow> 'p \<Rightarrow> exn + 'p \<times> bool"

text \<open>\<open>Payload::OnKeyPair\<close>: the base class takes no key.\<close>

definition Payload_OnKeyPair :: "'p on_key_pair" where
  "Payload_OnKeyPair key value p = Inr (p, False)"

text \<open>
  The view of a value: from \<open>next\<close> on the buffer holds the value \<open>v\<close>, the rest of the
  payload, and \<open>after\<close>, the bytes behind the payload.
\<close>

definition value_view :: "string \<Rightarrow> string \<Rightarrow> string \<Rightarrow> string_view" where
  "value_view v next after = (if v = [] then Null_view else View v (drop (length v) next @ after))"

definition empty_key :: exn where
  "empty_key = Runtime_error ''Empty key value. Dunno how to handle this!''"

text \<open>
  \<open>PacketParser::Parse\<close> with the payload \<open>s\<close> between the two iterators. The log line of each
  pair is left out.
\<close>

function Parse :: "'p on_key_pair \<Rightarrow> 'p \<Rightarrow> string \<Rightarrow> string \<Rightarrow> exn + 'p" where
  "Parse on p s after =
     (if s = [] then Inr p
      else if hd s = CHR 0x00 then Inr p
      else (let (k, next) = FindTerminator s in
        if k = [] then Inl empty_key
        else (let key = strtol k;
                  (v, next') = FindTerminator next
              in bind_res (on key (value_view v next after) p)
                   (\<lambda>(p', result). Parse on p' next' after))))"
  by pat_completeness auto
termination
proof (relation "measure (\<lambda>(on, p, s, after). length s)")
  fix on :: "'p on_key_pair" and p :: 'p and s after k "next" v next' and key :: int and p'
    and x :: "string \<times> string" and y :: "string \<times> string" and z :: "'p \<times> bool" and result
  assume s: "s \<noteq> []" and x: "x = FindTerminator s" "(k, next) = x"
    and y: "y = FindTerminator next" "(v, next') = y"
  have "length next' \<le> length next" using FindTerminator_le [of "next"] y by (metis snd_conv)
  also have "\<dots> < length s" using FindTerminator_shrinks [OF s] x by (metis snd_conv)
  finally show "((on, p', next', after), on, p, s, after) \<in> measure (\<lambda>(on, p, s, after). length s)"
    by simp
qed simp

declare Parse.simps [simp del]

section \<open>The pairs of a payload\<close>

text \<open>
  The pairs a payload delivers, and the error it ends with if it ends with one: the same
  loop without a consumer. \<open>feed\<close> hands pairs to a consumer.
\<close>

function key_pairs :: "string \<Rightarrow> string \<Rightarrow> (int \<times> string_view) list \<times> exn option" where
  "key_pairs s after =
     (if s = [] \<or> hd s = CHR 0x00 then ([], None)
      else (let (k, next) = FindTerminator s in
        if k = [] then ([], Some empty_key)
        else (let (v, next') = FindTerminator next;
                  (kvs, e) = key_pairs next' after
              in ((strtol k, value_view v next after) # kvs, e))))"
  by pat_completeness auto
termination
proof (relation "measure (\<lambda>(s, after). length s)")
  fix s after k "next" v next' and x :: "string \<times> string" and y :: "string \<times> string"
  assume s: "\<not> (s = [] \<or> hd s = CHR 0x00)" and x: "x = FindTerminator s" "(k, next) = x"
    and y: "y = FindTerminator next" "(v, next') = y"
  have "length next' \<le> length next" using FindTerminator_le [of "next"] y by (metis snd_conv)
  also have "\<dots> < length s" using FindTerminator_shrinks [of s] s x by (metis snd_conv)
  finally show "((next', after), s, after) \<in> measure (\<lambda>(s, after). length s)"
    by simp
qed simp

declare key_pairs.simps [simp del]

fun feed :: "'p on_key_pair \<Rightarrow> (int \<times> string_view) list \<Rightarrow> 'p \<Rightarrow> exn + 'p" where
  "feed on [] p = Inr p"
| "feed on ((k, v) # kvs) p = bind_res (on k v p) (\<lambda>(p', result). feed on kvs p')"

definition parse_result :: "exn option \<Rightarrow> 'p \<Rightarrow> exn + 'p" where
  "parse_result e p = (case e of None \<Rightarrow> Inr p | Some x \<Rightarrow> Inl x)"

lemma Parse_key_pairs:
  "Parse on p s after =
     bind_res (feed on (fst (key_pairs s after)) p) (parse_result (snd (key_pairs s after)))"
proof (induction on p s after rule: Parse.induct)
  case (1 on p s after)
  show ?case
  proof (cases "s = [] \<or> hd s = CHR 0x00")
    case True
    then show ?thesis
      by (auto simp: Parse.simps [of on p s after] key_pairs.simps [of s after] parse_result_def)
  next
    case False
    obtain k "next" where k: "FindTerminator s = (k, next)" by fastforce
    obtain v next' where v: "FindTerminator next = (v, next')" by fastforce
    obtain kvs e where kp: "key_pairs next' after = (kvs, e)" by fastforce
    show ?thesis
    proof (cases "k = []")
      case True
      with False k show ?thesis
        by (simp add: Parse.simps [of on p s after] key_pairs.simps [of s after] parse_result_def)
    next
      case nonempty: False
      have IH: "Parse on p' next' after = bind_res (feed on kvs p') (parse_result e)"
        if "on (strtol k) (value_view v next after) p = Inr (p', r)" for p' r
        using "1.IH" [of "(k, next)" k "next" "strtol k" "(v, next')" v next' "(p', r)" p' r]
          False nonempty k v kp that by simp
      show ?thesis
        using False nonempty k v kp IH
        by (cases "on (strtol k) (value_view v next after) p")
          (auto simp: Parse.simps [of on p s after] key_pairs.simps [of s after]
            bind_res_assoc split: prod.splits)
    qed
  qed
qed

section \<open>What was written is read back\<close>

definition encode_pair :: "int \<times> string \<Rightarrow> string" where
  "encode_pair kv = to_string (fst kv) @ terminator @ snd kv @ terminator"

definition encode_pairs :: "(int \<times> string) list \<Rightarrow> string" where
  "encode_pairs kvs = concat (map encode_pair kvs)"

text \<open>A field the parser can read back: an \<open>int\<close> key and a value without the terminator.\<close>

definition clean_field :: "int \<times> string \<Rightarrow> bool" where
  "clean_field kv = (LONG_MIN \<le> fst kv \<and> fst kv \<le> LONG_MAX \<and> \<not> contains_sub terminator (snd kv))"

definition plain_pairs :: "(int \<times> string_view) list \<Rightarrow> (int \<times> string) list" where
  "plain_pairs = map (\<lambda>(k, v). (k, sv_str v))"

lemma sv_str_value_view [simp]: "sv_str (value_view v n a) = v"
  by (simp add: value_view_def)

lemma no_terminator_byte: "TerminatorByte1 \<notin> set v \<Longrightarrow> \<not> contains_sub terminator v"
  by (auto simp: contains_sub_def)

lemma clean_fieldI:
  "LONG_MIN \<le> k \<Longrightarrow> k \<le> LONG_MAX \<Longrightarrow> TerminatorByte1 \<notin> set v \<Longrightarrow> clean_field (k, v)"
  by (simp add: clean_field_def no_terminator_byte)

lemma no_terminator_to_string: "\<not> contains_sub terminator (to_string k)"
proof
  assume "contains_sub terminator (to_string k)"
  then have "TerminatorByte1 \<in> set (to_string k)" by (auto simp: contains_sub_def)
  then show False using to_string_not_high by blast
qed

lemma hd_to_string [simp]: "hd (to_string k) \<noteq> CHR 0x00"
proof -
  have "hd (to_string k) \<in> set (to_string k)" by simp
  then show ?thesis by (blast dest: to_string_not_high)
qed

lemma key_pairs_step:
  assumes "clean_field kv"
  shows "key_pairs (encode_pair kv @ r) after =
    (let (kvs, e) = key_pairs r after
     in ((fst kv, value_view (snd kv) (snd kv @ terminator @ r) after) # kvs, e))"
proof -
  obtain k v where kv: "kv = (k, v)" by (cases kv)
  have ne: "to_string k @ x \<noteq> []" for x by simp
  have ft: "FindTerminator (to_string k @ terminator @ v @ terminator @ r) =
      (to_string k, v @ terminator @ r)"
    by (rule FindTerminator_append) (rule no_terminator_to_string)
  have fv: "FindTerminator (v @ terminator @ r) = (v, r)"
    using assms by (intro FindTerminator_append) (simp add: clean_field_def kv)
  have st: "strtol (to_string k) = k"
    using assms by (simp add: strtol_to_string clean_field_def kv)
  let ?s = "to_string k @ terminator @ v @ terminator @ r"
  have s0: "?s \<noteq> []" "hd ?s \<noteq> CHR 0x00" by simp_all
  have "key_pairs ?s after =
    (let (kvs, e) = key_pairs r after in ((k, value_view v (v @ terminator @ r) after) # kvs, e))"
    using s0 by (subst key_pairs.simps) (simp only: ft fv st to_string_nonempty Let_def case_prod_conv
      if_False if_True simp_thms)
  then show ?thesis by (simp add: kv encode_pair_def)
qed

lemma key_pairs_encode_pairs:
  assumes "\<And>kv. kv \<in> set kvs \<Longrightarrow> clean_field kv"
  shows "plain_pairs (fst (key_pairs (encode_pairs kvs) after)) = kvs
    \<and> snd (key_pairs (encode_pairs kvs) after) = None"
  using assms
proof (induction kvs)
  case Nil
  then show ?case by (simp add: encode_pairs_def key_pairs.simps [of "[]"] plain_pairs_def)
next
  case (Cons kv kvs)
  then have IH: "plain_pairs (fst (key_pairs (encode_pairs kvs) after)) = kvs"
    "snd (key_pairs (encode_pairs kvs) after) = None" by auto
  have "key_pairs (encode_pairs (kv # kvs)) after = key_pairs (encode_pair kv @ encode_pairs kvs) after"
    by (simp add: encode_pairs_def)
  also note key_pairs_step [of kv]
  finally show ?case
    using IH Cons.prems by (simp add: plain_pairs_def split_beta)
qed

text \<open>Every value and key a payload gets can be sent on.\<close>

lemma key_pairs_clean:
  "(k, v) \<in> set (fst (key_pairs s after)) \<Longrightarrow> clean_field (k, sv_str v)"
proof (induction s after rule: key_pairs.induct)
  case (1 s after)
  show ?case
  proof (cases "s = [] \<or> hd s = CHR 0x00 \<or> fst (FindTerminator s) = []")
    case True
    with "1.prems" show ?thesis
      by (auto simp: key_pairs.simps [of s after] Let_def split: prod.splits if_splits)
  next
    case False
    obtain kk "next" where k: "FindTerminator s = (kk, next)" by fastforce
    obtain vv next' where v: "FindTerminator next = (vv, next')" by fastforce
    have "kk \<noteq> []" using False k by simp
    then have split: "(k, v) = (strtol kk, value_view vv next after) \<or>
        (k, v) \<in> set (fst (key_pairs next' after))"
      using "1.prems" False k v by (auto simp: key_pairs.simps [of s after] split: prod.splits)
    have "\<not> contains_sub terminator vv"
      using FindTerminator_no_terminator [of "next"] v by simp
    then show ?thesis
      using split strtol_range "1.IH" [of "(kk, next)" kk "next" "(vv, next')" vv next']
        False \<open>kk \<noteq> []\<close> k v
      by (auto simp: clean_field_def)
  qed
qed

text \<open>An empty key is the only complaint of the parser itself.\<close>

lemma key_pairs_error: "snd (key_pairs s after) = Some e \<Longrightarrow> e = empty_key"
proof (induction s after rule: key_pairs.induct)
  case (1 s after)
  show ?case
  proof (cases "s = [] \<or> hd s = CHR 0x00")
    case True
    with "1.prems" show ?thesis by (simp add: key_pairs.simps [of s after])
  next
    case False
    obtain k "next" where k: "FindTerminator s = (k, next)" by fastforce
    obtain v next' where v: "FindTerminator next = (v, next')" by fastforce
    show ?thesis
      using "1.prems" "1.IH" [of "(k, next)" k "next" "(v, next')" v next'] False k v
      by (auto simp: key_pairs.simps [of s after] split: prod.splits if_splits)
  qed
qed

end
