(* ===== verification/YMsg_Header.thy ===== *)
theory YMsg_Header
  imports Giblet_Prelude
begin

text \<open>
  The packet header: \<open>include/Protocols/YMsg/Header.h\<close> and \<open>src/Server/Header.cpp\<close>. A
  \<open>RawHeader\<close> is the packed structure in memory, in network byte order; a \<open>Header\<close> holds
  the same fields in host order. The target is little-endian, so the WinSock conversions
  swap bytes. The lemmas show that both directions are inverse, byte for byte.
\<close>

section \<open>Byte order\<close>

type_synonym u16 = "16 word"
type_synonym u32 = "32 word"

text \<open>The byte \<open>k\<close> of an integer in memory, least significant first.\<close>

definition byte_at :: "nat \<Rightarrow> 'a::len word \<Rightarrow> char" where
  "byte_at k w = char_of (unat w div 256 ^ k)"

definition store16 :: "u16 \<Rightarrow> string" where
  "store16 w = [byte_at 0 w, byte_at 1 w]"

definition store32 :: "u32 \<Rightarrow> string" where
  "store32 w = [byte_at 0 w, byte_at 1 w, byte_at 2 w, byte_at 3 w]"

definition load16 :: "string \<Rightarrow> u16" where
  "load16 b = of_nat (of_char (b ! 0) + 256 * of_char (b ! 1))"

definition load32 :: "string \<Rightarrow> u32" where
  "load32 b = of_nat (of_char (b ! 0) + 256 * (of_char (b ! 1) + 256 * (of_char (b ! 2)
     + 256 * of_char (b ! 3))))"

text \<open>\<open>htons\<close>, \<open>ntohs\<close>, \<open>htonl\<close> and \<open>ntohl\<close> reverse the bytes of the integer.\<close>

definition htons :: "u16 \<Rightarrow> u16" where "htons w = load16 (rev (store16 w))"
definition htonl :: "u32 \<Rightarrow> u32" where "htonl w = load32 (rev (store32 w))"

section \<open>The header\<close>

record RawHeader =
  raw_signature :: u32
  raw_protoVersion :: u16
  raw_vendorId :: u16
  raw_payloadSize :: u16
  raw_serviceId :: u16
  raw_attribute :: u32
  raw_sessionId :: u32

record Header =
  protoVersion :: u16
  vendorId :: u16
  payloadSize :: u16
  serviceId :: u16
  attribute :: u32
  sessionId :: u32

definition Signature :: u32 where "Signature = 0x594d5347"

definition sizeof_RawHeader :: nat where "sizeof_RawHeader = 20"

text \<open>The packed structure in memory, and the cast of a buffer to it.\<close>

definition raw_bytes :: "RawHeader \<Rightarrow> string" where
  "raw_bytes h = store32 (raw_signature h) @ store16 (raw_protoVersion h)
     @ store16 (raw_vendorId h) @ store16 (raw_payloadSize h) @ store16 (raw_serviceId h)
     @ store32 (raw_attribute h) @ store32 (raw_sessionId h)"

definition raw_of_bytes :: "string \<Rightarrow> RawHeader" where
  "raw_of_bytes b =
     \<lparr>raw_signature = load32 b, raw_protoVersion = load16 (drop 4 b),
      raw_vendorId = load16 (drop 6 b), raw_payloadSize = load16 (drop 8 b),
      raw_serviceId = load16 (drop 10 b), raw_attribute = load32 (drop 12 b),
      raw_sessionId = load32 (drop 16 b)\<rparr>"

text \<open>The two constructors of \<open>Header\<close> and its conversion to \<open>RawHeader\<close>.\<close>

definition Header_new :: "u32 \<Rightarrow> u16 \<Rightarrow> u16 \<Rightarrow> u32 \<Rightarrow> Header" where
  "Header_new sid version service attr =
     \<lparr>protoVersion = version, vendorId = 0, payloadSize = 0, serviceId = service,
      attribute = attr, sessionId = sid\<rparr>"

definition Header_of_raw :: "RawHeader \<Rightarrow> Header" where
  "Header_of_raw other =
     \<lparr>protoVersion = htons (raw_protoVersion other), vendorId = htons (raw_vendorId other),
      payloadSize = htons (raw_payloadSize other), serviceId = htons (raw_serviceId other),
      attribute = htonl (raw_attribute other), sessionId = htonl (raw_sessionId other)\<rparr>"

definition raw_of_Header :: "Header \<Rightarrow> RawHeader" where
  "raw_of_Header h =
     \<lparr>raw_signature = htonl Signature, raw_protoVersion = htons (protoVersion h),
      raw_vendorId = htons (vendorId h), raw_payloadSize = htons (payloadSize h),
      raw_serviceId = htons (serviceId h), raw_attribute = htonl (attribute h),
      raw_sessionId = htonl (sessionId h)\<rparr>"

text \<open>The header of a packet as it is read from a buffer.\<close>

definition Header_of_bytes :: "string \<Rightarrow> Header" where
  "Header_of_bytes b = Header_of_raw (raw_of_bytes b)"

definition Header_bytes :: "Header \<Rightarrow> string" where
  "Header_bytes h = raw_bytes (raw_of_Header h)"

section \<open>Loads undo stores\<close>

lemma of_char_byte_at: "(of_char (byte_at k w) :: nat) = unat w div 256 ^ k mod 256"
  by (simp add: byte_at_def)

lemma length_store [simp]: "length (store16 v) = 2" "length (store32 w) = 4"
  by (simp_all add: store16_def store32_def)

lemma unat_u16_less: "unat (w::u16) < 65536"
  using unsigned_less [of w, where 'a = nat] by simp

lemma unat_u32_less: "unat (w::u32) < 4294967296"
  using unsigned_less [of w, where 'a = nat] by simp

lemma nat_bytes2: "(n::nat) < 65536 \<Longrightarrow> n mod 256 + 256 * (n div 256 mod 256) = n"
  using mod_mult_div_eq [of n 256] by (simp add: div_less_iff_less_mult)

lemma nat_bytes4:
  assumes "(n::nat) < 4294967296"
  shows "n mod 256 + 256 * (n div 256 mod 256 + 256 * (n div 65536 mod 256
     + 256 * (n div 16777216 mod 256))) = n"
proof -
  define a b c where "a = n div 256" and "b = a div 256" and "c = b div 256"
  have b: "n div 65536 = b" and c: "n div 16777216 = c"
    by (simp_all add: a_def b_def c_def div_mult2_eq [symmetric])
  have "c < 256" using assms unfolding c [symmetric] by simp
  then have "b mod 256 + 256 * (c mod 256) = b"
    using mod_mult_div_eq [of b 256] by (simp add: c_def)
  moreover have "a mod 256 + 256 * b = a"
    using mod_mult_div_eq [of a 256] by (simp add: b_def)
  moreover have "n mod 256 + 256 * a = n"
    using mod_mult_div_eq [of n 256] by (simp add: a_def)
  ultimately show ?thesis by (simp only: b c a_def [symmetric])
qed

lemma byte_step_less: "(a::nat) < 256 \<Longrightarrow> x < n \<Longrightarrow> a + 256 * x < 256 * n"
  by linarith

lemma bytes2_less: "(a::nat) < 256 \<Longrightarrow> b < 256 \<Longrightarrow> a + 256 * b < 65536"
  by linarith

lemma bytes4_less:
  assumes "(a::nat) < 256" "b < 256" "c < 256" "d < 256"
  shows "a + 256 * (b + 256 * (c + 256 * d)) < 4294967296"
  using byte_step_less [OF assms(1) byte_step_less [OF assms(2) bytes2_less [OF assms(3,4)]]]
  by simp

lemma byte_of_sum: "char_of (of_char a + 256 * (n::nat)) = a"
  by (rule of_char_eqI [where 'a = nat]) simp

lemma div_of_sum: "(of_char a + 256 * (n::nat)) div 256 = n"
  by simp

lemma unat_load16: "unat (load16 (a # b # r)) = of_char a + 256 * of_char b"
  unfolding load16_def unat_of_nat
  using bytes2_less [of "of_char a" "of_char b"] by simp

lemma unat_load32:
  "unat (load32 (a # b # c # d # r)) =
     of_char a + 256 * (of_char b + 256 * (of_char c + 256 * of_char d))"
  unfolding load32_def unat_of_nat
  using bytes4_less [of "of_char a" "of_char b" "of_char c" "of_char d"]
  by (simp add: nth_Cons' del: distrib_left_numeral)

lemma load16_store16 [simp]: "load16 (store16 w @ r) = w"
  using nat_bytes2 [OF unat_u16_less, of w]
  by (simp add: word_unat_eq_iff store16_def unat_load16 of_char_byte_at)

lemma load32_store32 [simp]: "load32 (store32 w @ r) = w"
  using nat_bytes4 [OF unat_u32_less, of w]
  by (simp add: word_unat_eq_iff store32_def unat_load32 of_char_byte_at
      del: distrib_left_numeral)

lemma store16_load16 [simp]: "store16 (load16 [a, b]) = [a, b]"
  by (simp add: store16_def byte_at_def unat_load16 byte_of_sum)

lemma store32_load32 [simp]: "store32 (load32 [a, b, c, d]) = [a, b, c, d]"
proof -
  let ?n = "(of_char a :: nat) + 256 * (of_char b + 256 * (of_char c + 256 * of_char d))"
  have 1: "?n div 256 = of_char b + 256 * (of_char c + 256 * of_char d)"
    by (rule div_of_sum)
  have "?n div 65536 = ?n div 256 div 256" "?n div 16777216 = ?n div 256 div 256 div 256"
    by (simp_all only: div_mult2_eq [symmetric]) simp_all
  then have 2: "?n div 65536 = of_char c + 256 * of_char d"
    and 3: "?n div 16777216 = of_char d"
    by (simp_all only: 1 div_of_sum)
  show ?thesis
    using 1 2 3
    by (simp add: store32_def byte_at_def unat_load32 byte_of_sum del: distrib_left_numeral)
qed

lemma htons_htons [simp]: "htons (htons w) = w"
  using load16_store16 [of w "[]"] by (simp add: htons_def store16_def [of w])

lemma htonl_htonl [simp]: "htonl (htonl w) = w"
  using load32_store32 [of w "[]"] by (simp add: htonl_def store32_def [of w])

section \<open>The header round trip\<close>

lemma length_raw_bytes [simp]: "length (raw_bytes h) = 20"
  by (simp add: raw_bytes_def)

lemma length_Header_bytes [simp]: "length (Header_bytes h) = 20"
  by (simp add: Header_bytes_def)

lemma raw_of_bytes_raw_bytes [simp]: "raw_of_bytes (raw_bytes h @ r) = h"
  by (simp add: raw_of_bytes_def raw_bytes_def)

lemma Header_of_raw_of_Header [simp]: "Header_of_raw (raw_of_Header h) = h"
  by (simp add: Header_of_raw_def raw_of_Header_def)

lemma Header_of_bytes_Header_bytes [simp]: "Header_of_bytes (Header_bytes h @ r) = h"
  by (simp add: Header_of_bytes_def Header_bytes_def)

text \<open>And the other way: twenty bytes are the bytes of the structure they are read as.\<close>

lemma take_bytes2: "2 \<le> length s \<Longrightarrow> store16 (load16 s) = take 2 s"
  using store16_load16 [of "s ! 0" "s ! 1"]
  by (cases s; cases "tl s") (simp_all add: load16_def)

lemma take_bytes4: "4 \<le> length s \<Longrightarrow> store32 (load32 s) = take 4 s"
proof -
  assume "4 \<le> length s"
  then obtain a b c d r where s: "s = a # b # c # d # r"
    by (auto simp: numeral_eq_Suc Suc_le_length_iff)
  have "load32 s = load32 [a, b, c, d]" by (simp add: s load32_def)
  then show ?thesis using store32_load32 [of a b c d] by (simp add: s)
qed

lemma take_split: "take n s @ take m (drop n s) = take (n + m) s"
  by (simp add: take_add)

lemma raw_bytes_raw_of_bytes:
  assumes "sizeof_RawHeader \<le> length b"
  shows "raw_bytes (raw_of_bytes b) = take sizeof_RawHeader b"
proof -
  have "raw_bytes (raw_of_bytes b) = take 4 b @ take 2 (drop 4 b) @ take 2 (drop 6 b)
      @ take 2 (drop 8 b) @ take 2 (drop 10 b) @ take 4 (drop 12 b) @ take 4 (drop 16 b)"
    using assms by (simp add: raw_bytes_def raw_of_bytes_def take_bytes2 take_bytes4 sizeof_RawHeader_def)
  also have "\<dots> = take 20 b"
    using take_split [of 4 b 2] take_split [of 6 b 2] take_split [of 8 b 2] take_split [of 10 b 2]
      take_split [of 12 b 4] take_split [of 16 b 4]
    by (simp flip: append_assoc)
  finally show ?thesis by (simp add: sizeof_RawHeader_def)
qed

lemma raw_of_Header_of_raw:
  assumes "htonl (raw_signature r) = Signature"
  shows "raw_of_Header (Header_of_raw r) = r"
proof -
  have "htonl Signature = raw_signature r" using htonl_htonl [of "raw_signature r"] assms by simp
  then show ?thesis by (simp add: raw_of_Header_def Header_of_raw_def)
qed

end
