(* ===== verification/YMsg_Builder.thy ===== *)
theory YMsg_Builder
  imports YMsg_Parser YMsg_Header
begin

text \<open>
  The client connection (\<open>ClientConnection.h\<close>, \<open>src/ClientConnection.cpp\<close>) and the packet
  builder (\<open>Builder.h\<close>, \<open>src/Builder.cpp\<close>). A builder is its buffer; a connection records
  the packets handed to \<open>send\<close>, in order. The lemmas give the exact bytes a sequence of
  \<open>Append\<close> calls and a \<open>Send\<close> put on the wire, and the one exception they can throw.
\<close>

section \<open>ClientConnection\<close>

record ClientConnection =
  conn_socket :: nat
  conn_sessionId :: u32
  conn_protocolVersion :: u16
  conn_sent :: "string list"

text \<open>
  The constructor stores the socket only: the session id and the protocol version are
  whatever the memory holds, here the arguments \<open>sid\<close> and \<open>pv\<close>.
\<close>

definition ClientConnection_new :: "u32 \<Rightarrow> u16 \<Rightarrow> nat \<Rightarrow> ClientConnection" where
  "ClientConnection_new sid pv sessionSocket =
     \<lparr>conn_socket = sessionSocket, conn_sessionId = sid, conn_protocolVersion = pv,
      conn_sent = []\<rparr>"

definition SendToClient :: "string \<Rightarrow> ClientConnection \<Rightarrow> ClientConnection" where
  "SendToClient data c = c\<lparr>conn_sent := conn_sent c @ [data]\<rparr>"

definition GetSessionId :: "ClientConnection \<Rightarrow> u32" where
  "GetSessionId c = conn_sessionId c"

definition GetProtocolVersion :: "ClientConnection \<Rightarrow> u16" where
  "GetProtocolVersion c = conn_protocolVersion c"

definition SetProtocolVersion :: "u16 \<Rightarrow> ClientConnection \<Rightarrow> ClientConnection" where
  "SetProtocolVersion version c = c\<lparr>conn_protocolVersion := version\<rparr>"

definition SetSessionId :: "u32 \<Rightarrow> ClientConnection \<Rightarrow> ClientConnection" where
  "SetSessionId sid c = c\<lparr>conn_sessionId := sid\<rparr>"

section \<open>Builder\<close>

definition PaxPayloadSize :: nat where "PaxPayloadSize = 0x10000"

definition payload_too_large :: exn where
  "payload_too_large = Runtime_error ''Payload size too large. Not handled!''"

text \<open>\<open>buffer_.resize(n)\<close> cuts or pads with NUL; \<open>store_at\<close> writes into the buffer.\<close>

definition resize :: "nat \<Rightarrow> string \<Rightarrow> string" where
  "resize n b = take n b @ replicate (n - length b) CHR 0x00"

definition store_at :: "nat \<Rightarrow> string \<Rightarrow> string \<Rightarrow> string" where
  "store_at i bs b = take i b @ bs @ drop (i + length bs) b"

definition Initialize_header :: "Header \<Rightarrow> string \<Rightarrow> string" where
  "Initialize_header h b = store_at 0 (Header_bytes h) (resize sizeof_RawHeader b)"

definition Initialize :: "ClientConnection \<Rightarrow> u16 \<Rightarrow> u32 \<Rightarrow> string \<Rightarrow> string" where
  "Initialize connection service attributeId b =
     Initialize_header
       (Header_new (GetSessionId connection) (GetProtocolVersion connection) service attributeId) b"

definition Append :: "int \<Rightarrow> string \<Rightarrow> string \<Rightarrow> exn + string" where
  "Append key val b =
     (let keyString = to_string key
      in if length b + length keyString + length terminator + length terminator \<ge> PaxPayloadSize
         then Inl payload_too_large
         else Inr (b @ keyString @ terminator @ val @ terminator))"

text \<open>\<open>Append\<close> of an integer and of an enumeration goes through \<open>std::to_string\<close>.\<close>

definition Append_integral :: "int \<Rightarrow> int \<Rightarrow> string \<Rightarrow> exn + string" where
  "Append_integral key val = Append key (to_string val)"

definition Send :: "string \<Rightarrow> (ClientConnection, unit) cpp" where
  "Send b =
     (if length b \<ge> PaxPayloadSize then throw payload_too_large
      else if length b < sizeof_RawHeader then throw (Undefined ''header of an empty buffer'')
      else modify (SendToClient
             (store_at 8 (store16 (htons (of_nat (length b - sizeof_RawHeader)))) b)))"

text \<open>
  The body of a \<open>Build\<close> function on a new builder object: \<open>Initialize\<close> and then one
  \<open>Append\<close> per field.
\<close>

fun Append_all :: "(int \<times> string) list \<Rightarrow> string \<Rightarrow> exn + string" where
  "Append_all [] b = Inr b"
| "Append_all ((k, v) # kvs) b = bind_res (Append k v b) (Append_all kvs)"

definition Build :: "u16 \<Rightarrow> u32 \<Rightarrow> (int \<times> string) list \<Rightarrow> ClientConnection \<Rightarrow> exn + string" where
  "Build service attributeId flds connection =
     Append_all flds (Initialize connection service attributeId [])"

text \<open>\<open>builder.Build(*connection_, ...); builder.Send(*connection_);\<close>\<close>

definition build_and_send :: "(ClientConnection \<Rightarrow> exn + string) \<Rightarrow> (ClientConnection, unit) cpp" where
  "build_and_send build = and_then (get_state build) (\<lambda>r. and_then (lift_res r) Send)"

section \<open>The bytes of a packet\<close>

definition packet :: "Header \<Rightarrow> (int \<times> string) list \<Rightarrow> string" where
  "packet h flds =
     Header_bytes (h\<lparr>payloadSize := of_nat (length (encode_pairs flds))\<rparr>) @ encode_pairs flds"

lemma encode_pairs_simps [simp]:
  "encode_pairs [] = []"
  "encode_pairs (kv # kvs) = encode_pair kv @ encode_pairs kvs"
  by (simp_all add: encode_pairs_def)

lemma encode_pairs_append [simp]: "encode_pairs (a @ b) = encode_pairs a @ encode_pairs b"
  by (simp add: encode_pairs_def)

lemma Append_Inr_iff:
  "Append k v b = Inr b' \<longleftrightarrow>
     length b + length (to_string k) + 4 < PaxPayloadSize \<and> b' = b @ encode_pair (k, v)"
  by (auto simp: Append_def encode_pair_def Let_def)

lemma Append_Inl_iff:
  "Append k v b = Inl e \<longleftrightarrow>
     length b + length (to_string k) + 4 \<ge> PaxPayloadSize \<and> e = payload_too_large"
  by (auto simp: Append_def Let_def)

lemma Append_all_Inr: "Append_all kvs b = Inr b' \<Longrightarrow> b' = b @ encode_pairs kvs"
  by (induction kvs b rule: Append_all.induct) (fastforce simp: bind_res_Inr_iff Append_Inr_iff)+

lemma Append_all_Inl: "Append_all kvs b = Inl e \<Longrightarrow> e = payload_too_large"
  by (induction kvs b rule: Append_all.induct)
    (auto simp: bind_res_Inl_iff Append_Inl_iff)

lemma encode_pair_length: "length (encode_pair (k, v)) = length (to_string k) + length v + 4"
  by (simp add: encode_pair_def)

lemma Append_all_small:
  "length b + length (encode_pairs kvs) < PaxPayloadSize \<Longrightarrow>
   Append_all kvs b = Inr (b @ encode_pairs kvs)"
proof (induction kvs b rule: Append_all.induct)
  case (2 k v kvs b)
  then have "Append k v b = Inr (b @ encode_pair (k, v))"
    by (simp add: Append_Inr_iff encode_pair_length)
  with 2 show ?case by simp
qed simp

lemma Initialize_eq:
  "Initialize c service attr [] =
     Header_bytes (Header_new (conn_sessionId c) (conn_protocolVersion c) service attr)"
  by (simp add: Initialize_def Initialize_header_def store_at_def resize_def
      GetSessionId_def GetProtocolVersion_def sizeof_RawHeader_def)

abbreviation packet_header :: "ClientConnection \<Rightarrow> u16 \<Rightarrow> u32 \<Rightarrow> Header" where
  "packet_header c service attr \<equiv>
     Header_new (conn_sessionId c) (conn_protocolVersion c) service attr"

lemma store_payload_size:
  "store_at 8 (store16 (htons n)) (Header_bytes h @ r) = Header_bytes (h\<lparr>payloadSize := n\<rparr>) @ r"
  by (simp add: store_at_def Header_bytes_def raw_bytes_def raw_of_Header_def
      store16_def store32_def)

text \<open>
  One packet: what \<open>Build\<close> and \<open>Send\<close> do together. The packet fits when header and fields
  stay below 64K; then exactly its bytes are handed to \<open>send\<close>, and otherwise the only
  exception is thrown and nothing is sent.
\<close>

definition fits :: "(int \<times> string) list \<Rightarrow> bool" where
  "fits flds = (sizeof_RawHeader + length (encode_pairs flds) < PaxPayloadSize)"

text \<open>A bound that does not need the digits of the keys.\<close>

lemma fits_bound:
  assumes "list_all (\<lambda>kv. LONG_MIN \<le> fst kv \<and> fst kv \<le> LONG_MAX) flds"
    and "sum_list (map (\<lambda>kv. 15 + length (snd kv)) flds) < 65516"
  shows "fits flds"
proof -
  have "length (encode_pairs flds) \<le> sum_list (map (\<lambda>kv. 15 + length (snd kv)) flds)"
    using assms(1)
  proof (induction flds)
    case (Cons kv flds)
    then show ?case
      using length_to_string_int [of "fst kv"]
      by (cases kv) (simp add: encode_pair_length)
  qed simp
  with assms(2) show ?thesis by (simp add: fits_def sizeof_RawHeader_def PaxPayloadSize_def)
qed

lemma wp_build_and_send [wp]:
  "wp (build_and_send (Build service attr flds)) Q E c =
     (if fits flds then Q () (SendToClient (packet (packet_header c service attr) flds) c)
      else E payload_too_large c)"
proof -
  let ?b = "Header_bytes (packet_header c service attr)"
  show ?thesis
  proof (cases "Append_all flds ?b")
    case (Inl e)
    then have "\<not> fits flds"
      using Append_all_small [of ?b flds] by (auto simp: fits_def sizeof_RawHeader_def)
    with Inl Append_all_Inl [OF Inl] show ?thesis
      by (simp add: build_and_send_def Build_def Initialize_eq wp)
  next
    case (Inr b')
    then have b': "b' = ?b @ encode_pairs flds" by (rule Append_all_Inr)
    show ?thesis
      using Inr
      by (simp add: build_and_send_def Build_def Initialize_eq wp b' Send_def fits_def
          sizeof_RawHeader_def packet_def store_payload_size)
  qed
qed

lemma build_and_send_frame:
  "snd (build_and_send (Build service attr flds) c) =
     c \<or> snd (build_and_send (Build service attr flds) c) =
     SendToClient (packet (packet_header c service attr) flds) c"
  using wp_state [of "build_and_send (Build service attr flds)"
      "\<lambda>s. s = c \<or> s = SendToClient (packet (packet_header c service attr) flds) c" c]
  by (simp add: wp)

lemma length_packet: "length (packet h flds) = 20 + length (encode_pairs flds)"
  by (simp add: packet_def)

lemma Header_of_packet:
  "Header_of_bytes (packet h flds @ r) = h\<lparr>payloadSize := of_nat (length (encode_pairs flds))\<rparr>"
  by (simp add: packet_def)

lemma packet_payloadSize:
  assumes "fits flds"
  shows "unat (payloadSize (Header_of_bytes (packet h flds @ r))) = length (encode_pairs flds)"
  using assms
  by (simp add: Header_of_packet fits_def PaxPayloadSize_def unat_of_nat sizeof_RawHeader_def)

lemma drop_packet: "drop 20 (packet h flds @ r) = encode_pairs flds @ r"
  by (simp add: packet_def)

lemma packet_frame:
  assumes "fits flds"
  shows "take (unat (payloadSize (Header_of_bytes (packet h flds @ r))))
           (drop sizeof_RawHeader (packet h flds @ r)) = encode_pairs flds"
  unfolding packet_payloadSize [OF assms] sizeof_RawHeader_def drop_packet by simp

end
