(* ===== verification/YMsg_Types.thy ===== *)
theory YMsg_Types
  imports CString
begin

text \<open>
  The enumerations of \<open>include/Protocols/YMsg/Types.h\<close> and the conversion of a received
  value to one of them. An \<open>enum class\<close> has the underlying type \<open>int\<close>, so the enumerations
  that are filled from the network hold any \<open>int\<close>, named or not: they have one constructor
  per enumerator and one for the values without a name.
\<close>

section \<open>Enumerations that are only sent\<close>

datatype AuthenticationMethod =
  AuthenticationMethod_None | AuthenticationMethod_InApp | AuthenticationMethod_HTTPS

primrec AuthenticationMethod_value :: "AuthenticationMethod \<Rightarrow> int" where
  "AuthenticationMethod_value AuthenticationMethod_None = 0"
| "AuthenticationMethod_value AuthenticationMethod_InApp = 1"
| "AuthenticationMethod_value AuthenticationMethod_HTTPS = 2"

datatype ContactBlockedStatus = ContactBlockedStatus_Blocked | ContactBlockedStatus_Unblocked

primrec ContactBlockedStatus_value :: "ContactBlockedStatus \<Rightarrow> int" where
  "ContactBlockedStatus_value ContactBlockedStatus_Blocked = 1"
| "ContactBlockedStatus_value ContactBlockedStatus_Unblocked = 2"

datatype ContactBlockedFailedReason =
  BlockedFailed_None | BlockedFailed_Duplicate | BlockedFailed_IsFriend

primrec ContactBlockedFailedReason_value :: "ContactBlockedFailedReason \<Rightarrow> int" where
  "ContactBlockedFailedReason_value BlockedFailed_None = - 1"
| "ContactBlockedFailedReason_value BlockedFailed_Duplicate = 2"
| "ContactBlockedFailedReason_value BlockedFailed_IsFriend = 12"

datatype AddContactRequestResultStatus =
    AddPending | AddGeneralFailure | DuplicateContact | AddContactDoesNotExist | InvalidCookies
  | RecursiveLockup | ContactListFull | TooManyGroups | GroupAlreadyExists
  | CannotDeleteContact | BlockedListFull | CannotDeleteReservedId | CannotDeleteContact2

primrec AddContactRequestResultStatus_value :: "AddContactRequestResultStatus \<Rightarrow> int" where
  "AddContactRequestResultStatus_value AddPending = 0"
| "AddContactRequestResultStatus_value AddGeneralFailure = 1"
| "AddContactRequestResultStatus_value DuplicateContact = 2"
| "AddContactRequestResultStatus_value AddContactDoesNotExist = 3"
| "AddContactRequestResultStatus_value InvalidCookies = 4"
| "AddContactRequestResultStatus_value RecursiveLockup = 5"
| "AddContactRequestResultStatus_value ContactListFull = 6"
| "AddContactRequestResultStatus_value TooManyGroups = 7"
| "AddContactRequestResultStatus_value GroupAlreadyExists = 8"
| "AddContactRequestResultStatus_value CannotDeleteContact = 9"
| "AddContactRequestResultStatus_value BlockedListFull = 10"
| "AddContactRequestResultStatus_value CannotDeleteReservedId = 11"
| "AddContactRequestResultStatus_value CannotDeleteContact2 = 12"

datatype RemoveContactStatus = RemoveSuccess | RemoveGeneralFailure | RemoveContactDoesNotExist

primrec RemoveContactStatus_value :: "RemoveContactStatus \<Rightarrow> int" where
  "RemoveContactStatus_value RemoveSuccess = 0"
| "RemoveContactStatus_value RemoveGeneralFailure = 1"
| "RemoveContactStatus_value RemoveContactDoesNotExist = 3"

section \<open>Enumerations that are received\<close>

datatype TextEncoding = TextEncoding_None | TextEncoding_UTF8 | TextEncoding_unnamed int

primrec TextEncoding_value :: "TextEncoding \<Rightarrow> int" where
  "TextEncoding_value TextEncoding_None = 1"
| "TextEncoding_value TextEncoding_UTF8 = 2"
| "TextEncoding_value (TextEncoding_unnamed n) = n"

definition TextEncoding_of_int :: "int \<Rightarrow> TextEncoding" where
  "TextEncoding_of_int n =
     (if n = 1 then TextEncoding_None else if n = 2 then TextEncoding_UTF8
      else TextEncoding_unnamed n)"

datatype TypingStatus = TypingStatus_Idle | TypingStatus_Active | TypingStatus_unnamed int

primrec TypingStatus_value :: "TypingStatus \<Rightarrow> int" where
  "TypingStatus_value TypingStatus_Idle = 0"
| "TypingStatus_value TypingStatus_Active = 1"
| "TypingStatus_value (TypingStatus_unnamed n) = n"

definition TypingStatus_of_int :: "int \<Rightarrow> TypingStatus" where
  "TypingStatus_of_int n =
     (if n = 0 then TypingStatus_Idle else if n = 1 then TypingStatus_Active
      else TypingStatus_unnamed n)"

datatype Availability =
    Offline | Available | Brb | Busy | Notathome | NotAtDesk | NotInOffice | OnPhone
  | OnVacation | OutToLunch | SteppedOut | Invisible | Custom | Idle
  | Availability_unnamed int

primrec Availability_value :: "Availability \<Rightarrow> int" where
  "Availability_value Offline = - 1"
| "Availability_value Available = 0"
| "Availability_value Brb = 1"
| "Availability_value Busy = 2"
| "Availability_value Notathome = 3"
| "Availability_value NotAtDesk = 4"
| "Availability_value NotInOffice = 5"
| "Availability_value OnPhone = 6"
| "Availability_value OnVacation = 7"
| "Availability_value OutToLunch = 8"
| "Availability_value SteppedOut = 9"
| "Availability_value Invisible = 12"
| "Availability_value Custom = 99"
| "Availability_value Idle = 999"
| "Availability_value (Availability_unnamed n) = n"

definition Availability_names :: "Availability list" where
  "Availability_names =
     [Offline, Available, Brb, Busy, Notathome, NotAtDesk, NotInOffice, OnPhone,
      OnVacation, OutToLunch, SteppedOut, Invisible, Custom, Idle]"

definition Availability_of_int :: "int \<Rightarrow> Availability" where
  "Availability_of_int n =
     (case List.find (\<lambda>a. Availability_value a = n) Availability_names of
        Some a \<Rightarrow> a | None \<Rightarrow> Availability_unnamed n)"

section \<open>to_enum\<close>

definition validate_enum_conversion :: "int \<Rightarrow> int" where
  "validate_enum_conversion v = v"

definition to_enum :: "(int \<Rightarrow> 'e) \<Rightarrow> string_view \<Rightarrow> exn + 'e" where
  "to_enum cast v = bind_res (atoi_data v) (\<lambda>n. Inr (cast (validate_enum_conversion n)))"

section \<open>Lemmas\<close>

lemma TextEncoding_value_of_int [simp]: "TextEncoding_value (TextEncoding_of_int n) = n"
  by (simp add: TextEncoding_of_int_def)

lemma TypingStatus_value_of_int [simp]: "TypingStatus_value (TypingStatus_of_int n) = n"
  by (simp add: TypingStatus_of_int_def)

lemma Availability_value_of_int [simp]: "Availability_value (Availability_of_int n) = n"
  by (auto simp: Availability_of_int_def find_Some_iff split: option.split)

lemma Availability_of_named:
  "a \<in> set Availability_names \<Longrightarrow> Availability_of_int (Availability_value a) = a"
  by (auto simp: Availability_of_int_def Availability_names_def)

lemma named_availability: "a \<in> set Availability_names \<longleftrightarrow> (\<forall>n. a \<noteq> Availability_unnamed n)"
  by (cases a) (simp_all add: Availability_names_def)

lemma to_enum_Inr_iff: "to_enum f v = Inr a \<longleftrightarrow> (\<exists>n. atoi_data v = Inr n \<and> a = f n)"
  by (auto simp: to_enum_def validate_enum_conversion_def bind_res_Inr_iff)

lemma to_enum_Inl_fault: "to_enum f v = Inl e \<Longrightarrow> e \<in> conversion_faults"
  by (auto simp: to_enum_def bind_res_Inl_iff dest: atoi_data_fault)

lemma to_enum_Inl_undefined: "to_enum f v = Inl e \<Longrightarrow> is_undefined e"
  by (auto simp: to_enum_def bind_res_Inl_iff dest: atoi_data_error_undefined)

lemma to_enum_to_string:
  assumes "LONG_MIN \<le> n" "n \<le> LONG_MAX" "\<not> is_digit c"
  shows "to_enum f (View (to_string n) (c # cs)) = Inr (f n)"
  using atoi_data_to_string [OF assms, of cs] by (simp add: to_enum_Inr_iff)

end
