(* ===== verification/YMsg_Payloads.thy ===== *)
theory YMsg_Payloads
  imports YMsg_Builder YMsg_Types
begin

text \<open>
  The payloads of the packets a client sends: the classes of \<open>Server/Payloads/\<close>. Each is a
  record of the fields the class keeps, with the value a new object has and its
  \<open>OnKeyPair\<close>. A field that no pair sets keeps its first value: the null view, or for an
  \<open>encoding\<close>, which no constructor initializes, whatever the memory holds (\<open>junk\<close>). The
  two payloads without fields (\<open>ProtocolSync\<close>, \<open>SetAvailable\<close>) use the base class.

  The locales \<open>payload_reader\<close>, \<open>strict_reader\<close> and \<open>field_reader\<close> are what the processors
  rely on: unknown keys change nothing, the only errors are the parser's own and the
  undefined conversions of \<open>to_enum\<close>, and a field holds the value of the last pair with its
  key. They are interpreted on every payload class.
\<close>

section \<open>ActivateProfile\<close>

record ActivateProfile_payload =
  acp_clientId :: string_view

definition ActivateProfile_new :: ActivateProfile_payload where
  "ActivateProfile_new =
     \<lparr>acp_clientId = Null_view\<rparr>"

definition ActivateProfile_OnKeyPair :: "ActivateProfile_payload on_key_pair" where
  "ActivateProfile_OnKeyPair key value p =
     (if key = 3 then Inr (p\<lparr>acp_clientId := value\<rparr>, True)
      else Inr (p, False))"

section \<open>AddContact\<close>

record AddContact_payload =
  adc_clientId :: string_view
  adc_contactId :: string_view
  adc_group :: string_view
  adc_message :: string_view

definition AddContact_new :: AddContact_payload where
  "AddContact_new =
     \<lparr>adc_clientId = Null_view, adc_contactId = Null_view, adc_group = Null_view,
      adc_message = Null_view\<rparr>"

definition AddContact_OnKeyPair :: "AddContact_payload on_key_pair" where
  "AddContact_OnKeyPair key value p =
     (if key = 1 then Inr (p\<lparr>adc_clientId := value\<rparr>, True)
      else if key = 7 then Inr (p\<lparr>adc_contactId := value\<rparr>, True)
      else if key = 65 then Inr (p\<lparr>adc_group := value\<rparr>, True)
      else if key = 14 then Inr (p\<lparr>adc_message := value\<rparr>, True)
      else Inr (p, False))"

section \<open>Authentication\<close>

record Authentication_payload =
  aut_authResponse1 :: string_view
  aut_authResponse2 :: string_view
  aut_clientVersion :: string_view
  aut_unknown148 :: string_view
  aut_clientId1 :: string_view
  aut_clientId2 :: string_view
  aut_profileIds :: "string_view list"

definition Authentication_new :: Authentication_payload where
  "Authentication_new =
     \<lparr>aut_authResponse1 = Null_view, aut_authResponse2 = Null_view,
      aut_clientVersion = Null_view, aut_unknown148 = Null_view, aut_clientId1 = Null_view,
      aut_clientId2 = Null_view, aut_profileIds = []\<rparr>"

definition Authentication_OnKeyPair :: "Authentication_payload on_key_pair" where
  "Authentication_OnKeyPair key value p =
     (if key = 6 then Inr (p\<lparr>aut_authResponse1 := value\<rparr>, True)
      else if key = 96 then Inr (p\<lparr>aut_authResponse2 := value\<rparr>, True)
      else if key = 135 then Inr (p\<lparr>aut_clientVersion := value\<rparr>, True)
      else if key = 148 then Inr (p\<lparr>aut_unknown148 := value\<rparr>, True)
      else if key = 0 then Inr (p\<lparr>aut_clientId1 := value\<rparr>, True)
      else if key = 1 then Inr (p\<lparr>aut_clientId2 := value\<rparr>, True)
      else if key = 2 then Inr (p\<lparr>aut_profileIds := aut_profileIds p @ [value]\<rparr>, True)
      else Inr (p, False))"

section \<open>ChallengeRequest\<close>

record ChallengeRequest_payload =
  chr_clientId :: string_view

definition ChallengeRequest_new :: ChallengeRequest_payload where
  "ChallengeRequest_new =
     \<lparr>chr_clientId = Null_view\<rparr>"

definition ChallengeRequest_OnKeyPair :: "ChallengeRequest_payload on_key_pair" where
  "ChallengeRequest_OnKeyPair key value p =
     (if key = 1 then Inr (p\<lparr>chr_clientId := value\<rparr>, True)
      else Inr (p, False))"

section \<open>ChangeBlockedUser\<close>

record ChangeBlockedUser_payload =
  cbu_clientId :: string_view
  cbu_contactId :: string_view
  cbu_mode :: string_view

definition ChangeBlockedUser_new :: ChangeBlockedUser_payload where
  "ChangeBlockedUser_new =
     \<lparr>cbu_clientId = Null_view, cbu_contactId = Null_view, cbu_mode = Null_view\<rparr>"

definition ChangeBlockedUser_OnKeyPair :: "ChangeBlockedUser_payload on_key_pair" where
  "ChangeBlockedUser_OnKeyPair key value p =
     (if key = 1 then Inr (p\<lparr>cbu_clientId := value\<rparr>, True)
      else if key = 7 then Inr (p\<lparr>cbu_contactId := value\<rparr>, True)
      else if key = 13 then Inr (p\<lparr>cbu_mode := value\<rparr>, True)
      else Inr (p, False))"

section \<open>ChatJoin\<close>

record ChatJoin_payload =
  chj_clientId :: string_view
  chj_category :: string_view
  chj_room :: string_view

definition ChatJoin_new :: ChatJoin_payload where
  "ChatJoin_new =
     \<lparr>chj_clientId = Null_view, chj_category = Null_view, chj_room = Null_view\<rparr>"

definition ChatJoin_OnKeyPair :: "ChatJoin_payload on_key_pair" where
  "ChatJoin_OnKeyPair key value p =
     (if key = 1 then Inr (p\<lparr>chj_clientId := value\<rparr>, True)
      else if key = 129 then Inr (p\<lparr>chj_category := value\<rparr>, True)
      else if key = 104 then Inr (p\<lparr>chj_room := value\<rparr>, True)
      else if key = 62 then Inr (p, True)
      else Inr (p, False))"

section \<open>ChatLogin\<close>

record ChatLogin_payload =
  chl_clientId1 :: string_view
  chl_clientId2 :: string_view

definition ChatLogin_new :: ChatLogin_payload where
  "ChatLogin_new =
     \<lparr>chl_clientId1 = Null_view, chl_clientId2 = Null_view\<rparr>"

definition ChatLogin_OnKeyPair :: "ChatLogin_payload on_key_pair" where
  "ChatLogin_OnKeyPair key value p =
     (if key = 109 then Inr (p\<lparr>chl_clientId1 := value\<rparr>, True)
      else if key = 1 then Inr (p\<lparr>chl_clientId2 := value\<rparr>, True)
      else if key = 98 \<or> key = 135 \<or> key = 6 then Inr (p, True)
      else Inr (p, False))"

section \<open>DeactivateProfile\<close>

record DeactivateProfile_payload =
  dap_clientId :: string_view

definition DeactivateProfile_new :: DeactivateProfile_payload where
  "DeactivateProfile_new =
     \<lparr>dap_clientId = Null_view\<rparr>"

definition DeactivateProfile_OnKeyPair :: "DeactivateProfile_payload on_key_pair" where
  "DeactivateProfile_OnKeyPair key value p =
     (if key = 3 then Inr (p\<lparr>dap_clientId := value\<rparr>, True)
      else Inr (p, False))"

section \<open>DenyContactAddRequest\<close>

record DenyContactAddRequest_payload =
  dcr_clientId :: string_view
  dcr_contactId :: string_view
  dcr_message :: string_view

definition DenyContactAddRequest_new :: DenyContactAddRequest_payload where
  "DenyContactAddRequest_new =
     \<lparr>dcr_clientId = Null_view, dcr_contactId = Null_view, dcr_message = Null_view\<rparr>"

definition DenyContactAddRequest_OnKeyPair :: "DenyContactAddRequest_payload on_key_pair" where
  "DenyContactAddRequest_OnKeyPair key value p =
     (if key = 1 then Inr (p\<lparr>dcr_clientId := value\<rparr>, True)
      else if key = 7 then Inr (p\<lparr>dcr_contactId := value\<rparr>, True)
      else if key = 14 then Inr (p\<lparr>dcr_message := value\<rparr>, True)
      else Inr (p, False))"

section \<open>MassPrivateMessage\<close>

record MassPrivateMessage_payload =
  mpm_clientId :: string_view
  mpm_contactIds :: "string_view list"
  mpm_message :: string_view
  mpm_encoding :: TextEncoding

definition MassPrivateMessage_new :: "TextEncoding \<Rightarrow> MassPrivateMessage_payload" where
  "MassPrivateMessage_new junk =
     \<lparr>mpm_clientId = Null_view, mpm_contactIds = [], mpm_message = Null_view,
      mpm_encoding = junk\<rparr>"

definition MassPrivateMessage_OnKeyPair :: "MassPrivateMessage_payload on_key_pair" where
  "MassPrivateMessage_OnKeyPair key value p =
     (if key = 1 then Inr (p\<lparr>mpm_clientId := value\<rparr>, True)
      else if key = 5 then Inr (p\<lparr>mpm_contactIds := mpm_contactIds p @ [value]\<rparr>, True)
      else if key = 14 then Inr (p\<lparr>mpm_message := value\<rparr>, True)
      else if key = 97 then 
        bind_res (to_enum TextEncoding_of_int value) (\<lambda>e. Inr (p\<lparr>mpm_encoding := e\<rparr>, True))
      else Inr (p, False))"

section \<open>PrivateMessage\<close>

record PrivateMessage_payload =
  pvm_clientId :: string_view
  pvm_contactId :: string_view
  pvm_message :: string_view
  pvm_encoding :: TextEncoding

definition PrivateMessage_new :: "TextEncoding \<Rightarrow> PrivateMessage_payload" where
  "PrivateMessage_new junk =
     \<lparr>pvm_clientId = Null_view, pvm_contactId = Null_view, pvm_message = Null_view,
      pvm_encoding = junk\<rparr>"

definition PrivateMessage_OnKeyPair :: "PrivateMessage_payload on_key_pair" where
  "PrivateMessage_OnKeyPair key value p =
     (if key = 1 then Inr (p\<lparr>pvm_clientId := value\<rparr>, True)
      else if key = 5 then Inr (p\<lparr>pvm_contactId := value\<rparr>, True)
      else if key = 14 then Inr (p\<lparr>pvm_message := value\<rparr>, True)
      else if key = 97 then 
        bind_res (to_enum TextEncoding_of_int value) (\<lambda>e. Inr (p\<lparr>pvm_encoding := e\<rparr>, True))
      else if key = 63 \<or> key = 64 \<or> key = 1002 then Inr (p, True)
      else Inr (p, False))"

section \<open>RemoveContact\<close>

record RemoveContact_payload =
  rmc_clientId :: string_view
  rmc_contactId :: string_view
  rmc_group :: string_view

definition RemoveContact_new :: RemoveContact_payload where
  "RemoveContact_new =
     \<lparr>rmc_clientId = Null_view, rmc_contactId = Null_view, rmc_group = Null_view\<rparr>"

definition RemoveContact_OnKeyPair :: "RemoveContact_payload on_key_pair" where
  "RemoveContact_OnKeyPair key value p =
     (if key = 1 then Inr (p\<lparr>rmc_clientId := value\<rparr>, True)
      else if key = 7 then Inr (p\<lparr>rmc_contactId := value\<rparr>, True)
      else if key = 65 then Inr (p\<lparr>rmc_group := value\<rparr>, True)
      else Inr (p, False))"

section \<open>RenameContactGroup\<close>

record RenameContactGroup_payload =
  rcg_clientId :: string_view
  rcg_currentGroupName :: string_view
  rcg_newGroupName :: string_view

definition RenameContactGroup_new :: RenameContactGroup_payload where
  "RenameContactGroup_new =
     \<lparr>rcg_clientId = Null_view, rcg_currentGroupName = Null_view,
      rcg_newGroupName = Null_view\<rparr>"

definition RenameContactGroup_OnKeyPair :: "RenameContactGroup_payload on_key_pair" where
  "RenameContactGroup_OnKeyPair key value p =
     (if key = 1 then Inr (p\<lparr>rcg_clientId := value\<rparr>, True)
      else if key = 65 then Inr (p\<lparr>rcg_currentGroupName := value\<rparr>, True)
      else if key = 67 then Inr (p\<lparr>rcg_newGroupName := value\<rparr>, True)
      else Inr (p, False))"

section \<open>RequestProfile\<close>

record RequestProfile_payload =
  rqp_clientId :: string_view

definition RequestProfile_new :: RequestProfile_payload where
  "RequestProfile_new =
     \<lparr>rqp_clientId = Null_view\<rparr>"

definition RequestProfile_OnKeyPair :: "RequestProfile_payload on_key_pair" where
  "RequestProfile_OnKeyPair key value p =
     (if key = 1 then Inr (p\<lparr>rqp_clientId := value\<rparr>, True)
      else Inr (p, False))"

section \<open>ServiceOperation\<close>

record ServiceOperation_payload =
  svo_operation :: string_view
  svo_clientId :: string_view
  svo_status :: string_view
  svo_action :: string_view
  svo_contactId :: string_view

definition ServiceOperation_new :: ServiceOperation_payload where
  "ServiceOperation_new =
     \<lparr>svo_operation = Null_view, svo_clientId = Null_view, svo_status = Null_view,
      svo_action = Null_view, svo_contactId = Null_view\<rparr>"

definition ServiceOperation_OnKeyPair :: "ServiceOperation_payload on_key_pair" where
  "ServiceOperation_OnKeyPair key value p =
     (if key = 49 then Inr (p\<lparr>svo_operation := value\<rparr>, True)
      else if key = 1 then Inr (p\<lparr>svo_clientId := value\<rparr>, True)
      else if key = 14 then Inr (p\<lparr>svo_status := value\<rparr>, True)
      else if key = 13 then Inr (p\<lparr>svo_action := value\<rparr>, True)
      else if key = 5 then Inr (p\<lparr>svo_contactId := value\<rparr>, True)
      else if key = 1002 then Inr (p, True)
      else Inr (p, False))"

section \<open>SetAway\<close>

record SetAway_payload =
  saw_statusId :: string_view
  saw_customMessage :: string_view
  saw_busyState :: string_view
  saw_idleUnknown :: string_view

definition SetAway_new :: SetAway_payload where
  "SetAway_new =
     \<lparr>saw_statusId = Null_view, saw_customMessage = Null_view, saw_busyState = Null_view,
      saw_idleUnknown = Null_view\<rparr>"

definition SetAway_OnKeyPair :: "SetAway_payload on_key_pair" where
  "SetAway_OnKeyPair key value p =
     (if key = 10 then Inr (p\<lparr>saw_statusId := value\<rparr>, True)
      else if key = 19 then Inr (p\<lparr>saw_customMessage := value\<rparr>, True)
      else if key = 47 then Inr (p\<lparr>saw_busyState := value\<rparr>, True)
      else if key = 138 then Inr (p\<lparr>saw_idleUnknown := value\<rparr>, True)
      else Inr (p, False))"

section \<open>What a payload promises to its parser\<close>

locale payload_reader =
  fixes on :: "'p on_key_pair"
    and keys :: "int list"
  assumes unknown_key: "k \<notin> set keys \<Longrightarrow> on k v p = Inr (p, False)"
    and known_key: "k \<in> set keys \<Longrightarrow> on k v p = Inr (p', b) \<Longrightarrow> b"
    and error_fault: "on k v p = Inl e \<Longrightarrow> e \<in> conversion_faults"
begin

lemma error_undefined: "on k v p = Inl e \<Longrightarrow> is_undefined e"
  by (rule conversion_faults_undefined) (rule error_fault)

lemma feed_known: "feed on kvs p = feed on (filter (\<lambda>(k, v). k \<in> set keys) kvs) p"
proof (induction kvs arbitrary: p)
  case (Cons kv kvs)
  obtain k v where kv: "kv = (k, v)" by (cases kv)
  show ?case
  proof (cases "k \<in> set keys")
    case True
    then show ?thesis
      using Cons.IH by (cases "on k v p") (auto simp: kv)
  next
    case False
    then show ?thesis using Cons.IH by (simp add: kv unknown_key)
  qed
qed simp

lemma feed_error: "feed on kvs p = Inl e \<Longrightarrow> is_undefined e"
proof (induction kvs arbitrary: p)
  case (Cons kv kvs)
  then show ?case
    by (cases kv) (auto simp: bind_res_Inl_iff dest: error_undefined split: prod.splits)
qed simp

lemma feed_fault: "feed on kvs p = Inl e \<Longrightarrow> e \<in> conversion_faults"
proof (induction kvs arbitrary: p)
  case (Cons kv kvs)
  then show ?case
    by (cases kv) (auto simp: bind_res_Inl_iff dest: error_fault split: prod.splits)
qed simp

lemma Parse_fault: "Parse on p s after = Inl e \<Longrightarrow> e = empty_key \<or> e \<in> conversion_faults"
  using feed_fault
  by (auto simp: Parse_key_pairs bind_res_Inl_iff parse_result_def key_pairs_error
      split: option.splits dest: key_pairs_error)

lemma Parse_error: "Parse on p s after = Inl e \<Longrightarrow> e = empty_key \<or> is_undefined e"
  using feed_error
  by (auto simp: Parse_key_pairs bind_res_Inl_iff parse_result_def key_pairs_error
      split: option.splits dest: key_pairs_error)

end

locale strict_reader = payload_reader +
  assumes takes_all: "on k v p \<noteq> Inl e"
begin

lemma feed_takes_all: "feed on kvs p \<noteq> Inl e"
proof (induction kvs arbitrary: p)
  case (Cons kv kvs)
  then show ?case
    by (cases kv) (auto simp: bind_res_Inl_iff takes_all split: prod.splits)
qed simp

lemma Parse_strict: "Parse on p s after = Inl e \<longleftrightarrow> snd (key_pairs s after) = Some e"
proof -
  obtain q where "feed on (fst (key_pairs s after)) p = Inr q"
    using feed_takes_all by (cases "feed on (fst (key_pairs s after)) p") auto
  then show ?thesis
    by (simp add: Parse_key_pairs parse_result_def split: option.split)
qed

lemma Parse_empty_key: "Parse on p s after = Inl e \<Longrightarrow> e = empty_key"
  by (simp add: Parse_strict key_pairs_error)

end

text \<open>The value a field ends up with: that of the last pair with its key.\<close>

definition last_value :: "int \<Rightarrow> (int \<times> string_view) list \<Rightarrow> string_view \<Rightarrow> string_view" where
  "last_value key kvs v0 = fold (\<lambda>(k, v) w. if k = key then v else w) kvs v0"

lemma last_value_simps [simp]:
  "last_value key [] v0 = v0"
  "last_value key ((k, v) # kvs) v0 = last_value key kvs (if k = key then v else v0)"
  by (simp_all add: last_value_def)

lemma last_value_from: "last_value key kvs v0 = v0 \<or> (key, last_value key kvs v0) \<in> set kvs"
proof (induction kvs arbitrary: v0)
  case (Cons kv kvs)
  then show ?case by (cases kv) fastforce
qed simp

text \<open>A field of a parsed payload holds no terminator, so it can be sent on.\<close>

lemma last_value_clean:
  "\<not> contains_sub terminator (sv_str (last_value key (fst (key_pairs s after)) Null_view))"
  using last_value_from [of key "fst (key_pairs s after)" Null_view]
proof
  assume "last_value key (fst (key_pairs s after)) Null_view = Null_view"
  then show ?thesis by (simp add: contains_sub_def)
qed (use key_pairs_clean in \<open>fastforce simp: clean_field_def\<close>)

lemma last_value_plain:
  "sv_str (last_value key kvs v0) =
     fold (\<lambda>(k, s) w. if k = key then s else w) (plain_pairs kvs) (sv_str v0)"
proof (induction kvs arbitrary: v0)
  case (Cons kv kvs)
  then show ?case by (cases kv) (simp add: plain_pairs_def)
qed (simp add: plain_pairs_def)

locale field_reader =
  fixes on :: "'p on_key_pair"
    and key :: int
    and get :: "'p \<Rightarrow> string_view"
  assumes writes: "on key v p = Inr (p', b) \<Longrightarrow> get p' = v"
    and leaves: "k \<noteq> key \<Longrightarrow> on k v p = Inr (p', b) \<Longrightarrow> get p' = get p"
begin

lemma feed_field: "feed on kvs p = Inr p' \<Longrightarrow> get p' = last_value key kvs (get p)"
proof (induction kvs arbitrary: p)
  case (Cons kv kvs)
  obtain k v where kv: "kv = (k, v)" by (cases kv)
  obtain q b where q: "on k v p = Inr (q, b)" "feed on kvs q = Inr p'"
    using Cons.prems by (auto simp: kv bind_res_Inr_iff)
  have "get q = (if k = key then v else get p)"
    using q(1) writes [of v p q b] leaves [of k v p q b] by (cases "k = key") auto
  then show ?case using Cons.IH [OF q(2)] by (simp add: kv)
qed simp

lemma Parse_field:
  "Parse on p s after = Inr p' \<Longrightarrow> get p' = last_value key (fst (key_pairs s after)) (get p)"
  using feed_field
  by (auto simp: Parse_key_pairs bind_res_Inr_iff parse_result_def split: option.splits)

end

section \<open>Every payload class keeps its promises\<close>

lemmas payload_news =
  ActivateProfile_new_def AddContact_new_def Authentication_new_def ChallengeRequest_new_def
  ChangeBlockedUser_new_def ChatJoin_new_def ChatLogin_new_def DeactivateProfile_new_def
  DenyContactAddRequest_new_def MassPrivateMessage_new_def PrivateMessage_new_def
  RemoveContact_new_def RenameContactGroup_new_def RequestProfile_new_def
  ServiceOperation_new_def SetAway_new_def

lemmas payload_handlers =
  Payload_OnKeyPair_def ActivateProfile_OnKeyPair_def AddContact_OnKeyPair_def Authentication_OnKeyPair_def
  ChallengeRequest_OnKeyPair_def ChangeBlockedUser_OnKeyPair_def ChatJoin_OnKeyPair_def
  ChatLogin_OnKeyPair_def DeactivateProfile_OnKeyPair_def
  DenyContactAddRequest_OnKeyPair_def MassPrivateMessage_OnKeyPair_def
  PrivateMessage_OnKeyPair_def RemoveContact_OnKeyPair_def RenameContactGroup_OnKeyPair_def
  RequestProfile_OnKeyPair_def ServiceOperation_OnKeyPair_def SetAway_OnKeyPair_def

interpretation base_payload: strict_reader Payload_OnKeyPair "[]"
  by unfold_locales (auto simp: Payload_OnKeyPair_def)

interpretation acp: strict_reader ActivateProfile_OnKeyPair "[3]"
  by unfold_locales (auto simp: ActivateProfile_OnKeyPair_def bind_res_Inr_iff bind_res_Inl_iff
      dest: to_enum_Inl_fault split: if_splits)

interpretation adc: strict_reader AddContact_OnKeyPair "[1, 7, 65, 14]"
  by unfold_locales (auto simp: AddContact_OnKeyPair_def bind_res_Inr_iff bind_res_Inl_iff
      dest: to_enum_Inl_fault split: if_splits)

interpretation aut: strict_reader Authentication_OnKeyPair "[6, 96, 135, 148, 0, 1, 2]"
  by unfold_locales (auto simp: Authentication_OnKeyPair_def bind_res_Inr_iff bind_res_Inl_iff
      dest: to_enum_Inl_fault split: if_splits)

interpretation chr: strict_reader ChallengeRequest_OnKeyPair "[1]"
  by unfold_locales (auto simp: ChallengeRequest_OnKeyPair_def bind_res_Inr_iff bind_res_Inl_iff
      dest: to_enum_Inl_fault split: if_splits)

interpretation cbu: strict_reader ChangeBlockedUser_OnKeyPair "[1, 7, 13]"
  by unfold_locales (auto simp: ChangeBlockedUser_OnKeyPair_def bind_res_Inr_iff bind_res_Inl_iff
      dest: to_enum_Inl_fault split: if_splits)

interpretation chj: strict_reader ChatJoin_OnKeyPair "[1, 129, 104, 62]"
  by unfold_locales (auto simp: ChatJoin_OnKeyPair_def bind_res_Inr_iff bind_res_Inl_iff
      dest: to_enum_Inl_fault split: if_splits)

interpretation chl: strict_reader ChatLogin_OnKeyPair "[109, 1, 98, 135, 6]"
  by unfold_locales (auto simp: ChatLogin_OnKeyPair_def bind_res_Inr_iff bind_res_Inl_iff
      dest: to_enum_Inl_fault split: if_splits)

interpretation dap: strict_reader DeactivateProfile_OnKeyPair "[3]"
  by unfold_locales (auto simp: DeactivateProfile_OnKeyPair_def bind_res_Inr_iff bind_res_Inl_iff
      dest: to_enum_Inl_fault split: if_splits)

interpretation dcr: strict_reader DenyContactAddRequest_OnKeyPair "[1, 7, 14]"
  by unfold_locales (auto simp: DenyContactAddRequest_OnKeyPair_def bind_res_Inr_iff bind_res_Inl_iff
      dest: to_enum_Inl_fault split: if_splits)

interpretation mpm: payload_reader MassPrivateMessage_OnKeyPair "[1, 5, 14, 97]"
  by unfold_locales (auto simp: MassPrivateMessage_OnKeyPair_def bind_res_Inr_iff bind_res_Inl_iff
      dest: to_enum_Inl_fault split: if_splits)

interpretation pvm: payload_reader PrivateMessage_OnKeyPair "[1, 5, 14, 97, 63, 64, 1002]"
  by unfold_locales (auto simp: PrivateMessage_OnKeyPair_def bind_res_Inr_iff bind_res_Inl_iff
      dest: to_enum_Inl_fault split: if_splits)

interpretation rmc: strict_reader RemoveContact_OnKeyPair "[1, 7, 65]"
  by unfold_locales (auto simp: RemoveContact_OnKeyPair_def bind_res_Inr_iff bind_res_Inl_iff
      dest: to_enum_Inl_fault split: if_splits)

interpretation rcg: strict_reader RenameContactGroup_OnKeyPair "[1, 65, 67]"
  by unfold_locales (auto simp: RenameContactGroup_OnKeyPair_def bind_res_Inr_iff bind_res_Inl_iff
      dest: to_enum_Inl_fault split: if_splits)

interpretation rqp: strict_reader RequestProfile_OnKeyPair "[1]"
  by unfold_locales (auto simp: RequestProfile_OnKeyPair_def bind_res_Inr_iff bind_res_Inl_iff
      dest: to_enum_Inl_fault split: if_splits)

interpretation svo: strict_reader ServiceOperation_OnKeyPair "[49, 1, 14, 13, 5, 1002]"
  by unfold_locales (auto simp: ServiceOperation_OnKeyPair_def bind_res_Inr_iff bind_res_Inl_iff
      dest: to_enum_Inl_fault split: if_splits)

interpretation saw: strict_reader SetAway_OnKeyPair "[10, 19, 47, 138]"
  by unfold_locales (auto simp: SetAway_OnKeyPair_def bind_res_Inr_iff bind_res_Inl_iff
      dest: to_enum_Inl_fault split: if_splits)

interpretation acp_clientId: field_reader ActivateProfile_OnKeyPair 3 acp_clientId
  by unfold_locales (auto simp: ActivateProfile_OnKeyPair_def bind_res_Inr_iff split: if_splits)

interpretation adc_clientId: field_reader AddContact_OnKeyPair 1 adc_clientId
  by unfold_locales (auto simp: AddContact_OnKeyPair_def bind_res_Inr_iff split: if_splits)

interpretation adc_contactId: field_reader AddContact_OnKeyPair 7 adc_contactId
  by unfold_locales (auto simp: AddContact_OnKeyPair_def bind_res_Inr_iff split: if_splits)

interpretation adc_group: field_reader AddContact_OnKeyPair 65 adc_group
  by unfold_locales (auto simp: AddContact_OnKeyPair_def bind_res_Inr_iff split: if_splits)

interpretation adc_message: field_reader AddContact_OnKeyPair 14 adc_message
  by unfold_locales (auto simp: AddContact_OnKeyPair_def bind_res_Inr_iff split: if_splits)

interpretation aut_authResponse1: field_reader Authentication_OnKeyPair 6 aut_authResponse1
  by unfold_locales (auto simp: Authentication_OnKeyPair_def bind_res_Inr_iff split: if_splits)

interpretation aut_authResponse2: field_reader Authentication_OnKeyPair 96 aut_authResponse2
  by unfold_locales (auto simp: Authentication_OnKeyPair_def bind_res_Inr_iff split: if_splits)

interpretation aut_clientVersion: field_reader Authentication_OnKeyPair 135 aut_clientVersion
  by unfold_locales (auto simp: Authentication_OnKeyPair_def bind_res_Inr_iff split: if_splits)

interpretation aut_unknown148: field_reader Authentication_OnKeyPair 148 aut_unknown148
  by unfold_locales (auto simp: Authentication_OnKeyPair_def bind_res_Inr_iff split: if_splits)

interpretation aut_clientId1: field_reader Authentication_OnKeyPair 0 aut_clientId1
  by unfold_locales (auto simp: Authentication_OnKeyPair_def bind_res_Inr_iff split: if_splits)

interpretation aut_clientId2: field_reader Authentication_OnKeyPair 1 aut_clientId2
  by unfold_locales (auto simp: Authentication_OnKeyPair_def bind_res_Inr_iff split: if_splits)

interpretation chr_clientId: field_reader ChallengeRequest_OnKeyPair 1 chr_clientId
  by unfold_locales (auto simp: ChallengeRequest_OnKeyPair_def bind_res_Inr_iff split: if_splits)

interpretation cbu_clientId: field_reader ChangeBlockedUser_OnKeyPair 1 cbu_clientId
  by unfold_locales (auto simp: ChangeBlockedUser_OnKeyPair_def bind_res_Inr_iff split: if_splits)

interpretation cbu_contactId: field_reader ChangeBlockedUser_OnKeyPair 7 cbu_contactId
  by unfold_locales (auto simp: ChangeBlockedUser_OnKeyPair_def bind_res_Inr_iff split: if_splits)

interpretation cbu_mode: field_reader ChangeBlockedUser_OnKeyPair 13 cbu_mode
  by unfold_locales (auto simp: ChangeBlockedUser_OnKeyPair_def bind_res_Inr_iff split: if_splits)

interpretation chj_clientId: field_reader ChatJoin_OnKeyPair 1 chj_clientId
  by unfold_locales (auto simp: ChatJoin_OnKeyPair_def bind_res_Inr_iff split: if_splits)

interpretation chj_category: field_reader ChatJoin_OnKeyPair 129 chj_category
  by unfold_locales (auto simp: ChatJoin_OnKeyPair_def bind_res_Inr_iff split: if_splits)

interpretation chj_room: field_reader ChatJoin_OnKeyPair 104 chj_room
  by unfold_locales (auto simp: ChatJoin_OnKeyPair_def bind_res_Inr_iff split: if_splits)

interpretation chl_clientId1: field_reader ChatLogin_OnKeyPair 109 chl_clientId1
  by unfold_locales (auto simp: ChatLogin_OnKeyPair_def bind_res_Inr_iff split: if_splits)

interpretation chl_clientId2: field_reader ChatLogin_OnKeyPair 1 chl_clientId2
  by unfold_locales (auto simp: ChatLogin_OnKeyPair_def bind_res_Inr_iff split: if_splits)

interpretation dap_clientId: field_reader DeactivateProfile_OnKeyPair 3 dap_clientId
  by unfold_locales (auto simp: DeactivateProfile_OnKeyPair_def bind_res_Inr_iff split: if_splits)

interpretation dcr_clientId: field_reader DenyContactAddRequest_OnKeyPair 1 dcr_clientId
  by unfold_locales (auto simp: DenyContactAddRequest_OnKeyPair_def bind_res_Inr_iff split: if_splits)

interpretation dcr_contactId: field_reader DenyContactAddRequest_OnKeyPair 7 dcr_contactId
  by unfold_locales (auto simp: DenyContactAddRequest_OnKeyPair_def bind_res_Inr_iff split: if_splits)

interpretation dcr_message: field_reader DenyContactAddRequest_OnKeyPair 14 dcr_message
  by unfold_locales (auto simp: DenyContactAddRequest_OnKeyPair_def bind_res_Inr_iff split: if_splits)

interpretation mpm_clientId: field_reader MassPrivateMessage_OnKeyPair 1 mpm_clientId
  by unfold_locales (auto simp: MassPrivateMessage_OnKeyPair_def bind_res_Inr_iff split: if_splits)

interpretation mpm_message: field_reader MassPrivateMessage_OnKeyPair 14 mpm_message
  by unfold_locales (auto simp: MassPrivateMessage_OnKeyPair_def bind_res_Inr_iff split: if_splits)

interpretation pvm_clientId: field_reader PrivateMessage_OnKeyPair 1 pvm_clientId
  by unfold_locales (auto simp: PrivateMessage_OnKeyPair_def bind_res_Inr_iff split: if_splits)

interpretation pvm_contactId: field_reader PrivateMessage_OnKeyPair 5 pvm_contactId
  by unfold_locales (auto simp: PrivateMessage_OnKeyPair_def bind_res_Inr_iff split: if_splits)

interpretation pvm_message: field_reader PrivateMessage_OnKeyPair 14 pvm_message
  by unfold_locales (auto simp: PrivateMessage_OnKeyPair_def bind_res_Inr_iff split: if_splits)

interpretation rmc_clientId: field_reader RemoveContact_OnKeyPair 1 rmc_clientId
  by unfold_locales (auto simp: RemoveContact_OnKeyPair_def bind_res_Inr_iff split: if_splits)

interpretation rmc_contactId: field_reader RemoveContact_OnKeyPair 7 rmc_contactId
  by unfold_locales (auto simp: RemoveContact_OnKeyPair_def bind_res_Inr_iff split: if_splits)

interpretation rmc_group: field_reader RemoveContact_OnKeyPair 65 rmc_group
  by unfold_locales (auto simp: RemoveContact_OnKeyPair_def bind_res_Inr_iff split: if_splits)

interpretation rcg_clientId: field_reader RenameContactGroup_OnKeyPair 1 rcg_clientId
  by unfold_locales (auto simp: RenameContactGroup_OnKeyPair_def bind_res_Inr_iff split: if_splits)

interpretation rcg_currentGroupName: field_reader RenameContactGroup_OnKeyPair 65 rcg_currentGroupName
  by unfold_locales (auto simp: RenameContactGroup_OnKeyPair_def bind_res_Inr_iff split: if_splits)

interpretation rcg_newGroupName: field_reader RenameContactGroup_OnKeyPair 67 rcg_newGroupName
  by unfold_locales (auto simp: RenameContactGroup_OnKeyPair_def bind_res_Inr_iff split: if_splits)

interpretation rqp_clientId: field_reader RequestProfile_OnKeyPair 1 rqp_clientId
  by unfold_locales (auto simp: RequestProfile_OnKeyPair_def bind_res_Inr_iff split: if_splits)

interpretation svo_operation: field_reader ServiceOperation_OnKeyPair 49 svo_operation
  by unfold_locales (auto simp: ServiceOperation_OnKeyPair_def bind_res_Inr_iff split: if_splits)

interpretation svo_clientId: field_reader ServiceOperation_OnKeyPair 1 svo_clientId
  by unfold_locales (auto simp: ServiceOperation_OnKeyPair_def bind_res_Inr_iff split: if_splits)

interpretation svo_status: field_reader ServiceOperation_OnKeyPair 14 svo_status
  by unfold_locales (auto simp: ServiceOperation_OnKeyPair_def bind_res_Inr_iff split: if_splits)

interpretation svo_action: field_reader ServiceOperation_OnKeyPair 13 svo_action
  by unfold_locales (auto simp: ServiceOperation_OnKeyPair_def bind_res_Inr_iff split: if_splits)

interpretation svo_contactId: field_reader ServiceOperation_OnKeyPair 5 svo_contactId
  by unfold_locales (auto simp: ServiceOperation_OnKeyPair_def bind_res_Inr_iff split: if_splits)

interpretation saw_statusId: field_reader SetAway_OnKeyPair 10 saw_statusId
  by unfold_locales (auto simp: SetAway_OnKeyPair_def bind_res_Inr_iff split: if_splits)

interpretation saw_customMessage: field_reader SetAway_OnKeyPair 19 saw_customMessage
  by unfold_locales (auto simp: SetAway_OnKeyPair_def bind_res_Inr_iff split: if_splits)

interpretation saw_busyState: field_reader SetAway_OnKeyPair 47 saw_busyState
  by unfold_locales (auto simp: SetAway_OnKeyPair_def bind_res_Inr_iff split: if_splits)

interpretation saw_idleUnknown: field_reader SetAway_OnKeyPair 138 saw_idleUnknown
  by unfold_locales (auto simp: SetAway_OnKeyPair_def bind_res_Inr_iff split: if_splits)

end
