(* ===== verification/Std_Map.thy ===== *)
theory Std_Map
  imports Giblet_Prelude
begin

text \<open>
  \<open>std::map\<close> as the components use it: an association list kept in the order of its keys,
  because the program iterates over its maps and what it sends depends on that order. The
  locale \<open>ordered_map\<close> is the contract the components rely on; it is interpreted on the
  association lists at the end of the theory.
\<close>

type_synonym ('k, 'v) std_map = "('k \<times> 'v) list"

definition map_sorted :: "('k::linorder, 'v) std_map \<Rightarrow> bool" where
  "map_sorted m = sorted_wrt (<) (map fst m)"

text \<open>\<open>find\<close>; \<open>None\<close> is the end iterator.\<close>

definition map_find :: "('k, 'v) std_map \<Rightarrow> 'k \<Rightarrow> 'v option" where
  "map_find m k = map_of m k"

text \<open>\<open>emplace\<close> keeps the value of a key that is already there and reports it.\<close>

fun map_insert :: "'k::linorder \<Rightarrow> 'v \<Rightarrow> ('k, 'v) std_map \<Rightarrow> ('k, 'v) std_map" where
  "map_insert k v [] = [(k, v)]"
| "map_insert k v ((a, b) # m) =
     (if k < a then (k, v) # (a, b) # m
      else if k = a then (a, b) # m else (a, b) # map_insert k v m)"

definition map_emplace :: "'k::linorder \<Rightarrow> 'v \<Rightarrow> ('k, 'v) std_map \<Rightarrow> ('k, 'v) std_map \<times> bool" where
  "map_emplace k v m = (map_insert k v m, map_find m k = None)"

text \<open>\<open>m[k] = v\<close> and \<open>insert_or_assign\<close>.\<close>

fun map_assign :: "'k::linorder \<Rightarrow> 'v \<Rightarrow> ('k, 'v) std_map \<Rightarrow> ('k, 'v) std_map" where
  "map_assign k v [] = [(k, v)]"
| "map_assign k v ((a, b) # m) =
     (if k < a then (k, v) # (a, b) # m
      else if k = a then (a, v) # m else (a, b) # map_assign k v m)"

text \<open>Writing through the iterator of key \<open>k\<close>.\<close>

definition map_adjust :: "'k \<Rightarrow> ('v \<Rightarrow> 'v) \<Rightarrow> ('k, 'v) std_map \<Rightarrow> ('k, 'v) std_map" where
  "map_adjust k f m = map (\<lambda>(a, b). if a = k then (a, f b) else (a, b)) m"

definition map_erase :: "'k \<Rightarrow> ('k, 'v) std_map \<Rightarrow> ('k, 'v) std_map" where
  "map_erase k m = filter (\<lambda>(a, b). a \<noteq> k) m"

section \<open>Correctness of the association lists\<close>

lemma map_sorted_Nil [simp]: "map_sorted []"
  by (simp add: map_sorted_def)

lemma map_sorted_Cons:
  "map_sorted ((a, b) # m) = ((\<forall>k \<in> fst ` set m. a < k) \<and> map_sorted m)"
  by (auto simp: map_sorted_def)

lemma map_sorted_distinct: "map_sorted m \<Longrightarrow> distinct (map fst m)"
  unfolding map_sorted_def by (induction m) auto

lemma map_find_Cons: "map_find ((a, b) # m) k = (if k = a then Some b else map_find m k)"
  by (simp add: map_find_def)

lemma map_find_Nil [simp]: "map_find [] k = None"
  by (simp add: map_find_def)

lemma map_find_None_less:
  "map_sorted ((a, b) # m) \<Longrightarrow> k < a \<Longrightarrow> map_find ((a, b) # m) k = None"
  by (auto simp: map_find_def map_sorted_Cons map_of_eq_None_iff)

lemma set_map_insert: "set (map_insert k v m) \<subseteq> insert (k, v) (set m)"
  by (induction k v m rule: map_insert.induct) auto

lemma fst_set_map_insert: "fst ` set (map_insert k v m) = insert k (fst ` set m)"
  by (induction k v m rule: map_insert.induct) (auto simp: image_iff)

lemma fst_set_map_assign: "fst ` set (map_assign k v m) = insert k (fst ` set m)"
  by (induction k v m rule: map_assign.induct) (auto simp: image_iff)

lemma map_sorted_insert: "map_sorted m \<Longrightarrow> map_sorted (map_insert k v m)"
  by (induction k v m rule: map_insert.induct) (auto simp: map_sorted_Cons fst_set_map_insert)

lemma map_sorted_assign: "map_sorted m \<Longrightarrow> map_sorted (map_assign k v m)"
  by (induction k v m rule: map_assign.induct) (auto simp: map_sorted_Cons fst_set_map_assign)

lemma map_find_insert:
  "map_sorted m \<Longrightarrow> map_find (map_insert k v m) a =
     (if a = k \<and> map_find m k = None then Some v else map_find m a)"
proof (induction k v m rule: map_insert.induct)
  case (2 k v a b m)
  then show ?case
    using map_find_None_less [OF "2.prems", of k] by (auto simp: map_find_Cons map_sorted_Cons)
qed (simp add: map_find_Cons)

lemma map_find_assign:
  "map_sorted m \<Longrightarrow> map_find (map_assign k v m) a = (if a = k then Some v else map_find m a)"
  by (induction k v m rule: map_assign.induct) (auto simp: map_find_Cons map_sorted_Cons)

lemma map_fst_adjust [simp]: "map fst (map_adjust k f m) = map fst m"
  by (auto simp: map_adjust_def)

lemma map_sorted_adjust [simp]: "map_sorted (map_adjust k f m) = map_sorted m"
  by (simp add: map_sorted_def)

lemma map_find_adjust:
  "map_find (map_adjust k f m) a = (if a = k then map_option f (map_find m a) else map_find m a)"
  by (induction m) (auto simp: map_adjust_def map_find_def)

lemma map_adjust_absent: "map_find m k = None \<Longrightarrow> map_adjust k f m = m"
  by (induction m) (auto simp: map_adjust_def map_find_def split: if_splits)

lemma map_sorted_filter: "map_sorted m \<Longrightarrow> map_sorted (filter P m)"
  unfolding map_sorted_def by (induction m) auto

lemma map_sorted_erase: "map_sorted m \<Longrightarrow> map_sorted (map_erase k m)"
  by (simp add: map_erase_def map_sorted_filter)

lemma map_find_erase: "map_find (map_erase k m) a = (if a = k then None else map_find m a)"
  by (induction m) (auto simp: map_erase_def map_find_def)

lemma map_find_Some_in: "map_find m k = Some v \<Longrightarrow> (k, v) \<in> set m"
  by (simp add: map_find_def map_of_SomeD)

lemma map_find_None_iff: "map_find m k = None \<longleftrightarrow> k \<notin> fst ` set m"
  by (simp add: map_find_def map_of_eq_None_iff)

lemma map_find_in: "map_sorted m \<Longrightarrow> (k, v) \<in> set m \<Longrightarrow> map_find m k = Some v"
  using map_sorted_distinct [of m] by (simp add: map_find_def)

text \<open>Two ordered maps with the same lookups are the same list, so iteration agrees.\<close>

lemma map_find_ext:
  assumes "map_sorted m" "map_sorted n" "\<And>k. map_find m k = map_find n k"
  shows "m = n"
  using assms
proof (induction m arbitrary: n)
  case Nil
  show ?case
  proof (cases n)
    case (Cons y ys)
    then show ?thesis using Nil(3) [of "fst y"] by (cases y) (simp add: map_find_Cons)
  qed simp
next
  case (Cons x xs)
  obtain a b where x: "x = (a, b)" by (cases x)
  have "map_find n a = Some b" using Cons.prems(3) [of a] x by (simp add: map_find_Cons)
  then obtain c d ys where n: "n = (c, d) # ys" by (cases n) auto
  have ac: "\<not> a < c" and ca: "\<not> c < a"
    using map_find_None_less [of c d ys a] map_find_None_less [of a b xs c]
      Cons.prems(1,2) Cons.prems(3) [of a] Cons.prems(3) [of c] x n
    by (auto simp: map_find_Cons)
  then have [simp]: "c = a" by simp
  have [simp]: "d = b" using Cons.prems(3) [of a] x n by (simp add: map_find_Cons)
  have "map_find xs k = map_find ys k" for k
  proof (cases "k = a")
    case True
    have "map_find xs a = None" "map_find ys a = None"
      using Cons.prems(1,2) x n by (auto simp: map_sorted_Cons map_find_None_iff)
    with True show ?thesis by simp
  next
    case False
    then show ?thesis using Cons.prems(3) [of k] x n by (simp add: map_find_Cons)
  qed
  then have "xs = ys"
    using Cons.prems(1,2) Cons.IH [of ys] x n by (simp add: map_sorted_Cons)
  with x n show ?case by simp
qed

section \<open>The contract\<close>

locale ordered_map =
  fixes find :: "'m \<Rightarrow> 'k::linorder \<Rightarrow> 'v option"
    and emplace :: "'k \<Rightarrow> 'v \<Rightarrow> 'm \<Rightarrow> 'm \<times> bool"
    and adjust :: "'k \<Rightarrow> ('v \<Rightarrow> 'v) \<Rightarrow> 'm \<Rightarrow> 'm"
    and erase :: "'k \<Rightarrow> 'm \<Rightarrow> 'm"
    and invar :: "'m \<Rightarrow> bool"
  assumes find_emplace: "invar m \<Longrightarrow> find (fst (emplace k v m)) a =
      (if a = k \<and> find m k = None then Some v else find m a)"
    and emplace_reports: "snd (emplace k v m) = (find m k = None)"
    and find_adjust: "invar m \<Longrightarrow>
      find (adjust k f m) a = (if a = k then map_option f (find m a) else find m a)"
    and find_erase: "invar m \<Longrightarrow> find (erase k m) a = (if a = k then None else find m a)"
    and invar_emplace: "invar m \<Longrightarrow> invar (fst (emplace k v m))"
    and invar_adjust: "invar m \<Longrightarrow> invar (adjust k f m)"
    and invar_erase: "invar m \<Longrightarrow> invar (erase k m)"
    and extensional: "invar m \<Longrightarrow> invar n \<Longrightarrow> (\<And>k. find m k = find n k) \<Longrightarrow> m = n"
begin

lemma emplace_present: "invar m \<Longrightarrow> find m k = Some w \<Longrightarrow> emplace k v m = (m, False)"
  using extensional [of "fst (emplace k v m)" m] emplace_reports [of k v m]
  by (auto simp: find_emplace invar_emplace prod_eq_iff)

lemma erase_absent: "invar m \<Longrightarrow> find m k = None \<Longrightarrow> erase k m = m"
  by (rule extensional) (auto simp: find_erase invar_erase)

lemma erase_emplace:
  "invar m \<Longrightarrow> find m k = None \<Longrightarrow> erase k (fst (emplace k v m)) = m"
  by (rule extensional) (auto simp: find_erase find_emplace invar_emplace invar_erase)

lemma adjust_other: "invar m \<Longrightarrow> a \<noteq> k \<Longrightarrow> find (adjust k f m) a = find m a"
  by (simp add: find_adjust)

lemma adjust_twice: "invar m \<Longrightarrow> adjust k f (adjust k g m) = adjust k (f \<circ> g) m"
  by (rule extensional) (auto simp: find_adjust invar_adjust option.map_comp)

end

interpretation std_map: ordered_map map_find map_emplace map_adjust map_erase map_sorted
  by unfold_locales
    (auto simp: map_emplace_def map_find_insert map_find_adjust map_find_erase map_sorted_insert
      map_sorted_erase intro: map_find_ext)

end
