(* ===== verification/YMsg_ContactManager.thy ===== *)
theory YMsg_ContactManager
  imports Std_Map YMsg_Types
begin

text \<open>
  The contact list: \<open>ContactManager.h\<close> and \<open>src/ContactManager.cpp\<close>. The state is the
  \<open>std::map\<close> from contact id to \<open>ContactInfo\<close>. The operations are state transformers with
  the exceptions of the code; the lemmas give their effect on every lookup and show that
  each keeps the list well formed: ordered, and every entry filed under its own id.
\<close>

section \<open>ContactInfo\<close>

datatype ContactState = Linked | AddPendingState

record ContactInfo =
  ci_id :: string
  ci_group :: string
  ci_availability :: Availability
  ci_isBusy :: bool
  ci_customMessage :: string
  ci_idleUnknown :: string
  ci_state :: ContactState
  ci_isInChat :: bool

text \<open>
  No constructor sets \<open>isInChat\<close>: what is copied and sent later is whatever the memory holds,
  and by the letter of the language reading it means nothing. The model takes it as the
  argument \<open>junk\<close>, any value, so that what is proved holds whatever a compiler makes of the
  read; it is not an \<open>Undefined\<close> outcome. The first constructor has defaults for its last three arguments, which
  \<open>ContactInfo_default\<close> fills in. The second one takes the idle text as well.
\<close>

definition ContactInfo_new ::
  "bool \<Rightarrow> string \<Rightarrow> string \<Rightarrow> ContactState \<Rightarrow> Availability \<Rightarrow> bool \<Rightarrow> string \<Rightarrow> ContactInfo" where
  "ContactInfo_new junk ident grp state availability isBusy customMessage =
     \<lparr>ci_id = ident, ci_group = grp, ci_availability = availability, ci_isBusy = isBusy,
      ci_customMessage = customMessage, ci_idleUnknown = [], ci_state = state,
      ci_isInChat = junk\<rparr>"

definition ContactInfo_default :: "bool \<Rightarrow> string \<Rightarrow> string \<Rightarrow> ContactState \<Rightarrow> ContactInfo" where
  "ContactInfo_default junk ident grp state = ContactInfo_new junk ident grp state Offline False []"

definition ContactInfo_new_idle ::
  "bool \<Rightarrow> string \<Rightarrow> string \<Rightarrow> ContactState \<Rightarrow> string \<Rightarrow> Availability \<Rightarrow> bool \<Rightarrow> string \<Rightarrow> ContactInfo" where
  "ContactInfo_new_idle junk ident grp state idleUnknown availability isBusy customMessage =
     \<lparr>ci_id = ident, ci_group = grp, ci_availability = availability, ci_isBusy = isBusy,
      ci_customMessage = customMessage, ci_idleUnknown = idleUnknown, ci_state = state,
      ci_isInChat = junk\<rparr>"

definition IsOnline :: "ContactInfo \<Rightarrow> bool" where
  "IsOnline c = (ci_availability c \<noteq> Offline)"

section \<open>ContactManager\<close>

type_synonym contacts = "(string, ContactInfo) std_map"

definition LoadContact :: "ContactInfo \<Rightarrow> (contacts, unit) cpp" where
  "LoadContact contact cs =
     (case map_emplace (ci_id contact) contact cs of
        (cs', True) \<Rightarrow> (Inr (), cs')
      | (cs', False) \<Rightarrow> (Inl (Runtime_error ''Unable to insert contact''), cs'))"

definition FindContact :: "string \<Rightarrow> contacts \<Rightarrow> ContactInfo option" where
  "FindContact contactId cs = map_find cs contactId"

definition IsContact :: "string \<Rightarrow> contacts \<Rightarrow> bool" where
  "IsContact contactId cs = (FindContact contactId cs \<noteq> None)"

definition AddPendingContact :: "bool \<Rightarrow> string \<Rightarrow> string \<Rightarrow> (contacts, unit) cpp" where
  "AddPendingContact junk contactId grp cs =
     (let contactInfo = ContactInfo_default junk contactId grp AddPendingState in
      case map_emplace contactId contactInfo cs of
        (cs', True) \<Rightarrow> (Inr (), cs')
      | (cs', False) \<Rightarrow> (Inl (Runtime_error ''Unable to insert contact information''), cs'))"

definition SetContactAdded :: "string \<Rightarrow> string \<Rightarrow> (contacts, unit) cpp" where
  "SetContactAdded contactId grp = throw (Runtime_error ''Not implemented'')"

text \<open>\<open>erase\<close> of the end iterator is undefined; \<open>find\<close> gives it for an unknown contact.\<close>

definition ContactManager_RemoveContact :: "string \<Rightarrow> string \<Rightarrow> (contacts, unit) cpp" where
  "ContactManager_RemoveContact contactId grp cs =
     (case FindContact contactId cs of
        None \<Rightarrow> (Inl (Undefined ''erase of the end iterator''), cs)
      | Some _ \<Rightarrow> (Inr (), map_erase contactId cs))"

text \<open>
  When both names are equal the code constructs an \<open>invalid_argument\<close> and discards it; the
  loop runs in every case.
\<close>

definition ContactManager_RenameGroup :: "string \<Rightarrow> string \<Rightarrow> (contacts, unit) cpp" where
  "ContactManager_RenameGroup currentName newName =
     modify (map (\<lambda>(k, contact).
       (k, if ci_group contact = currentName then contact\<lparr>ci_group := newName\<rparr> else contact)))"

text \<open>
  The five setters find the contact, write to it and return a pointer to it, or the null
  pointer when it is not in the list.
\<close>

definition set_found ::
  "string \<Rightarrow> (ContactInfo \<Rightarrow> ContactInfo) \<Rightarrow> (contacts, ContactInfo option) cpp" where
  "set_found contactId f cs =
     (case FindContact contactId cs of
        None \<Rightarrow> (Inr None, cs)
      | Some contactInfo \<Rightarrow> (Inr (Some (f contactInfo)), map_adjust contactId f cs))"

definition SetContactAvailable :: "string \<Rightarrow> (contacts, ContactInfo option) cpp" where
  "SetContactAvailable contactId = set_found contactId (\<lambda>c. c\<lparr>ci_availability := Available\<rparr>)"

definition SetContactIdle ::
  "string \<Rightarrow> string \<Rightarrow> string \<Rightarrow> bool \<Rightarrow> (contacts, ContactInfo option) cpp" where
  "SetContactIdle contactId idleUnknown message isBusy =
     set_found contactId (\<lambda>c. c\<lparr>ci_idleUnknown := idleUnknown, ci_availability := Idle,
       ci_isBusy := isBusy, ci_customMessage := message\<rparr>)"

definition SetContactAway ::
  "string \<Rightarrow> Availability \<Rightarrow> bool \<Rightarrow> (contacts, ContactInfo option) cpp" where
  "SetContactAway contactId availability isBusy =
     set_found contactId (\<lambda>c. c\<lparr>ci_availability := availability, ci_isBusy := isBusy\<rparr>)"

definition SetContactStatusMessage ::
  "string \<Rightarrow> string \<Rightarrow> bool \<Rightarrow> (contacts, ContactInfo option) cpp" where
  "SetContactStatusMessage contactId message isBusy =
     set_found contactId (\<lambda>c. c\<lparr>ci_availability := Custom, ci_isBusy := isBusy,
       ci_customMessage := message\<rparr>)"

definition SetContactOffline :: "string \<Rightarrow> (contacts, ContactInfo option) cpp" where
  "SetContactOffline contactId = set_found contactId (\<lambda>c. c\<lparr>ci_availability := Offline\<rparr>)"

lemmas contact_setters = SetContactAvailable_def SetContactIdle_def SetContactAway_def
  SetContactStatusMessage_def SetContactOffline_def

section \<open>Well-formed contact lists\<close>

definition contacts_wf :: "contacts \<Rightarrow> bool" where
  "contacts_wf cs = (map_sorted cs \<and> (\<forall>(k, c) \<in> set cs. ci_id c = k))"

lemma contacts_wf_Nil [simp]: "contacts_wf []"
  by (simp add: contacts_wf_def)

lemma contacts_wf_sorted: "contacts_wf cs \<Longrightarrow> map_sorted cs"
  by (simp add: contacts_wf_def)

lemma contacts_wf_id: "contacts_wf cs \<Longrightarrow> map_find cs k = Some c \<Longrightarrow> ci_id c = k"
  by (auto simp: contacts_wf_def dest: map_find_Some_in)

lemma contacts_wf_insert: "contacts_wf cs \<Longrightarrow> contacts_wf (map_insert (ci_id c) c cs)"
  using set_map_insert [of "ci_id c" c cs]
  by (auto simp: contacts_wf_def map_sorted_insert)

lemma contacts_wf_erase: "contacts_wf cs \<Longrightarrow> contacts_wf (map_erase k cs)"
  by (auto simp: contacts_wf_def map_sorted_erase) (auto simp: map_erase_def)

lemma contacts_wf_adjust:
  "contacts_wf cs \<Longrightarrow> (\<And>c. ci_id (f c) = ci_id c) \<Longrightarrow> contacts_wf (map_adjust k f cs)"
  by (auto simp: contacts_wf_def) (auto simp: map_adjust_def split: if_splits)

lemma contacts_wf_map:
  "contacts_wf cs \<Longrightarrow> (\<And>c. ci_id (f c) = ci_id c) \<Longrightarrow>
   contacts_wf (map (\<lambda>(k, c). (k, f c)) cs)"
  by (auto simp: contacts_wf_def map_sorted_def comp_def split_beta)

section \<open>The effect of the operations\<close>

lemma wp_LoadContact [wp]:
  "wp (LoadContact c) Q E cs =
     (if map_find cs (ci_id c) = None then Q () (map_insert (ci_id c) c cs)
      else E (Runtime_error ''Unable to insert contact'') (map_insert (ci_id c) c cs))"
  by (auto simp: wp_def LoadContact_def map_emplace_def)

lemma wp_AddPendingContact [wp]:
  "wp (AddPendingContact junk i g) Q E cs =
     (let cs' = map_insert i (ContactInfo_default junk i g AddPendingState) cs
      in if map_find cs i = None then Q () cs'
         else E (Runtime_error ''Unable to insert contact information'') cs')"
  by (auto simp: wp_def AddPendingContact_def map_emplace_def Let_def)

lemma wp_RemoveContact [wp]:
  "wp (ContactManager_RemoveContact i g) Q E cs =
     (if IsContact i cs then Q () (map_erase i cs)
      else E (Undefined ''erase of the end iterator'') cs)"
  by (auto simp: wp_def ContactManager_RemoveContact_def IsContact_def split: option.split)

lemma wp_set_found [wp]:
  "wp (set_found i f) Q E cs =
     (case FindContact i cs of None \<Rightarrow> Q None cs | Some c \<Rightarrow> Q (Some (f c)) (map_adjust i f cs))"
  by (simp add: wp_def set_found_def split: option.split)

lemma wf_LoadContact [keeps_intros]: "keeps contacts_wf (LoadContact c)"
  by (rule keepsI) (simp add: wp contacts_wf_insert)

lemma wf_AddPendingContact [keeps_intros]: "keeps contacts_wf (AddPendingContact junk i g)"
  using contacts_wf_insert [of _ "ContactInfo_default junk i g AddPendingState"]
  by (intro keepsI) (simp add: wp Let_def ContactInfo_default_def ContactInfo_new_def)

lemma wf_RemoveContact [keeps_intros]: "keeps contacts_wf (ContactManager_RemoveContact i g)"
  by (rule keepsI) (simp add: wp contacts_wf_erase)

lemma wf_RenameGroup [keeps_intros]: "keeps contacts_wf (ContactManager_RenameGroup a b)"
  unfolding ContactManager_RenameGroup_def
  by (rule keeps_modify) (simp add: contacts_wf_map)

lemma wf_set_found:
  "(\<And>c. ci_id (f c) = ci_id c) \<Longrightarrow> keeps contacts_wf (set_found i f)"
  by (rule keepsI) (auto simp: wp contacts_wf_adjust split: option.split)

lemma wf_contact_setters [keeps_intros]:
  "keeps contacts_wf (SetContactAvailable i)"
  "keeps contacts_wf (SetContactIdle i u m b)"
  "keeps contacts_wf (SetContactAway i a b)"
  "keeps contacts_wf (SetContactStatusMessage i m b)"
  "keeps contacts_wf (SetContactOffline i)"
  by (simp_all add: contact_setters wf_set_found)

text \<open>What adding an entry and setting one mean for the map the list stands for.\<close>

definition adds_contact :: "ContactInfo \<Rightarrow> string \<Rightarrow> (contacts, unit) cpp \<Rightarrow> contacts \<Rightarrow> bool" where
  "adds_contact c message m cs =
     (if ci_id c \<in> dom (map_find cs) then m cs = (Inl (Runtime_error message), cs)
      else fst (m cs) = Inr () \<and> map_find (snd (m cs)) = (map_find cs)(ci_id c \<mapsto> c)
        \<and> contacts_wf (snd (m cs)))"

definition sets_contact ::
  "string \<Rightarrow> (ContactInfo \<Rightarrow> ContactInfo) \<Rightarrow> (contacts, ContactInfo option) cpp \<Rightarrow> contacts \<Rightarrow> bool" where
  "sets_contact contactId f m cs =
     (let result = map_option f (map_find cs contactId)
      in fst (m cs) = Inr result \<and> map_find (snd (m cs)) = (map_find cs)(contactId := result)
        \<and> contacts_wf (snd (m cs)))"

lemma adds_contactI:
  assumes "contacts_wf cs"
    and "m cs = (let cs' = map_insert (ci_id c) c cs
      in if map_find cs (ci_id c) = None then (Inr (), cs') else (Inl (Runtime_error message), cs'))"
  shows "adds_contact c message m cs"
proof -
  have taken: "map_insert (ci_id c) c cs = cs" if "map_find cs (ci_id c) = Some b" for b
    using std_map.emplace_present [OF contacts_wf_sorted [OF assms(1)] that, of c]
    by (simp add: map_emplace_def)
  show ?thesis
    using assms(2) taken map_find_insert [OF contacts_wf_sorted [OF assms(1)], of "ci_id c" c]
      contacts_wf_insert [OF assms(1)]
    by (auto simp: adds_contact_def Let_def domIff fun_eq_iff)
qed

lemma adds_contacts:
  assumes "contacts_wf cs"
  shows "adds_contact c ''Unable to insert contact'' (LoadContact c) cs"
    "adds_contact (ContactInfo_default junk i g AddPendingState)
       ''Unable to insert contact information'' (AddPendingContact junk i g) cs"
  by (rule adds_contactI [OF assms];
      simp add: LoadContact_def AddPendingContact_def map_emplace_def Let_def ContactInfo_default_def
        ContactInfo_new_def split: bool.split)+

lemma sets_contact_set_found:
  assumes "contacts_wf cs" "\<And>c. ci_id (f c) = ci_id c"
  shows "sets_contact i f (set_found i f) cs"
  using contacts_wf_adjust [OF assms] std_map.find_adjust [OF contacts_wf_sorted [OF assms(1)]]
  by (auto simp: sets_contact_def set_found_def FindContact_def fun_eq_iff assms(1) split: option.split)

lemma sets_contacts:
  assumes "contacts_wf cs"
  shows "sets_contact i (\<lambda>c. c\<lparr>ci_availability := Available\<rparr>) (SetContactAvailable i) cs"
    "sets_contact i (\<lambda>c. c\<lparr>ci_idleUnknown := u, ci_availability := Idle, ci_isBusy := busy,
       ci_customMessage := m\<rparr>) (SetContactIdle i u m busy) cs"
    "sets_contact i (\<lambda>c. c\<lparr>ci_availability := v, ci_isBusy := busy\<rparr>) (SetContactAway i v busy) cs"
    "sets_contact i (\<lambda>c. c\<lparr>ci_availability := Custom, ci_isBusy := busy, ci_customMessage := m\<rparr>)
       (SetContactStatusMessage i m busy) cs"
    "sets_contact i (\<lambda>c. c\<lparr>ci_availability := Offline\<rparr>) (SetContactOffline i) cs"
  by (simp_all add: contact_setters sets_contact_set_found [OF assms])

text \<open>Renaming a group moves exactly its contacts and changes nothing else.\<close>

definition rename_group :: "string \<Rightarrow> string \<Rightarrow> contacts \<Rightarrow> contacts" where
  "rename_group a b cs =
     map (\<lambda>(k, c). (k, if ci_group c = a then c\<lparr>ci_group := b\<rparr> else c)) cs"

lemma wp_ContactManager_RenameGroup [wp]:
  "wp (ContactManager_RenameGroup a b) Q E cs = Q () (rename_group a b cs)"
  by (simp add: ContactManager_RenameGroup_def wp rename_group_def)

lemma map_find_rename_group:
  "map_find (rename_group a b cs) k =
     map_option (\<lambda>c. if ci_group c = a then c\<lparr>ci_group := b\<rparr> else c) (map_find cs k)"
proof (induction cs)
  case (Cons x cs)
  obtain a' c where x: "x = (a', c)" by (cases x)
  show ?case
  proof (cases "k = a'")
    case True
    then show ?thesis by (simp add: x rename_group_def map_find_def)
  next
    case False
    then show ?thesis using Cons by (simp add: x rename_group_def map_find_def)
  qed
qed (simp add: rename_group_def)

lemma contacts_wf_rename_group: "contacts_wf cs \<Longrightarrow> contacts_wf (rename_group a b cs)"
  unfolding rename_group_def by (rule contacts_wf_map) auto

lemma ContactInfo_group_same: "c\<lparr>ci_group := ci_group c\<rparr> = (c :: ContactInfo)"
  by simp

lemma rename_group_same [simp]: "rename_group a a cs = cs"
  unfolding rename_group_def
proof (rule map_idI)
  fix x assume "x \<in> set cs"
  obtain k c where x: "x = (k, c)" by (cases x)
  have "(if ci_group c = a then c\<lparr>ci_group := a\<rparr> else c) = c"
    by (cases "ci_group c = a") (use ContactInfo_group_same [of c] in auto)
  then show "(case x of (k, c) \<Rightarrow> (k, if ci_group c = a then c\<lparr>ci_group := a\<rparr> else c)) = x"
    by (simp add: x)
qed

lemma rename_group_back:
  assumes "\<forall>(k, c) \<in> set cs. ci_group c \<noteq> b"
  shows "rename_group b a (rename_group a b cs) = cs"
  using assms
proof (induction cs)
  case (Cons x cs)
  obtain k c where x: "x = (k, c)" by (cases x)
  have "c\<lparr>ci_group := b\<rparr>\<lparr>ci_group := a\<rparr> = c" if "ci_group c = a"
    using that by (cases c) simp
  then show ?case using Cons x by (simp add: rename_group_def)
qed (simp add: rename_group_def)

end
