(* ===== verification/YMsg_Managers.thy ===== *)
theory YMsg_Managers
  imports YMsg_Types
begin

text \<open>
  The three small managers: blocked contacts (\<open>BlockedContactManager.h\<close> and \<open>.cpp\<close>), the
  profiles of the client (\<open>ProfileManager.h\<close> and \<open>.cpp\<close>) and its presence
  (\<open>PresenceManager.h\<close> and \<open>.cpp\<close>). The blocked list is a vector the code uses as a set;
  the locale \<open>set_like\<close> is that contract, interpreted on the vector.
\<close>

section \<open>BlockedContactManager\<close>

definition Blocked_Load :: "string list \<Rightarrow> string list \<Rightarrow> string list" where
  "Blocked_Load blockedContacts bs = blockedContacts"

definition IsBlocked :: "string \<Rightarrow> string list \<Rightarrow> bool" where
  "IsBlocked contactId bs = (List.find (\<lambda>b. b = contactId) bs \<noteq> None)"

definition Blocked_Add :: "string \<Rightarrow> string list \<Rightarrow> string list" where
  "Blocked_Add contactId bs =
     (if List.find (\<lambda>b. b = contactId) bs = None then bs @ [contactId] else bs)"

text \<open>\<open>erase\<close> of the first match.\<close>

definition Blocked_Remove :: "string \<Rightarrow> string list \<Rightarrow> string list" where
  "Blocked_Remove contactId bs =
     (if List.find (\<lambda>b. b = contactId) bs \<noteq> None then remove1 contactId bs else bs)"

locale set_like =
  fixes member :: "'a \<Rightarrow> 'c \<Rightarrow> bool"
    and add :: "'a \<Rightarrow> 'c \<Rightarrow> 'c"
    and remove :: "'a \<Rightarrow> 'c \<Rightarrow> 'c"
    and abs :: "'c \<Rightarrow> 'a set"
    and invar :: "'c \<Rightarrow> bool"
  assumes member_abs: "member x c = (x \<in> abs c)"
    and abs_add: "abs (add x c) = insert x (abs c)"
    and abs_remove: "invar c \<Longrightarrow> abs (remove x c) = abs c - {x}"
    and invar_add: "invar c \<Longrightarrow> invar (add x c)"
    and invar_remove: "invar c \<Longrightarrow> invar (remove x c)"
    and add_present: "x \<in> abs c \<Longrightarrow> add x c = c"
begin

lemma member_add: "member y (add x c) = (y = x \<or> member y c)"
  by (simp add: member_abs abs_add)

lemma member_remove: "invar c \<Longrightarrow> member y (remove x c) = (y \<noteq> x \<and> member y c)"
  by (auto simp: member_abs abs_remove)

lemma add_twice: "add x (add x c) = add x c"
  by (rule add_present) (simp add: abs_add)

lemma remove_add: "invar c \<Longrightarrow> x \<notin> abs c \<Longrightarrow> abs (remove x (add x c)) = abs c"
  by (simp add: abs_remove invar_add abs_add)

end

lemma find_None: "List.find (\<lambda>b. b = x) bs = None \<longleftrightarrow> x \<notin> set bs"
  by (auto simp: find_None_iff)

interpretation blocked: set_like IsBlocked Blocked_Add Blocked_Remove set distinct
  by unfold_locales (auto simp: IsBlocked_def Blocked_Add_def Blocked_Remove_def find_None)

section \<open>ProfileManager\<close>

record ProfileManager =
  pm_clientId :: string
  pm_profiles :: "string list"

definition Profile_Load :: "string \<Rightarrow> string list \<Rightarrow> ProfileManager \<Rightarrow> ProfileManager" where
  "Profile_Load clientId profiles p = p\<lparr>pm_clientId := clientId, pm_profiles := profiles\<rparr>"

definition GetClientId :: "ProfileManager \<Rightarrow> string" where
  "GetClientId p = pm_clientId p"

definition IsProfileId :: "string \<Rightarrow> ProfileManager \<Rightarrow> bool" where
  "IsProfileId ident p = (List.find (\<lambda>b. b = ident) (pm_profiles p) \<noteq> None)"

definition IsClientOrProfileId :: "string \<Rightarrow> ProfileManager \<Rightarrow> bool" where
  "IsClientOrProfileId ident p = (ident = GetClientId p \<or> IsProfileId ident p)"

lemma IsClientOrProfileId_iff:
  "IsClientOrProfileId i p \<longleftrightarrow> i = pm_clientId p \<or> i \<in> set (pm_profiles p)"
  by (auto simp: IsClientOrProfileId_def IsProfileId_def GetClientId_def find_None_iff)

section \<open>PresenceProperties\<close>

record PresenceProperties =
  pp_availability :: Availability
  pp_busy :: bool
  pp_message :: string

definition PresenceProperties_new :: "Availability \<Rightarrow> PresenceProperties" where
  "PresenceProperties_new initialAvailability =
     \<lparr>pp_availability = initialAvailability, pp_busy = False, pp_message = []\<rparr>"

definition Presence_SetAvailable :: "PresenceProperties \<Rightarrow> PresenceProperties" where
  "Presence_SetAvailable p =
     p\<lparr>pp_availability := Available, pp_busy := False, pp_message := []\<rparr>"

definition Presence_SetCustomStatus :: "string \<Rightarrow> bool \<Rightarrow> PresenceProperties \<Rightarrow> PresenceProperties" where
  "Presence_SetCustomStatus message isBusy p =
     p\<lparr>pp_availability := Custom, pp_busy := isBusy, pp_message := message\<rparr>"

definition Presence_SetIdle ::
  "string \<Rightarrow> bool \<Rightarrow> string \<Rightarrow> PresenceProperties \<Rightarrow> PresenceProperties" where
  "Presence_SetIdle message isBusy idleUnknown p =
     p\<lparr>pp_availability := Idle, pp_busy := isBusy, pp_message := message\<rparr>"

definition Presence_SetAway :: "Availability \<Rightarrow> bool \<Rightarrow> PresenceProperties \<Rightarrow> PresenceProperties" where
  "Presence_SetAway availability isBusy p =
     p\<lparr>pp_availability := availability, pp_busy := isBusy, pp_message := []\<rparr>"

definition Presence_SetInvisible :: "PresenceProperties \<Rightarrow> PresenceProperties" where
  "Presence_SetInvisible p =
     p\<lparr>pp_availability := Invisible, pp_busy := False, pp_message := []\<rparr>"

end
