(* ===== verification/YMsg_ServerBuilders.thy ===== *)
theory YMsg_ServerBuilders
  imports YMsg_Builder YMsg_ContactManager YMsg_Managers
begin

text \<open>
  The packets the server builds: the headers of \<open>Server/Builders/\<close> and
  \<open>src/Server/Builders/ClientProfile.cpp\<close>. Every \<open>Build\<close> function initializes the buffer for
  its service and attribute and appends fields in a fixed order, so it is given here as
  \<open>Build service attribute fields\<close>. Keys are the numbers of the class's \<open>Keys\<close>. The one
  builder with an algorithm of its own is \<open>ClientProfile\<close>; the lemmas at the end show that
  its contact list field can be decoded back to the contact list.
\<close>

section \<open>Contacts\<close>

definition AddContactRequest_Build ::
  "string \<Rightarrow> string \<Rightarrow> string \<Rightarrow> int \<Rightarrow> ClientConnection \<Rightarrow> exn + string" where
  "AddContactRequest_Build clientId contactId message timestamp =
     Build 15 3 [(1, contactId), (3, clientId), (14, message), (15, to_string timestamp)]"

definition AddContactRequestResult_Build ::
  "string \<Rightarrow> string \<Rightarrow> string \<Rightarrow> AddContactRequestResultStatus \<Rightarrow> ClientConnection \<Rightarrow> exn + string"
where
  "AddContactRequestResult_Build clientId contactId contactGroup status =
     Build 131 1 [(1, contactId), (7, clientId), (65, contactGroup),
       (66, to_string (AddContactRequestResultStatus_value status))]"

definition DenyContactAddRequest_Build ::
  "string \<Rightarrow> string \<Rightarrow> string \<Rightarrow> ClientConnection \<Rightarrow> exn + string" where
  "DenyContactAddRequest_Build clientId contactId message =
     Build 15 7 [(1, contactId), (3, clientId), (14, message)]"

definition ContactRemoved_Build ::
  "string \<Rightarrow> string \<Rightarrow> string \<Rightarrow> RemoveContactStatus \<Rightarrow> ClientConnection \<Rightarrow> exn + string" where
  "ContactRemoved_Build clientId contactId grp status =
     Build 132 1 [(1, clientId), (66, to_string (RemoveContactStatus_value status)),
       (7, contactId), (65, grp)]"

definition ContactGroupRenamed_Build ::
  "string \<Rightarrow> string \<Rightarrow> string \<Rightarrow> ClientConnection \<Rightarrow> exn + string" where
  "ContactGroupRenamed_Build clientId oldGroupName newGroupName =
     Build 137 1 [(1, clientId), (66, ''0''), (67, newGroupName), (65, oldGroupName)]"

definition ContactBlockedOrUnblocked_Build ::
  "string \<Rightarrow> string \<Rightarrow> ContactBlockedStatus \<Rightarrow> ContactBlockedFailedReason \<Rightarrow>
   ClientConnection \<Rightarrow> exn + string" where
  "ContactBlockedOrUnblocked_Build clientId contactId status reason =
     Build 133 1 [(1, clientId), (5, contactId), (4, to_string (ContactBlockedStatus_value status)),
       (66, if reason = BlockedFailed_None then '' ''
            else to_string (ContactBlockedFailedReason_value reason))]"

definition ContactBlocked_Build :: "string \<Rightarrow> string \<Rightarrow> ClientConnection \<Rightarrow> exn + string" where
  "ContactBlocked_Build clientId contactId =
     ContactBlockedOrUnblocked_Build clientId contactId ContactBlockedStatus_Blocked
       BlockedFailed_None"

definition ContactUnblocked_Build :: "string \<Rightarrow> string \<Rightarrow> ClientConnection \<Rightarrow> exn + string" where
  "ContactUnblocked_Build clientId contactId =
     ContactBlockedOrUnblocked_Build clientId contactId ContactBlockedStatus_Unblocked
       BlockedFailed_None"

definition ContactNotBlocked_Build ::
  "string \<Rightarrow> string \<Rightarrow> ContactBlockedFailedReason \<Rightarrow> ClientConnection \<Rightarrow> exn + string" where
  "ContactNotBlocked_Build clientId contactId reason connection =
     (if reason = BlockedFailed_None then Inl (Invalid_argument ''reason cannot be None'')
      else ContactBlockedOrUnblocked_Build clientId contactId ContactBlockedStatus_Blocked reason
             connection)"

section \<open>Presence of contacts\<close>

definition ContactOffline_Build :: "string \<Rightarrow> ClientConnection \<Rightarrow> exn + string" where
  "ContactOffline_Build contactId =
     Build 2 1 [(10, ''0''), (13, ''0''), (47, ''2''), (7, contactId)]"

definition bool_to_string :: "bool \<Rightarrow> string" where
  "bool_to_string b = (if b then ''1'' else ''0'')"

definition AppendContact :: "ContactInfo \<Rightarrow> (int \<times> string) list" where
  "AppendContact contact =
     [(7, ci_id contact), (10, to_string (Availability_value (ci_availability contact)))]
     @ (if ci_idleUnknown contact \<noteq> [] then [(138, ci_idleUnknown contact)] else [])
     @ (if ci_availability contact = Idle then [(137, ''0'')] else [])
     @ [(17, bool_to_string (ci_isInChat contact))]
     @ (if ci_availability contact = Custom then [(19, ci_customMessage contact)] else [])
     @ [(47, bool_to_string (ci_isBusy contact)), (13, ''1'')]"

definition AppendContacts :: "ContactInfo list \<Rightarrow> (int \<times> string) list" where
  "AppendContacts cs = (8, to_string (int (length cs))) # concat (map AppendContact cs)"

definition UpdateContactStatus_Build :: "ContactInfo \<Rightarrow> ClientConnection \<Rightarrow> exn + string" where
  "UpdateContactStatus_Build contact = Build 1 1 ((8, to_string 1) # AppendContact contact)"

definition SetContactStatus_Build ::
  "string \<Rightarrow> ContactInfo list \<Rightarrow> ClientConnection \<Rightarrow> exn + string" where
  "SetContactStatus_Build clientId cs =
     Build 1 0 ([(0, clientId), (1, clientId)] @ AppendContacts cs)"

definition SetContactStatus_Build_one ::
  "string \<Rightarrow> ContactInfo \<Rightarrow> ClientConnection \<Rightarrow> exn + string" where
  "SetContactStatus_Build_one clientId contact =
     Build 1 0 ([(0, clientId), (1, clientId)] @ AppendContact contact)"

section \<open>Authentication\<close>

definition ProtocolAck_Build :: "ClientConnection \<Rightarrow> exn + string" where
  "ProtocolAck_Build = Build 76 0 []"

definition ChallengeResponse_Build_InApp ::
  "string \<Rightarrow> string \<Rightarrow> ClientConnection \<Rightarrow> exn + string" where
  "ChallengeResponse_Build_InApp clientId challenge =
     Build 87 1 [(1, clientId), (94, challenge),
       (13, to_string (AuthenticationMethod_value AuthenticationMethod_InApp))]"

definition ChallengeResponse_Build_None :: "string \<Rightarrow> ClientConnection \<Rightarrow> exn + string" where
  "ChallengeResponse_Build_None clientId =
     Build 87 1 [(1, clientId),
       (13, to_string (AuthenticationMethod_value AuthenticationMethod_None))]"

definition PingConfiguration_Build :: "ClientConnection \<Rightarrow> exn + string" where
  "PingConfiguration_Build = Build 18 0 [(143, ''60''), (144, ''13'')]"

definition ProfileActivated_Build :: "string \<Rightarrow> ClientConnection \<Rightarrow> exn + string" where
  "ProfileActivated_Build profileId = Build 7 1 [(3, profileId)]"

definition ProfileDeactivated_Build :: "string \<Rightarrow> ClientConnection \<Rightarrow> exn + string" where
  "ProfileDeactivated_Build profileId = Build 8 1 [(3, profileId)]"

section \<open>Messages\<close>

definition PrivateMessage_Build ::
  "string \<Rightarrow> string \<Rightarrow> string \<Rightarrow> TextEncoding \<Rightarrow> ClientConnection \<Rightarrow> exn + string" where
  "PrivateMessage_Build clientId contactId message encoding =
     Build 6 1 [(1, clientId), (5, contactId), (4, clientId), (14, message),
       (97, to_string (TextEncoding_value encoding))]"

definition PrivateMessageError_Build ::
  "string \<Rightarrow> string \<Rightarrow> string \<Rightarrow> TextEncoding \<Rightarrow> ClientConnection \<Rightarrow> exn + string" where
  "PrivateMessageError_Build clientId contactId message encoding =
     Build 6 0xffffffff [(1, contactId), (5, clientId), (4, contactId), (16, message),
       (97, to_string (TextEncoding_value encoding))]"

definition OfflineMessage_Build ::
  "string \<Rightarrow> string \<Rightarrow> string \<Rightarrow> TextEncoding \<Rightarrow> ClientConnection \<Rightarrow> exn + string" where
  "OfflineMessage_Build clientId contactId message encoding =
     Build 6 5 [(31, ''6''), (32, ''6''), (1, contactId), (5, clientId), (4, contactId),
       (14, message), (97, to_string (TextEncoding_value encoding))]"

definition SystemMessage_Build :: "string \<Rightarrow> int \<Rightarrow> ClientConnection \<Rightarrow> exn + string" where
  "SystemMessage_Build message timestamp =
     Build 20 1 [(14, message), (15, to_string timestamp)]"

definition TypingNotification_Build ::
  "string \<Rightarrow> string \<Rightarrow> TypingStatus \<Rightarrow> ClientConnection \<Rightarrow> exn + string" where
  "TypingNotification_Build clientId contactId status =
     Build 75 1 [(49, ''TYPING''), (5, clientId), (4, contactId), (14, '' ''),
       (13, to_string (TypingStatus_value status))]"

definition NewMailNotification_Build_count :: "nat \<Rightarrow> ClientConnection \<Rightarrow> exn + string" where
  "NewMailNotification_Build_count n = Build 11 1 [(9, to_string (int n))]"

definition NewMailNotification_Build ::
  "string \<Rightarrow> string \<Rightarrow> string \<Rightarrow> ClientConnection \<Rightarrow> exn + string" where
  "NewMailNotification_Build address name subject =
     Build 11 1 [(9, to_string 1), (43, name), (42, address), (18, subject)]"

definition YahooAlert_Build ::
  "string \<Rightarrow> string \<Rightarrow> string \<Rightarrow> string \<Rightarrow> string \<Rightarrow> string \<Rightarrow> ClientConnection \<Rightarrow> exn + string"
where
  "YahooAlert_Build clientId publisher url articleMeta title content =
     Build 300 1 [(5, clientId), (132, url), (4, publisher), (14, articleMeta), (83, title),
       (20, content)]"

section \<open>Chat\<close>

definition ChatLoginResponse_Build :: "string \<Rightarrow> ClientConnection \<Rightarrow> exn + string" where
  "ChatLoginResponse_Build clientId = Build 150 1 [(1, clientId)]"

definition ChatroomJoined_Build ::
  "string \<Rightarrow> string \<Rightarrow> string \<Rightarrow> string \<Rightarrow> string \<Rightarrow> string list \<Rightarrow>
   ClientConnection \<Rightarrow> exn + string" where
  "ChatroomJoined_Build category roomName topic voiceCookie otherCookie participants =
     Build 152 1
       ([(104, roomName), (105, topic), (128, category),
         (108, to_string (int (length participants))), (129, ''0''), (130, voiceCookie),
         (126, ''0''), (13, ''1''), (61, otherCookie)]
        @ map (\<lambda>participant. (109, participant)) participants)"

section \<open>ClientProfile\<close>

text \<open>\<open>contactList[group].push_back(id)\<close> for every contact, in the order of the list.\<close>

definition group_contact ::
  "(string, string list) std_map \<Rightarrow> string \<times> ContactInfo \<Rightarrow> (string, string list) std_map" where
  "group_contact contactList contact =
     map_adjust (ci_group (snd contact)) (\<lambda>ids. ids @ [ci_id (snd contact)])
       (map_insert (ci_group (snd contact)) [] contactList)"

definition group_contacts :: "contacts \<Rightarrow> (string, string list) std_map" where
  "group_contacts cs = foldl group_contact [] cs"

definition profileNamesString :: "string \<Rightarrow> string list \<Rightarrow> string" where
  "profileNamesString clientId profileNames =
     foldl (\<lambda>s profileName. s @ '','' @ profileName) clientId profileNames"

text \<open>Every name followed by a comma, and \<open>pop_back\<close> of the last comma.\<close>

definition comma_list :: "string list \<Rightarrow> string" where
  "comma_list names =
     (if names = [] then [] else butlast (foldl (\<lambda>s name. s @ name @ '','') [] names))"

definition contactListString :: "(string, string list) std_map \<Rightarrow> string" where
  "contactListString contactList =
     foldl (\<lambda>s (grp, ids). s @ grp @ '':'' @ comma_list ids @ [CHR 0x0A]) [] contactList"

definition ignoreListString :: "string list \<Rightarrow> string" where
  "ignoreListString ignoreList = comma_list ignoreList"

definition ClientProfile_fields ::
  "string \<Rightarrow> (string, string list) std_map \<Rightarrow> string list \<Rightarrow> string list \<Rightarrow> (int \<times> string) list" where
  "ClientProfile_fields clientId contactList profileNames ignoreList =
     [(87, contactListString contactList), (88, ignoreListString ignoreList),
      (89, profileNamesString clientId profileNames), (59, []), (59, []), (59, []),
      (90, ''0''), (3, clientId), (100, ''0''), (101, []), (102, []), (93, ''1440''),
      (149, ''zyeAQ1BXFCy3bxoFj6jgTg--''), (150, ''78zL3ked8mbTjdBp8tCDCw--''),
      (151, ''u301TRymraydeTDywSe_7Q--'')]"

definition ClientProfile_Build_lists ::
  "string \<Rightarrow> (string, string list) std_map \<Rightarrow> string list \<Rightarrow> string list \<Rightarrow>
   ClientConnection \<Rightarrow> exn + string" where
  "ClientProfile_Build_lists clientId contactList profileNames ignoreList =
     Build 85 0 (ClientProfile_fields clientId contactList profileNames ignoreList)"

definition ClientProfile_Build ::
  "string \<Rightarrow> ProfileManager \<Rightarrow> contacts \<Rightarrow> string list \<Rightarrow> ClientConnection \<Rightarrow> exn + string" where
  "ClientProfile_Build clientId profileManager contactManager blockedContactManager =
     ClientProfile_Build_lists clientId (group_contacts contactManager)
       (pm_profiles profileManager) blockedContactManager"

section \<open>The groups of a contact list\<close>

definition group_ids :: "string \<Rightarrow> contacts \<Rightarrow> string list" where
  "group_ids grp cs = map (\<lambda>(k, c). ci_id c) (filter (\<lambda>(k, c). ci_group c = grp) cs)"

lemma group_ids_simps [simp]:
  "group_ids g [] = []"
  "group_ids g ((k, c) # cs) = (if ci_group c = g then [ci_id c] else []) @ group_ids g cs"
  by (simp_all add: group_ids_def)

lemma map_sorted_group_contact: "map_sorted m \<Longrightarrow> map_sorted (group_contact m x)"
  by (simp add: group_contact_def map_sorted_insert)

lemma map_find_group_contact:
  "map_sorted m \<Longrightarrow> map_find (group_contact m (k, c)) g =
     (if g = ci_group c
      then Some ((case map_find m g of None \<Rightarrow> [] | Some ids \<Rightarrow> ids) @ [ci_id c])
      else map_find m g)"
  by (auto simp: group_contact_def map_find_adjust map_find_insert split: option.split)

lemma foldl_group_contact:
  "map_sorted m \<Longrightarrow> map_sorted (foldl group_contact m cs) \<and>
   map_find (foldl group_contact m cs) g =
     (let ids = (case map_find m g of None \<Rightarrow> [] | Some ids \<Rightarrow> ids) @ group_ids g cs
      in if map_find m g = None \<and> group_ids g cs = [] then None else Some ids)"
proof (induction cs arbitrary: m)
  case Nil
  then show ?case by (auto split: option.split)
next
  case (Cons x cs)
  obtain k c where x: "x = (k, c)" by (cases x)
  have "map_sorted (group_contact m (k, c))" using Cons.prems by (rule map_sorted_group_contact)
  from Cons.IH [OF this] show ?case
    using Cons.prems by (auto simp: x map_find_group_contact Let_def split: option.split)
qed

lemma group_contacts_sorted: "map_sorted (group_contacts cs)"
  using foldl_group_contact [of "[]" cs] by (simp add: group_contacts_def)

lemma map_find_group_contacts:
  "map_find (group_contacts cs) g = (if group_ids g cs = [] then None else Some (group_ids g cs))"
  using foldl_group_contact [of "[]" cs g] by (simp add: group_contacts_def)

section \<open>Decoding the contact list field\<close>

text \<open>
  What a client does with the field, following the comment at its key: lines end with a
  newline, a line is a group name, a colon and the ids separated by commas.
\<close>

fun split_at_char :: "char \<Rightarrow> string \<Rightarrow> string list" where
  "split_at_char c [] = [[]]"
| "split_at_char c (x # xs) =
     (if x = c then [] # split_at_char c xs
      else (case split_at_char c xs of [] \<Rightarrow> [[x]] | w # ws \<Rightarrow> (x # w) # ws))"

definition decode_line :: "string \<Rightarrow> string \<times> string list" where
  "decode_line l =
     (takeWhile (\<lambda>c. c \<noteq> CHR '':'') l, split_at_char CHR '','' (tl (dropWhile (\<lambda>c. c \<noteq> CHR '':'') l)))"

definition decode_contact_list :: "string \<Rightarrow> (string \<times> string list) list" where
  "decode_contact_list s = map decode_line (butlast (split_at_char (CHR 0x0A) s))"

lemma split_at_char_nonempty [simp]: "split_at_char c s \<noteq> []"
  by (induction s) (auto split: list.split)

lemma split_at_char_clean: "c \<notin> set w \<Longrightarrow> split_at_char c w = [w]"
  by (induction w) auto

lemma split_at_char_append:
  "c \<notin> set w \<Longrightarrow> split_at_char c (w @ c # s) = w # split_at_char c s"
  by (induction w) auto

lemma split_at_char_lines:
  "(\<And>l. l \<in> set ls \<Longrightarrow> c \<notin> set l) \<Longrightarrow>
   split_at_char c (concat (map (\<lambda>l. l @ [c]) ls)) = ls @ [[]]"
  by (induction ls) (auto simp: split_at_char_append)

lemma foldl_append: "foldl (\<lambda>s x. s @ f x) s0 xs = s0 @ concat (map f xs)"
  by (induction xs arbitrary: s0) auto

lemma comma_list_Cons:
  "comma_list (x # xs) = x @ concat (map (\<lambda>y. CHR '','' # y) xs)"
proof -
  have "butlast (concat (map (\<lambda>n. n @ '','') (x # xs))) = x @ concat (map (\<lambda>y. CHR '','' # y) xs)"
    by (induction xs arbitrary: x) (auto simp: butlast_append)
  then show ?thesis using foldl_append [of "\<lambda>n. n @ '',''" "[]" "x # xs"] by (simp add: comma_list_def)
qed

lemma split_comma_list:
  "names \<noteq> [] \<Longrightarrow> (\<And>n. n \<in> set names \<Longrightarrow> CHR '','' \<notin> set n) \<Longrightarrow>
   split_at_char CHR '','' (comma_list names) = names"
proof (induction names)
  case (Cons x xs)
  show ?case
  proof (cases xs)
    case Nil
    then show ?thesis using Cons.prems by (simp add: comma_list_Cons split_at_char_clean)
  next
    case (Cons y ys)
    then have "comma_list (x # xs) = x @ CHR '','' # comma_list xs" by (simp add: comma_list_Cons)
    then show ?thesis using Cons.IH Cons.prems Cons by (simp add: split_at_char_append)
  qed
qed simp

lemma set_comma_list: "set (comma_list names) \<subseteq> insert CHR '','' (\<Union> (set ` set names))"
  by (cases names) (auto simp: comma_list_Cons comma_list_def [of "[]"])

lemma contactListString_lines:
  "contactListString m = concat (map (\<lambda>l. l @ [CHR 0x0A]) (map (\<lambda>(g, ids). g @ '':'' @ comma_list ids) m))"
  using foldl_append [of "\<lambda>(g, ids). g @ '':'' @ comma_list ids @ [CHR 0x0A]" "[]" m]
  by (simp add: contactListString_def split_def comp_def)

text \<open>Names that hold none of the separators, and at least one id to a group.\<close>

definition listable :: "(string \<times> string list) list \<Rightarrow> bool" where
  "listable m = (\<forall>(g, ids) \<in> set m. CHR 0x0A \<notin> set g \<and> CHR '':'' \<notin> set g \<and> ids \<noteq> []
     \<and> (\<forall>i \<in> set ids. CHR 0x0A \<notin> set i \<and> CHR '','' \<notin> set i))"

lemma decode_contactListString:
  assumes "listable m"
  shows "decode_contact_list (contactListString m) = m"
proof -
  let ?line = "\<lambda>(g, ids). g @ '':'' @ comma_list ids"
  have "CHR 0x0A \<notin> set l" if "l \<in> set (map ?line m)" for l
    using that assms set_comma_list by (fastforce simp: listable_def)
  then have "split_at_char (CHR 0x0A) (contactListString m) = map ?line m @ [[]]"
    unfolding contactListString_lines by (rule split_at_char_lines)
  then have "decode_contact_list (contactListString m) = map (decode_line \<circ> ?line) m"
    by (simp add: decode_contact_list_def)
  also have "\<dots> = m"
  proof (rule map_idI)
    fix x assume x: "x \<in> set m"
    obtain g ids where [simp]: "x = (g, ids)" by (cases x)
    have g: "\<And>c. c \<in> set g \<Longrightarrow> c \<noteq> CHR '':''" and i: "ids \<noteq> []"
      and cm: "\<And>n. n \<in> set ids \<Longrightarrow> CHR '','' \<notin> set n"
      using x assms by (auto simp: listable_def)
    show "(decode_line \<circ> ?line) x = x"
      using g split_comma_list [OF i cm]
      by (simp add: decode_line_def takeWhile_append2 dropWhile_append2)
  qed
  finally show ?thesis .
qed

end
