(* ===== verification/YMsg_Session.thy ===== *)
theory YMsg_Session
  imports YMsg_ServerBuilders
begin

text \<open>
  The state of one logged-in client and what \<open>SessionContext.h\<close> and \<open>src/SessionContext.cpp\<close>
  do with it. The managers are separate objects that the session, the links and the event
  classes reach through shared pointers; they are all the same four objects and the same
  connection, so the state is one record and an object is reached with \<open>zoom\<close>.
\<close>

record session =
  s_connection :: ClientConnection
  s_blocked :: "string list"
  s_profiles :: ProfileManager
  s_contacts :: contacts
  s_presence :: PresenceProperties

abbreviation on_connection :: "(ClientConnection, 'a) cpp \<Rightarrow> (session, 'a) cpp" where
  "on_connection \<equiv> zoom s_connection (\<lambda>t s. s\<lparr>s_connection := t\<rparr>)"

abbreviation on_blocked :: "(string list, 'a) cpp \<Rightarrow> (session, 'a) cpp" where
  "on_blocked \<equiv> zoom s_blocked (\<lambda>t s. s\<lparr>s_blocked := t\<rparr>)"

abbreviation on_contacts :: "(contacts, 'a) cpp \<Rightarrow> (session, 'a) cpp" where
  "on_contacts \<equiv> zoom s_contacts (\<lambda>t s. s\<lparr>s_contacts := t\<rparr>)"

abbreviation on_presence :: "(PresenceProperties, 'a) cpp \<Rightarrow> (session, 'a) cpp" where
  "on_presence \<equiv> zoom s_presence (\<lambda>t s. s\<lparr>s_presence := t\<rparr>)"

text \<open>\<open>builder.Build(*connection_, ...); builder.Send(*connection_);\<close>\<close>

definition send :: "(ClientConnection \<Rightarrow> exn + string) \<Rightarrow> (session, unit) cpp" where
  "send build = on_connection (build_and_send build)"

definition RequestClientProfile :: "(session, unit) cpp" where
  "RequestClientProfile =
     and_then (get_state (\<lambda>s. ClientProfile_Build (GetClientId (s_profiles s)) (s_profiles s)
       (s_contacts s) (s_blocked s))) send"

definition onlineContacts :: "contacts \<Rightarrow> ContactInfo list" where
  "onlineContacts cs = filter IsOnline (map snd cs)"

text \<open>The first packet of \<open>BeginSession\<close> is built as \<open>RequestClientProfile\<close> builds it.\<close>

definition BeginSession :: "(session, unit) cpp" where
  "BeginSession =
     and_then (get_state (\<lambda>s. ClientProfile_Build (GetClientId (s_profiles s)) (s_profiles s)
       (s_contacts s) (s_blocked s)))
     (\<lambda>clientProfile. and_then (send clientProfile)
     (\<lambda>_. and_then (get_state (\<lambda>s. SetContactStatus_Build (GetClientId (s_profiles s))
       (onlineContacts (s_contacts s))))
     (\<lambda>contactOnline. and_then (send contactOnline)
     (\<lambda>_. send PingConfiguration_Build))))"

section \<open>What is sent\<close>

text \<open>\<open>emit service attribute fields\<close> is the state after one more packet went out.\<close>

definition emit :: "u16 \<Rightarrow> u32 \<Rightarrow> (int \<times> string) list \<Rightarrow> session \<Rightarrow> session" where
  "emit service attr flds s =
     s\<lparr>s_connection := SendToClient (packet (packet_header (s_connection s) service attr) flds)
       (s_connection s)\<rparr>"

lemma wp_send [wp]:
  "wp (send (Build service attr flds)) Q E s =
     (if fits flds then Q () (emit service attr flds s) else E payload_too_large s)"
  by (simp add: send_def wp emit_def)

lemma emit_simps [simp]:
  "s_blocked (emit a b f s) = s_blocked s"
  "s_profiles (emit a b f s) = s_profiles s"
  "s_contacts (emit a b f s) = s_contacts s"
  "s_presence (emit a b f s) = s_presence s"
  "conn_sessionId (s_connection (emit a b f s)) = conn_sessionId (s_connection s)"
  "conn_protocolVersion (s_connection (emit a b f s)) = conn_protocolVersion (s_connection s)"
  "conn_socket (s_connection (emit a b f s)) = conn_socket (s_connection s)"
  by (simp_all add: emit_def SendToClient_def)

lemma emit_connection:
  "s_connection (emit a b f s) = (s_connection s)\<lparr>conn_sent := conn_sent (s_connection s)
     @ [packet (packet_header (s_connection s) a b) f]\<rparr>"
  by (simp add: emit_def SendToClient_def)

lemma emit_sent:
  "conn_sent (s_connection (emit a b f s)) =
     conn_sent (s_connection s) @ [packet (packet_header (s_connection s) a b) f]"
  by (simp add: emit_def SendToClient_def)

text \<open>
  The packets of one handler, sent one after the other: what does not fit stops it. This is
  the form in which the effect of a handler is stated: an update of the managers and the
  list of packets that announce it.
\<close>

fun emits :: "(u16 \<times> u32 \<times> (int \<times> string) list) list \<Rightarrow> session \<Rightarrow> (exn + unit) \<times> session" where
  "emits [] s = (Inr (), s)"
| "emits ((service, attr, flds) # ps) s =
     (if fits flds then emits ps (emit service attr flds s) else (Inl payload_too_large, s))"

lemma emits_managers:
  "s_blocked (snd (emits ps s)) = s_blocked s \<and> s_profiles (snd (emits ps s)) = s_profiles s
   \<and> s_contacts (snd (emits ps s)) = s_contacts s \<and> s_presence (snd (emits ps s)) = s_presence s"
  by (induction ps s rule: emits.induct) simp_all

lemma emits_all_fit:
  "(\<And>a b f. (a, b, f) \<in> set ps \<Longrightarrow> fits f) \<Longrightarrow> fst (emits ps s) = Inr ()"
  by (induction ps s rule: emits.induct) auto

definition profile_fields :: "session \<Rightarrow> (int \<times> string) list" where
  "profile_fields s =
     ClientProfile_fields (pm_clientId (s_profiles s)) (group_contacts (s_contacts s))
       (pm_profiles (s_profiles s)) (s_blocked s)"

lemma profile_fields_emit [simp]: "profile_fields (emit a b f s) = profile_fields s"
  by (simp add: profile_fields_def)

lemma ClientProfile_Build_session:
  "ClientProfile_Build (pm_clientId (s_profiles s)) (s_profiles s) (s_contacts s) (s_blocked s) =
     Build 85 0 (profile_fields s)"
  by (simp add: ClientProfile_Build_def ClientProfile_Build_lists_def profile_fields_def)

lemma wp_RequestClientProfile [wp]:
  "wp RequestClientProfile Q E s =
     (if fits (profile_fields s) then Q () (emit 85 0 (profile_fields s) s)
      else E payload_too_large s)"
  by (simp add: RequestClientProfile_def wp ClientProfile_Build_session GetClientId_def)

section \<open>Well-formed sessions\<close>

definition session_wf :: "session \<Rightarrow> bool" where
  "session_wf s = (contacts_wf (s_contacts s) \<and> distinct (s_blocked s))"

lemma session_wf_emit [simp]: "session_wf (emit a b f s) = session_wf s"
  by (simp add: session_wf_def)

text \<open>
  What every handler of a session may do to its state: send packets, change the contact
  list through the manager's operations, block and unblock, and change the presence. A
  predicate these primitive effects keep is an invariant of every handler; the locale
  collects the handlers theory by theory. Its instances are the well-formedness above and
  the identity of the session below.
\<close>

locale session_invariant =
  fixes P :: "session \<Rightarrow> bool"
  assumes send_keeps [keeps_intros]: "keeps P (send build)"
    and pending_keeps [keeps_intros]: "keeps P (on_contacts (AddPendingContact junk i g))"
    and remove_keeps [keeps_intros]: "keeps P (on_contacts (ContactManager_RemoveContact i g))"
    and rename_keeps [keeps_intros]: "keeps P (on_contacts (ContactManager_RenameGroup a b))"
    and found_keeps: "(\<And>c. ci_id (f c) = ci_id c) \<Longrightarrow> keeps P (on_contacts (set_found i f))"
    and block_keeps [keeps_intros]: "keeps P (on_blocked (modify (Blocked_Add c)))"
    and unblock_keeps [keeps_intros]: "keeps P (on_blocked (modify (Blocked_Remove c)))"
    and presence_keeps [keeps_intros]: "keeps P (on_presence (modify p))"
begin

lemma contact_setters_keep [keeps_intros]:
  "keeps P (on_contacts (SetContactAvailable i))"
  "keeps P (on_contacts (SetContactIdle i u m b))"
  "keeps P (on_contacts (SetContactAway i a b))"
  "keeps P (on_contacts (SetContactStatusMessage i m b))"
  "keeps P (on_contacts (SetContactOffline i))"
  by (simp_all add: contact_setters found_keeps)

lemma RequestClientProfile_keeps [keeps_intros]: "keeps P RequestClientProfile"
  unfolding RequestClientProfile_def by (intro keeps_intros)

lemma BeginSession_keeps [keeps_intros]: "keeps P BeginSession"
  unfolding BeginSession_def by (intro keeps_intros)

end

lemma keeps_on_contacts: "keeps contacts_wf m \<Longrightarrow> keeps session_wf (on_contacts m)"
  unfolding keeps_def by (auto simp: session_wf_def wp elim: wp_mono)

lemma keeps_on_blocked: "keeps distinct m \<Longrightarrow> keeps session_wf (on_blocked m)"
  unfolding keeps_def by (auto simp: session_wf_def wp elim: wp_mono)

lemma keeps_blocked [keeps_intros]:
  "keeps distinct (modify (Blocked_Add c))"
  "keeps distinct (modify (Blocked_Remove c))"
  by (auto intro: keeps_modify blocked.invar_add blocked.invar_remove)

interpretation wf: session_invariant session_wf
proof
  show "keeps session_wf (send build)" for build
    unfolding send_def by (rule keepsI, unfold wp, rule wpI) (simp_all add: session_wf_def)
  show "keeps session_wf (on_presence (modify p))" for p
    by (rule keepsI) (simp add: wp session_wf_def)
qed (intro keeps_on_contacts keeps_on_blocked keeps_intros wf_set_found; assumption)+

text \<open>
  The identity of a session: its profile manager, its session id and protocol version, and
  the packets sent so far, to which handlers only append.
\<close>

definition session_identity :: "ProfileManager \<Rightarrow> u32 \<Rightarrow> u16 \<Rightarrow> string list \<Rightarrow> session \<Rightarrow> bool" where
  "session_identity pm sid pv log s =
     (s_profiles s = pm \<and> conn_sessionId (s_connection s) = sid
      \<and> conn_protocolVersion (s_connection s) = pv
      \<and> (\<exists>more. conn_sent (s_connection s) = log @ more))"

lemma session_identity_self:
  "session_identity (s_profiles s) (conn_sessionId (s_connection s))
     (conn_protocolVersion (s_connection s)) (conn_sent (s_connection s)) s"
  by (simp add: session_identity_def)

lemma wp_build_and_send_log:
  "wp (build_and_send b) (\<lambda>_ c'. c' = c \<or> (\<exists>m. c' = SendToClient m c)) (\<lambda>_ c'. c' = c) c"
  by (auto simp: build_and_send_def wp Send_def split: sum.split)

lemma identity_kept:
  "keeps (session_identity pm sid pv log) (on_contacts mc)"
  "keeps (session_identity pm sid pv log) (on_blocked mb)"
  "keeps (session_identity pm sid pv log) (on_presence mp)"
  by (rule keepsI, subst wp_zoom, rule wpI; simp add: session_identity_def)+

interpretation identity: session_invariant "session_identity pm sid pv log"
proof
  show "keeps (session_identity pm sid pv log) (send build)" for build
    unfolding send_def
    by (rule keepsI, unfold wp, rule wp_mono [OF wp_build_and_send_log])
      (auto simp: session_identity_def SendToClient_def)
qed (rule identity_kept)+

text \<open>The fields of the three packets a session starts with.\<close>

definition online_fields :: "session \<Rightarrow> (int \<times> string) list" where
  "online_fields s =
     [(0, pm_clientId (s_profiles s)), (1, pm_clientId (s_profiles s))]
     @ AppendContacts (onlineContacts (s_contacts s))"

lemma fits_ping [simp]: "fits [(143, ''60''), (144, ''13'')]"
  by (simp add: fits_def sizeof_RawHeader_def PaxPayloadSize_def encode_pair_def to_string_def
      nat_to_string.simps)

lemma wp_BeginSession [wp]:
  "wp BeginSession Q E s =
     (if \<not> fits (profile_fields s) then E payload_too_large s
      else if \<not> fits (online_fields s) then E payload_too_large (emit 85 0 (profile_fields s) s)
      else Q () (emit 18 0 [(143, ''60''), (144, ''13'')]
                  (emit 1 0 (online_fields s) (emit 85 0 (profile_fields s) s))))"
  by (simp add: BeginSession_def wp ClientProfile_Build_session SetContactStatus_Build_def
      online_fields_def PingConfiguration_Build_def GetClientId_def)

end
