(* ===== verification/YMsg_Events.thy ===== *)
theory YMsg_Events
  imports YMsg_Session
begin

text \<open>
  The event classes, through which the back end of the server changes the client's view:
  \<open>ContactManagementEvents\<close>, \<open>BlockedContactManagementEvents\<close>, \<open>ProfileManagementEvents\<close> and
  \<open>PresenceEvents\<close>. Each handler updates its manager and sends the packet that tells the
  client. The \<open>wp\<close> rules at the end of each section give the whole effect of a handler.
\<close>

section \<open>ContactManagementEvents\<close>

definition RefreshProfile :: "(session, unit) cpp" where
  "RefreshProfile =
     and_then (get_state (\<lambda>s. ClientProfile_Build (GetClientId (s_profiles s)) (s_profiles s)
       (s_contacts s) (s_blocked s))) send"

definition OnAddRequestDenied :: "string \<Rightarrow> string \<Rightarrow> string \<Rightarrow> (session, unit) cpp" where
  "OnAddRequestDenied clientId contactId message =
     send (DenyContactAddRequest_Build clientId contactId message)"

definition OnAddContactRequest :: "string \<Rightarrow> string \<Rightarrow> string \<Rightarrow> int \<Rightarrow> (session, unit) cpp" where
  "OnAddContactRequest clientId contactId message timestamp =
     send (AddContactRequest_Build clientId contactId message timestamp)"

definition OnRemoveContactFailed :: "string \<Rightarrow> string \<Rightarrow> string \<Rightarrow> (session, unit) cpp" where
  "OnRemoveContactFailed clientId contactId grp =
     send (ContactRemoved_Build clientId contactId grp RemoveGeneralFailure)"

text \<open>
  The result packets pass the contact id in the place of the client id and the other way
  round, as the code does.
\<close>

definition OnAddRequestPending :: "bool \<Rightarrow> string \<Rightarrow> string \<Rightarrow> string \<Rightarrow> (session, unit) cpp" where
  "OnAddRequestPending junk clientId contactId grp =
     and_then (on_contacts (AddPendingContact junk contactId grp))
     (\<lambda>_. and_then (send (AddContactRequestResult_Build contactId clientId grp AddPending))
     (\<lambda>_. RefreshProfile))"

definition OnEmptyGroup :: "string \<Rightarrow> string \<Rightarrow> (session, unit) cpp" where
  "OnEmptyGroup clientId contactId =
     send (AddContactRequestResult_Build contactId clientId [] GroupAlreadyExists)"

definition OnContactIsIneligible :: "string \<Rightarrow> string \<Rightarrow> string \<Rightarrow> (session, unit) cpp" where
  "OnContactIsIneligible clientId contactId grp =
     send (AddContactRequestResult_Build contactId clientId grp AddGeneralFailure)"

definition OnContactNoExist :: "string \<Rightarrow> string \<Rightarrow> string \<Rightarrow> (session, unit) cpp" where
  "OnContactNoExist clientId contactId grp =
     send (AddContactRequestResult_Build contactId clientId grp AddContactDoesNotExist)"

definition OnDuplicateContact :: "string \<Rightarrow> string \<Rightarrow> string \<Rightarrow> (session, unit) cpp" where
  "OnDuplicateContact clientId contactId grp =
     send (AddContactRequestResult_Build contactId clientId grp DuplicateContact)"

definition OnContactAdded :: "string \<Rightarrow> string \<Rightarrow> string \<Rightarrow> (session, unit) cpp" where
  "OnContactAdded clientId contactId grp = throw (Runtime_error ''Not implemented'')"

definition OnContactRemoved :: "string \<Rightarrow> string \<Rightarrow> string \<Rightarrow> (session, unit) cpp" where
  "OnContactRemoved clientId contactId grp =
     and_then (on_contacts (ContactManager_RemoveContact contactId grp))
     (\<lambda>_. and_then (send (ContactRemoved_Build clientId contactId grp RemoveSuccess))
     (\<lambda>_. RefreshProfile))"

text \<open>The exception object of the body is constructed and dropped, not thrown.\<close>

definition OnGroupRenameFailed :: "string \<Rightarrow> string \<Rightarrow> (session, unit) cpp" where
  "OnGroupRenameFailed currentName newName = ret ()"

text \<open>
  The builder's parameters are the old and the new name in this order; the handler passes
  the new one first.
\<close>

definition OnGroupRenamed :: "string \<Rightarrow> string \<Rightarrow> (session, unit) cpp" where
  "OnGroupRenamed currentName newName =
     and_then (on_contacts (ContactManager_RenameGroup currentName newName))
     (\<lambda>_. and_then (get_state (\<lambda>s.
        ContactGroupRenamed_Build (GetClientId (s_profiles s)) newName currentName))
     (\<lambda>build. and_then (send build)
     (\<lambda>_. RefreshProfile)))"

lemma wp_RefreshProfile [wp]:
  "wp RefreshProfile Q E s =
     (if fits (profile_fields s) then Q () (emit 85 0 (profile_fields s) s)
      else E payload_too_large s)"
  by (simp add: RefreshProfile_def wp ClientProfile_Build_session GetClientId_def)

text \<open>One result packet of \<open>AddContact\<close>.\<close>

definition add_result_fields ::
  "string \<Rightarrow> string \<Rightarrow> string \<Rightarrow> AddContactRequestResultStatus \<Rightarrow> (int \<times> string) list" where
  "add_result_fields clientId contactId grp status =
     [(1, clientId), (7, contactId), (65, grp),
      (66, to_string (AddContactRequestResultStatus_value status))]"

lemma AddContactRequestResult_swapped:
  "AddContactRequestResult_Build contactId clientId grp status =
     Build 131 1 (add_result_fields clientId contactId grp status)"
  by (simp add: AddContactRequestResult_Build_def add_result_fields_def)

definition removed_fields ::
  "string \<Rightarrow> string \<Rightarrow> string \<Rightarrow> RemoveContactStatus \<Rightarrow> (int \<times> string) list" where
  "removed_fields clientId contactId grp status =
     [(1, clientId), (66, to_string (RemoveContactStatus_value status)), (7, contactId), (65, grp)]"

lemma ContactRemoved_Build_fields:
  "ContactRemoved_Build clientId contactId grp status =
     Build 132 1 (removed_fields clientId contactId grp status)"
  by (simp add: ContactRemoved_Build_def removed_fields_def)

lemmas contact_event_defs =
  OnAddRequestDenied_def OnAddContactRequest_def OnRemoveContactFailed_def OnAddRequestPending_def
  OnEmptyGroup_def OnContactIsIneligible_def OnContactNoExist_def OnDuplicateContact_def
  OnContactAdded_def OnContactRemoved_def OnGroupRenameFailed_def OnGroupRenamed_def

context session_invariant begin

lemma contact_events_keep [keeps_intros]:
  "keeps P RefreshProfile"
  "keeps P (OnAddRequestDenied clientId contactId message)"
  "keeps P (OnAddContactRequest clientId contactId message timestamp)"
  "keeps P (OnRemoveContactFailed clientId contactId grp)"
  "keeps P (OnAddRequestPending junk clientId contactId grp)"
  "keeps P (OnEmptyGroup clientId contactId)"
  "keeps P (OnContactIsIneligible clientId contactId grp)"
  "keeps P (OnContactNoExist clientId contactId grp)"
  "keeps P (OnDuplicateContact clientId contactId grp)"
  "keeps P (OnContactAdded clientId contactId grp)"
  "keeps P (OnContactRemoved clientId contactId grp)"
  "keeps P (OnGroupRenameFailed currentName newName)"
  "keeps P (OnGroupRenamed currentName newName)"
  unfolding contact_event_defs RefreshProfile_def by (intro keeps_intros)+

end

section \<open>BlockedContactManagementEvents\<close>

definition OnAlreadyBlocked :: "string \<Rightarrow> string \<Rightarrow> (session, unit) cpp" where
  "OnAlreadyBlocked clientId contactId =
     throw (Invalid_argument ''[WIP] Adding duplicate contacts to blocked list not supported yet'')"

definition OnNotInBlockedList :: "string \<Rightarrow> string \<Rightarrow> (session, unit) cpp" where
  "OnNotInBlockedList clientId contactId =
     throw (Invalid_argument
       ''[WIP] Removing contacts that do not exist in blocked list not supported yet'')"

definition OnBlocked :: "string \<Rightarrow> string \<Rightarrow> (session, unit) cpp" where
  "OnBlocked clientId contactId =
     and_then (on_blocked (modify (Blocked_Add contactId)))
     (\<lambda>_. send (ContactBlocked_Build clientId contactId))"

definition OnUnblocked :: "string \<Rightarrow> string \<Rightarrow> (session, unit) cpp" where
  "OnUnblocked clientId contactId =
     and_then (on_blocked (modify (Blocked_Remove contactId)))
     (\<lambda>_. send (ContactUnblocked_Build clientId contactId))"

context session_invariant begin

lemma blocked_events_keep [keeps_intros]:
  "keeps P (OnAlreadyBlocked clientId contactId)"
  "keeps P (OnNotInBlockedList clientId contactId)"
  "keeps P (OnBlocked clientId contactId)"
  "keeps P (OnUnblocked clientId contactId)"
  unfolding OnAlreadyBlocked_def OnNotInBlockedList_def OnBlocked_def OnUnblocked_def
  by (intro keeps_intros)+

end

lemma to_string_digits [simp]: "to_string 0 = ''0''" "to_string 1 = ''1''" "to_string 2 = ''2''"
  by code_simp+

lemma blocked_Builds:
  "ContactBlocked_Build clientId contactId =
     Build 133 1 [(1, clientId), (5, contactId), (4, ''1''), (66, '' '')]"
  "ContactUnblocked_Build clientId contactId =
     Build 133 1 [(1, clientId), (5, contactId), (4, ''2''), (66, '' '')]"
  by (simp_all add: ContactBlocked_Build_def ContactUnblocked_Build_def
      ContactBlockedOrUnblocked_Build_def)

section \<open>ProfileManagementEvents\<close>

text \<open>The body of the \<open>if\<close> is commented out in the code.\<close>

definition OnAdded :: "string \<Rightarrow> (session, unit) cpp" where
  "OnAdded profileId =
     and_then (get_state (\<lambda>s. IsClientOrProfileId profileId (s_profiles s)))
     (\<lambda>known. if \<not> known then ret () else ret ())"

definition OnActivated :: "string \<Rightarrow> (session, unit) cpp" where
  "OnActivated profileId = send (ProfileActivated_Build profileId)"

definition OnDeactivated :: "string \<Rightarrow> (session, unit) cpp" where
  "OnDeactivated profileId = send (ProfileDeactivated_Build profileId)"

context session_invariant begin

lemma profile_events_keep [keeps_intros]:
  "keeps P (OnAdded profileId)"
  "keeps P (OnActivated profileId)"
  "keeps P (OnDeactivated profileId)"
  unfolding OnAdded_def OnActivated_def OnDeactivated_def by (intro keeps_intros)+

end

section \<open>PresenceEvents\<close>

definition unknown_contact :: exn where
  "unknown_contact = Runtime_error ''Don't know how to handle idle contact not in list''"

definition found :: "ContactInfo option \<Rightarrow> (ContactInfo \<Rightarrow> (session, unit) cpp) \<Rightarrow> (session, unit) cpp" where
  "found contactInfo f = (case contactInfo of None \<Rightarrow> throw unknown_contact | Some c \<Rightarrow> f c)"

definition OnContactAvailable :: "string \<Rightarrow> bool \<Rightarrow> (session, unit) cpp" where
  "OnContactAvailable contactId showNotification =
     and_then (on_contacts (SetContactAvailable contactId))
     (\<lambda>contactInfo. found contactInfo (\<lambda>c.
        if showNotification then send (UpdateContactStatus_Build c)
        else send (SetContactStatus_Build_one [] c)))"

definition OnContactIdle :: "string \<Rightarrow> string \<Rightarrow> string \<Rightarrow> bool \<Rightarrow> (session, unit) cpp" where
  "OnContactIdle contactId idleUnknown message isBusy =
     and_then (on_contacts (SetContactIdle contactId idleUnknown message isBusy))
     (\<lambda>contactInfo. found contactInfo (\<lambda>c. send (UpdateContactStatus_Build c)))"

definition OnContactAway :: "string \<Rightarrow> Availability \<Rightarrow> bool \<Rightarrow> (session, unit) cpp" where
  "OnContactAway contactId availability isBusy =
     and_then (on_contacts (SetContactAway contactId availability isBusy))
     (\<lambda>contactInfo. found contactInfo (\<lambda>c. send (UpdateContactStatus_Build c)))"

definition OnContactStatusMessage :: "string \<Rightarrow> string \<Rightarrow> bool \<Rightarrow> bool \<Rightarrow> (session, unit) cpp" where
  "OnContactStatusMessage contactId message isBusy showNotification =
     and_then (on_contacts (SetContactStatusMessage contactId message isBusy))
     (\<lambda>contactInfo. found contactInfo (\<lambda>c.
        if showNotification then send (UpdateContactStatus_Build c)
        else send (SetContactStatus_Build_one [] c)))"

definition OnContactOffline :: "string \<Rightarrow> (session, unit) cpp" where
  "OnContactOffline contactId =
     and_then (on_contacts (SetContactOffline contactId))
     (\<lambda>contactInfo. found contactInfo (\<lambda>c. send (ContactOffline_Build contactId)))"

lemmas presence_event_defs = OnContactAvailable_def OnContactIdle_def OnContactAway_def
  OnContactStatusMessage_def OnContactOffline_def

lemma keeps_found [keeps_intros]: "(\<And>c. keeps P (f c)) \<Longrightarrow> keeps P (found x f)"
  by (cases x) (auto simp: found_def intro: keeps_intros)

context session_invariant begin

lemma presence_events_keep [keeps_intros]:
  "keeps P (OnContactAvailable contactId n)"
  "keeps P (OnContactIdle contactId u m b)"
  "keeps P (OnContactAway contactId a b)"
  "keeps P (OnContactStatusMessage contactId m b n)"
  "keeps P (OnContactOffline contactId)"
  unfolding presence_event_defs by (intro keeps_intros)+

end

text \<open>
  The common shape: the contact is looked up, changed in place and announced with the
  packet \<open>announce\<close> makes of the changed entry.
\<close>

definition presence_update ::
  "string \<Rightarrow> (ContactInfo \<Rightarrow> ContactInfo) \<Rightarrow> (ContactInfo \<Rightarrow> ClientConnection \<Rightarrow> exn + string) \<Rightarrow>
   (session, unit) cpp" where
  "presence_update contactId f announce =
     and_then (on_contacts (set_found contactId f)) (\<lambda>c. found c (\<lambda>c. send (announce c)))"

lemma presence_events_update:
  "OnContactAvailable i True =
     presence_update i (\<lambda>c. c\<lparr>ci_availability := Available\<rparr>) UpdateContactStatus_Build"
  "OnContactIdle i u m b =
     presence_update i (\<lambda>c. c\<lparr>ci_idleUnknown := u, ci_availability := Idle, ci_isBusy := b,
       ci_customMessage := m\<rparr>) UpdateContactStatus_Build"
  "OnContactAway i a b =
     presence_update i (\<lambda>c. c\<lparr>ci_availability := a, ci_isBusy := b\<rparr>) UpdateContactStatus_Build"
  "OnContactStatusMessage i m b True =
     presence_update i (\<lambda>c. c\<lparr>ci_availability := Custom, ci_isBusy := b, ci_customMessage := m\<rparr>)
       UpdateContactStatus_Build"
  "OnContactOffline i =
     presence_update i (\<lambda>c. c\<lparr>ci_availability := Offline\<rparr>) (\<lambda>c. ContactOffline_Build i)"
  by (simp_all add: presence_event_defs presence_update_def contact_setters)

end
