(* ===== verification/YMsg_Mock.thy ===== *)
theory YMsg_Mock
  imports YMsg_Events
begin

text \<open>
  The back end that comes with the repository, \<open>Protocols/YMsgMock\<close>: the links through which
  the client changes its contacts, blocked contacts, profiles and presence, and the session
  start of the mock. A link checks the request against the managers and triggers the event
  that applies. The lemmas give the decision of each link as one equation on \<open>wp\<close>.
\<close>

text \<open>
  What the program takes from its environment: the clock, the random number of a session
  id, and the contents of the memory of members no constructor initializes. By the letter
  of the language a read of such a member means nothing; here it gives some value, and all
  that is shown holds for every one.
\<close>

record env =
  env_time :: int
  env_rand :: u32
  env_isInChat :: bool
  env_encoding :: TextEncoding

section \<open>MockContactManagementLink\<close>

definition DenyRequest :: "string \<Rightarrow> string \<Rightarrow> string \<Rightarrow> (session, unit) cpp" where
  "DenyRequest clientId contactId message =
     and_then (get_state (\<lambda>s. IsClientOrProfileId contactId (s_profiles s)))
     (\<lambda>own. if own then OnAddRequestDenied contactId clientId message else ret ())"

definition AddContact :: "env \<Rightarrow> string \<Rightarrow> string \<Rightarrow> string \<Rightarrow> string \<Rightarrow> (session, unit) cpp" where
  "AddContact env clientId contactId grp message =
     (if grp = [] then OnEmptyGroup clientId contactId
      else and_then (get_state (\<lambda>s. IsContact contactId (s_contacts s)))
     (\<lambda>isContact. if isContact then OnDuplicateContact clientId contactId grp
      else and_then (get_state (\<lambda>s. IsBlocked contactId (s_blocked s)))
     (\<lambda>isBlocked. if isBlocked then OnContactIsIneligible clientId contactId grp
      else if contactId = ''grag'' then OnContactNoExist clientId contactId grp
      else and_then (OnAddRequestPending (env_isInChat env) clientId contactId grp)
     (\<lambda>_. and_then (get_state (\<lambda>s. IsClientOrProfileId contactId (s_profiles s)))
     (\<lambda>own. if own then OnAddContactRequest clientId contactId message (env_time env)
      else ret ())))))"

definition RemoveContact :: "string \<Rightarrow> string \<Rightarrow> string \<Rightarrow> (session, unit) cpp" where
  "RemoveContact clientId contactId grp =
     and_then (get_state (\<lambda>s. IsContact contactId (s_contacts s)))
     (\<lambda>isContact. if \<not> isContact then OnRemoveContactFailed clientId contactId grp
      else OnContactRemoved clientId contactId grp)"

definition RenameGroup :: "string \<Rightarrow> string \<Rightarrow> (session, unit) cpp" where
  "RenameGroup currentName newName =
     (if currentName = newName then OnGroupRenameFailed currentName newName
      else OnGroupRenamed currentName newName)"

context session_invariant begin

lemma contact_links_keep [keeps_intros]:
  "keeps P (DenyRequest clientId contactId message)"
  "keeps P (AddContact env clientId contactId grp message)"
  "keeps P (RemoveContact clientId contactId grp)"
  "keeps P (RenameGroup currentName newName)"
  unfolding DenyRequest_def AddContact_def RemoveContact_def RenameGroup_def
  by (intro keeps_intros)+

end

section \<open>MockBlockedContactManagementLink\<close>

definition Blocked_link_Add :: "string \<Rightarrow> string \<Rightarrow> (session, unit) cpp" where
  "Blocked_link_Add clientId contactId =
     and_then (get_state (\<lambda>s. IsBlocked contactId (s_blocked s)))
     (\<lambda>isBlocked. if isBlocked then OnAlreadyBlocked clientId contactId
      else OnBlocked clientId contactId)"

text \<open>There is no \<open>return\<close> after \<open>OnNotInBlockedList\<close>, which throws.\<close>

definition Blocked_link_Remove :: "string \<Rightarrow> string \<Rightarrow> (session, unit) cpp" where
  "Blocked_link_Remove clientId contactId =
     and_then (get_state (\<lambda>s. IsBlocked contactId (s_blocked s)))
     (\<lambda>isBlocked. and_then
        (if \<not> isBlocked then OnNotInBlockedList clientId contactId else ret ())
     (\<lambda>_. OnUnblocked clientId contactId))"

context session_invariant begin

lemma blocked_links_keep [keeps_intros]:
  "keeps P (Blocked_link_Add clientId contactId)"
  "keeps P (Blocked_link_Remove clientId contactId)"
  unfolding Blocked_link_Add_def Blocked_link_Remove_def by (intro keeps_intros)+

end

text \<open>The whole effect of the two links.\<close>

lemma Blocked_link_Add_run:
  "Blocked_link_Add clientId contactId s =
     (if contactId \<in> set (s_blocked s) then OnAlreadyBlocked clientId contactId s
      else emits [(133, 1, [(1, clientId), (5, contactId), (4, ''1''), (66, '' '')])]
             (s\<lparr>s_blocked := Blocked_Add contactId (s_blocked s)\<rparr>))"
  by (rule run_eqI) (simp add: Blocked_link_Add_def blocked.member_abs OnAlreadyBlocked_def
      OnBlocked_def blocked_Builds wp throw_def)

lemma Blocked_link_Remove_run:
  "Blocked_link_Remove clientId contactId s =
     (if contactId \<notin> set (s_blocked s) then OnNotInBlockedList clientId contactId s
      else emits [(133, 1, [(1, clientId), (5, contactId), (4, ''2''), (66, '' '')])]
             (s\<lparr>s_blocked := Blocked_Remove contactId (s_blocked s)\<rparr>))"
  by (rule run_eqI) (simp add: Blocked_link_Remove_def blocked.member_abs OnNotInBlockedList_def
      OnUnblocked_def blocked_Builds wp throw_def)

section \<open>MockProfileManagementLink\<close>

definition Profile_link_Add :: "string \<Rightarrow> (session, unit) cpp" where
  "Profile_link_Add profileId =
     and_then (get_state (\<lambda>s. IsClientOrProfileId profileId (s_profiles s)))
     (\<lambda>known. if known then throw (Invalid_argument ''Profile id already exists'')
      else OnAdded profileId)"

definition profile_unknown :: exn where
  "profile_unknown = Invalid_argument ''FIXME: Profile does not exist''"

definition Activate :: "string \<Rightarrow> (session, unit) cpp" where
  "Activate profileId =
     and_then (get_state (\<lambda>s. IsClientOrProfileId profileId (s_profiles s)))
     (\<lambda>known. if \<not> known then throw profile_unknown else OnActivated profileId)"

definition Deactivate :: "string \<Rightarrow> (session, unit) cpp" where
  "Deactivate profileId =
     and_then (get_state (\<lambda>s. IsClientOrProfileId profileId (s_profiles s)))
     (\<lambda>known. if \<not> known then throw profile_unknown else OnDeactivated profileId)"

context session_invariant begin

lemma profile_links_keep [keeps_intros]:
  "keeps P (Profile_link_Add profileId)"
  "keeps P (Activate profileId)"
  "keeps P (Deactivate profileId)"
  unfolding Profile_link_Add_def Activate_def Deactivate_def by (intro keeps_intros)+

end

section \<open>MockPresenceManagementLink\<close>

text \<open>The loop all five operations share: the client's own profiles that are contacts.\<close>

definition for_own_contacts :: "(string \<Rightarrow> (session, unit) cpp) \<Rightarrow> (session, unit) cpp" where
  "for_own_contacts event =
     and_then (get_state (\<lambda>s. pm_profiles (s_profiles s)))
     (for_each (\<lambda>profile.
        and_then (get_state (\<lambda>s. IsContact profile (s_contacts s)))
        (\<lambda>isContact. if isContact then event profile else ret ())))"

definition SetAvailable :: "(session, unit) cpp" where
  "SetAvailable =
     and_then (on_presence (modify Presence_SetAvailable))
     (\<lambda>_. for_own_contacts (\<lambda>profile. OnContactAvailable profile True))"

definition SetIdle :: "string \<Rightarrow> bool \<Rightarrow> string \<Rightarrow> (session, unit) cpp" where
  "SetIdle message isBusy idleUnknown =
     and_then (on_presence (modify (Presence_SetIdle message isBusy idleUnknown)))
     (\<lambda>_. for_own_contacts (\<lambda>profile. OnContactIdle profile idleUnknown message isBusy))"

definition SetAway :: "Availability \<Rightarrow> bool \<Rightarrow> (session, unit) cpp" where
  "SetAway availability isBusy =
     and_then (on_presence (modify (Presence_SetAway availability isBusy)))
     (\<lambda>_. for_own_contacts (\<lambda>profile. OnContactAway profile availability isBusy))"

definition SetCustomStatus :: "string \<Rightarrow> bool \<Rightarrow> (session, unit) cpp" where
  "SetCustomStatus message isBusy =
     and_then (on_presence (modify (Presence_SetCustomStatus message isBusy)))
     (\<lambda>_. for_own_contacts (\<lambda>profile. OnContactStatusMessage profile message isBusy True))"

definition SetInvisible :: "(session, unit) cpp" where
  "SetInvisible =
     and_then (on_presence (modify Presence_SetInvisible))
     (\<lambda>_. for_own_contacts (\<lambda>profile. OnContactOffline profile))"

lemmas presence_link_defs = SetAvailable_def SetIdle_def SetAway_def SetCustomStatus_def
  SetInvisible_def

context session_invariant begin

lemma own_contacts_keep [keeps_intros]:
  "(\<And>i. keeps P (event i)) \<Longrightarrow> keeps P (for_own_contacts event)"
  unfolding for_own_contacts_def by (intro keeps_intros)

end

context session_invariant begin

lemma presence_links_keep [keeps_intros]:
  "keeps P SetAvailable"
  "keeps P (SetIdle m b u)"
  "keeps P (SetAway a b)"
  "keeps P (SetCustomStatus m b)"
  "keeps P SetInvisible"
  unfolding presence_link_defs by (intro keeps_intros)+

end

section \<open>MockSessionContext\<close>

definition alert_url :: string where
  "alert_url = ''http://beta.alerts.yahoo.com/main.php?view=my_alerts''"

definition alert_meta :: string where
  "alert_meta =
     ''n - BreakingNews'' @ [CHR 0x0A] @ ''abstract Id: d0300002215e2'' @ [CHR 0x0A] @
     ''http://news.yahoo.com''"

definition alert_content :: string where
  "alert_content =
     ''<!DOCTYPE HTML PUBLIC \"-//W3C//DTD HTML 4.0 Transitional//EN\">'' @
     [CHR 0x0A] @
     ''<HTML>'' @
     [CHR 0x0A] @
     ''<HEAD><TITLE>Yahoo! Alerts</TITLE>'' @
     [CHR 0x0A] @
     ''<META http-equiv=Content-Type '' @
     [CHR 0x0A] @
     ''content=\"text/html; charset=windows-1252\"><BASEFONT face=arial&#44;sans-'' @
     ''serif '' @
     [CHR 0x0A] @
     ''size=2>'' @
     [CHR 0x0A] @
     ''</HEAD>'' @
     [CHR 0x0A] @
     ''<BODY><B>Yahoo! Alerts</B> '' @
     [CHR 0x0A] @
     ''<TABLE cellSpacing=0 cellPadding=0 width=\"100%\" border=0>'' @
     [CHR 0x0A] @
     ''  <TBODY>'' @
     [CHR 0x0A] @
     ''  <TR>'' @
     [CHR 0x0A] @
     ''    <TD noWrap bgColor=#acb59a height=1><SPACER height=\"1\" width=\"1\" '' @
     [CHR 0x0A] @
     ''      type=\"block\"></TD></TR>'' @
     [CHR 0x0A] @
     ''  <TR>'' @
     [CHR 0x0A] @
     ''    <TD bgColor=#effada height=24><FONT size=2><FONT color=#ec661f><B>Br'' @
     ''eaking'' @
     [CHR 0x0A] @
     ''      News</B></FONT> Sunday&#44; September 26&#44; 2004&#44; 11:06 PM P'' @
     ''DT </FONT></TD></TR>'' @
     [CHR 0x0A] @
     ''  <TR>'' @
     [CHR 0x0A] @
     ''    <TD noWrap bgColor=#acb59a height=1><SPACER height=\"1\" width=\"1\" '' @
     [CHR 0x0A] @
     ''      type=\"block\"></TD></TR></TBODY></TABLE>'' @
     [CHR 0x0A] @
     ''<P>'' @
     [CHR 0x0A] @
     ''MOSUL&#44; Iraq (AP) Police say a car bomb has exploded near an Iraqi Na'' @
     ''tional Guard patrol in the northeastern city of Mosul. </P>'' @
     [CHR 0x0A] @
     ''  <BR>'' @
     [CHR 0x0A] @
     ''  <p>'' @
     [CHR 0x0A] @
     ''    Visit <a href=\"http://news.yahoo.com\">Yahoo! News</a> for more detai'' @
     ''ls or search for this story on <a href=\"http://news.search.yahoo.com/sea'' @
     ''rch/news/?fr=sfp&ei=UTF-8&p=MOSUL&#44; Iraq (AP) Police say a car bomb h'' @
     ''as exploded near an Iraqi National Guard patrol in the northeastern city'' @
     '' of Mosul.\">Yahoo! News Search</a>.  '' @
     [CHR 0x0A] @
     ''  </p>'' @
     [CHR 0x0A] @
     ''  <br>'' @
     [CHR 0x0A] @
     ''</td></tr></table>'' @
     [CHR 0x0A] @
     ''</BODY></BASEFONT></HTML>''"

definition Mock_BeginSession :: "(session, unit) cpp" where
  "Mock_BeginSession =
     and_then BeginSession
     (\<lambda>_. and_then (get_state (\<lambda>s. GetClientId (s_profiles s)))
     (\<lambda>clientId. and_then
       (if CHR ''*'' \<in> set clientId
        then send (YahooAlert_Build clientId ''Yahoo! Alerts'' alert_url alert_meta
               ''Breaking News (AP, Reuters)'' alert_content)
        else ret ())
     (\<lambda>_. and_then
       (if CHR ''-'' \<in> set clientId then send (NewMailNotification_Build_count 5) else ret ())
     (\<lambda>_. and_then
       (if CHR ''_'' \<in> set clientId
        then send (NewMailNotification_Build ''me@yahoo.com'' ''Some Guy'' ''Some subject'')
        else ret ())
     (\<lambda>_. if CHR ''.'' \<in> set clientId
          then send (OfflineMessage_Build clientId ''Ed_'' ''Hello!'' TextEncoding_None)
          else ret ())))))"

context session_invariant begin

lemma Mock_BeginSession_keeps [keeps_intros]: "keeps P Mock_BeginSession"
  unfolding Mock_BeginSession_def by (intro keeps_intros)

end

text \<open>The packets a session starts with.\<close>

definition begin_packets :: "session \<Rightarrow> (u16 \<times> u32 \<times> (int \<times> string) list) list" where
  "begin_packets s =
     (let clientId = pm_clientId (s_profiles s) in
      [(85, 0, profile_fields s), (1, 0, online_fields s), (18, 0, [(143, ''60''), (144, ''13'')])]
      @ (if CHR ''*'' \<in> set clientId
         then [(300, 1, [(5, clientId), (132, alert_url), (4, ''Yahoo! Alerts''), (14, alert_meta),
                 (83, ''Breaking News (AP, Reuters)''), (20, alert_content)])] else [])
      @ (if CHR ''-'' \<in> set clientId then [(11, 1, [(9, ''5'')])] else [])
      @ (if CHR ''_'' \<in> set clientId
         then [(11, 1, [(9, ''1''), (43, ''Some Guy''), (42, ''me@yahoo.com''),
                 (18, ''Some subject'')])] else [])
      @ (if CHR ''.'' \<in> set clientId
         then [(6, 5, [(31, ''6''), (32, ''6''), (1, ''Ed_''), (5, clientId), (4, ''Ed_''),
                 (14, ''Hello!''), (97, ''1'')])] else []))"

lemma to_string_5 [simp]: "to_string 5 = ''5''"
  by code_simp

lemma online_fields_emit [simp]: "online_fields (emit a b f s) = online_fields s"
  by (simp add: online_fields_def)

lemma emits_append:
  "emits (ps @ qs) s = (case emits ps s of (Inl e, t) \<Rightarrow> (Inl e, t) | (Inr _, t) \<Rightarrow> emits qs t)"
  by (induction ps s rule: emits.induct) simp_all

lemma wp_emits:
  "wp (emits ps) Q E s =
     (case ps of [] \<Rightarrow> Q () s
      | (a, b, f) # qs \<Rightarrow> if fits f then wp (emits qs) Q E (emit a b f s) else E payload_too_large s)"
  by (auto simp: wp_def split: list.split)

lemma Mock_BeginSession_packets: "Mock_BeginSession s = emits (begin_packets s) s"
  by (rule run_eqI)
    (simp add: Mock_BeginSession_def wp GetClientId_def begin_packets_def Let_def
      YahooAlert_Build_def NewMailNotification_Build_def NewMailNotification_Build_count_def
      OfflineMessage_Build_def)

section \<open>The presence loop\<close>

lemma IsContact_iff: "IsContact i cs \<longleftrightarrow> i \<in> fst ` set cs"
  by (auto simp: IsContact_def FindContact_def map_find_None_iff)

lemma wp_presence_update:
  "wp (presence_update i f announce) Q E s =
     (case FindContact i (s_contacts s) of
        None \<Rightarrow> E unknown_contact s
      | Some c \<Rightarrow> wp (send (announce (f c))) Q E (s\<lparr>s_contacts := map_adjust i f (s_contacts s)\<rparr>))"
  by (simp add: presence_update_def wp found_def split: option.split)

text \<open>A presence change announces a contact with one of two packets.\<close>

lemma announce_raises:
  "only_raises (\<lambda>e. e = payload_too_large) (send (UpdateContactStatus_Build c))"
  "only_raises (\<lambda>e. e = payload_too_large) (send (ContactOffline_Build i))"
  by (auto intro!: only_raisesI simp: wp UpdateContactStatus_Build_def ContactOffline_Build_def)

lemma own_contact_event_raises:
  assumes "\<And>i c. only_raises X (send (announce i c))"
  shows "only_raises X (for_own_contacts (\<lambda>i. presence_update i f (announce i)))"
  unfolding for_own_contacts_def
proof (rule raises_and_then [OF raises_get_state], rule raises_for_each)
  fix profile
  show "only_raises X (and_then (get_state (\<lambda>s. IsContact profile (s_contacts s)))
      (\<lambda>isContact. if isContact then presence_update profile f (announce profile) else ret ()))"
    using assms
    by (intro only_raisesI) (auto simp: wp wp_presence_update IsContact_def only_raises_def
        split: option.split)
qed

text \<open>
  The guard of the loop looks the contact up, so the null pointer the event would report
  cannot come up: a change of presence only fails when its packet is too large.
\<close>

lemma presence_links_raise:
  "only_raises (\<lambda>e. e = payload_too_large) SetAvailable"
  "only_raises (\<lambda>e. e = payload_too_large) (SetIdle m b u)"
  "only_raises (\<lambda>e. e = payload_too_large) (SetAway a b)"
  "only_raises (\<lambda>e. e = payload_too_large) (SetCustomStatus m b)"
  "only_raises (\<lambda>e. e = payload_too_large) SetInvisible"
  unfolding presence_link_defs presence_events_update
  by (intro raises_intros own_contact_event_raises announce_raises)+

text \<open>
  What a change of presence does when nothing is too large: the entries of the client's own
  profiles change, no other entry does, and every profile that is a contact is announced
  once per occurrence, with the packet of the changed entry.
\<close>

definition packet_of :: "u32 \<Rightarrow> u16 \<Rightarrow> u16 \<times> u32 \<times> (int \<times> string) list \<Rightarrow> string" where
  "packet_of sid pv p = (case p of (service, attr, flds) \<Rightarrow> packet (Header_new sid pv service attr) flds)"

definition announcements ::
  "(ContactInfo \<Rightarrow> ContactInfo) \<Rightarrow> (string \<Rightarrow> ContactInfo \<Rightarrow> u16 \<times> u32 \<times> (int \<times> string) list) \<Rightarrow>
   u32 \<Rightarrow> u16 \<Rightarrow> contacts \<Rightarrow> string list \<Rightarrow> string list" where
  "announcements f announced sid pv cs ps =
     concat (map (\<lambda>i. case map_find cs i of None \<Rightarrow> []
       | Some c \<Rightarrow> [packet_of sid pv (announced i (f c))]) ps)"

definition own_updated ::
  "(ContactInfo \<Rightarrow> ContactInfo) \<Rightarrow> (string \<Rightarrow> ContactInfo \<Rightarrow> u16 \<times> u32 \<times> (int \<times> string) list) \<Rightarrow>
   string list \<Rightarrow> session \<Rightarrow> session \<Rightarrow> bool" where
  "own_updated f announced ps s s' =
     ((\<forall>k. map_find (s_contacts s') k =
        (if k \<in> set ps then map_option f (map_find (s_contacts s) k) else map_find (s_contacts s) k))
      \<and> s_blocked s' = s_blocked s \<and> s_profiles s' = s_profiles s \<and> s_presence s' = s_presence s
      \<and> s_connection s' = (s_connection s)\<lparr>conn_sent := conn_sent (s_connection s) @
          announcements f announced (conn_sessionId (s_connection s))
            (conn_protocolVersion (s_connection s)) (s_contacts s) ps\<rparr>)"

definition build_of :: "u16 \<times> u32 \<times> (int \<times> string) list \<Rightarrow> ClientConnection \<Rightarrow> exn + string" where
  "build_of p = (case p of (service, attr, flds) \<Rightarrow> Build service attr flds)"

lemma announcements_adjust:
  assumes "\<And>c. f (f c) = f c"
  shows "announcements f announced sid pv (map_adjust i f cs) ps = announcements f announced sid pv cs ps"
  using assms
  by (auto simp: announcements_def map_find_adjust intro!: arg_cong [of _ _ concat]
      split: option.split)

lemma own_updated_step:
  assumes idem: "\<And>c. f (f c) = f c" and c: "map_find (s_contacts s) i = Some c"
    and an: "announced i (f c) = (a, b, d)"
    and rest: "own_updated f announced ps
      (emit a b d (s\<lparr>s_contacts := map_adjust i f (s_contacts s)\<rparr>)) s'"
  shows "own_updated f announced (i # ps) s s'"
proof -
  have "announcements f announced sid pv (s_contacts s) (i # ps) =
      packet_of sid pv (a, b, d) # announcements f announced sid pv (s_contacts s) ps" for sid pv
    using c an by (simp add: announcements_def)
  moreover have "map_find (s_contacts s') k = (if k \<in> set (i # ps)
      then map_option f (map_find (s_contacts s) k) else map_find (s_contacts s) k)" for k
    using rest c idem by (auto simp: own_updated_def map_find_adjust)
  ultimately show ?thesis
    using rest
    by (simp add: own_updated_def emit_connection packet_of_def announcements_adjust [OF idem])
qed

lemma own_contacts_update:
  assumes "\<And>c. f (f c) = f c"
  shows "wp (for_each (\<lambda>profile. and_then (get_state (\<lambda>s. IsContact profile (s_contacts s)))
        (\<lambda>isContact. if isContact
           then presence_update profile f (\<lambda>c. build_of (announced profile c)) else ret ())) ps)
      (\<lambda>_. own_updated f announced ps s) (\<lambda>e _. e = payload_too_large) s"
proof (induction ps arbitrary: s)
  case Nil
  then show ?case by (simp add: wp own_updated_def announcements_def)
next
  case (Cons i ps)
  show ?case
  proof (cases "map_find (s_contacts s) i")
    case None
    have "own_updated f announced (i # ps) s s'" if "own_updated f announced ps s s'" for s'
      using that None by (auto simp: own_updated_def announcements_def)
    then show ?thesis using Cons.IH [of s] None
      by (simp add: wp IsContact_def FindContact_def) (erule wp_mono, simp_all)
  next
    case (Some c)
    obtain a b d where an: "announced i (f c) = (a, b, d)" by (cases "announced i (f c)")
    let ?s = "emit a b d (s\<lparr>s_contacts := map_adjust i f (s_contacts s)\<rparr>)"
    show ?thesis using Cons.IH [of ?s] Some an
      by (simp add: wp IsContact_def FindContact_def wp_presence_update build_of_def)
        (auto elim!: wp_mono intro: own_updated_step [OF assms, where announced = announced, OF Some an])
  qed
qed

lemma presence_builds:
  "UpdateContactStatus_Build = (\<lambda>c. build_of (1, 1, (8, ''1'') # AppendContact c))"
  "ContactOffline_Build i = build_of (2, 1, [(10, ''0''), (13, ''0''), (47, ''2''), (7, i)])"
  by (simp_all add: build_of_def UpdateContactStatus_Build_def ContactOffline_Build_def fun_eq_iff)

text \<open>
  A presence link as a whole: \<open>changed g f announced s s'\<close> says that \<open>s'\<close> is \<open>s\<close> with the
  client's presence changed by \<open>g\<close> and its own entries by \<open>f\<close>.
\<close>

definition changed ::
  "(PresenceProperties \<Rightarrow> PresenceProperties) \<Rightarrow> (ContactInfo \<Rightarrow> ContactInfo) \<Rightarrow>
   (string \<Rightarrow> ContactInfo \<Rightarrow> u16 \<times> u32 \<times> (int \<times> string) list) \<Rightarrow> session \<Rightarrow> session \<Rightarrow> bool" where
  "changed g f announced s s' =
     own_updated f announced (pm_profiles (s_profiles s)) (s\<lparr>s_presence := g (s_presence s)\<rparr>) s'"

definition status_packet :: "string \<Rightarrow> ContactInfo \<Rightarrow> u16 \<times> u32 \<times> (int \<times> string) list" where
  "status_packet i c = (1, 1, (8, ''1'') # AppendContact c)"

definition offline_packet :: "string \<Rightarrow> ContactInfo \<Rightarrow> u16 \<times> u32 \<times> (int \<times> string) list" where
  "offline_packet i c = (2, 1, [(10, ''0''), (13, ''0''), (47, ''2''), (7, i)])"

lemma presence_link_changes:
  assumes "\<And>c. f (f c) = f c" "event = (\<lambda>i. presence_update i f (\<lambda>c. build_of (announced i c)))"
  shows "wp (and_then (on_presence (modify g)) (\<lambda>_. for_own_contacts event))
    (\<lambda>_. changed g f announced s) (\<lambda>e _. e = payload_too_large) s"
  using own_contacts_update [OF assms(1), of announced "pm_profiles (s_profiles s)"
      "s\<lparr>s_presence := g (s_presence s)\<rparr>"]
  by (simp add: wp for_own_contacts_def assms(2) changed_def [abs_def])

section \<open>Which exceptions the links can throw\<close>

lemma send_raises [raises_intros]:
  "X payload_too_large \<Longrightarrow> only_raises X (send (Build a b f))"
  by (rule only_raisesI) (simp add: wp)

text \<open>
  \<open>benign\<close>: an exception object of the program that a handler of a session throws.
\<close>

definition benign :: "exn \<Rightarrow> bool" where
  "benign e = (\<not> is_undefined e)"

lemma benign_simps [simp]:
  "benign payload_too_large" "benign empty_key" "benign profile_unknown" "benign unknown_contact"
  "benign (Invalid_argument m)" "benign (Runtime_error m)" "benign (Out_of_range m)"
  by (simp_all add: benign_def payload_too_large_def empty_key_def profile_unknown_def
      unknown_contact_def)

lemma profile_raises:
  "only_raises benign RefreshProfile" "only_raises benign RequestClientProfile"
  by (auto intro!: only_raisesI simp: wp)

lemma contact_links_raise:
  "only_raises benign (DenyRequest clientId contactId message)"
  "only_raises benign (RenameGroup currentName newName)"
  unfolding DenyRequest_def RenameGroup_def OnAddRequestDenied_def DenyContactAddRequest_Build_def
    OnGroupRenameFailed_def OnGroupRenamed_def ContactGroupRenamed_Build_def
  by (auto intro!: only_raisesI simp: wp)

lemma AddPendingContact_raises: "only_raises benign (AddPendingContact junk i g)"
  by (rule only_raisesI) (simp add: wp Let_def)

lemma AddContact_raises: "only_raises benign (AddContact env clientId contactId grp message)"
  unfolding AddContact_def contact_event_defs AddContactRequestResult_swapped
    AddContactRequest_Build_def
  by (intro raises_intros profile_raises AddPendingContact_raises) simp_all

text \<open>The undefined \<open>erase\<close> of an unknown contact is out of reach behind the guard.\<close>

lemma RemoveContact_raises: "only_raises benign (RemoveContact clientId contactId grp)"
  unfolding RemoveContact_def OnContactRemoved_def OnRemoveContactFailed_def
    ContactRemoved_Build_fields
  by (rule only_raisesI) (simp add: wp)

lemma blocked_links_raise:
  "only_raises benign (Blocked_link_Add clientId contactId)"
  "only_raises benign (Blocked_link_Remove clientId contactId)"
  unfolding Blocked_link_Add_def Blocked_link_Remove_def OnAlreadyBlocked_def
    OnNotInBlockedList_def OnBlocked_def OnUnblocked_def ContactBlocked_Build_def
    ContactUnblocked_Build_def ContactBlockedOrUnblocked_Build_def
  by (intro raises_intros; simp)+

lemma profile_links_raise:
  "only_raises benign (Activate profileId)" "only_raises benign (Deactivate profileId)"
  unfolding Activate_def Deactivate_def OnActivated_def OnDeactivated_def
    ProfileActivated_Build_def ProfileDeactivated_Build_def
  by (intro raises_intros; simp)+

lemma presence_links_benign:
  "only_raises benign SetAvailable"
  "only_raises benign (SetIdle m b u)"
  "only_raises benign (SetAway a b)"
  "only_raises benign (SetCustomStatus m b)"
  "only_raises benign SetInvisible"
  using presence_links_raise [THEN only_raises_mono, of benign] by simp_all

end
