(* ===== verification/YMsg_Processors.thy ===== *)
theory YMsg_Processors
  imports YMsg_Payloads YMsg_Mock
begin

text \<open>
  What the server does with a parsed packet: the classes of \<open>Server/Processors/\<close> and the
  generic \<open>PacketProcessor::Parse\<close> of \<open>Processor.h\<close>. A processor takes the header and the
  payload; the session is the state. The lemmas at the end say which processors can run into
  an undefined conversion: only those that read a number from the packet.
\<close>

section \<open>PacketProcessor\<close>

definition NullPacketParser_Parse :: "Header \<Rightarrow> string \<Rightarrow> string \<Rightarrow> (session, unit) cpp" where
  "NullPacketParser_Parse header payload after = ret ()"

definition PacketProcessor_Parse ::
  "'p on_key_pair \<Rightarrow> 'p \<Rightarrow> (Header \<Rightarrow> 'p \<Rightarrow> (session, unit) cpp) \<Rightarrow>
   Header \<Rightarrow> string \<Rightarrow> string \<Rightarrow> (session, unit) cpp" where
  "PacketProcessor_Parse on flds process header payload after =
     and_then (lift_res (Parse on flds payload after)) (process header)"

section \<open>The processors of a session\<close>

definition Process_RequestProfile :: "Header \<Rightarrow> RequestProfile_payload \<Rightarrow> (session, unit) cpp" where
  "Process_RequestProfile header payload = RequestClientProfile"

definition Process_SetAvailable :: "Header \<Rightarrow> unit \<Rightarrow> (session, unit) cpp" where
  "Process_SetAvailable header payload = SetAvailable"

definition Process_SetAway :: "Header \<Rightarrow> SetAway_payload \<Rightarrow> (session, unit) cpp" where
  "Process_SetAway header payload =
     and_then (lift_res (to_enum Availability_of_int (saw_statusId payload)))
     (\<lambda>onlineStatus. if onlineStatus = Invisible then SetInvisible
      else and_then
        (if sv_empty (saw_busyState payload) then ret False
         else and_then (lift_res (stol_data (saw_busyState payload))) (\<lambda>n. ret (n \<noteq> 0)))
      (\<lambda>isBusy.
        if onlineStatus = Idle
        then SetIdle (sv_str (saw_customMessage payload)) isBusy (sv_str (saw_idleUnknown payload))
        else if onlineStatus = Custom
        then SetCustomStatus (sv_str (saw_customMessage payload)) isBusy
        else SetAway onlineStatus isBusy))"

definition Process_ActivateProfile :: "Header \<Rightarrow> ActivateProfile_payload \<Rightarrow> (session, unit) cpp" where
  "Process_ActivateProfile header payload = Activate (sv_str (acp_clientId payload))"

definition Process_DeactivateProfile ::
  "Header \<Rightarrow> DeactivateProfile_payload \<Rightarrow> (session, unit) cpp" where
  "Process_DeactivateProfile header payload = Deactivate (sv_str (dap_clientId payload))"

definition Process_AddContact :: "env \<Rightarrow> Header \<Rightarrow> AddContact_payload \<Rightarrow> (session, unit) cpp" where
  "Process_AddContact env header payload =
     AddContact env (sv_str (adc_clientId payload)) (sv_str (adc_contactId payload))
       (sv_str (adc_group payload)) (sv_str (adc_message payload))"

definition Process_RenameContactGroup ::
  "Header \<Rightarrow> RenameContactGroup_payload \<Rightarrow> (session, unit) cpp" where
  "Process_RenameContactGroup header payload =
     RenameGroup (sv_str (rcg_currentGroupName payload)) (sv_str (rcg_newGroupName payload))"

definition Process_RemoveContact :: "Header \<Rightarrow> RemoveContact_payload \<Rightarrow> (session, unit) cpp" where
  "Process_RemoveContact header payload =
     RemoveContact (sv_str (rmc_clientId payload)) (sv_str (rmc_contactId payload))
       (sv_str (rmc_group payload))"

definition Process_DenyContactAddRequest ::
  "Header \<Rightarrow> DenyContactAddRequest_payload \<Rightarrow> (session, unit) cpp" where
  "Process_DenyContactAddRequest header payload =
     DenyRequest (sv_str (dcr_clientId payload)) (sv_str (dcr_contactId payload))
       (sv_str (dcr_message payload))"

definition Process_ChangeBlockedUser ::
  "Header \<Rightarrow> ChangeBlockedUser_payload \<Rightarrow> (session, unit) cpp" where
  "Process_ChangeBlockedUser header payload =
     (if sv_str (cbu_mode payload) = ''1''
      then Blocked_link_Add (sv_str (cbu_clientId payload)) (sv_str (cbu_contactId payload))
      else if sv_str (cbu_mode payload) = ''2''
      then Blocked_link_Remove (sv_str (cbu_clientId payload)) (sv_str (cbu_contactId payload))
      else ret ())"

definition Process_PrivateMessage :: "Header \<Rightarrow> PrivateMessage_payload \<Rightarrow> (session, unit) cpp" where
  "Process_PrivateMessage header payload =
     send (PrivateMessage_Build (sv_str (pvm_clientId payload)) (sv_str (pvm_contactId payload))
       (sv_str (pvm_message payload)) (pvm_encoding payload))"

definition Process_MassPrivateMessage ::
  "env \<Rightarrow> Header \<Rightarrow> MassPrivateMessage_payload \<Rightarrow> (session, unit) cpp" where
  "Process_MassPrivateMessage env header payload =
     send (SystemMessage_Build ''Sending mass private messages is not supported.'' (env_time env))"

definition Process_ServiceOperation ::
  "Header \<Rightarrow> ServiceOperation_payload \<Rightarrow> (session, unit) cpp" where
  "Process_ServiceOperation header payload =
     (if sv_str (svo_operation payload) = ''TYPING''
      then and_then (lift_res (to_enum TypingStatus_of_int (svo_action payload)))
        (\<lambda>action. send (TypingNotification_Build (sv_str (svo_contactId payload))
           (sv_str (svo_clientId payload)) action))
      else ret ())"

definition Process_ChatLogin :: "Header \<Rightarrow> ChatLogin_payload \<Rightarrow> (session, unit) cpp" where
  "Process_ChatLogin header payload =
     send (ChatLoginResponse_Build (sv_str (chl_clientId2 payload)))"

definition chat_participants :: "string list" where
  "chat_participants =
     [''donna'', ''dave'', ''jay'', ''martin'', ''joe'', ''barry'', ''greg'']"

definition Process_ChatJoin :: "Header \<Rightarrow> ChatJoin_payload \<Rightarrow> (session, unit) cpp" where
  "Process_ChatJoin header payload =
     send (ChatroomJoined_Build (sv_str (chj_category payload)) (sv_str (chj_room payload))
       ''topic'' ''voicecookie--'' ''othercookie--'' chat_participants)"

section \<open>The processors of the login\<close>

text \<open>
  These three classes are not registered in any dispatch map (\<open>AuthenticationHandler\<close> has
  taken their place); the body of \<open>Authentication::Process\<close> computes a value and drops it.
\<close>

definition Process_ProtocolSync :: "Header \<Rightarrow> unit \<Rightarrow> (session, unit) cpp" where
  "Process_ProtocolSync header payload =
     and_then (on_connection (modify (SetProtocolVersion (protoVersion header))))
     (\<lambda>_. send ProtocolAck_Build)"

definition Process_ChallengeRequest :: "Header \<Rightarrow> ChallengeRequest_payload \<Rightarrow> (session, unit) cpp"
where
  "Process_ChallengeRequest header payload =
     send (ChallengeResponse_Build_None (sv_str (chr_clientId payload)))"

definition Process_Authentication :: "Header \<Rightarrow> Authentication_payload \<Rightarrow> (session, unit) cpp" where
  "Process_Authentication header payload =
     (let initialAvailability = (if attribute header = 12 then Offline else Available) in ret ())"

section \<open>Well-formedness and errors\<close>

lemmas process_defs =
  Process_RequestProfile_def Process_SetAvailable_def Process_SetAway_def
  Process_ActivateProfile_def Process_DeactivateProfile_def Process_AddContact_def
  Process_RenameContactGroup_def Process_RemoveContact_def Process_DenyContactAddRequest_def
  Process_ChangeBlockedUser_def Process_PrivateMessage_def Process_MassPrivateMessage_def
  Process_ServiceOperation_def Process_ChatLogin_def Process_ChatJoin_def

context session_invariant begin

lemma processors_keep [keeps_intros]:
  "keeps P (Process_RequestProfile h p1)"
  "keeps P (Process_SetAvailable h p2)"
  "keeps P (Process_SetAway h p3)"
  "keeps P (Process_ActivateProfile h p4)"
  "keeps P (Process_DeactivateProfile h p5)"
  "keeps P (Process_AddContact env h p6)"
  "keeps P (Process_RenameContactGroup h p7)"
  "keeps P (Process_RemoveContact h p8)"
  "keeps P (Process_DenyContactAddRequest h p9)"
  "keeps P (Process_ChangeBlockedUser h p10)"
  "keeps P (Process_PrivateMessage h p11)"
  "keeps P (Process_MassPrivateMessage env h p12)"
  "keeps P (Process_ServiceOperation h p13)"
  "keeps P (Process_ChatLogin h p14)"
  "keeps P (Process_ChatJoin h p15)"
  unfolding process_defs by (intro keeps_intros)+

end

context session_invariant begin

lemma PacketProcessor_keeps [keeps_intros]:
  "(\<And>p. keeps P (process h p)) \<Longrightarrow>
   keeps P (PacketProcessor_Parse on flds process h payload after)"
  unfolding PacketProcessor_Parse_def by (intro keeps_intros)

end

lemma processors_raise:
  "only_raises benign (Process_RequestProfile h p1)"
  "only_raises benign (Process_SetAvailable h p2)"
  "only_raises benign (Process_ActivateProfile h p4)"
  "only_raises benign (Process_DeactivateProfile h p5)"
  "only_raises benign (Process_AddContact env h p6)"
  "only_raises benign (Process_RenameContactGroup h p7)"
  "only_raises benign (Process_RemoveContact h p8)"
  "only_raises benign (Process_DenyContactAddRequest h p9)"
  "only_raises benign (Process_ChangeBlockedUser h p10)"
  "only_raises benign (Process_PrivateMessage h p11)"
  "only_raises benign (Process_MassPrivateMessage env h p12)"
  "only_raises benign (Process_ChatLogin h p14)"
  "only_raises benign (Process_ChatJoin h p15)"
  unfolding process_defs PrivateMessage_Build_def SystemMessage_Build_def
    ChatLoginResponse_Build_def ChatroomJoined_Build_def
  by (intro raises_intros profile_raises presence_links_benign profile_links_raise
      AddContact_raises contact_links_raise RemoveContact_raises blocked_links_raise; simp)+

text \<open>With a total payload, the parser adds its own complaint and nothing else.\<close>

lemma PacketProcessor_raises:
  assumes "\<And>e. Parse on flds payload after = Inl e \<Longrightarrow> X e" "\<And>p. only_raises X (process h p)"
  shows "only_raises X (PacketProcessor_Parse on flds process h payload after)"
  unfolding PacketProcessor_Parse_def using assms by (intro raises_intros)

end
