(* ===== verification/YMsg_Dispatch.thy ===== *)
theory YMsg_Dispatch
  imports YMsg_Processors
begin

text \<open>
  The dispatcher and the login: \<open>PacketDispatcher\<close>, \<open>AuthenticationHandler\<close> with the mock's
  \<open>OnClientAuthenticated\<close>, and the dispatch map of a session, \<open>DispatchMaps::V11\<close>.

  The values of the dispatch map are function objects. There is one kind per entry of the
  two initializer lists, so they are the constructors of a datatype and \<open>run_processor\<close> is
  their call operator. A peer is what one connection owns: the login handler, the dispatch
  map and, after the login, the session; the connection is the session's from the start.
\<close>

section \<open>Function objects\<close>

datatype processor =
    Auth_OnProtocolSync | Auth_OnChallengeRequest | Auth_OnAuthenticate
  | P_RequestProfile | P_SetAway | P_SetAvailable | P_ActivateProfile | P_DeactivateProfile
  | P_AddContact | P_RenameContactGroup | P_RemoveContact | P_DenyContactAddRequest
  | P_ChangeBlockedUser | P_PrivateMessage | P_MassPrivateMessage | P_ServiceOperation
  | P_ChatLogin | P_ChatJoin

type_synonym dispatch_map = "(u16, processor) std_map"

record peer =
  peer_session :: session
  ah_clientId :: string
  ah_password :: string
  ah_initialAvailability :: Availability
  pd_processors :: dispatch_map

abbreviation on_session :: "(session, 'a) cpp \<Rightarrow> (peer, 'a) cpp" where
  "on_session \<equiv> zoom peer_session (\<lambda>t p. p\<lparr>peer_session := t\<rparr>)"

section \<open>The dispatch map of a session\<close>

definition AddProcessor :: "u16 \<Rightarrow> processor \<Rightarrow> dispatch_map \<Rightarrow> dispatch_map" where
  "AddProcessor service p processors = fst (map_emplace service p processors)"

definition V11_Create :: dispatch_map where
  "V11_Create =
     foldl (\<lambda>processors (service, p). AddProcessor service p processors) []
       [(85, P_RequestProfile), (3, P_SetAway), (4, P_SetAvailable), (7, P_ActivateProfile),
        (8, P_DeactivateProfile), (131, P_AddContact), (137, P_RenameContactGroup),
        (132, P_RemoveContact), (134, P_DenyContactAddRequest), (133, P_ChangeBlockedUser),
        (6, P_PrivateMessage), (23, P_MassPrivateMessage), (75, P_ServiceOperation),
        (150, P_ChatLogin), (152, P_ChatJoin)]"

definition run_session_processor ::
  "env \<Rightarrow> processor \<Rightarrow> Header \<Rightarrow> string \<Rightarrow> string \<Rightarrow> (session, unit) cpp" where
  "run_session_processor env p = (case p of
      P_RequestProfile \<Rightarrow>
        PacketProcessor_Parse RequestProfile_OnKeyPair RequestProfile_new Process_RequestProfile
    | P_SetAway \<Rightarrow> PacketProcessor_Parse SetAway_OnKeyPair SetAway_new Process_SetAway
    | P_SetAvailable \<Rightarrow> PacketProcessor_Parse Payload_OnKeyPair () Process_SetAvailable
    | P_ActivateProfile \<Rightarrow>
        PacketProcessor_Parse ActivateProfile_OnKeyPair ActivateProfile_new Process_ActivateProfile
    | P_DeactivateProfile \<Rightarrow>
        PacketProcessor_Parse DeactivateProfile_OnKeyPair DeactivateProfile_new
          Process_DeactivateProfile
    | P_AddContact \<Rightarrow>
        PacketProcessor_Parse AddContact_OnKeyPair AddContact_new (Process_AddContact env)
    | P_RenameContactGroup \<Rightarrow>
        PacketProcessor_Parse RenameContactGroup_OnKeyPair RenameContactGroup_new
          Process_RenameContactGroup
    | P_RemoveContact \<Rightarrow>
        PacketProcessor_Parse RemoveContact_OnKeyPair RemoveContact_new Process_RemoveContact
    | P_DenyContactAddRequest \<Rightarrow>
        PacketProcessor_Parse DenyContactAddRequest_OnKeyPair DenyContactAddRequest_new
          Process_DenyContactAddRequest
    | P_ChangeBlockedUser \<Rightarrow>
        PacketProcessor_Parse ChangeBlockedUser_OnKeyPair ChangeBlockedUser_new
          Process_ChangeBlockedUser
    | P_PrivateMessage \<Rightarrow>
        PacketProcessor_Parse PrivateMessage_OnKeyPair (PrivateMessage_new (env_encoding env))
          Process_PrivateMessage
    | P_MassPrivateMessage \<Rightarrow>
        PacketProcessor_Parse MassPrivateMessage_OnKeyPair
          (MassPrivateMessage_new (env_encoding env)) (Process_MassPrivateMessage env)
    | P_ServiceOperation \<Rightarrow>
        PacketProcessor_Parse ServiceOperation_OnKeyPair ServiceOperation_new
          Process_ServiceOperation
    | P_ChatLogin \<Rightarrow> PacketProcessor_Parse ChatLogin_OnKeyPair ChatLogin_new Process_ChatLogin
    | P_ChatJoin \<Rightarrow> PacketProcessor_Parse ChatJoin_OnKeyPair ChatJoin_new Process_ChatJoin
    | _ \<Rightarrow> NullPacketParser_Parse)"

section \<open>AuthenticationHandler\<close>

definition OnProtocolSync :: "Header \<Rightarrow> string \<Rightarrow> string \<Rightarrow> (peer, unit) cpp" where
  "OnProtocolSync header payload after =
     and_then (lift_res (Parse Payload_OnKeyPair () payload after))
     (\<lambda>_. and_then (on_session (on_connection (modify (SetProtocolVersion (protoVersion header)))))
     (\<lambda>_. on_session (send ProtocolAck_Build)))"

definition OnChallengeRequest :: "Header \<Rightarrow> string \<Rightarrow> string \<Rightarrow> (peer, unit) cpp" where
  "OnChallengeRequest header payload after =
     and_then (lift_res (Parse ChallengeRequest_OnKeyPair ChallengeRequest_new payload after))
     (\<lambda>fields. and_then (modify (\<lambda>p. p\<lparr>ah_clientId := sv_str (chr_clientId fields)\<rparr>))
     (\<lambda>_. on_session (send (ChallengeResponse_Build_None (sv_str (chr_clientId fields))))))"

definition SetDispatchMap :: "dispatch_map \<Rightarrow> peer \<Rightarrow> peer" where
  "SetDispatchMap dispatchMap p = p\<lparr>pd_processors := dispatchMap\<rparr>"

text \<open>
  The managers the mock creates for a new session, before it loads them; the presence
  starts with the availability the login asked for.
\<close>

definition create_managers :: "Availability \<Rightarrow> session \<Rightarrow> session" where
  "create_managers initialAvailability s =
     \<lparr>s_connection = s_connection s, s_blocked = [],
      s_profiles = \<lparr>pm_clientId = [], pm_profiles = []\<rparr>, s_contacts = [],
      s_presence = PresenceProperties_new initialAvailability\<rparr>"

definition mock_profiles :: "string list" where
  "mock_profiles = [''winky'', ''dinky'', ''blinky'', ''brad'', ''greg'']"

definition mock_contacts :: "bool \<Rightarrow> Availability \<Rightarrow> ContactInfo list" where
  "mock_contacts junk initialAvailability =
     [ContactInfo_default junk ''jay'' ''Friends'' Linked,
      ContactInfo_new junk ''donna'' ''Friends'' Linked Custom False
        ''Listening to Bewiz - Booters Paradise'',
      ContactInfo_new junk ''david'' ''Friends'' Linked Busy True [],
      ContactInfo_new junk ''winky'' ''Myself'' Linked initialAvailability False [],
      ContactInfo_new junk ''dinky'' ''Myself'' Linked initialAvailability False [],
      ContactInfo_new junk ''blinky'' ''Myself'' Linked initialAvailability False [],
      ContactInfo_new junk ''brad'' ''Myself'' Linked initialAvailability False []]"

definition mock_blocked :: "string list" where
  "mock_blocked = [''wierdo'', ''jerk'', ''germinator'']"

definition OnClientAuthenticated :: "env \<Rightarrow> (peer, unit) cpp" where
  "OnClientAuthenticated env =
     and_then (modify (\<lambda>p. p\<lparr>peer_session :=
       create_managers (ah_initialAvailability p) (peer_session p)\<rparr>))
     (\<lambda>_. and_then (modify (\<lambda>p. p\<lparr>peer_session := (peer_session p)\<lparr>s_profiles :=
       Profile_Load (ah_clientId p) mock_profiles (s_profiles (peer_session p))\<rparr>\<rparr>))
     (\<lambda>_. and_then (get_state (\<lambda>p. mock_contacts (env_isInChat env) (ah_initialAvailability p)))
     (\<lambda>contacts. and_then (for_each (\<lambda>c. on_session (on_contacts (LoadContact c))) contacts)
     (\<lambda>_. and_then (on_session (on_blocked (modify (Blocked_Load mock_blocked))))
     (\<lambda>_. and_then (on_session (on_connection (modify (SetSessionId (env_rand env)))))
     (\<lambda>_. and_then (on_session Mock_BeginSession)
     (\<lambda>_. modify (SetDispatchMap V11_Create))))))))"

text \<open>
  \<open>OnAuthenticate\<close> up to the call of the virtual \<open>OnClientAuthenticated\<close>. A client id that
  differs from the challenge's has no consequence: the branch is empty.
\<close>

definition OnAuthenticate_fields :: "Header \<Rightarrow> string \<Rightarrow> string \<Rightarrow> (peer, unit) cpp" where
  "OnAuthenticate_fields header payload after =
     and_then (lift_res (Parse Authentication_OnKeyPair Authentication_new payload after))
     (\<lambda>fields. and_then (get_state (\<lambda>p. sv_str (aut_clientId1 fields) \<noteq> ah_clientId p))
     (\<lambda>differs. and_then (if differs then ret () else ret ())
     (\<lambda>_. and_then (modify (\<lambda>p. p\<lparr>ah_initialAvailability :=
       (if attribute header = 12 then Offline else Available)\<rparr>))
     (\<lambda>_. modify (\<lambda>p. p\<lparr>ah_password := ''password''\<rparr>)))))"

definition OnAuthenticate :: "env \<Rightarrow> Header \<Rightarrow> string \<Rightarrow> string \<Rightarrow> (peer, unit) cpp" where
  "OnAuthenticate env header payload after =
     and_then (OnAuthenticate_fields header payload after) (\<lambda>_. OnClientAuthenticated env)"

lemmas OnAuthenticate_defs = OnAuthenticate_def OnAuthenticate_fields_def

text \<open>The initializer list of the \<open>std::map\<close> is inserted in order of the keys.\<close>

definition CreateDispatchMap :: dispatch_map where
  "CreateDispatchMap =
     foldl (\<lambda>m (service, p). map_insert service p m) []
       [(76, Auth_OnProtocolSync), (87, Auth_OnChallengeRequest), (84, Auth_OnAuthenticate)]"

section \<open>PacketDispatcher\<close>

definition run_processor ::
  "env \<Rightarrow> processor \<Rightarrow> Header \<Rightarrow> string \<Rightarrow> string \<Rightarrow> (peer, unit) cpp" where
  "run_processor env p header payload after = (case p of
      Auth_OnProtocolSync \<Rightarrow> OnProtocolSync header payload after
    | Auth_OnChallengeRequest \<Rightarrow> OnChallengeRequest header payload after
    | Auth_OnAuthenticate \<Rightarrow> OnAuthenticate env header payload after
    | _ \<Rightarrow> on_session (run_session_processor env p header payload after))"

text \<open>The two log lines are left out.\<close>

definition Dispatch :: "env \<Rightarrow> Header \<Rightarrow> string \<Rightarrow> string \<Rightarrow> (peer, unit) cpp" where
  "Dispatch env header payload after =
     and_then (get_state (\<lambda>p. map_find (pd_processors p) (serviceId header)))
     (\<lambda>processor. case processor of
        None \<Rightarrow> lift_res (Parse Payload_OnKeyPair () payload after)
      | Some f \<Rightarrow> run_processor env f header payload after)"

text \<open>A peer that just connected: nothing is initialized but the socket and the map.\<close>

definition peer_new :: "u32 \<Rightarrow> u16 \<Rightarrow> nat \<Rightarrow> peer" where
  "peer_new sid pv socket =
     \<lparr>peer_session = create_managers Offline
        \<lparr>s_connection = ClientConnection_new sid pv socket, s_blocked = [],
         s_profiles = \<lparr>pm_clientId = [], pm_profiles = []\<rparr>, s_contacts = [],
         s_presence = PresenceProperties_new Offline\<rparr>,
      ah_clientId = [], ah_password = [], ah_initialAvailability = Offline,
      pd_processors = CreateDispatchMap\<rparr>"

section \<open>The two dispatch maps\<close>

lemma V11_Create_eq:
  "V11_Create =
     [(3, P_SetAway), (4, P_SetAvailable), (6, P_PrivateMessage), (7, P_ActivateProfile),
      (8, P_DeactivateProfile), (23, P_MassPrivateMessage), (75, P_ServiceOperation),
      (85, P_RequestProfile), (131, P_AddContact), (132, P_RemoveContact),
      (133, P_ChangeBlockedUser), (134, P_DenyContactAddRequest), (137, P_RenameContactGroup),
      (150, P_ChatLogin), (152, P_ChatJoin)]"
  by (simp add: V11_Create_def AddProcessor_def map_emplace_def)

lemma CreateDispatchMap_eq:
  "CreateDispatchMap =
     [(76, Auth_OnProtocolSync), (84, Auth_OnAuthenticate), (87, Auth_OnChallengeRequest)]"
  by (simp add: CreateDispatchMap_def)

text \<open>The function objects of the two maps.\<close>

definition login_processors :: "processor set" where
  "login_processors = {Auth_OnProtocolSync, Auth_OnChallengeRequest, Auth_OnAuthenticate}"

lemma CreateDispatchMap_login:
  "map_find CreateDispatchMap k = Some f \<Longrightarrow> f \<in> login_processors"
  by (auto simp: CreateDispatchMap_eq login_processors_def map_find_Cons split: if_splits)

lemma V11_Create_session:
  "map_find V11_Create k = Some f \<Longrightarrow> f \<notin> login_processors"
  by (auto simp: V11_Create_eq login_processors_def map_find_Cons split: if_splits)

lemma run_processor_session:
  "f \<notin> login_processors \<Longrightarrow>
   run_processor env f h payload after = on_session (run_session_processor env f h payload after)"
  by (cases f) (simp_all add: run_processor_def login_processors_def)

section \<open>Invariants of a running session\<close>

context session_invariant begin

lemma session_processor_keeps [keeps_intros]:
  "keeps P (run_session_processor env f header payload after)"
  by (cases f) (simp_all add: run_session_processor_def NullPacketParser_Parse_def keeps_intros)

end

text \<open>A predicate of the session that leaves the rest of the peer alone.\<close>

lemma keeps_on_session:
  "keeps P m \<Longrightarrow>
   keeps (\<lambda>p. P (peer_session p) \<and> R (ah_clientId p) (pd_processors p)) (on_session m)"
  unfolding keeps_def by (auto simp: wp elim: wp_mono)

text \<open>While the session's map is installed, every packet keeps a session invariant.\<close>

lemma Dispatch_keeps:
  assumes "\<And>f. keeps P (run_session_processor env f header payload after)"
    and "P (peer_session p)" "pd_processors p = V11_Create"
  shows "wp (Dispatch env header payload after)
    (\<lambda>_ q. P (peer_session q) \<and> ah_clientId q = ah_clientId p \<and> pd_processors q = V11_Create)
    (\<lambda>_ q. P (peer_session q) \<and> ah_clientId q = ah_clientId p \<and> pd_processors q = V11_Create) p"
proof (cases "map_find V11_Create (serviceId header)")
  case None
  then show ?thesis using assms by (simp add: Dispatch_def wp split: sum.split)
next
  case (Some f)
  then have f: "f \<notin> login_processors" by (rule V11_Create_session)
  have "wp (on_session (run_session_processor env f header payload after))
      (\<lambda>_ q. P (peer_session q) \<and> ah_clientId q = ah_clientId p \<and> pd_processors q = V11_Create)
      (\<lambda>_ q. P (peer_session q) \<and> ah_clientId q = ah_clientId p \<and> pd_processors q = V11_Create) p"
    using keeps_on_session [OF assms(1), where R = "\<lambda>c m. c = ah_clientId p \<and> m = V11_Create"]
      assms(2,3) by (simp add: keeps_def)
  then show ?thesis using Some assms(3) by (simp add: Dispatch_def wp run_processor_session [OF f])
qed

end
