(* ===== verification/YMsg_Machine.thy ===== *)
theory YMsg_Machine
  imports YMsg_Dispatch
begin

text \<open>
  A peer as a state machine: what the login makes of it, which states packets can lead to,
  and what holds in all of them. A step is one packet the dispatcher handled without an
  exception; nothing in the program catches one, so an exception ends the process.
\<close>

section \<open>The login\<close>

definition mock_contact_map :: "bool \<Rightarrow> Availability \<Rightarrow> contacts" where
  "mock_contact_map junk a =
     [(''blinky'', ContactInfo_new junk ''blinky'' ''Myself'' Linked a False []),
      (''brad'', ContactInfo_new junk ''brad'' ''Myself'' Linked a False []),
      (''david'', ContactInfo_new junk ''david'' ''Friends'' Linked Busy True []),
      (''dinky'', ContactInfo_new junk ''dinky'' ''Myself'' Linked a False []),
      (''donna'', ContactInfo_new junk ''donna'' ''Friends'' Linked Custom False
        ''Listening to Bewiz - Booters Paradise''),
      (''jay'', ContactInfo_new junk ''jay'' ''Friends'' Linked Offline False []),
      (''winky'', ContactInfo_new junk ''winky'' ''Myself'' Linked a False [])]"

lemma ci_id_new [simp]:
  "ci_id (ContactInfo_new junk i g st a b m) = i"
  "ci_id (ContactInfo_default junk i g st) = i"
  by (simp_all add: ContactInfo_new_def ContactInfo_default_def)

lemma load_mock_contacts:
  "wp (for_each (\<lambda>c. on_session (on_contacts (LoadContact c))) (mock_contacts junk a)) Q E p =
     Q () (p\<lparr>peer_session := (peer_session p)\<lparr>s_contacts := mock_contact_map junk a\<rparr>\<rparr>)"
  if "s_contacts (peer_session p) = []"
  using that
  by (simp add: mock_contacts_def wp map_find_Cons mock_contact_map_def ContactInfo_default_def)

definition login_session :: "env \<Rightarrow> peer \<Rightarrow> session" where
  "login_session env p =
     \<lparr>s_connection = SetSessionId (env_rand env) (s_connection (peer_session p)),
      s_blocked = mock_blocked,
      s_profiles = \<lparr>pm_clientId = ah_clientId p, pm_profiles = mock_profiles\<rparr>,
      s_contacts = mock_contact_map (env_isInChat env) (ah_initialAvailability p),
      s_presence = PresenceProperties_new (ah_initialAvailability p)\<rparr>"

lemma wp_OnClientAuthenticated [wp]:
  "wp (OnClientAuthenticated env) Q E p =
     wp Mock_BeginSession
       (\<lambda>_ s. Q () (p\<lparr>peer_session := s, pd_processors := V11_Create\<rparr>))
       (\<lambda>e s. E e (p\<lparr>peer_session := s\<rparr>)) (login_session env p)"
  by (simp add: OnClientAuthenticated_def wp load_mock_contacts create_managers_def
      Profile_Load_def Blocked_Load_def SetDispatchMap_def login_session_def)

lemma login_session_wf: "session_wf (login_session env p)"
  by (simp add: session_wf_def login_session_def mock_blocked_def contacts_wf_def
      mock_contact_map_def map_sorted_def)

lemma Mock_BeginSession_raises: "only_raises (\<lambda>e. e = payload_too_large) Mock_BeginSession"
proof -
  have "only_raises (\<lambda>e. e = payload_too_large) BeginSession"
    by (rule only_raisesI) (simp add: wp)
  then show ?thesis
    unfolding Mock_BeginSession_def YahooAlert_Build_def NewMailNotification_Build_def
      NewMailNotification_Build_count_def OfflineMessage_Build_def
    by (intro raises_intros) simp_all
qed

lemma OnClientAuthenticated_raises:
  "only_raises (\<lambda>e. e = payload_too_large) (OnClientAuthenticated env)"
  using Mock_BeginSession_raises by (auto simp: only_raises_def wp)

section \<open>States a peer can be in\<close>

definition logged_in :: "peer \<Rightarrow> bool" where
  "logged_in p = (pd_processors p = V11_Create \<and> session_wf (peer_session p)
     \<and> s_profiles (peer_session p) = \<lparr>pm_clientId = ah_clientId p, pm_profiles = mock_profiles\<rparr>)"

definition peer_ok :: "peer \<Rightarrow> bool" where
  "peer_ok p = (pd_processors p = CreateDispatchMap \<or> logged_in p)"

inductive serves :: "peer \<Rightarrow> peer \<Rightarrow> bool" where
  packet: "Dispatch env header payload after p = (Inr (), q) \<Longrightarrow> serves p q"

inductive_cases servesE: "serves p q"

inductive reachable :: "peer \<Rightarrow> bool" where
  connected: "reachable (peer_new sid pv socket)"
| served: "reachable p \<Longrightarrow> serves p q \<Longrightarrow> reachable q"

lemma maps_differ [simp]: "V11_Create \<noteq> CreateDispatchMap"
  by (simp add: V11_Create_eq CreateDispatchMap_eq)

lemma on_session_map: "keeps (\<lambda>p. pd_processors p = m) (on_session a)"
  by (rule keepsI, subst wp_zoom, rule wpI) simp_all

lemma login_handlers_map:
  "keeps (\<lambda>p. pd_processors p = m) (OnProtocolSync h s after)"
  "keeps (\<lambda>p. pd_processors p = m) (OnChallengeRequest h s after)"
  unfolding OnProtocolSync_def OnChallengeRequest_def
  by (intro keeps_intros on_session_map keeps_modify; simp)+

lemma OnAuthenticate_logs_in:
  "wp (OnAuthenticate env h s after) (\<lambda>_. logged_in) (\<lambda>_ q. pd_processors q = pd_processors p) p"
proof -
  let ?P = "\<lambda>p s. session_wf s
    \<and> s_profiles s = \<lparr>pm_clientId = ah_clientId p, pm_profiles = mock_profiles\<rparr>"
  have *: "wp Mock_BeginSession (\<lambda>_. ?P p) (\<lambda>_. ?P p) (login_session env p)" for p
  proof -
    let ?c = "s_connection (login_session env p)"
    have "session_identity \<lparr>pm_clientId = ah_clientId p, pm_profiles = mock_profiles\<rparr>
        (conn_sessionId ?c) (conn_protocolVersion ?c) (conn_sent ?c) (login_session env p)"
      by (simp add: session_identity_def login_session_def)
    from wp_conj [OF keeps_wp [OF wf.Mock_BeginSession_keeps login_session_wf]
        keeps_wp [OF identity.Mock_BeginSession_keeps this]]
    show ?thesis by (rule wp_mono) (simp_all add: session_identity_def)
  qed
  have "wp (OnClientAuthenticated env) (\<lambda>_. logged_in)
      (\<lambda>_ q. pd_processors q = pd_processors p) p" for p
    using * [of p] by (simp add: wp) (erule wp_mono, simp_all add: logged_in_def)
  then show ?thesis by (simp add: OnAuthenticate_defs wp split: sum.split)
qed

lemma Dispatch_login_ok:
  assumes "pd_processors p = CreateDispatchMap"
  shows "wp (Dispatch env h s after) (\<lambda>_. peer_ok) (\<lambda>_ q. pd_processors q = CreateDispatchMap) p"
proof (cases "map_find CreateDispatchMap (serviceId h)")
  case None
  then show ?thesis using assms by (simp add: Dispatch_def wp peer_ok_def split: sum.split)
next
  case (Some f)
  then have "f \<in> login_processors" by (rule CreateDispatchMap_login)
  then have "wp (run_processor env f h s after) (\<lambda>_. peer_ok)
      (\<lambda>_ q. pd_processors q = CreateDispatchMap) p"
    unfolding login_processors_def
  proof (elim insertE emptyE)
    assume "f = Auth_OnAuthenticate"
    then show ?thesis
      using OnAuthenticate_logs_in [of env h s after p] assms
      by (auto simp: run_processor_def peer_ok_def elim!: wp_mono)
  qed (use login_handlers_map [of CreateDispatchMap h s after] assms in
      \<open>auto simp: run_processor_def peer_ok_def keeps_def elim!: wp_mono\<close>)
  then show ?thesis using Some assms by (simp add: Dispatch_def wp)
qed

lemma Dispatch_session_ok:
  assumes "logged_in p"
  shows "wp (Dispatch env h s after) (\<lambda>_. logged_in) (\<lambda>_. logged_in) p"
proof -
  have p: "pd_processors p = V11_Create" "session_wf (peer_session p)"
      "s_profiles (peer_session p) = \<lparr>pm_clientId = ah_clientId p, pm_profiles = mock_profiles\<rparr>"
    using assms by (simp_all add: logged_in_def)
  show ?thesis
    using wp_conj [OF Dispatch_keeps [OF wf.session_processor_keeps p(2,1)]
        Dispatch_keeps [OF identity.session_processor_keeps session_identity_self p(1)]]
    by (rule wp_mono) (simp_all add: logged_in_def session_identity_def p(3))
qed

lemma serves_ok: "serves p q \<Longrightarrow> peer_ok p \<Longrightarrow> peer_ok q"
proof (erule servesE)
  fix env h s after
  assume run: "Dispatch env h s after p = (Inr (), q)" and ok: "peer_ok p"
  from ok consider "pd_processors p = CreateDispatchMap" | "logged_in p"
    by (auto simp: peer_ok_def)
  then show "peer_ok q"
  proof cases
    case 1
    from wp_Inr [OF Dispatch_login_ok [OF this] run] show ?thesis .
  next
    case 2
    from wp_Inr [OF Dispatch_session_ok [OF this] run] show ?thesis by (simp add: peer_ok_def)
  qed
qed

lemma peer_new_ok: "peer_ok (peer_new sid pv socket)"
  by (simp add: peer_ok_def peer_new_def)

lemma reachable_ok: "reachable p \<Longrightarrow> peer_ok p"
  by (induction rule: reachable.induct) (auto intro: peer_new_ok serves_ok)

section \<open>Where undefined behaviour can come from\<close>

text \<open>The processors that convert a field of the packet to a number.\<close>

definition converting :: "processor set" where
  "converting = {P_SetAway, P_PrivateMessage, P_MassPrivateMessage, P_ServiceOperation}"

lemma plain_processor_raises:
  assumes "f \<notin> login_processors" "f \<notin> converting"
  shows "only_raises benign (run_session_processor env f h s after)"
proof (cases f)
  case P_RequestProfile
  then show ?thesis
    by (auto simp: run_session_processor_def dest: rqp.Parse_empty_key
        intro!: PacketProcessor_raises processors_raise)
next
  case P_SetAvailable
  then show ?thesis
    by (auto simp: run_session_processor_def dest: base_payload.Parse_empty_key
        intro!: PacketProcessor_raises processors_raise)
next
  case P_ActivateProfile
  then show ?thesis
    by (auto simp: run_session_processor_def dest: acp.Parse_empty_key
        intro!: PacketProcessor_raises processors_raise)
next
  case P_DeactivateProfile
  then show ?thesis
    by (auto simp: run_session_processor_def dest: dap.Parse_empty_key
        intro!: PacketProcessor_raises processors_raise)
next
  case P_AddContact
  then show ?thesis
    by (auto simp: run_session_processor_def dest: adc.Parse_empty_key
        intro!: PacketProcessor_raises processors_raise)
next
  case P_RenameContactGroup
  then show ?thesis
    by (auto simp: run_session_processor_def dest: rcg.Parse_empty_key
        intro!: PacketProcessor_raises processors_raise)
next
  case P_RemoveContact
  then show ?thesis
    by (auto simp: run_session_processor_def dest: rmc.Parse_empty_key
        intro!: PacketProcessor_raises processors_raise)
next
  case P_DenyContactAddRequest
  then show ?thesis
    by (auto simp: run_session_processor_def dest: dcr.Parse_empty_key
        intro!: PacketProcessor_raises processors_raise)
next
  case P_ChangeBlockedUser
  then show ?thesis
    by (auto simp: run_session_processor_def dest: cbu.Parse_empty_key
        intro!: PacketProcessor_raises processors_raise)
next
  case P_ChatLogin
  then show ?thesis
    by (auto simp: run_session_processor_def dest: chl.Parse_empty_key
        intro!: PacketProcessor_raises processors_raise)
next
  case P_ChatJoin
  then show ?thesis
    by (auto simp: run_session_processor_def dest: chj.Parse_empty_key
        intro!: PacketProcessor_raises processors_raise)
qed (use assms in \<open>simp_all add: login_processors_def converting_def\<close>)

lemma benign_empty_key: "e = empty_key \<Longrightarrow> benign e"
  by simp

lemma login_handlers_raise:
  "only_raises benign (OnProtocolSync h s after)"
  "only_raises benign (OnChallengeRequest h s after)"
  "only_raises benign (OnAuthenticate env h s after)"
  unfolding OnProtocolSync_def OnChallengeRequest_def OnAuthenticate_defs
    ProtocolAck_Build_def ChallengeResponse_Build_None_def
  by (intro raises_intros OnClientAuthenticated_raises [THEN only_raises_mono];
      auto intro: benign_empty_key dest: base_payload.Parse_empty_key chr.Parse_empty_key
        aut.Parse_empty_key)+

lemma unknown_service_raises: "only_raises benign (lift_res (Parse Payload_OnKeyPair () s after))"
  by (rule raises_lift_res) (auto dest: base_payload.Parse_empty_key)

lemma V11_converting:
  "map_find V11_Create k = Some f \<Longrightarrow> f \<in> converting \<Longrightarrow> k \<in> {3, 6, 23, 75}"
  by (auto simp: V11_Create_eq converting_def map_find_Cons split: if_splits)

lemma Dispatch_undefined:
  assumes "peer_ok p" "Dispatch env h s after p = (Inl e, q)" "is_undefined e"
  shows "logged_in p \<and> serviceId h \<in> {3, 6, 23, 75}"
proof -
  have bad: "\<not> benign e" using assms(3) by (simp add: benign_def)
  show ?thesis
  proof (cases "map_find (pd_processors p) (serviceId h)")
    case None
    then have "lift_res (Parse Payload_OnKeyPair () s after) p = (Inl e, q)"
      using assms(2) by (simp add: Dispatch_def and_then_def get_state_def)
    from only_raisesD [OF unknown_service_raises this] bad show ?thesis by simp
  next
    case (Some f)
    then have run: "run_processor env f h s after p = (Inl e, q)"
      using assms(2) by (simp add: Dispatch_def and_then_def get_state_def)
    show ?thesis
    proof (cases "f \<in> login_processors")
      case True
      then have "only_raises benign (run_processor env f h s after)"
        using login_handlers_raise by (auto simp: login_processors_def run_processor_def)
      with run bad show ?thesis by (auto dest: only_raisesD)
    next
      case False
      have "f \<in> converting"
      proof (rule ccontr)
        assume "f \<notin> converting"
        with False have "only_raises benign (run_processor env f h s after)"
          by (auto simp: run_processor_session intro: raises_zoom plain_processor_raises)
        with run bad show False by (auto dest: only_raisesD)
      qed
      moreover have "logged_in p"
        using assms(1) Some False CreateDispatchMap_login by (auto simp: peer_ok_def)
      ultimately show ?thesis using Some V11_converting by (auto simp: logged_in_def)
    qed
  qed
qed

text \<open>What undefined behaviour the model knows of is one of these conversions.\<close>

definition tame :: "exn \<Rightarrow> bool" where
  "tame e = (is_undefined e \<longrightarrow> e \<in> conversion_faults)"

lemma tame_simps: "e \<in> conversion_faults \<Longrightarrow> tame e" "benign e \<Longrightarrow> tame e"
  by (simp_all add: tame_def benign_def)

lemma tame_parse: "e = empty_key \<or> e \<in> conversion_faults \<Longrightarrow> tame e"
  by (auto simp: tame_simps)

lemma benign_tame: "only_raises benign m \<Longrightarrow> only_raises tame m"
  by (erule only_raises_mono) (rule tame_simps)

lemma converting_raises:
  assumes "f \<in> converting"
  shows "only_raises tame (run_session_processor env f h s after)"
proof (cases f)
  case P_SetAway
  have "only_raises tame (Process_SetAway h p)" for p
    unfolding Process_SetAway_def
    by (intro raises_intros presence_links_benign [THEN benign_tame])
      (auto intro: tame_simps dest: to_enum_Inl_fault stol_data_fault simp: tame_def)
  then show ?thesis
    using P_SetAway
    by (auto simp: run_session_processor_def dest: saw.Parse_empty_key
        intro!: PacketProcessor_raises tame_parse)
next
  case P_PrivateMessage
  then show ?thesis
    by (auto simp: run_session_processor_def dest: pvm.Parse_fault
        intro!: PacketProcessor_raises tame_parse processors_raise [THEN benign_tame])
next
  case P_MassPrivateMessage
  then show ?thesis
    by (auto simp: run_session_processor_def dest: mpm.Parse_fault
        intro!: PacketProcessor_raises tame_parse processors_raise [THEN benign_tame])
next
  case P_ServiceOperation
  have "only_raises tame (Process_ServiceOperation h p)" for p
    unfolding Process_ServiceOperation_def TypingNotification_Build_def
    by (intro raises_intros) (auto intro: tame_simps dest: to_enum_Inl_fault)
  then show ?thesis
    using P_ServiceOperation
    by (auto simp: run_session_processor_def dest: svo.Parse_empty_key
        intro!: PacketProcessor_raises tame_parse)
qed (use assms in \<open>simp_all add: converting_def\<close>)

lemma Dispatch_tame: "only_raises tame (Dispatch env h s after)"
proof -
  have "only_raises tame (run_processor env f h s after)" for f
  proof (cases "f \<in> login_processors")
    case True
    then show ?thesis
      using login_handlers_raise [THEN benign_tame] by (auto simp: login_processors_def run_processor_def)
  next
    case False
    then show ?thesis
      using converting_raises plain_processor_raises [THEN benign_tame]
      by (cases "f \<in> converting") (auto simp: run_processor_session intro!: raises_zoom)
  qed
  then show ?thesis
    unfolding Dispatch_def
    by (intro raises_intros) (auto intro: unknown_service_raises [THEN benign_tame] split: option.split)
qed

lemma Dispatch_fault:
  "Dispatch env h s after p = (Inl e, q) \<Longrightarrow> is_undefined e \<Longrightarrow> e \<in> conversion_faults"
  using only_raisesD [OF Dispatch_tame] by (simp add: tame_def)

section \<open>A login that succeeds\<close>

text \<open>
  A client that sends an empty authentication packet right after connecting is logged in:
  the states behind the login are reachable.
\<close>

definition demo_env :: env where
  "demo_env = \<lparr>env_time = 0, env_rand = 42, env_isInChat = False, env_encoding = TextEncoding_None\<rparr>"

definition demo_header :: "u16 \<Rightarrow> Header" where
  "demo_header service =
     \<lparr>protoVersion = 11, vendorId = 0, payloadSize = 0, serviceId = service, attribute = 0,
      sessionId = 0\<rparr>"

definition demo_peer :: peer where
  "demo_peer = snd (Dispatch demo_env (demo_header 84) [] [] (peer_new 0 0 5))"

lemma demo_fits:
  "fits (ClientProfile_fields [] (group_contacts (mock_contact_map False Available))
     mock_profiles mock_blocked)"
  "fits ([(0, []), (1, [])] @ AppendContacts (onlineContacts (mock_contact_map False Available)))"
  by (rule fits_bound; simp add: ClientProfile_fields_def mock_contact_map_def mock_profiles_def
      mock_blocked_def group_contacts_def group_contact_def ContactInfo_new_def map_adjust_def
      contactListString_def comma_list_def ignoreListString_def profileNamesString_def
      LONG_MIN_def LONG_MAX_def onlineContacts_def IsOnline_def AppendContacts_def
      AppendContact_def bool_to_string_def to_string_def nat_to_string.simps)+

lemma demo_login:
  "Dispatch demo_env (demo_header 84) [] [] (peer_new 0 0 5) = (Inr (), demo_peer)"
proof -
  have "wp (Dispatch demo_env (demo_header 84) [] []) (\<lambda>x q. x = ()) (\<lambda>_ _. False) (peer_new 0 0 5)"
    using demo_fits
    by (simp add: Dispatch_def peer_new_def wp CreateDispatchMap_eq map_find_Cons demo_header_def
        run_processor_def OnAuthenticate_defs Parse.simps [of _ _ "[]"] login_session_def
        Mock_BeginSession_def GetClientId_def profile_fields_def online_fields_def demo_env_def)
  then show ?thesis
    by (auto simp: demo_peer_def wp_def split: prod.splits sum.splits)
qed

lemma demo_reachable: "reachable demo_peer"
  using reachable.served [OF reachable.connected serves.packet [OF demo_login]] .

text \<open>A peer with the session's map installed that is in order is logged in.\<close>

lemma demo_logged_in: "logged_in demo_peer"
proof -
  have "wp (Dispatch demo_env (demo_header 84) [] []) (\<lambda>_ q. pd_processors q = V11_Create)
      (\<lambda>_ _. False) (peer_new 0 0 5)"
    using demo_fits
    by (simp add: Dispatch_def peer_new_def wp CreateDispatchMap_eq map_find_Cons demo_header_def
        run_processor_def OnAuthenticate_defs Parse.simps [of _ _ "[]"] login_session_def
        Mock_BeginSession_def GetClientId_def profile_fields_def online_fields_def demo_env_def)
  from wp_Inr [OF this demo_login] have "pd_processors demo_peer \<noteq> CreateDispatchMap" by simp
  with reachable_ok [OF demo_reachable] show ?thesis by (simp add: peer_ok_def)
qed

lemma demo_map: "pd_processors demo_peer = V11_Create"
  using demo_logged_in by (simp add: logged_in_def)

section \<open>What a session never changes\<close>

definition same_identity :: "peer \<Rightarrow> peer \<Rightarrow> bool" where
  "same_identity p q =
     (pd_processors q = pd_processors p \<and> ah_clientId q = ah_clientId p
      \<and> session_identity (s_profiles (peer_session p))
          (conn_sessionId (s_connection (peer_session p)))
          (conn_protocolVersion (s_connection (peer_session p)))
          (conn_sent (s_connection (peer_session p))) (peer_session q))"

lemma same_identity_refl: "same_identity p p"
  by (simp add: same_identity_def session_identity_def)

lemma same_identity_trans: "same_identity p q \<Longrightarrow> same_identity q r \<Longrightarrow> same_identity p r"
  by (auto simp: same_identity_def session_identity_def)

lemma Dispatch_identity:
  assumes "pd_processors p = V11_Create"
  shows "wp (Dispatch env h s after) (\<lambda>_. same_identity p) (\<lambda>_. same_identity p) p"
  using Dispatch_keeps [OF identity.session_processor_keeps session_identity_self assms]
  by (rule wp_mono) (simp_all add: same_identity_def assms)

lemma serves_identity:
  "rtranclp serves p q \<Longrightarrow> pd_processors p = V11_Create \<Longrightarrow> same_identity p q"
proof (induction rule: rtranclp_induct)
  case (step q r)
  from step.hyps(2) obtain env h s after where run: "Dispatch env h s after q = (Inr (), r)"
    by (rule servesE)
  have "pd_processors q = V11_Create" using step by (simp add: same_identity_def)
  from wp_Inr [OF Dispatch_identity [OF this] run] show ?case
    using step same_identity_trans by blast
qed (rule same_identity_refl)

section \<open>Conversions that go wrong\<close>

text \<open>For each of the four services, a payload that makes its conversion undefined.\<close>

definition open_encoding :: string where
  "open_encoding = ''97'' @ terminator @ ''1''"

definition typing_payload :: string where
  "typing_payload = ''49'' @ terminator @ ''TYPING'' @ terminator"

lemma faulty_parses:
  "Parse PrivateMessage_OnKeyPair (PrivateMessage_new (env_encoding demo_env)) open_encoding [] =
     Inl (Undefined ''atoi reads past the end of the buffer'')"
  "Parse MassPrivateMessage_OnKeyPair (MassPrivateMessage_new (env_encoding demo_env)) open_encoding [] =
     Inl (Undefined ''atoi reads past the end of the buffer'')"
  "Parse SetAway_OnKeyPair SetAway_new [] [] = Inr SetAway_new"
  "map_sum id (\<lambda>p. (sv_str (svo_operation p), svo_action p))
     (Parse ServiceOperation_OnKeyPair ServiceOperation_new typing_payload []) = Inr (''TYPING'', Null_view)"
  by code_simp+

lemma fault_occurs:
  assumes "pd_processors p = V11_Create" and "serviceId header \<in> {3, 6, 23, 75}"
  shows "\<exists>payload e q. Dispatch demo_env header payload [] p = (Inl e, q) \<and> e \<in> conversion_faults"
proof -
  have atoi: "to_enum f Null_view = Inl (Undefined ''atoi of a null pointer'')" for f :: "int \<Rightarrow> 'a"
    by (simp add: to_enum_def atoi_data_def)
  obtain t where t: "Parse ServiceOperation_OnKeyPair ServiceOperation_new typing_payload [] = Inr t"
    "sv_str (svo_operation t) = ''TYPING''" "svo_action t = Null_view"
    using faulty_parses(4)
    by (cases "Parse ServiceOperation_OnKeyPair ServiceOperation_new typing_payload []") auto
  let ?fault = "\<lambda>payload. wp (Dispatch demo_env header payload []) (\<lambda>_ _. False) (\<lambda>e _. e \<in> conversion_faults) p"
  have "?fault (if serviceId header = 75 then typing_payload else if serviceId header = 3 then [] else open_encoding)"
    using assms t faulty_parses(1-3)
    by (auto simp: Dispatch_def wp V11_Create_eq map_find_Cons run_processor_def run_session_processor_def
        PacketProcessor_Parse_def Process_SetAway_def Process_ServiceOperation_def SetAway_new_def atoi
        conversion_faults_def)
  then show ?thesis
    by (auto simp: wp_def split: prod.splits sum.splits)
qed

end
