(* ===== verification/YMsg_Stream.thy ===== *)
theory YMsg_Stream
  imports YMsg_Builder Std_Map
begin

text \<open>
  The receiving side: \<open>ProtocolStream\<close>, which cuts the bytes of a socket into packets, and
  \<open>ConnectionPump\<close>, the select loop that feeds it. The operating system is a parameter: what
  \<open>recv\<close> returns for a read, and what \<open>select\<close> and \<open>ioctlsocket\<close> report in each turn of the
  loop. The world the dispatcher works on is the type variable \<open>'w\<close>.
\<close>

section \<open>ProtocolStream\<close>

type_synonym 'w dispatcher = "Header \<Rightarrow> string \<Rightarrow> string \<Rightarrow> ('w, unit) cpp"

record 'w stream =
  ps_data :: string
  ps_world :: 'w

text \<open>\<open>None\<close> is the null \<open>std::function\<close>.\<close>

definition ProtocolStream_new :: "'w dispatcher option \<Rightarrow> exn + 'w dispatcher" where
  "ProtocolStream_new dispatcher =
     (case dispatcher of None \<Rightarrow> Inl (Invalid_argument ''dispatcher_ cannot be null'')
      | Some d \<Rightarrow> Inr d)"

definition HasHeader :: "string \<Rightarrow> bool" where
  "HasHeader data = (length data \<ge> sizeof_RawHeader)"

definition GetRawHeader :: "string \<Rightarrow> RawHeader option" where
  "GetRawHeader data = (if HasHeader data then Some (raw_of_bytes data) else None)"

definition IsValidHeader :: "string \<Rightarrow> bool" where
  "IsValidHeader data =
     (HasHeader data \<and> (case GetRawHeader data of None \<Rightarrow> False
        | Some h \<Rightarrow> htonl (raw_signature h) = Signature))"

definition HasPacket :: "string \<Rightarrow> bool" where
  "HasPacket data =
     (case GetRawHeader data of None \<Rightarrow> False
      | Some header \<Rightarrow> length data \<ge> unat (htons (raw_payloadSize header)) + sizeof_RawHeader)"

definition Consume :: "'w dispatcher \<Rightarrow> ('w stream, unit) cpp" where
  "Consume dispatcher =
     and_then (get_state ps_data)
     (\<lambda>data. if \<not> HasPacket data then throw (Runtime_error ''Unable to consume data'')
      else (let header = Header_of_raw (raw_of_bytes data);
                n = unat (payloadSize header);
                payload = take n (drop sizeof_RawHeader data);
                after = drop (sizeof_RawHeader + n) data
            in and_then (zoom ps_world (\<lambda>w s. s\<lparr>ps_world := w\<rparr>) (dispatcher header payload after))
               (\<lambda>_. modify (\<lambda>s. s\<lparr>ps_data := drop (sizeof_RawHeader + n) (ps_data s)\<rparr>))))"

text \<open>
  A read: \<open>None\<close> is \<open>SOCKET_ERROR\<close>, \<open>Some bytes\<close> what was received, at most
  \<open>incomingSize\<close> bytes. The result value of \<open>recv\<close> is not used otherwise, so the part of
  the enlarged buffer a short read leaves unwritten stays NUL.
\<close>

definition ProcessPendingData ::
  "'w dispatcher \<Rightarrow> string option \<Rightarrow> nat \<Rightarrow> ('w stream, bool) cpp" where
  "ProcessPendingData dispatcher received incomingSize =
     (if incomingSize = 0 then ret False
      else case received of
        None \<Rightarrow> ret False
      | Some bytes \<Rightarrow>
          and_then (modify (\<lambda>s. s\<lparr>ps_data :=
            ps_data s @ bytes @ replicate (incomingSize - length bytes) CHR 0x00\<rparr>))
          (\<lambda>_. and_then (get_state ps_data)
          (\<lambda>data. and_then (if HasPacket data then Consume dispatcher else ret ())
          (\<lambda>_. ret True))))"

section \<open>Packets in a byte sequence\<close>

definition frame_length :: "string \<Rightarrow> nat" where
  "frame_length data = sizeof_RawHeader + unat (payloadSize (Header_of_bytes data))"

definition frame :: "string \<Rightarrow> Header \<times> string" where
  "frame data =
     (Header_of_bytes data,
      take (unat (payloadSize (Header_of_bytes data))) (drop sizeof_RawHeader data))"

lemma HasPacket_iff:
  "HasPacket data \<longleftrightarrow> sizeof_RawHeader \<le> length data \<and> frame_length data \<le> length data"
  by (auto simp: HasPacket_def GetRawHeader_def HasHeader_def frame_length_def Header_of_bytes_def
      Header_of_raw_def)

text \<open>\<open>split_frames k\<close> takes the first \<open>k\<close> packets off a byte sequence.\<close>

fun split_frames :: "nat \<Rightarrow> string \<Rightarrow> ((Header \<times> string) list \<times> string) option" where
  "split_frames 0 data = Some ([], data)"
| "split_frames (Suc k) data =
     (if HasPacket data
      then map_option (\<lambda>(fs, r). (frame data # fs, r))
             (split_frames k (drop (frame_length data) data))
      else None)"

text \<open>All packets of a byte sequence, and the incomplete one at its end.\<close>

function frames :: "string \<Rightarrow> (Header \<times> string) list \<times> string" where
  "frames data =
     (if HasPacket data
      then (let (fs, r) = frames (drop (frame_length data) data) in (frame data # fs, r))
      else ([], data))"
  by pat_completeness auto
termination
  by (relation "measure length")
    (auto simp: HasPacket_iff frame_length_def sizeof_RawHeader_def)

declare frames.simps [simp del]

lemma raw_of_bytes_append:
  "sizeof_RawHeader \<le> length d \<Longrightarrow> raw_of_bytes (d @ e) = raw_of_bytes d"
proof -
  assume "sizeof_RawHeader \<le> length d"
  then have d: "20 \<le> length d" by (simp add: sizeof_RawHeader_def)
  have l16: "load16 (drop n d @ f) = load16 (drop n d)" if "n \<le> 18" for n f
  proof -
    have "Suc 0 < length d - n" "n < length d" using d that by linarith+
    then show ?thesis by (simp add: load16_def nth_append)
  qed
  have l32: "load32 (drop n d @ f) = load32 (drop n d)" if "n \<le> 16" for n f
  proof -
    have "3 < length d - n" "n < length d" using d that by linarith+
    then show ?thesis by (simp add: load32_def nth_append)
  qed
  show ?thesis
    using d l16 l32 l32 [of 0] by (simp add: raw_of_bytes_def)
qed

lemma Header_of_bytes_append:
  "sizeof_RawHeader \<le> length d \<Longrightarrow> Header_of_bytes (d @ e) = Header_of_bytes d"
  by (simp add: Header_of_bytes_def raw_of_bytes_append)

lemma HasPacket_append:
  assumes "HasPacket d"
  shows "HasPacket (d @ e)" "frame (d @ e) = frame d" "frame_length (d @ e) = frame_length d"
    "drop (frame_length d) (d @ e) = drop (frame_length d) d @ e"
  using assms
  by (auto simp: HasPacket_iff frame_length_def frame_def Header_of_bytes_append)

lemma HasPacket_no_excess [simp]: "HasPacket d \<Longrightarrow> frame_length d - length d = 0"
  by (simp add: HasPacket_iff)

lemma split_frames_append:
  "split_frames k d = Some (fs, r) \<Longrightarrow> split_frames k (d @ e) = Some (fs, r @ e)"
  by (induction k d arbitrary: fs r rule: split_frames.induct)
    (auto simp: HasPacket_append split: if_splits)

lemma split_frames_snoc:
  "split_frames k d = Some (fs, r) \<Longrightarrow> HasPacket r \<Longrightarrow>
   split_frames (Suc k) d = Some (fs @ [frame r], drop (frame_length r) r)"
  by (induction k d arbitrary: fs r rule: split_frames.induct)
    (auto split: if_splits)

lemma split_frames_length: "split_frames k d = Some (fs, r) \<Longrightarrow> length fs = k"
  by (induction k d arbitrary: fs r rule: split_frames.induct) (auto split: if_splits)

lemma split_frames_frames:
  "split_frames k d = Some (fs, r) \<Longrightarrow> frames d = (fs @ fst (frames r), snd (frames r))"
proof (induction k d arbitrary: fs r rule: split_frames.induct)
  case (2 k data)
  then show ?case
    by (subst frames.simps) (auto simp: Let_def split: if_splits prod.splits)
qed simp

section \<open>What the stream delivers\<close>

text \<open>\<open>wp\<close> of a read: at most one packet is handed on, and it stays when that throws.\<close>

lemma Header_of_bytes_cast: "Header_of_raw (raw_of_bytes d) = Header_of_bytes d"
  by (simp add: Header_of_bytes_def)

lemma wp_Consume [wp]:
  "wp (Consume dispatcher) Q E s =
     (let d = ps_data s in
      if \<not> HasPacket d then E (Runtime_error ''Unable to consume data'') s
      else wp (dispatcher (fst (frame d)) (snd (frame d)) (drop (frame_length d) d))
             (\<lambda>_ w. Q () (s\<lparr>ps_world := w, ps_data := drop (frame_length d) d\<rparr>))
             (\<lambda>e w. E e (s\<lparr>ps_world := w\<rparr>)) (ps_world s))"
  by (simp add: Consume_def wp Let_def Header_of_bytes_cast frame_def frame_length_def)

definition read_data :: "string \<Rightarrow> nat \<Rightarrow> string" where
  "read_data bytes n = bytes @ replicate (n - length bytes) CHR 0x00"

lemma wp_ProcessPendingData [wp]:
  "wp (ProcessPendingData dispatcher received n) Q E s =
     (if n = 0 \<or> received = None then Q False s
      else let d = ps_data s @ read_data (the received) n in
        if HasPacket d
        then wp (dispatcher (fst (frame d)) (snd (frame d)) (drop (frame_length d) d))
               (\<lambda>_ w. Q True (s\<lparr>ps_world := w, ps_data := drop (frame_length d) d\<rparr>))
               (\<lambda>e w. E e (s\<lparr>ps_data := d, ps_world := w\<rparr>)) (ps_world s)
        else Q True (s\<lparr>ps_data := d\<rparr>))"
  by (simp add: ProcessPendingData_def wp Let_def read_data_def split: option.split)

text \<open>
  A run of reads that all succeed, with a dispatcher that writes down what it is given.
\<close>

definition log_frame :: "((Header \<times> string) list) dispatcher" where
  "log_frame header payload after = modify (\<lambda>l. l @ [(header, payload)])"

definition reads :: "'w dispatcher \<Rightarrow> string list \<Rightarrow> ('w stream, unit) cpp" where
  "reads dispatcher =
     for_each (\<lambda>bytes. and_then (ProcessPendingData dispatcher (Some bytes) (length bytes))
       (\<lambda>_. ret ()))"

lemma read_data_full [simp]: "n = length bytes \<Longrightarrow> read_data bytes n = bytes"
  by (simp add: read_data_def)

lemma reads_log:
  assumes "split_frames (length (ps_world s)) whole = Some (ps_world s, ps_data s)"
  shows "\<exists>s'. reads log_frame cs s = (Inr (), s')
    \<and> split_frames (length (ps_world s')) (whole @ concat cs) = Some (ps_world s', ps_data s')
    \<and> length (ps_world s') \<le> length (ps_world s) + length cs"
  using assms
proof (induction cs arbitrary: s whole)
  case Nil
  then show ?case by (simp add: reads_def ret_def)
next
  case (Cons c cs)
  let ?d = "ps_data s @ c"
  let ?s = "if c \<noteq> [] \<and> HasPacket ?d
    then s\<lparr>ps_data := drop (frame_length ?d) ?d, ps_world := ps_world s @ [frame ?d]\<rparr>
    else s\<lparr>ps_data := ?d\<rparr>"
  have one: "and_then (ProcessPendingData log_frame (Some c) (length c)) (\<lambda>_. ret ()) s = (Inr (), ?s)"
    by (rule wp_run_Inr) (auto simp: wp Let_def log_frame_def)
  have sf: "split_frames (length (ps_world s)) (whole @ c) = Some (ps_world s, ?d)"
    using split_frames_append [OF Cons.prems] by simp
  have inv: "split_frames (length (ps_world ?s)) (whole @ c) = Some (ps_world ?s, ps_data ?s)"
    using split_frames_snoc [OF sf] sf by auto
  have len: "length (ps_world ?s) \<le> Suc (length (ps_world s))" by simp
  from Cons.IH [OF inv] obtain s' where
    "reads log_frame cs ?s = (Inr (), s')"
    "split_frames (length (ps_world s')) ((whole @ c) @ concat cs) = Some (ps_world s', ps_data s')"
    "length (ps_world s') \<le> length (ps_world ?s) + length cs"
    by blast
  with one len show ?case
    by (intro exI [of _ s']) (auto simp: reads_def and_then_def)
qed

text \<open>
  A packet whose bytes arrive in any number of non-empty reads is handed on by the read
  that completes it.
\<close>

lemma HasPacket_prefix:
  assumes "HasPacket d" "d @ e = w" "frame_length w = length w"
  shows "e = []"
proof -
  have "frame_length d = length w" using HasPacket_append(3) [OF assms(1), of e] assms(2,3) by simp
  moreover have "frame_length d \<le> length d" using assms(1) by (simp add: HasPacket_iff)
  ultimately show ?thesis using assms(2) by auto
qed

lemma reads_one:
  assumes "ps_data s @ concat cs = w" "HasPacket w" "frame_length w = length w"
    and "\<not> HasPacket (ps_data s)" "[] \<notin> set cs"
  shows "reads log_frame cs s = (Inr (), s\<lparr>ps_data := [], ps_world := ps_world s @ [frame w]\<rparr>)"
  using assms
proof (induction cs arbitrary: s)
  case Nil
  then show ?case by simp
next
  case (Cons c cs)
  let ?d = "ps_data s @ c"
  have c: "c \<noteq> []" using Cons.prems(5) by auto
  show ?case
  proof (cases "cs = []")
    case True
    then have w: "w = ?d" using Cons.prems(1) by simp
    show ?thesis
      using c Cons.prems(2,3)
      by (intro run_eqI) (simp add: True w reads_def wp Let_def log_frame_def)
  next
    case False
    then have "concat cs \<noteq> []" using Cons.prems(5) by (cases cs) auto
    then have no: "\<not> HasPacket ?d"
      using HasPacket_prefix [of ?d "concat cs" w] Cons.prems(1,3) by auto
    have one: "and_then (ProcessPendingData log_frame (Some c) (length c)) (\<lambda>_. ret ()) s =
        (Inr (), s\<lparr>ps_data := ?d\<rparr>)"
      using c no by (intro run_eqI) (simp add: wp Let_def)
    have "reads log_frame cs (s\<lparr>ps_data := ?d\<rparr>) =
        (Inr (), s\<lparr>ps_data := [], ps_world := ps_world s @ [frame w]\<rparr>)"
      using Cons.IH [of "s\<lparr>ps_data := ?d\<rparr>"] Cons.prems no by simp
    with one show ?thesis by (simp add: reads_def and_then_def)
  qed
qed

lemma HasPacket_Nil [simp]: "\<not> HasPacket []"
  by (simp add: HasPacket_iff sizeof_RawHeader_def)

lemma reads_append:
  "reads disp cs s = (Inr (), t) \<Longrightarrow> reads disp (cs @ ds) s = reads disp ds t"
  by (induction cs arbitrary: s)
    (auto simp: reads_def ret_def and_then_def split: prod.splits sum.splits)

lemma packet_HasPacket:
  assumes "fits flds"
  shows "HasPacket (packet h flds)" "frame_length (packet h flds) = length (packet h flds)"
    "frame (packet h flds) =
       (h\<lparr>payloadSize := of_nat (length (encode_pairs flds))\<rparr>, encode_pairs flds)"
  using packet_payloadSize [OF assms, of h "[]"] Header_of_packet [of h flds "[]"]
    drop_packet [of h flds "[]"] packet_frame [OF assms, of h "[]"]
  by (simp_all add: HasPacket_iff frame_length_def frame_def length_packet sizeof_RawHeader_def)

section \<open>ConnectionPump\<close>

type_synonym 'w ondatacallback = "nat \<Rightarrow> nat \<Rightarrow> ('w, bool) cpp"

record 'w pump =
  pump_callbacks :: "(nat, 'w ondatacallback) std_map"
  pump_world :: 'w

definition AttachSocket :: "nat \<Rightarrow> 'w ondatacallback \<Rightarrow> 'w pump \<Rightarrow> 'w pump" where
  "AttachSocket socket onData p = p\<lparr>pump_callbacks := map_assign socket onData (pump_callbacks p)\<rparr>"

text \<open>
  The inner loop over the sockets \<open>select\<close> left in the set, each with the number of bytes
  \<open>ioctlsocket\<close> reports (\<open>None\<close>: it failed). The result is the flag \<open>run\<close>.
\<close>

fun Pump_ready :: "(nat \<times> nat option) list \<Rightarrow> bool \<Rightarrow> ('w pump, bool) cpp" where
  "Pump_ready [] run = ret run"
| "Pump_ready ((currentSocket, incomingSize) # rest) run =
     and_then (get_state (\<lambda>p. map_find (pump_callbacks p) currentSocket))
     (\<lambda>callbackInfo. case callbackInfo of
        None \<Rightarrow> throw (Runtime_error ''Unable to find socket callback'')
      | Some f \<Rightarrow>
          (case incomingSize of
             None \<Rightarrow> Pump_ready rest False
           | Some n \<Rightarrow>
               and_then (zoom pump_world (\<lambda>w p. p\<lparr>pump_world := w\<rparr>) (f currentSocket n))
               (\<lambda>keep. and_then
                 (if \<not> keep
                  then modify (\<lambda>p. p\<lparr>pump_callbacks := map_erase currentSocket (pump_callbacks p)\<rparr>)
                  else ret ())
               (\<lambda>_. Pump_ready rest run))))"

text \<open>
  The outer loop for as many turns as the environment has results for \<open>select\<close>; a timeout
  or an error of \<open>select\<close> is an empty list. \<open>True\<close> means it would go on.
\<close>

fun Pump :: "(nat \<times> nat option) list list \<Rightarrow> ('w pump, bool) cpp" where
  "Pump [] = ret True"
| "Pump (ready # turns) =
     and_then (Pump_ready ready True) (\<lambda>run. if run then Pump turns else ret False)"

lemma Pump_ready_callbacks:
  assumes "\<And>sock f n. (sock, f) \<in> set (pump_callbacks p) \<Longrightarrow> only_raises X (f sock n)"
    and "set (map fst ready) \<subseteq> fst ` set (pump_callbacks p)" "distinct (map fst ready)"
  shows "wp (Pump_ready ready run)
    (\<lambda>_ q. set (pump_callbacks q) \<subseteq> set (pump_callbacks p)) (\<lambda>e _. X e) p"
  using assms
proof (induction ready arbitrary: p run)
  case Nil
  then show ?case by (simp add: wp)
next
  case (Cons r ready)
  obtain sock inc where r: "r = (sock, inc)" by (cases r)
  then obtain f where f: "map_find (pump_callbacks p) sock = Some f"
    using Cons.prems(2) map_find_None_iff [of "pump_callbacks p" sock] by auto
  then have raises: "only_raises X (f sock n)" for n
    using Cons.prems(1) [of sock f n] map_find_Some_in [OF f] by simp
  have sub: "wp (Pump_ready ready run')
      (\<lambda>_ q. set (pump_callbacks q) \<subseteq> set (pump_callbacks p)) (\<lambda>e _. X e) q"
    if "pump_callbacks q = pump_callbacks p \<or> pump_callbacks q = map_erase sock (pump_callbacks p)"
    for q run'
  proof (rule wp_mono [OF Cons.IH])
    show "only_raises X (g t n)" if "(t, g) \<in> set (pump_callbacks q)" for t g n
      using Cons.prems(1) that \<open>_ \<or> _\<close> by (auto simp: map_erase_def)
    show "set (map fst ready) \<subseteq> fst ` set (pump_callbacks q)"
      using Cons.prems(2,3) \<open>_ \<or> _\<close> r by (force simp: map_erase_def image_iff)
  qed (use Cons.prems(3) r \<open>_ \<or> _\<close> in \<open>auto simp: map_erase_def\<close>)
  show ?case
  proof (cases inc)
    case None
    then show ?thesis using f sub [of p] by (simp add: r wp)
  next
    case (Some n)
    have "wp (f sock n) (\<lambda>_ _. True) (\<lambda>e _. X e) (pump_world p)"
      using raises by (simp add: only_raises_def)
    then have "wp (f sock n)
        (\<lambda>keep w. wp (Pump_ready ready run)
          (\<lambda>_ q. set (pump_callbacks q) \<subseteq> set (pump_callbacks p)) (\<lambda>e _. X e)
          (if keep then p\<lparr>pump_world := w\<rparr>
           else p\<lparr>pump_world := w, pump_callbacks := map_erase sock (pump_callbacks p)\<rparr>))
        (\<lambda>e _. X e) (pump_world p)"
      by (rule wp_mono) (auto intro: sub)
    then show ?thesis using f Some by (auto simp: r wp elim!: wp_mono)
  qed
qed

end
