(* ===== verification/Session_Thread.thy ===== *)
theory Session_Thread
  imports YMsg_Machine YMsg_Stream
begin

text \<open>
  A connection as \<open>src/TestHarness/TestHarness.cpp\<close> runs it (\<open>YMSGSessionThread\<close>): the pump calls
  the stream, the stream the dispatcher, the dispatcher works on the peer. The lemmas carry
  what is known of a peer's states through the loop.

  What the environment decides is a list with one entry per call of the callback: the
  result of \<open>recv\<close> and the clock, random number and uninitialized members at that moment.
\<close>

section \<open>The thread\<close>

record thread_world =
  tw_stream :: "peer stream"
  tw_recv :: "(string option \<times> env) list"

definition on_stream :: "(peer stream, 'a) cpp \<Rightarrow> (thread_world, 'a) cpp" where
  "on_stream = zoom tw_stream (\<lambda>s w. w\<lparr>tw_stream := s\<rparr>)"

text \<open>The callback: \<open>bind(&ProtocolStream::ProcessPendingData, inputStream, _1, _2, _3)\<close>.\<close>

definition OnData :: "thread_world ondatacallback" where
  "OnData socket incomingSize = and_then (get_state tw_recv) (\<lambda>rs. case rs of
       [] \<Rightarrow> ret False
     | (received, env) # rest \<Rightarrow>
         and_then (modify (\<lambda>w. w\<lparr>tw_recv := rest\<rparr>)) (\<lambda>_.
         on_stream (ProcessPendingData (Dispatch env) received incomingSize)))"

definition YMSGSessionThread ::
    "nat \<Rightarrow> u32 \<Rightarrow> u16 \<Rightarrow> (string option \<times> env) list \<Rightarrow> (nat \<times> nat option) list list \<Rightarrow>
     (exn + bool) \<times> thread_world pump" where
  "YMSGSessionThread clientSocket sid pv recvs turns =
     Pump turns (AttachSocket clientSocket OnData
       \<lparr>pump_callbacks = [],
        pump_world = \<lparr>tw_stream = \<lparr>ps_data = [], ps_world = peer_new sid pv clientSocket\<rparr>,
                      tw_recv = recvs\<rparr>\<rparr>)"

definition peer_of :: "thread_world pump \<Rightarrow> peer" where
  "peer_of p = ps_world (tw_stream (pump_world p))"

section \<open>What the pump keeps\<close>

definition no_callback :: exn where
  "no_callback = Runtime_error ''Unable to find socket callback''"

lemma wp_Pump_ready_world:
  assumes "\<And>sock f n w. (sock, f) \<in> set (pump_callbacks p) \<Longrightarrow> I w \<Longrightarrow> wp (f sock n) (\<lambda>_. I) J w"
    and "I (pump_world p)"
  shows "wp (Pump_ready ready run)
    (\<lambda>_ q. I (pump_world q) \<and> set (pump_callbacks q) \<subseteq> set (pump_callbacks p))
    (\<lambda>e q. J e (pump_world q) \<or> e = no_callback) p"
  using assms
proof (induction ready arbitrary: p run)
  case Nil
  then show ?case by (simp add: wp)
next
  case (Cons r ready)
  obtain sock inc where r: "r = (sock, inc)" by (cases r)
  let ?Q = "\<lambda>_ q. I (pump_world q) \<and> set (pump_callbacks q) \<subseteq> set (pump_callbacks p)"
  let ?E = "\<lambda>e q. J e (pump_world q) \<or> e = no_callback"
  have rest: "wp (Pump_ready ready run') ?Q ?E q"
    if "set (pump_callbacks q) \<subseteq> set (pump_callbacks p)" "I (pump_world q)" for q run'
    using that Cons.prems(1) by (intro wp_mono [OF Cons.IH]) auto
  show ?case
  proof (cases "map_find (pump_callbacks p) sock")
    case None
    then show ?thesis by (simp add: r wp no_callback_def)
  next
    case (Some f)
    show ?thesis
    proof (cases inc)
      case None
      then show ?thesis using Some rest [of p] Cons.prems(2) by (simp add: r wp)
    next
      case n: (Some n)
      have "wp (f sock n) (\<lambda>_. I) J (pump_world p)"
        using Cons.prems map_find_Some_in [OF Some] by blast
      then have "wp (f sock n)
          (\<lambda>keep w. wp (Pump_ready ready run) ?Q ?E
             (if keep then p\<lparr>pump_world := w\<rparr>
              else p\<lparr>pump_world := w, pump_callbacks := map_erase sock (pump_callbacks p)\<rparr>))
          (\<lambda>e w. J e w \<or> e = no_callback) (pump_world p)"
        by (rule wp_mono) (auto intro!: rest simp: map_erase_def)
      then show ?thesis using Some n by (auto simp: r wp elim!: wp_mono)
    qed
  qed
qed

lemma wp_Pump_world:
  assumes "\<And>sock f n w. (sock, f) \<in> set (pump_callbacks p) \<Longrightarrow> I w \<Longrightarrow> wp (f sock n) (\<lambda>_. I) J w"
    and "I (pump_world p)"
  shows "wp (Pump turns) (\<lambda>_ q. I (pump_world q)) (\<lambda>e q. J e (pump_world q) \<or> e = no_callback) p"
  using assms
proof (induction turns arbitrary: p)
  case Nil
  then show ?case by (simp add: wp)
next
  case (Cons ready turns)
  have "wp (Pump_ready ready True)
      (\<lambda>run q. wp (if run then Pump turns else ret False) (\<lambda>_ q. I (pump_world q))
        (\<lambda>e q. J e (pump_world q) \<or> e = no_callback) q)
      (\<lambda>e q. J e (pump_world q) \<or> e = no_callback) p"
  proof (rule wp_mono [OF wp_Pump_ready_world [where I = I and J = J]])
    fix run and q :: "'a pump"
    assume q: "I (pump_world q) \<and> set (pump_callbacks q) \<subseteq> set (pump_callbacks p)"
    have "wp (Pump turns) (\<lambda>_ q. I (pump_world q)) (\<lambda>e q. J e (pump_world q) \<or> e = no_callback) q"
      using q Cons.prems(1) by (intro Cons.IH) auto
    with q show "wp (if run then Pump turns else ret False) (\<lambda>_ q. I (pump_world q))
        (\<lambda>e q. J e (pump_world q) \<or> e = no_callback) q"
      by (simp add: wp)
  qed (use Cons.prems in auto)
  then show ?case by (simp only: Pump.simps wp_and_then)
qed

section \<open>What the thread keeps\<close>

text \<open>How a packet can end the thread: the dispatcher throws in a reachable state.\<close>

definition dispatch_throws :: "exn \<Rightarrow> peer \<Rightarrow> bool" where
  "dispatch_throws e q = (\<exists>p env header payload after.
     reachable p \<and> Dispatch env header payload after p = (Inl e, q))"

lemma Dispatch_step:
  assumes "reachable p"
  shows "wp (Dispatch env header payload after) (\<lambda>_. reachable) dispatch_throws p"
proof (rule wpI)
  fix x q
  assume "Dispatch env header payload after p = (Inr x, q)"
  then have "serves p q" by (auto intro: serves.packet)
  with assms show "reachable q" by (rule reachable.served)
next
  fix e q
  assume "Dispatch env header payload after p = (Inl e, q)"
  with assms show "dispatch_throws e q" unfolding dispatch_throws_def by blast
qed

lemma OnData_step:
  assumes "reachable (ps_world (tw_stream w))"
  shows "wp (OnData socket n) (\<lambda>_ w. reachable (ps_world (tw_stream w)))
    (\<lambda>e w. dispatch_throws e (ps_world (tw_stream w))) w"
  using assms
  by (auto simp: OnData_def on_stream_def wp Let_def split: list.split
      intro!: wp_mono [OF Dispatch_step])

lemma YMSGSessionThread_step:
  "wp (Pump turns) (\<lambda>_ p. reachable (peer_of p))
     (\<lambda>e p. dispatch_throws e (peer_of p) \<or> e = no_callback)
     (AttachSocket clientSocket OnData
       \<lparr>pump_callbacks = [],
        pump_world = \<lparr>tw_stream = \<lparr>ps_data = [], ps_world = peer_new sid pv clientSocket\<rparr>,
                      tw_recv = recvs\<rparr>\<rparr>)"
  unfolding peer_of_def
  by (rule wp_Pump_world [where I = "\<lambda>w. reachable (ps_world (tw_stream w))"
        and J = "\<lambda>e w. dispatch_throws e (ps_world (tw_stream w))"])
    (auto simp: AttachSocket_def intro: OnData_step reachable.connected)

lemma dispatch_throws_undefined:
  "dispatch_throws e q \<Longrightarrow> is_undefined e \<Longrightarrow>
   \<exists>p env header payload after. reachable p \<and> logged_in p \<and> serviceId header \<in> {3, 6, 23, 75} \<and>
     Dispatch env header payload after p = (Inl e, q)"
  using Dispatch_undefined [OF reachable_ok] unfolding dispatch_throws_def by blast

section \<open>The states of a connection\<close>

text \<open>
  C13. Pump, stream, dispatcher and peer together: whatever the sockets report and deliver,
  a thread that has not ended in an exception is in a state packets lead to, so everything
  shown of those states holds. When it ends in an exception, the pump was told of a socket
  it does not have, or the dispatcher threw in such a state. When what ends it is one of
  the conversions of C2, the login was complete and the packet was for one of the four
  services named there.
\<close>

theorem session_thread_states:
  "case YMSGSessionThread clientSocket sid pv recvs turns of
     (Inr run, p) \<Rightarrow> reachable (peer_of p)
   | (Inl e, p) \<Rightarrow> e = no_callback
       \<or> (\<exists>q env header payload after. reachable q
            \<and> Dispatch env header payload after q = (Inl e, peer_of p)
            \<and> (e \<in> conversion_faults \<longrightarrow> pd_processors q = V11_Create \<and> serviceId header \<in> {3, 6, 23, 75}))"
proof -
  have "(\<exists>q env header payload after. reachable q
            \<and> Dispatch env header payload after q = (Inl e, r)
            \<and> (e \<in> conversion_faults \<longrightarrow> pd_processors q = V11_Create \<and> serviceId header \<in> {3, 6, 23, 75}))"
    if "dispatch_throws e r" for e r
    using that Dispatch_undefined [OF reachable_ok] conversion_faults_undefined
    unfolding dispatch_throws_def logged_in_def by blast
  then show ?thesis
    using YMSGSessionThread_step [of turns clientSocket sid pv recvs]
    unfolding wp_def YMSGSessionThread_def by (auto split: prod.splits sum.splits)
qed

lemma login_read:
  "ProcessPendingData (Dispatch demo_env) (Some (packet (demo_header 84) [])) 20
     \<lparr>ps_data = [], ps_world = peer_new 0 0 5\<rparr> =
   (Inr True, \<lparr>ps_data = [], ps_world = demo_peer\<rparr>)"
proof -
  let ?p = "packet (demo_header 84) []"
  have fits: "fits []"
    by (simp add: fits_def sizeof_RawHeader_def PaxPayloadSize_def)
  have "length ?p = 20"
    by (simp add: length_packet)
  moreover have "(demo_header 84)\<lparr>payloadSize := 0\<rparr> = demo_header 84"
    by (simp add: demo_header_def)
  ultimately show ?thesis
    using packet_HasPacket [OF fits, of "demo_header 84"] demo_login
    by (intro run_eqI) (simp add: wp Let_def, simp add: wp_def)
qed

theorem session_thread_states_witness:
  "\<exists>p. YMSGSessionThread 5 0 0 [(Some (packet (demo_header 84) []), demo_env)] [[(5, Some 20)]] =
     (Inr True, p) \<and> peer_of p = demo_peer \<and> reachable (peer_of p)"
proof -
  have "wp (Pump [[(5, Some 20)]]) (\<lambda>run p. run \<and> peer_of p = demo_peer) (\<lambda>_ _. False)
     (AttachSocket 5 OnData
       \<lparr>pump_callbacks = [],
        pump_world = \<lparr>tw_stream = \<lparr>ps_data = [], ps_world = peer_new 0 0 5\<rparr>,
                      tw_recv = [(Some (packet (demo_header 84) []), demo_env)]\<rparr>\<rparr>)"
    using login_read
    by (simp add: wp AttachSocket_def map_find_Cons OnData_def on_stream_def peer_of_def
        del: wp_ProcessPendingData) (simp add: wp_def)
  then obtain p where p: "YMSGSessionThread 5 0 0 [(Some (packet (demo_header 84) []), demo_env)]
      [[(5, Some 20)]] = (Inr True, p)" "peer_of p = demo_peer"
    unfolding YMSGSessionThread_def by (auto simp: wp_def split: prod.splits sum.splits)
  then show ?thesis
    using session_thread_states [of 5 0 0 "[(Some (packet (demo_header 84) []), demo_env)]"
      "[[(5, Some 20)]]"] by simp
qed

end
