(* ===== verification/CodeHook_Types.thy ===== *)
theory CodeHook_Types
  imports Giblet_Prelude
begin

unbundle bit_operations_syntax

text \<open>
  The data of the x86 code patcher (\<open>src/CodeHook\<close>): registers, operands, the ModRM and
  SIB postbytes, the rows of the opcode tables, and the iterator that reads machine code.

  The library is 32-bit code (the assembler stores \<open>size_t*\<close> through a \<open>uint32_t**\<close>): a
  pointer is a 32-bit word with \<open>NULL = 0\<close>, and the memory of the process is a map from
  addresses to bytes. The sources do not check whether an address is mapped, so reads and
  writes are total; an access violation is outside the model. Multi-byte reads are
  little endian.

  The functions that only read (the decoder) return \<open>exn + 'a\<close>; those that write code
  (\<open>CodeHook_Hook\<close>) are state transformers on the memory. The parameter \<open>dbg\<close> of a function
  that contains \<open>assert\<close> says whether the assertions are compiled in: a failed one ends
  the process.
\<close>

section \<open>Machine integers and memory\<close>

type_synonym uint8 = "8 word"
type_synonym uint32 = "32 word"
type_synonym uint64 = "64 word"
type_synonym ptr = "32 word"
type_synonym memory = "ptr \<Rightarrow> uint8"

definition assert_res :: "bool \<Rightarrow> bool \<Rightarrow> string \<Rightarrow> exn + unit" where
  "assert_res dbg c msg = (if dbg \<and> \<not> c then Inl (Aborted msg) else Inr ())"

lemma assert_res_simps [simp]:
  "assert_res dbg True msg = Inr ()"
  "assert_res False c msg = Inr ()"
  by (simp_all add: assert_res_def)

text \<open>\<open>bytes_at mem p n\<close>: the \<open>n\<close> bytes from \<open>p\<close> on.\<close>

fun bytes_at :: "memory \<Rightarrow> ptr \<Rightarrow> nat \<Rightarrow> uint8 list" where
  "bytes_at mem p 0 = []"
| "bytes_at mem p (Suc n) = mem p # bytes_at mem (p + 1) n"

lemma length_bytes_at [simp]: "length (bytes_at mem p n) = n"
  by (induction n arbitrary: p) auto

lemma bytes_at_add: "bytes_at mem p (m + n) = bytes_at mem p m @ bytes_at mem (p + of_nat m) n"
  by (induction m arbitrary: p) (auto simp: add.assoc)

lemma nth_bytes_at: "i < n \<Longrightarrow> bytes_at mem p n ! i = mem (p + of_nat i)"
proof (induction n arbitrary: p i)
  case (Suc n)
  then show ?case by (cases i) (auto simp: add.assoc)
qed simp

section \<open>Little-endian values\<close>

text \<open>
  \<open>le_value bs\<close> is the value of the bytes \<open>bs\<close>, low byte first, and \<open>le_bytes n v\<close> the low
  \<open>n\<close> bytes of \<open>v\<close>.
\<close>

primrec le_value :: "uint8 list \<Rightarrow> uint64" where
  "le_value [] = 0"
| "le_value (b # bs) = ucast b OR push_bit 8 (le_value bs)"

primrec le_bytes :: "nat \<Rightarrow> uint64 \<Rightarrow> uint8 list" where
  "le_bytes 0 v = []"
| "le_bytes (Suc n) v = ucast (v AND 0xff) # le_bytes n (drop_bit 8 v)"

lemma length_le_bytes [simp]: "length (le_bytes n v) = n"
  by (induction n arbitrary: v) auto

lemma le_value_small: "take_bit (8 * length bs) (le_value bs) = le_value bs"
proof (induction bs)
  case (Cons b bs)
  have "take_bit (8 + 8 * length bs) (push_bit 8 (le_value bs)) = push_bit 8 (le_value bs)"
    using Cons by (simp add: take_bit_push_bit)
  moreover have "take_bit (8 + 8 * length bs) (ucast b :: uint64) = ucast b"
    by (rule bit_word_eqI) (auto simp: bit_simps dest: bit_imp_le_length)
  ultimately show ?case
    by simp
qed simp

lemma and_0xff: "(v :: uint64) AND 0xff = take_bit 8 v"
  by (simp add: take_bit_eq_mask mask_eq_exp_minus_1)

lemma low_byte: "ucast ((ucast (b :: uint8) OR push_bit 8 (v :: uint64)) AND 0xff) = b"
  unfolding and_0xff by (rule bit_word_eqI) (auto simp: bit_simps)

lemma rest_bytes:
  assumes "take_bit 56 v = v"
  shows "drop_bit 8 (ucast (b :: uint8) OR push_bit 8 (v :: uint64)) = v"
proof (rule bit_word_eqI)
  fix n
  assume "n < LENGTH(64)"
  have "bit v n \<longleftrightarrow> n < 56 \<and> bit v n"
    by (subst assms [symmetric]) (simp add: bit_take_bit_iff)
  then show "bit (drop_bit 8 (ucast b OR push_bit 8 v)) n = bit v n"
    by (auto simp: bit_simps dest: bit_imp_le_length)
qed

lemma le_bytes_value: "length bs \<le> 8 \<Longrightarrow> le_bytes (length bs) (le_value bs) = bs"
proof (induction bs)
  case (Cons b bs)
  have "min 56 (8 * length bs) = 8 * length bs"
    using Cons.prems by simp
  then have "take_bit 56 (le_value bs) = le_value bs"
    using take_bit_take_bit [of 56 "8 * length bs" "le_value bs"] by (simp add: le_value_small)
  with Cons show ?case
    by (simp only: le_bytes.simps le_value.simps length_Cons low_byte rest_bytes)
qed simp

text \<open>Narrowing a word commutes with its arithmetic.\<close>

lemma ucast_add_down:
  "LENGTH('b :: len) \<le> LENGTH('a :: len) \<Longrightarrow>
   (ucast (a + b :: 'a word) :: 'b word) = ucast a + ucast b"
  by transfer (metis min.absorb1 take_bit_add take_bit_take_bit)

lemma ucast_sub_down:
  "LENGTH('b :: len) \<le> LENGTH('a :: len) \<Longrightarrow>
   (ucast (a - b :: 'a word) :: 'b word) = ucast a - ucast b"
  by transfer (metis min.absorb1 take_bit_diff take_bit_take_bit)

lemma unat_widen [simp]: "unat (ucast (w :: uint32) :: uint64) = unat w"
proof -
  have "unat w < 2 ^ 64"
    using unsigned_less [of w, where 'a = nat] by simp
  then show ?thesis
    by (simp add: unsigned_ucast_eq take_bit_nat_eq_self)
qed

section \<open>Registers\<close>

datatype REGISTER_TYPE = RT_GP8 | RT_GP16 | RT_GP32 | RT_GP64 | RT_SEG | RT_MMX | RT_FP

record Register =
  rg_Value :: uint8
  rg_Type :: REGISTER_TYPE
  rg_Size :: nat

definition mk_Register :: "uint8 \<Rightarrow> REGISTER_TYPE \<Rightarrow> nat \<Rightarrow> Register" where
  "mk_Register v t n = \<lparr>rg_Value = v, rg_Type = t, rg_Size = n\<rparr>"

definition Register_neq :: "Register \<Rightarrow> Register \<Rightarrow> bool" where
  "Register_neq r src = (\<not> (rg_Type r = rg_Type src \<and> rg_Value r = rg_Value src))"

section \<open>The iterator\<close>

text \<open>
  An \<open>OpcodeIterator\<close> is the pointer it holds (the union of four pointer types is the
  same address read at four widths). Every read checks for \<open>NULL\<close> and nothing else.
  \<open>getAddress\<close> widens the pointer to 64 bits; the compiler of the project extends the sign.
\<close>

type_synonym OpcodeIterator = ptr

definition null_pointer :: exn where
  "null_pointer = Runtime_error ''pointer is null''"

definition iter_at :: "memory \<Rightarrow> OpcodeIterator \<Rightarrow> nat \<Rightarrow> exn + uint8" where
  "iter_at mem it i = (if it = 0 then Inl null_pointer else Inr (mem (it + of_nat i)))"

definition iter_diff :: "OpcodeIterator \<Rightarrow> OpcodeIterator \<Rightarrow> uint32" where
  "iter_diff it src = it - src"

definition iter_clear :: "OpcodeIterator \<Rightarrow> OpcodeIterator" where
  "iter_clear it = 0"

definition NextI8 :: "memory \<Rightarrow> OpcodeIterator \<Rightarrow> exn + uint8 \<times> OpcodeIterator" where
  "NextI8 mem it = (if it = 0 then Inl null_pointer else Inr (mem it, it + 1))"

definition NextI16 :: "memory \<Rightarrow> OpcodeIterator \<Rightarrow> exn + 16 word \<times> OpcodeIterator" where
  "NextI16 mem it =
     (if it = 0 then Inl null_pointer else Inr (ucast (le_value (bytes_at mem it 2)), it + 2))"

definition NextI32 :: "memory \<Rightarrow> OpcodeIterator \<Rightarrow> exn + uint32 \<times> OpcodeIterator" where
  "NextI32 mem it =
     (if it = 0 then Inl null_pointer else Inr (ucast (le_value (bytes_at mem it 4)), it + 4))"

definition NextI64 :: "memory \<Rightarrow> OpcodeIterator \<Rightarrow> exn + uint64 \<times> OpcodeIterator" where
  "NextI64 mem it =
     (if it = 0 then Inl null_pointer else Inr (le_value (bytes_at mem it 8), it + 8))"

definition getAddress :: "OpcodeIterator \<Rightarrow> uint64" where
  "getAddress it = scast it"

lemma ucast_getAddress [simp]: "ucast (getAddress p) = p"
  unfolding getAddress_def by (rule bit_word_eqI) (simp add: bit_simps)

section \<open>Operands\<close>

datatype OPERAND_TYPE =
    OT_GPREG | OT_GPREG8 | OT_SREG
  | OT_MRMr | OT_MRMsr | OT_MRMr8 | OT_MRM | OT_MRM8
  | OT_IMM | OT_IMM8 | OT_IMM16 | OT_IMM32 | OT_IMM64
  | OT_REL | OT_REL8 | OT_REL16 | OT_REL32 | OT_REL64
  | OT_NONE | OT_PEND

text \<open>
  The union of an integer and a double: nothing in the sources stores the double, so the
  value is the integer.
\<close>

record Operand =
  op_Type :: OPERAND_TYPE
  op_Size :: nat
  op_IntValue :: uint64

definition new_Operand :: Operand where
  "new_Operand = \<lparr>op_Type = OT_NONE, op_Size = 0, op_IntValue = 0\<rparr>"

definition operand_create :: "OPERAND_TYPE \<Rightarrow> Operand" where
  "operand_create t = \<lparr>op_Type = t, op_Size = 0, op_IntValue = 0\<rparr>"

text \<open>\<open>setValue<T>\<close>: the size is \<open>sizeof(T)\<close> and the value is widened without a sign.\<close>

definition setValue8 :: "OPERAND_TYPE \<Rightarrow> uint8 \<Rightarrow> Operand" where
  "setValue8 t v = \<lparr>op_Type = t, op_Size = 1, op_IntValue = ucast v\<rparr>"

definition setValue16 :: "OPERAND_TYPE \<Rightarrow> 16 word \<Rightarrow> Operand" where
  "setValue16 t v = \<lparr>op_Type = t, op_Size = 2, op_IntValue = ucast v\<rparr>"

definition setValue32 :: "OPERAND_TYPE \<Rightarrow> uint32 \<Rightarrow> Operand" where
  "setValue32 t v = \<lparr>op_Type = t, op_Size = 4, op_IntValue = ucast v\<rparr>"

definition setValue64 :: "OPERAND_TYPE \<Rightarrow> uint64 \<Rightarrow> Operand" where
  "setValue64 t v = \<lparr>op_Type = t, op_Size = 8, op_IntValue = v\<rparr>"

lemmas setValue_defs = setValue8_def setValue16_def setValue32_def setValue64_def

definition getSignedValue :: "Operand \<Rightarrow> exn + int" where
  "getSignedValue x =
     (if op_Size x = 1 then Inr (sint (ucast (op_IntValue x) :: 8 word))
      else if op_Size x = 2 then Inr (sint (ucast (op_IntValue x) :: 16 word))
      else if op_Size x = 4 then Inr (sint (ucast (op_IntValue x) :: 32 word))
      else if op_Size x = 8 then Inr (sint (op_IntValue x))
      else Inl (Runtime_error ''unknown value size''))"

definition IsRegister :: "OPERAND_TYPE \<Rightarrow> bool" where
  "IsRegister t = (t \<in> {OT_GPREG, OT_GPREG8, OT_SREG})"

definition IsModRM :: "OPERAND_TYPE \<Rightarrow> bool" where
  "IsModRM t = (t \<in> {OT_MRMr, OT_MRMsr, OT_MRMr8, OT_MRM, OT_MRM8})"

definition IsRelative :: "OPERAND_TYPE \<Rightarrow> bool" where
  "IsRelative t = (t \<in> {OT_REL, OT_REL8, OT_REL16, OT_REL32, OT_REL64})"

definition IsImmediate :: "OPERAND_TYPE \<Rightarrow> bool" where
  "IsImmediate t = (t \<in> {OT_IMM, OT_IMM8, OT_IMM16, OT_IMM32, OT_IMM64})"

lemmas operand_type_defs = IsRegister_def IsModRM_def IsRelative_def IsImmediate_def

definition MACHINE_SIZE :: nat where
  "MACHINE_SIZE = 4"

fun SizeOfOperandByType :: "bool \<Rightarrow> OPERAND_TYPE \<Rightarrow> exn + nat" where
  "SizeOfOperandByType dbg OT_MRM = Inr MACHINE_SIZE"
| "SizeOfOperandByType dbg OT_MRM8 = Inr 1"
| "SizeOfOperandByType dbg OT_MRMr = Inr 0"
| "SizeOfOperandByType dbg OT_IMM = Inr MACHINE_SIZE"
| "SizeOfOperandByType dbg OT_IMM8 = Inr 1"
| "SizeOfOperandByType dbg OT_IMM16 = Inr 2"
| "SizeOfOperandByType dbg OT_IMM32 = Inr 4"
| "SizeOfOperandByType dbg OT_IMM64 = Inr 8"
| "SizeOfOperandByType dbg OT_REL = Inr MACHINE_SIZE"
| "SizeOfOperandByType dbg OT_REL8 = Inr 1"
| "SizeOfOperandByType dbg OT_REL16 = Inr 2"
| "SizeOfOperandByType dbg OT_REL32 = Inr 4"
| "SizeOfOperandByType dbg OT_REL64 = Inr 8"
| "SizeOfOperandByType dbg t =
     bind_res (assert_res dbg False ''SizeOfOperandByType'') (\<lambda>_. Inr 0)"

section \<open>Postbytes\<close>

record PostByteT =
  pb_HasData :: bool
  pb_DataValue :: uint8

definition new_PostByteT :: PostByteT where
  "new_PostByteT = \<lparr>pb_HasData = False, pb_DataValue = 0\<rparr>"

definition SetDataValue :: "uint8 \<Rightarrow> PostByteT" where
  "SetDataValue v = \<lparr>pb_HasData = True, pb_DataValue = v\<rparr>"

text \<open>
  The value is written through one member of a union and read through the other, which the
  source marks as undefined by the letter of C++ (\<open>cpu_PostByte.h\<close>, the FIXME at the union).
  The compiler the program is written for defines it: the bits of the value, fields
  allocated from the lowest bit up, as below. The same goes for the unions of the iterator
  and the assembler, whose pointers of different types are one address.

  The bit-field views of a postbyte: \<open>m_RegMode\<close> or \<open>m_Base\<close> in bits 0 to 2,
  \<open>m_RegOpcode\<close> or \<open>m_Index\<close> in bits 3 to 5, \<open>m_Mode\<close> or \<open>m_Scale\<close> in bits 6 and 7.
\<close>

definition low_field :: "uint8 \<Rightarrow> uint8" where
  "low_field v = v AND 7"

definition middle_field :: "uint8 \<Rightarrow> uint8" where
  "middle_field v = drop_bit 3 v AND 7"

definition high_field :: "uint8 \<Rightarrow> uint8" where
  "high_field v = drop_bit 6 v"

record PostByte =
  pb_ModRM :: PostByteT
  pb_SIB :: PostByteT

definition PostByte_Reset :: PostByte where
  "PostByte_Reset = \<lparr>pb_ModRM = new_PostByteT, pb_SIB = new_PostByteT\<rparr>"

definition MODE_REG_IND :: uint8 where "MODE_REG_IND = 0x00"
definition MODE_REG_IND_DISP8 :: uint8 where "MODE_REG_IND_DISP8 = 0x01"
definition MODE_REG_IND_DISP :: uint8 where "MODE_REG_IND_DISP = 0x02"
definition MODE_REG :: uint8 where "MODE_REG = 0x03"
definition PBYTE_SIB :: uint8 where "PBYTE_SIB = 0x04"
definition PBYTE_DISP :: uint8 where "PBYTE_DISP = 0x05"
definition SIBBASE_DISP :: uint8 where "SIBBASE_DISP = 0x05"
definition SIBINDEX_NONE :: uint8 where "SIBINDEX_NONE = 0x04"

lemmas postbyte_consts =
  MODE_REG_IND_def MODE_REG_IND_DISP8_def MODE_REG_IND_DISP_def MODE_REG_def
  PBYTE_SIB_def PBYTE_DISP_def SIBBASE_DISP_def SIBINDEX_NONE_def

definition GetHasModRM :: "PostByte \<Rightarrow> bool" where
  "GetHasModRM pb = pb_HasData (pb_ModRM pb)"

definition GetHasSIB :: "PostByte \<Rightarrow> bool" where
  "GetHasSIB pb = pb_HasData (pb_SIB pb)"

definition GetModRMValue :: "PostByte \<Rightarrow> uint8" where
  "GetModRMValue pb = pb_DataValue (pb_ModRM pb)"

definition GetSIBValue :: "PostByte \<Rightarrow> uint8" where
  "GetSIBValue pb = pb_DataValue (pb_SIB pb)"

definition GetMode :: "bool \<Rightarrow> PostByte \<Rightarrow> exn + uint8" where
  "GetMode dbg pb =
     bind_res (assert_res dbg (GetHasModRM pb) ''GetHasModRM()'') (\<lambda>_.
     Inr (high_field (GetModRMValue pb)))"

definition GetRegisterOrOpcode :: "bool \<Rightarrow> PostByte \<Rightarrow> exn + uint8" where
  "GetRegisterOrOpcode dbg pb =
     bind_res (assert_res dbg (GetHasModRM pb) ''GetHasModRM()'') (\<lambda>_.
     Inr (middle_field (GetModRMValue pb)))"

definition GetRegisterOrMode :: "bool \<Rightarrow> PostByte \<Rightarrow> exn + uint8" where
  "GetRegisterOrMode dbg pb =
     bind_res (assert_res dbg (GetHasModRM pb) ''GetHasModRM()'') (\<lambda>_.
     Inr (low_field (GetModRMValue pb)))"

definition GetBase :: "PostByte \<Rightarrow> uint8" where
  "GetBase pb = low_field (GetSIBValue pb)"

definition GetIndex :: "PostByte \<Rightarrow> uint8" where
  "GetIndex pb = middle_field (GetSIBValue pb)"

definition GetScale :: "PostByte \<Rightarrow> uint8" where
  "GetScale pb = high_field (GetSIBValue pb)"

definition GetHasBase :: "bool \<Rightarrow> PostByte \<Rightarrow> exn + bool" where
  "GetHasBase dbg pb =
     (if GetBase pb \<noteq> SIBBASE_DISP then Inr True
      else bind_res (GetMode dbg pb) (\<lambda>mode. Inr (mode \<noteq> MODE_REG_IND)))"

definition GetHasIndex :: "PostByte \<Rightarrow> bool" where
  "GetHasIndex pb = (GetIndex pb \<noteq> SIBINDEX_NONE)"

text \<open>The four values of the two-bit mode; \<open>default\<close> is not reached.\<close>

definition IsIndirect :: "bool \<Rightarrow> PostByte \<Rightarrow> exn + bool" where
  "IsIndirect dbg pb = bind_res (GetMode dbg pb) (\<lambda>mode.
     if mode \<in> {MODE_REG_IND, MODE_REG_IND_DISP, MODE_REG_IND_DISP8} then Inr True
     else if mode = MODE_REG then Inr False
     else bind_res (assert_res dbg False ''IsIndirect'') (\<lambda>_. Inr False))"

text \<open>
  \<open>PostByte::assign\<close> reads the ModRM byte, and the SIB byte where the mode and the low
  field ask for one; with \<open>autoInc\<close> the iterator moves past what was read. A SIB byte
  the object already had is kept.
\<close>

definition read_modrm :: "memory \<Rightarrow> OpcodeIterator \<Rightarrow> PostByte \<Rightarrow> exn + PostByte" where
  "read_modrm mem it pb = bind_res (iter_at mem it 0) (\<lambda>b. Inr (pb\<lparr>pb_ModRM := SetDataValue b\<rparr>))"

definition PostByte_assign ::
    "bool \<Rightarrow> memory \<Rightarrow> OpcodeIterator \<Rightarrow> bool \<Rightarrow> PostByte \<Rightarrow> exn + nat \<times> OpcodeIterator \<times> PostByte" where
  "PostByte_assign dbg mem it autoInc pb =
     bind_res (read_modrm mem it pb) (\<lambda>pb1.
     bind_res (GetMode dbg pb1) (\<lambda>mode.
     bind_res (GetRegisterOrMode dbg pb1) (\<lambda>rm.
     bind_res
       (if MODE_REG \<noteq> mode \<and> PBYTE_SIB = rm
        then bind_res (iter_at mem it 1) (\<lambda>b. Inr (2, pb1\<lparr>pb_SIB := SetDataValue b\<rparr>))
        else Inr (1, pb1)) (\<lambda>(count, pb2).
     if autoInc
     then bind_res (NextI8 mem it) (\<lambda>(_, it1).
          if GetHasSIB pb2
          then bind_res (NextI8 mem it1) (\<lambda>(_, it2). Inr (count, it2, pb2))
          else Inr (count, it1, pb2))
     else Inr (count, it, pb2)))))"

section \<open>Rows of the opcode tables\<close>

datatype ADDR_MODE = AM_INV | AM_INH | AM_DIR | AM_EXT | AM_REL | AM_IMM | AM_ENH

record OpcodeInfo =
  oi_Prefix :: uint8
  oi_Opcode :: uint8
  oi_AddressingMode :: ADDR_MODE
  oi_Postbyte :: uint8
  oi_Register :: "Register option"
  oi_OperandTypeDst :: OPERAND_TYPE
  oi_OperandTypeSrc1 :: OPERAND_TYPE
  oi_OperandTypeSrc2 :: OPERAND_TYPE
  oi_OperandSize :: nat
  oi_IsTerminator :: bool

definition PO_REGISTER :: uint8 where "PO_REGISTER = 0xfe"
definition PO_NONE :: uint8 where "PO_NONE = 0xff"

end
