(* ===== verification/CodeHook_Tables.thy ===== *)
theory CodeHook_Tables
  imports CodeHook_Types
begin

text \<open>
  The constant data of the decoder (\<open>cpuIA32_Tables.cpp\<close>, with the opcode extensions of
  \<open>cpuIA32_Opcode.h\<close>): the registers, one table of opcode rows per mnemonic in the order of
  the source, the list of the tables that are searched, and the check a debug build runs
  over them at start-up. As in the source, every table ends in a row with the invalid
  addressing mode; the \<open>NULL\<close> that ends an array of pointers is the end of the list.
\<close>

section \<open>Registers\<close>

definition REGS_AL :: Register where "REGS_AL = mk_Register 0x00 RT_GP8 1"
definition REGS_CL :: Register where "REGS_CL = mk_Register 0x01 RT_GP8 1"
definition REGS_DL :: Register where "REGS_DL = mk_Register 0x02 RT_GP8 1"
definition REGS_BL :: Register where "REGS_BL = mk_Register 0x03 RT_GP8 1"
definition REGS_AH :: Register where "REGS_AH = mk_Register 0x04 RT_GP8 1"
definition REGS_CH :: Register where "REGS_CH = mk_Register 0x05 RT_GP8 1"
definition REGS_DH :: Register where "REGS_DH = mk_Register 0x06 RT_GP8 1"
definition REGS_BH :: Register where "REGS_BH = mk_Register 0x07 RT_GP8 1"
definition REGS_AX :: Register where "REGS_AX = mk_Register 0x00 RT_GP16 2"
definition REGS_CX :: Register where "REGS_CX = mk_Register 0x01 RT_GP16 2"
definition REGS_DX :: Register where "REGS_DX = mk_Register 0x02 RT_GP16 2"
definition REGS_BX :: Register where "REGS_BX = mk_Register 0x03 RT_GP16 2"
definition REGS_SP :: Register where "REGS_SP = mk_Register 0x04 RT_GP16 2"
definition REGS_BP :: Register where "REGS_BP = mk_Register 0x05 RT_GP16 2"
definition REGS_SI :: Register where "REGS_SI = mk_Register 0x06 RT_GP16 2"
definition REGS_DI :: Register where "REGS_DI = mk_Register 0x07 RT_GP16 2"
definition REGS_EAX :: Register where "REGS_EAX = mk_Register 0x00 RT_GP32 4"
definition REGS_ECX :: Register where "REGS_ECX = mk_Register 0x01 RT_GP32 4"
definition REGS_EDX :: Register where "REGS_EDX = mk_Register 0x02 RT_GP32 4"
definition REGS_EBX :: Register where "REGS_EBX = mk_Register 0x03 RT_GP32 4"
definition REGS_ESP :: Register where "REGS_ESP = mk_Register 0x04 RT_GP32 4"
definition REGS_EBP :: Register where "REGS_EBP = mk_Register 0x05 RT_GP32 4"
definition REGS_ESI :: Register where "REGS_ESI = mk_Register 0x06 RT_GP32 4"
definition REGS_EDI :: Register where "REGS_EDI = mk_Register 0x07 RT_GP32 4"
definition REGS_ES :: Register where "REGS_ES = mk_Register 0x00 RT_SEG 2"
definition REGS_CS :: Register where "REGS_CS = mk_Register 0x01 RT_SEG 2"
definition REGS_SS :: Register where "REGS_SS = mk_Register 0x02 RT_SEG 2"
definition REGS_DS :: Register where "REGS_DS = mk_Register 0x03 RT_SEG 2"
definition REGS_FS :: Register where "REGS_FS = mk_Register 0x04 RT_SEG 2"
definition REGS_GS :: Register where "REGS_GS = mk_Register 0x05 RT_SEG 2"
definition REGS_R1 :: Register where "REGS_R1 = mk_Register 0x06 RT_SEG 2"
definition REGS_R2 :: Register where "REGS_R2 = mk_Register 0x07 RT_SEG 2"
definition REGS_MM0 :: Register where "REGS_MM0 = mk_Register 0x00 RT_MMX 4"
definition REGS_MM1 :: Register where "REGS_MM1 = mk_Register 0x01 RT_MMX 4"
definition REGS_MM2 :: Register where "REGS_MM2 = mk_Register 0x02 RT_MMX 4"
definition REGS_MM3 :: Register where "REGS_MM3 = mk_Register 0x03 RT_MMX 4"
definition REGS_MM4 :: Register where "REGS_MM4 = mk_Register 0x04 RT_MMX 4"
definition REGS_MM5 :: Register where "REGS_MM5 = mk_Register 0x05 RT_MMX 4"
definition REGS_MM6 :: Register where "REGS_MM6 = mk_Register 0x06 RT_MMX 4"
definition REGS_MM7 :: Register where "REGS_MM7 = mk_Register 0x07 RT_MMX 4"

lemmas register_defs =
  mk_Register_def
  REGS_AL_def
  REGS_CL_def
  REGS_DL_def
  REGS_BL_def
  REGS_AH_def
  REGS_CH_def
  REGS_DH_def
  REGS_BH_def
  REGS_AX_def
  REGS_CX_def
  REGS_DX_def
  REGS_BX_def
  REGS_SP_def
  REGS_BP_def
  REGS_SI_def
  REGS_DI_def
  REGS_EAX_def
  REGS_ECX_def
  REGS_EDX_def
  REGS_EBX_def
  REGS_ESP_def
  REGS_EBP_def
  REGS_ESI_def
  REGS_EDI_def
  REGS_ES_def
  REGS_CS_def
  REGS_SS_def
  REGS_DS_def
  REGS_FS_def
  REGS_GS_def
  REGS_R1_def
  REGS_R2_def
  REGS_MM0_def
  REGS_MM1_def
  REGS_MM2_def
  REGS_MM3_def
  REGS_MM4_def
  REGS_MM5_def
  REGS_MM6_def
  REGS_MM7_def


section \<open>Opcode extensions\<close>

text \<open>The constants of the namespaces of \<open>PO\<close> that the tables use.\<close>

definition PO_x80_ADC8i8 :: uint8 where "PO_x80_ADC8i8 = 0x02"
definition PO_x81_ADCi :: uint8 where "PO_x81_ADCi = 0x02"
definition PO_x83_ADCi8 :: uint8 where "PO_x83_ADCi8 = 0x02"
definition PO_x80_ADD8i8 :: uint8 where "PO_x80_ADD8i8 = 0x00"
definition PO_x81_ADDi :: uint8 where "PO_x81_ADDi = 0x00"
definition PO_x83_ADDi8 :: uint8 where "PO_x83_ADDi8 = 0x00"
definition PO_xF6_IMUL8 :: uint8 where "PO_xF6_IMUL8 = 0x05"
definition PO_xF7_IMUL :: uint8 where "PO_xF7_IMUL = 0x05"
definition PO_xF6_IDIV8 :: uint8 where "PO_xF6_IDIV8 = 0x07"
definition PO_xF7_IDIV :: uint8 where "PO_xF7_IDIV = 0x07"
definition PO_x80_AND8i8 :: uint8 where "PO_x80_AND8i8 = 0x04"
definition PO_x83_ANDi8 :: uint8 where "PO_x83_ANDi8 = 0x04"
definition PO_x0FBA_BTi8 :: uint8 where "PO_x0FBA_BTi8 = 0x04"
definition PO_x0FBA_BTCi8 :: uint8 where "PO_x0FBA_BTCi8 = 0x07"
definition PO_xFF_NCALL :: uint8 where "PO_xFF_NCALL = 0x02"
definition PO_xFF_FCALL :: uint8 where "PO_xFF_FCALL = 0x03"
definition PO_x80_CMP8i8 :: uint8 where "PO_x80_CMP8i8 = 0x07"
definition PO_x81_CMPi :: uint8 where "PO_x81_CMPi = 0x07"
definition PO_x83_CMPi8 :: uint8 where "PO_x83_CMPi8 = 0x07"
definition PO_xFF_JUMPN :: uint8 where "PO_xFF_JUMPN = 0x04"
definition PO_xFF_JUMPF :: uint8 where "PO_xFF_JUMPF = 0x05"
definition PO_xFF_PUSH :: uint8 where "PO_xFF_PUSH = 0x06"
definition PO_x8F_POP :: uint8 where "PO_x8F_POP = 0x00"
definition PO_x80_SUB8i8 :: uint8 where "PO_x80_SUB8i8 = 0x05"
definition PO_x81_SUBi :: uint8 where "PO_x81_SUBi = 0x05"
definition PO_x83_SUBi8 :: uint8 where "PO_x83_SUBi8 = 0x05"
definition PO_x80_XOR8i8 :: uint8 where "PO_x80_XOR8i8 = 0x06"
definition PO_x83_XORi8 :: uint8 where "PO_x83_XORi8 = 0x06"

lemmas po_defs =
  PO_REGISTER_def PO_NONE_def
  PO_x80_ADC8i8_def
  PO_x81_ADCi_def
  PO_x83_ADCi8_def
  PO_x80_ADD8i8_def
  PO_x81_ADDi_def
  PO_x83_ADDi8_def
  PO_xF6_IMUL8_def
  PO_xF7_IMUL_def
  PO_xF6_IDIV8_def
  PO_xF7_IDIV_def
  PO_x80_AND8i8_def
  PO_x83_ANDi8_def
  PO_x0FBA_BTi8_def
  PO_x0FBA_BTCi8_def
  PO_xFF_NCALL_def
  PO_xFF_FCALL_def
  PO_x80_CMP8i8_def
  PO_x81_CMPi_def
  PO_x83_CMPi8_def
  PO_xFF_JUMPN_def
  PO_xFF_JUMPF_def
  PO_xFF_PUSH_def
  PO_x8F_POP_def
  PO_x80_SUB8i8_def
  PO_x81_SUBi_def
  PO_x83_SUBi8_def
  PO_x80_XOR8i8_def
  PO_x83_XORi8_def

section \<open>The tables\<close>

text \<open>The macros \<open>OTE_\<close> and \<open>OTET_\<close>, and the row that ends a table.\<close>

definition OTE ::
    "uint8 \<Rightarrow> uint8 \<Rightarrow> ADDR_MODE \<Rightarrow> uint8 \<Rightarrow> Register option \<Rightarrow> OPERAND_TYPE \<Rightarrow> OPERAND_TYPE \<Rightarrow>
     OPERAND_TYPE \<Rightarrow> nat \<Rightarrow> OpcodeInfo" where
  "OTE pfx inst mode postbyte specreg dst src1 src2 sz =
     \<lparr>oi_Prefix = pfx, oi_Opcode = inst, oi_AddressingMode = mode, oi_Postbyte = postbyte,
      oi_Register = specreg, oi_OperandTypeDst = dst, oi_OperandTypeSrc1 = src1,
      oi_OperandTypeSrc2 = src2, oi_OperandSize = sz, oi_IsTerminator = False\<rparr>"

definition OTET ::
    "uint8 \<Rightarrow> uint8 \<Rightarrow> ADDR_MODE \<Rightarrow> uint8 \<Rightarrow> Register option \<Rightarrow> OPERAND_TYPE \<Rightarrow> OPERAND_TYPE \<Rightarrow>
     OPERAND_TYPE \<Rightarrow> nat \<Rightarrow> OpcodeInfo" where
  "OTET pfx inst mode postbyte specreg dst src1 src2 sz =
     (OTE pfx inst mode postbyte specreg dst src1 src2 sz)\<lparr>oi_IsTerminator := True\<rparr>"

definition sentinel :: OpcodeInfo where
  "sentinel = OTE 0x00 0x00 AM_INV 0x00 None OT_GPREG OT_GPREG OT_GPREG 0"

definition opcodesTableGeneral :: "OpcodeInfo list" where
  "opcodesTableGeneral = [
    OTE 0x00 0xc3 AM_INH PO_NONE None OT_NONE OT_NONE OT_NONE 4,
    OTE 0x00 0xcb AM_INH PO_NONE None OT_NONE OT_NONE OT_NONE 4,
    OTE 0x00 0xc2 AM_IMM PO_NONE None OT_NONE OT_IMM16 OT_NONE 2,
    OTE 0x00 0xca AM_IMM PO_NONE None OT_NONE OT_IMM16 OT_NONE 2,
    OTE 0x00 0xe2 AM_REL PO_NONE None OT_NONE OT_REL8 OT_NONE 1,
    OTE 0x00 0xe1 AM_REL PO_NONE None OT_NONE OT_REL8 OT_NONE 1,
    OTE 0x00 0xe0 AM_REL PO_NONE None OT_NONE OT_REL8 OT_NONE 1,
    OTE 0x00 0x99 AM_INH PO_NONE None OT_NONE OT_NONE OT_NONE 4,
    OTE 0x00 0x37 AM_INH PO_NONE None OT_NONE OT_NONE OT_NONE 4,
    OTE 0x00 0xd5 AM_IMM PO_NONE None OT_NONE OT_IMM8 OT_NONE 1,
    OTE 0x00 0xd4 AM_IMM PO_NONE None OT_NONE OT_IMM8 OT_NONE 1,
    OTE 0x00 0x3f AM_INH PO_NONE None OT_NONE OT_NONE OT_NONE 4,
    OTE 0x00 0x8d AM_ENH PO_REGISTER None OT_MRMr OT_MRM OT_NONE 4,
    OTET 0x00 0xcc AM_INH PO_NONE None OT_NONE OT_NONE OT_NONE 0,
    sentinel]"

definition opcodesTableADC :: "OpcodeInfo list" where
  "opcodesTableADC = [
    OTE 0x00 0x14 AM_IMM PO_NONE (Some REGS_AL) OT_GPREG8 OT_IMM8 OT_NONE 1,
    OTE 0x00 0x15 AM_IMM PO_NONE (Some REGS_EAX) OT_GPREG OT_IMM OT_NONE 4,
    OTE 0x00 0x80 AM_IMM PO_x80_ADC8i8 None OT_MRM8 OT_IMM8 OT_NONE 1,
    OTE 0x00 0x81 AM_IMM PO_x81_ADCi None OT_MRM OT_IMM OT_NONE 4,
    OTE 0x00 0x83 AM_IMM PO_x83_ADCi8 None OT_MRM OT_IMM8 OT_NONE 1,
    OTE 0x00 0x10 AM_DIR PO_REGISTER None OT_MRM8 OT_MRMr8 OT_NONE 1,
    OTE 0x00 0x11 AM_DIR PO_REGISTER None OT_MRM OT_MRMr OT_NONE 4,
    OTE 0x00 0x12 AM_DIR PO_REGISTER None OT_MRMr8 OT_MRM8 OT_NONE 1,
    OTE 0x00 0x13 AM_DIR PO_REGISTER None OT_MRMr OT_MRM OT_NONE 4,
    sentinel]"

definition opcodesTableADD :: "OpcodeInfo list" where
  "opcodesTableADD = [
    OTE 0x00 0x04 AM_IMM PO_NONE (Some REGS_AL) OT_GPREG8 OT_IMM8 OT_NONE 1,
    OTE 0x00 0x05 AM_IMM PO_NONE (Some REGS_EAX) OT_GPREG OT_IMM OT_NONE 4,
    OTE 0x00 0x80 AM_IMM PO_x80_ADD8i8 None OT_MRM8 OT_IMM8 OT_NONE 1,
    OTE 0x00 0x81 AM_IMM PO_x81_ADDi None OT_MRM OT_IMM OT_NONE 4,
    OTE 0x00 0x83 AM_IMM PO_x83_ADDi8 None OT_MRM OT_IMM8 OT_NONE 1,
    OTE 0x00 0x00 AM_DIR PO_REGISTER None OT_MRM8 OT_MRMr8 OT_NONE 1,
    OTE 0x00 0x01 AM_DIR PO_REGISTER None OT_MRM OT_MRMr OT_NONE 4,
    OTE 0x00 0x02 AM_DIR PO_REGISTER None OT_MRMr8 OT_MRM8 OT_NONE 1,
    OTE 0x00 0x03 AM_DIR PO_REGISTER None OT_MRMr OT_MRM OT_NONE 4,
    sentinel]"

definition opcodesTableMUL :: "OpcodeInfo list" where
  "opcodesTableMUL = [
    OTE 0x00 0xf6 AM_ENH PO_xF6_IMUL8 (Some REGS_AL) OT_MRM8 OT_IMM8 OT_NONE 1,
    OTE 0x00 0xf7 AM_ENH PO_xF7_IMUL (Some REGS_EAX) OT_MRM OT_IMM OT_NONE 4,
    OTE 0x0f 0xaf AM_ENH PO_REGISTER None OT_MRMr OT_MRM OT_NONE 4,
    OTE 0x00 0x6b AM_ENH PO_REGISTER None OT_MRMr OT_MRM OT_IMM8 1,
    OTE 0x00 0x6b AM_IMM PO_REGISTER None OT_MRMr OT_IMM8 OT_NONE 1,
    OTE 0x00 0x69 AM_IMM PO_REGISTER None OT_MRMr OT_MRM OT_IMM 4,
    sentinel]"

definition opcodesTableDIV :: "OpcodeInfo list" where
  "opcodesTableDIV = [
    OTE 0x00 0xf6 AM_ENH PO_xF6_IDIV8 None OT_NONE OT_MRM8 OT_NONE 1,
    OTE 0x00 0xf7 AM_ENH PO_xF7_IDIV None OT_NONE OT_MRM OT_NONE 4,
    sentinel]"

definition opcodesTableAND :: "OpcodeInfo list" where
  "opcodesTableAND = [
    OTE 0x00 0x24 AM_IMM PO_NONE (Some REGS_AL) OT_GPREG8 OT_IMM8 OT_NONE 1,
    OTE 0x00 0x25 AM_IMM PO_NONE (Some REGS_EAX) OT_GPREG OT_IMM OT_NONE 4,
    OTE 0x00 0x80 AM_IMM PO_x80_AND8i8 None OT_MRM8 OT_IMM8 OT_NONE 1,
    OTE 0x00 0x81 AM_IMM PO_x83_ANDi8 None OT_MRM OT_IMM8 OT_NONE 1,
    OTE 0x00 0x83 AM_IMM PO_x83_ANDi8 None OT_MRM OT_IMM8 OT_NONE 1,
    OTE 0x00 0x20 AM_DIR PO_REGISTER None OT_MRM8 OT_MRMr8 OT_NONE 1,
    OTE 0x00 0x21 AM_DIR PO_REGISTER None OT_MRM OT_MRMr OT_NONE 4,
    OTE 0x00 0x22 AM_DIR PO_REGISTER None OT_MRMr8 OT_MRM8 OT_NONE 1,
    OTE 0x00 0x23 AM_DIR PO_REGISTER None OT_MRMr OT_MRM OT_NONE 4,
    sentinel]"

definition opcodesTableBT :: "OpcodeInfo list" where
  "opcodesTableBT = [
    OTE 0x0f 0xa3 AM_ENH PO_REGISTER None OT_MRM OT_MRMr OT_NONE 4,
    OTE 0x0f 0xba AM_IMM PO_x0FBA_BTi8 None OT_MRM OT_IMM8 OT_NONE 1,
    sentinel]"

definition opcodesTableBTC :: "OpcodeInfo list" where
  "opcodesTableBTC = [
    OTE 0x0f 0xbb AM_ENH PO_REGISTER None OT_MRM OT_MRMr OT_NONE 4,
    OTE 0x0f 0xba AM_IMM PO_x0FBA_BTCi8 None OT_MRM OT_IMM8 OT_NONE 1,
    sentinel]"

definition opcodesTableCALL :: "OpcodeInfo list" where
  "opcodesTableCALL = [
    OTE 0x00 0xe8 AM_REL PO_NONE None OT_NONE OT_REL OT_NONE 4,
    OTE 0x00 0xff AM_ENH PO_xFF_NCALL None OT_NONE OT_MRM OT_NONE 4,
    OTE 0x00 0x9a AM_EXT PO_NONE None OT_NONE OT_IMM OT_IMM16 4,
    OTE 0x00 0xff AM_ENH PO_xFF_FCALL None OT_NONE OT_MRM OT_NONE 4,
    sentinel]"

definition opcodesTableCMP :: "OpcodeInfo list" where
  "opcodesTableCMP = [
    OTE 0x00 0x3c AM_IMM PO_NONE (Some REGS_AL) OT_GPREG8 OT_IMM8 OT_NONE 1,
    OTE 0x00 0x3d AM_IMM PO_NONE (Some REGS_EAX) OT_GPREG OT_IMM OT_NONE 4,
    OTE 0x00 0x80 AM_IMM PO_x80_CMP8i8 None OT_MRM8 OT_IMM8 OT_NONE 1,
    OTE 0x00 0x81 AM_IMM PO_x81_CMPi None OT_MRM OT_IMM OT_NONE 4,
    OTE 0x00 0x83 AM_IMM PO_x83_CMPi8 None OT_MRM OT_IMM8 OT_NONE 1,
    OTE 0x00 0x38 AM_DIR PO_REGISTER None OT_MRM8 OT_MRMr8 OT_NONE 1,
    OTE 0x00 0x39 AM_DIR PO_REGISTER None OT_MRM OT_MRMr OT_NONE 4,
    OTE 0x00 0x3a AM_DIR PO_REGISTER None OT_MRMr8 OT_MRM8 OT_NONE 1,
    OTE 0x00 0x3b AM_DIR PO_REGISTER None OT_MRMr OT_MRM OT_NONE 4,
    OTE 0x00 0xa6 AM_INH PO_NONE None OT_NONE OT_NONE OT_NONE 1,
    OTE 0x00 0xa7 AM_INH PO_NONE None OT_NONE OT_NONE OT_NONE 4,
    sentinel]"

definition opcodesTableJcc :: "OpcodeInfo list" where
  "opcodesTableJcc = [
    OTE 0x00 0x70 AM_REL PO_NONE None OT_NONE OT_REL8 OT_NONE 1,
    OTE 0x00 0x71 AM_REL PO_NONE None OT_NONE OT_REL8 OT_NONE 1,
    OTE 0x00 0x72 AM_REL PO_NONE None OT_NONE OT_REL8 OT_NONE 1,
    OTE 0x00 0x73 AM_REL PO_NONE None OT_NONE OT_REL8 OT_NONE 1,
    OTE 0x00 0x74 AM_REL PO_NONE None OT_NONE OT_REL8 OT_NONE 1,
    OTE 0x00 0x75 AM_REL PO_NONE None OT_NONE OT_REL8 OT_NONE 1,
    OTE 0x00 0x76 AM_REL PO_NONE None OT_NONE OT_REL8 OT_NONE 1,
    OTE 0x00 0x77 AM_REL PO_NONE None OT_NONE OT_REL8 OT_NONE 1,
    OTE 0x00 0x78 AM_REL PO_NONE None OT_NONE OT_REL8 OT_NONE 1,
    OTE 0x00 0x79 AM_REL PO_NONE None OT_NONE OT_REL8 OT_NONE 1,
    OTE 0x00 0x7a AM_REL PO_NONE None OT_NONE OT_REL8 OT_NONE 1,
    OTE 0x00 0x7b AM_REL PO_NONE None OT_NONE OT_REL8 OT_NONE 1,
    OTE 0x00 0x7c AM_REL PO_NONE None OT_NONE OT_REL8 OT_NONE 1,
    OTE 0x00 0x7d AM_REL PO_NONE None OT_NONE OT_REL8 OT_NONE 1,
    OTE 0x00 0x7e AM_REL PO_NONE None OT_NONE OT_REL8 OT_NONE 1,
    OTE 0x00 0x7f AM_REL PO_NONE None OT_NONE OT_REL8 OT_NONE 1,
    OTE 0x00 0xe3 AM_REL PO_NONE None OT_NONE OT_REL8 OT_NONE 1,
    OTE 0x0f 0x80 AM_REL PO_NONE None OT_NONE OT_REL OT_NONE 4,
    OTE 0x0f 0x81 AM_REL PO_NONE None OT_NONE OT_REL OT_NONE 4,
    OTE 0x0f 0x82 AM_REL PO_NONE None OT_NONE OT_REL OT_NONE 4,
    OTE 0x0f 0x83 AM_REL PO_NONE None OT_NONE OT_REL OT_NONE 4,
    OTE 0x0f 0x84 AM_REL PO_NONE None OT_NONE OT_REL OT_NONE 4,
    OTE 0x0f 0x85 AM_REL PO_NONE None OT_NONE OT_REL OT_NONE 4,
    OTE 0x0f 0x86 AM_REL PO_NONE None OT_NONE OT_REL OT_NONE 4,
    OTE 0x0f 0x87 AM_REL PO_NONE None OT_NONE OT_REL OT_NONE 4,
    OTE 0x0f 0x88 AM_REL PO_NONE None OT_NONE OT_REL OT_NONE 4,
    OTE 0x0f 0x89 AM_REL PO_NONE None OT_NONE OT_REL OT_NONE 4,
    OTE 0x0f 0x8a AM_REL PO_NONE None OT_NONE OT_REL OT_NONE 4,
    OTE 0x0f 0x8b AM_REL PO_NONE None OT_NONE OT_REL OT_NONE 4,
    OTE 0x0f 0x8c AM_REL PO_NONE None OT_NONE OT_REL OT_NONE 4,
    OTE 0x0f 0x8d AM_REL PO_NONE None OT_NONE OT_REL OT_NONE 4,
    OTE 0x0f 0x8e AM_REL PO_NONE None OT_NONE OT_REL OT_NONE 4,
    OTE 0x0f 0x8f AM_REL PO_NONE None OT_NONE OT_REL OT_NONE 4,
    sentinel]"

definition opcodesTableJMP :: "OpcodeInfo list" where
  "opcodesTableJMP = [
    OTE 0x00 0xeb AM_REL PO_NONE None OT_NONE OT_REL8 OT_NONE 1,
    OTE 0x00 0xe9 AM_REL PO_NONE None OT_NONE OT_REL OT_NONE 4,
    OTE 0x00 0xff AM_ENH PO_xFF_JUMPN None OT_NONE OT_MRM OT_NONE 4,
    OTE 0x00 0xea AM_EXT PO_NONE None OT_NONE OT_IMM OT_IMM16 4,
    OTE 0x00 0xff AM_DIR PO_xFF_JUMPF None OT_NONE OT_MRM OT_NONE 4,
    sentinel]"

definition opcodesTableMOV :: "OpcodeInfo list" where
  "opcodesTableMOV = [
    OTE 0x00 0x88 AM_ENH PO_REGISTER None OT_MRM8 OT_MRMr8 OT_NONE 1,
    OTE 0x00 0x89 AM_ENH PO_REGISTER None OT_MRM OT_MRMr OT_NONE 4,
    OTE 0x00 0x8a AM_ENH PO_REGISTER None OT_MRMr8 OT_MRM8 OT_NONE 1,
    OTE 0x00 0x8b AM_ENH PO_REGISTER None OT_MRMr OT_MRM OT_NONE 4,
    OTE 0x00 0x8c AM_ENH PO_REGISTER None OT_MRM OT_MRMsr OT_NONE 0,
    OTE 0x00 0x8e AM_ENH PO_REGISTER None OT_MRMsr OT_MRM OT_NONE 0,
    OTE 0x00 0xa0 AM_IMM PO_NONE (Some REGS_AL) OT_GPREG8 OT_IMM OT_NONE 4,
    OTE 0x00 0xa1 AM_IMM PO_NONE (Some REGS_EAX) OT_GPREG OT_IMM OT_NONE 4,
    OTE 0x00 0xa2 AM_IMM PO_NONE (Some REGS_AL) OT_GPREG8 OT_IMM OT_NONE 0,
    OTE 0x00 0xa3 AM_IMM PO_NONE (Some REGS_EAX) OT_GPREG OT_IMM OT_NONE 0,
    OTE 0x00 0xb0 AM_IMM PO_NONE (Some REGS_AL) OT_GPREG8 OT_IMM8 OT_NONE 0,
    OTE 0x00 0xb1 AM_IMM PO_NONE (Some REGS_CL) OT_GPREG8 OT_IMM8 OT_NONE 0,
    OTE 0x00 0xb2 AM_IMM PO_NONE (Some REGS_DL) OT_GPREG8 OT_IMM8 OT_NONE 0,
    OTE 0x00 0xb3 AM_IMM PO_NONE (Some REGS_BL) OT_GPREG8 OT_IMM8 OT_NONE 0,
    OTE 0x00 0xb4 AM_IMM PO_NONE (Some REGS_AH) OT_GPREG8 OT_IMM8 OT_NONE 0,
    OTE 0x00 0xb5 AM_IMM PO_NONE (Some REGS_CH) OT_GPREG8 OT_IMM8 OT_NONE 0,
    OTE 0x00 0xb6 AM_IMM PO_NONE (Some REGS_DH) OT_GPREG8 OT_IMM8 OT_NONE 0,
    OTE 0x00 0xb7 AM_IMM PO_NONE (Some REGS_BH) OT_GPREG8 OT_IMM8 OT_NONE 0,
    OTE 0x00 0xb8 AM_IMM PO_NONE (Some REGS_EAX) OT_GPREG8 OT_IMM OT_NONE 0,
    OTE 0x00 0xb9 AM_IMM PO_NONE (Some REGS_ECX) OT_GPREG8 OT_IMM OT_NONE 0,
    OTE 0x00 0xba AM_IMM PO_NONE (Some REGS_EDX) OT_GPREG8 OT_IMM OT_NONE 0,
    OTE 0x00 0xbb AM_IMM PO_NONE (Some REGS_EBX) OT_GPREG8 OT_IMM OT_NONE 0,
    OTE 0x00 0xbc AM_IMM PO_NONE (Some REGS_ESP) OT_GPREG8 OT_IMM OT_NONE 0,
    OTE 0x00 0xbd AM_IMM PO_NONE (Some REGS_EBP) OT_GPREG8 OT_IMM OT_NONE 0,
    OTE 0x00 0xbe AM_IMM PO_NONE (Some REGS_ESI) OT_GPREG8 OT_IMM OT_NONE 0,
    OTE 0x00 0xbf AM_IMM PO_NONE (Some REGS_EDI) OT_GPREG8 OT_IMM OT_NONE 0,
    sentinel]"

definition opcodesTablePUSH :: "OpcodeInfo list" where
  "opcodesTablePUSH = [
    OTE 0x00 0xff AM_ENH PO_xFF_PUSH None OT_NONE OT_MRM OT_NONE 4,
    OTE 0x00 0x50 AM_INH PO_NONE (Some REGS_EAX) OT_NONE OT_GPREG OT_NONE 4,
    OTE 0x00 0x51 AM_INH PO_NONE (Some REGS_ECX) OT_NONE OT_GPREG OT_NONE 4,
    OTE 0x00 0x52 AM_INH PO_NONE (Some REGS_EDX) OT_NONE OT_GPREG OT_NONE 4,
    OTE 0x00 0x53 AM_INH PO_NONE (Some REGS_EBX) OT_NONE OT_GPREG OT_NONE 4,
    OTE 0x00 0x54 AM_INH PO_NONE (Some REGS_ESP) OT_NONE OT_GPREG OT_NONE 4,
    OTE 0x00 0x55 AM_INH PO_NONE (Some REGS_EBP) OT_NONE OT_GPREG OT_NONE 4,
    OTE 0x00 0x56 AM_INH PO_NONE (Some REGS_ESI) OT_NONE OT_GPREG OT_NONE 4,
    OTE 0x00 0x57 AM_INH PO_NONE (Some REGS_EDI) OT_NONE OT_GPREG OT_NONE 4,
    OTE 0x00 0x6a AM_IMM PO_NONE None OT_NONE OT_IMM8 OT_NONE 1,
    OTE 0x00 0x68 AM_IMM PO_NONE None OT_NONE OT_IMM OT_NONE 4,
    OTE 0x00 0x0e AM_INH PO_NONE (Some REGS_CS) OT_NONE OT_SREG OT_NONE 2,
    OTE 0x00 0x16 AM_INH PO_NONE (Some REGS_SS) OT_NONE OT_SREG OT_NONE 2,
    OTE 0x00 0x1e AM_INH PO_NONE (Some REGS_DS) OT_NONE OT_SREG OT_NONE 2,
    OTE 0x00 0x06 AM_INH PO_NONE (Some REGS_ES) OT_NONE OT_SREG OT_NONE 2,
    OTE 0x0f 0xa0 AM_INH PO_NONE (Some REGS_FS) OT_NONE OT_SREG OT_NONE 2,
    OTE 0x0f 0xa8 AM_INH PO_NONE (Some REGS_GS) OT_NONE OT_SREG OT_NONE 2,
    sentinel]"

definition opcodesTablePOP :: "OpcodeInfo list" where
  "opcodesTablePOP = [
    OTE 0x00 0x8f AM_ENH PO_x8F_POP None OT_MRM OT_NONE OT_NONE 4,
    OTE 0x00 0x58 AM_INH PO_NONE (Some REGS_EAX) OT_GPREG OT_NONE OT_NONE 4,
    OTE 0x00 0x59 AM_INH PO_NONE (Some REGS_ECX) OT_GPREG OT_NONE OT_NONE 4,
    OTE 0x00 0x5a AM_INH PO_NONE (Some REGS_EDX) OT_GPREG OT_NONE OT_NONE 4,
    OTE 0x00 0x5b AM_INH PO_NONE (Some REGS_EBX) OT_GPREG OT_NONE OT_NONE 4,
    OTE 0x00 0x5c AM_INH PO_NONE (Some REGS_ESP) OT_GPREG OT_NONE OT_NONE 4,
    OTE 0x00 0x5d AM_INH PO_NONE (Some REGS_EBP) OT_GPREG OT_NONE OT_NONE 4,
    OTE 0x00 0x5e AM_INH PO_NONE (Some REGS_ESI) OT_GPREG OT_NONE OT_NONE 4,
    OTE 0x00 0x5f AM_INH PO_NONE (Some REGS_EDI) OT_GPREG OT_NONE OT_NONE 4,
    OTE 0x00 0x1f AM_INH PO_NONE (Some REGS_DS) OT_SREG OT_NONE OT_NONE 2,
    OTE 0x00 0x07 AM_INH PO_NONE (Some REGS_ES) OT_SREG OT_NONE OT_NONE 2,
    OTE 0x00 0x17 AM_INH PO_NONE (Some REGS_SS) OT_SREG OT_NONE OT_NONE 2,
    OTE 0x0f 0xa1 AM_INH PO_NONE (Some REGS_FS) OT_SREG OT_NONE OT_NONE 2,
    OTE 0x0f 0xa9 AM_INH PO_NONE (Some REGS_GS) OT_SREG OT_NONE OT_NONE 2,
    sentinel]"

definition opcodesTableSTOS :: "OpcodeInfo list" where
  "opcodesTableSTOS = [
    OTE 0x00 0xaa AM_INH PO_NONE (Some REGS_EDI) OT_NONE OT_NONE OT_NONE 1,
    OTE 0x00 0xab AM_INH PO_NONE (Some REGS_EDI) OT_NONE OT_NONE OT_NONE 4,
    OTE 0x00 0xaa AM_INH PO_NONE (Some REGS_EDI) OT_NONE OT_NONE OT_NONE 1,
    OTE 0x00 0xab AM_INH PO_NONE (Some REGS_EDI) OT_NONE OT_NONE OT_NONE 4,
    sentinel]"

definition opcodesTableSUB :: "OpcodeInfo list" where
  "opcodesTableSUB = [
    OTE 0x00 0x2c AM_IMM PO_NONE (Some REGS_AL) OT_GPREG8 OT_IMM8 OT_NONE 1,
    OTE 0x00 0x2d AM_IMM PO_NONE (Some REGS_EAX) OT_GPREG OT_IMM OT_NONE 4,
    OTE 0x00 0x80 AM_IMM PO_x80_SUB8i8 None OT_MRM8 OT_IMM8 OT_NONE 1,
    OTE 0x00 0x81 AM_IMM PO_x81_SUBi None OT_MRM OT_IMM OT_NONE 4,
    OTE 0x00 0x83 AM_IMM PO_x83_SUBi8 None OT_MRM OT_IMM8 OT_NONE 1,
    OTE 0x00 0x28 AM_DIR PO_REGISTER None OT_MRM8 OT_MRMr8 OT_NONE 1,
    OTE 0x00 0x29 AM_DIR PO_REGISTER None OT_MRM OT_MRMr OT_NONE 4,
    OTE 0x00 0x2a AM_DIR PO_REGISTER None OT_MRMr8 OT_MRM8 OT_NONE 1,
    OTE 0x00 0x2b AM_DIR PO_REGISTER None OT_MRMr OT_MRM OT_NONE 4,
    sentinel]"

definition opcodesTableXOR :: "OpcodeInfo list" where
  "opcodesTableXOR = [
    OTE 0x00 0x34 AM_IMM PO_NONE (Some REGS_AL) OT_GPREG8 OT_IMM8 OT_NONE 1,
    OTE 0x00 0x35 AM_IMM PO_NONE (Some REGS_EAX) OT_GPREG OT_IMM OT_NONE 4,
    OTE 0x00 0x80 AM_IMM PO_x80_XOR8i8 None OT_MRM8 OT_IMM8 OT_NONE 1,
    OTE 0x00 0x81 AM_IMM PO_x83_XORi8 None OT_MRM OT_IMM8 OT_NONE 1,
    OTE 0x00 0x83 AM_IMM PO_x83_XORi8 None OT_MRM OT_IMM8 OT_NONE 1,
    OTE 0x00 0x30 AM_DIR PO_REGISTER None OT_MRM8 OT_MRMr8 OT_NONE 1,
    OTE 0x00 0x31 AM_DIR PO_REGISTER None OT_MRM OT_MRMr OT_NONE 4,
    OTE 0x00 0x32 AM_DIR PO_REGISTER None OT_MRMr8 OT_MRM8 OT_NONE 1,
    OTE 0x00 0x33 AM_DIR PO_REGISTER None OT_MRMr OT_MRM OT_NONE 4,
    sentinel]"

definition opcodes32Table :: "OpcodeInfo list list" where
  "opcodes32Table = [
    opcodesTableGeneral,
    opcodesTableADD,
    opcodesTableAND,
    opcodesTableCMP,
    opcodesTableCALL,
    opcodesTableDIV,
    opcodesTableJcc,
    opcodesTableJMP,
    opcodesTableMOV,
    opcodesTableMUL,
    opcodesTablePOP,
    opcodesTablePUSH,
    opcodesTableSUB,
    opcodesTableXOR,
    opcodesTableSTOS]"

lemmas row_defs = OTE_def OTET_def sentinel_def

lemmas table_defs =
  opcodes32Table_def
  opcodesTableGeneral_def
  opcodesTableADC_def
  opcodesTableADD_def
  opcodesTableMUL_def
  opcodesTableDIV_def
  opcodesTableAND_def
  opcodesTableBT_def
  opcodesTableBTC_def
  opcodesTableCALL_def
  opcodesTableCMP_def
  opcodesTableJcc_def
  opcodesTableJMP_def
  opcodesTableMOV_def
  opcodesTablePUSH_def
  opcodesTablePOP_def
  opcodesTableSTOS_def
  opcodesTableSUB_def
  opcodesTableXOR_def

section \<open>The check of a debug build\<close>

text \<open>
  What \<open>CheckOpcodes\<close> asserts of one row: a ModRM operand goes with a postbyte, and the
  operands fit the addressing mode.
\<close>

definition has_modrm_operand :: "OpcodeInfo \<Rightarrow> bool" where
  "has_modrm_operand r =
     (IsModRM (oi_OperandTypeDst r) \<or> IsModRM (oi_OperandTypeSrc1 r) \<or>
      IsModRM (oi_OperandTypeSrc2 r))"

fun mode_check :: "ADDR_MODE \<Rightarrow> uint8 \<Rightarrow> OPERAND_TYPE \<Rightarrow> OPERAND_TYPE \<Rightarrow> OPERAND_TYPE \<Rightarrow> bool" where
  "mode_check AM_REL pb d s1 s2 = (\<not> IsRelative d \<and> IsRelative s1 \<and> \<not> IsRelative s2)"
| "mode_check AM_ENH pb d s1 s2 = (pb \<noteq> PO_NONE \<and> (IsModRM d \<or> IsModRM s1 \<or> IsModRM s2))"
| "mode_check AM_EXT pb d s1 s2 = (d = OT_NONE \<and> s1 = OT_IMM \<and> s2 = OT_IMM16)"
| "mode_check AM_DIR pb d s1 s2 =
     ((IsModRM d \<and> IsModRM s1 \<and> s2 = OT_NONE) \<or> (d = OT_NONE \<and> IsModRM s1 \<and> s2 = OT_NONE))"
| "mode_check AM_IMM pb d s1 s2 =
     ((d = OT_NONE \<and> IsImmediate s1 \<and> s2 = OT_NONE) \<or>
      (IsRegister d \<and> IsImmediate s1 \<and> s2 = OT_NONE) \<or>
      (IsModRM d \<and> IsImmediate s1 \<and> s2 = OT_NONE) \<or>
      (pb = PO_REGISTER \<and> IsModRM d \<and> IsModRM s1 \<and> IsImmediate s2))"
| "mode_check AM_INH pb d s1 s2 =
     ((d = OT_NONE \<and> s1 = OT_NONE \<and> s2 = OT_NONE) \<or>
      (d = OT_NONE \<and> IsRegister s1 \<and> s2 = OT_NONE) \<or>
      (IsRegister d \<and> s1 = OT_NONE \<and> s2 = OT_NONE))"
| "mode_check AM_INV pb d s1 s2 = True"

definition row_check :: "OpcodeInfo \<Rightarrow> bool" where
  "row_check r =
     ((has_modrm_operand r \<longrightarrow> oi_Postbyte r \<noteq> PO_NONE) \<and>
      (oi_Postbyte r \<noteq> PO_NONE \<longrightarrow> has_modrm_operand r) \<and>
      mode_check (oi_AddressingMode r) (oi_Postbyte r)
        (oi_OperandTypeDst r) (oi_OperandTypeSrc1 r) (oi_OperandTypeSrc2 r))"

text \<open>A walk over a table stops at its last row; a table without one would be overrun.\<close>

fun check_table :: "OpcodeInfo list \<Rightarrow> exn + unit" where
  "check_table [] = Inl (Undefined ''past the table'')"
| "check_table (r # rs) =
     (if oi_AddressingMode r = AM_INV then Inr ()
      else bind_res (assert_res True (row_check r) ''CheckOpcodes'') (\<lambda>_. check_table rs))"

fun check_tables :: "OpcodeInfo list list \<Rightarrow> exn + nat" where
  "check_tables [] = Inr 0"
| "check_tables (t # ts) = bind_res (check_table t) (\<lambda>_. check_tables ts)"

definition CheckOpcodes :: "exn + nat" where
  "CheckOpcodes = check_tables opcodes32Table"

section \<open>Facts about the rows\<close>

text \<open>The rows of a table before the one that ends it, and all rows that are searched.\<close>

definition table_rows :: "OpcodeInfo list \<Rightarrow> OpcodeInfo list" where
  "table_rows t = takeWhile (\<lambda>r. oi_AddressingMode r \<noteq> AM_INV) t"

definition all_rows :: "OpcodeInfo list" where
  "all_rows = concat (map table_rows opcodes32Table)"

lemmas row_eval =
  table_defs row_defs register_defs po_defs operand_type_defs row_check_def has_modrm_operand_def

lemma table_ends: "t \<in> set opcodes32Table \<Longrightarrow> \<exists>r \<in> set t. oi_AddressingMode r = AM_INV"
  by (auto simp: table_defs row_defs)

lemma rows_checked: "list_all row_check all_rows"
  by (simp add: all_rows_def table_rows_def row_eval)

end
