(* ===== verification/CodeHook_Instruction.thy ===== *)
theory CodeHook_Instruction
  imports CodeHook_Tables
begin

text \<open>
  One x86 instruction (\<open>cpuIA32_Instruction.cpp\<close>): decoding it from memory, moving it to
  another address, and emitting its bytes. The decoder's functions return the members
  they change; \<open>OpcodeIterator&\<close> parameters are returned as well. The members the decoder
  leaves behind when it throws are not kept: every caller discards the object then.
\<close>

section \<open>The object\<close>

record Instruction =
  in_Info :: "OpcodeInfo option"
  in_Address :: uint64
  in_CodeSize :: uint64
  in_PrefixByteCount :: nat
  in_PrefixBytes :: "uint8 list"
  in_Postbyte :: PostByte
  in_Displacement :: Operand
  in_OperandDst :: Operand
  in_OperandSrc1 :: Operand
  in_OperandSrc2 :: Operand

definition MAX_PREFIX_BYTES :: nat where
  "MAX_PREFIX_BYTES = 4"

text \<open>\<open>Reset\<close> leaves the four operands as they are.\<close>

definition Instruction_Reset :: "Instruction \<Rightarrow> Instruction" where
  "Instruction_Reset inst = inst\<lparr>in_Info := None, in_Address := 0, in_CodeSize := 0,
     in_PrefixByteCount := 0, in_PrefixBytes := replicate MAX_PREFIX_BYTES 0,
     in_Postbyte := PostByte_Reset\<rparr>"

definition new_Instruction :: Instruction where
  "new_Instruction = Instruction_Reset
     \<lparr>in_Info = None, in_Address = 0, in_CodeSize = 0, in_PrefixByteCount = 0,
      in_PrefixBytes = replicate MAX_PREFIX_BYTES 0, in_Postbyte = PostByte_Reset,
      in_Displacement = new_Operand, in_OperandDst = new_Operand,
      in_OperandSrc1 = new_Operand, in_OperandSrc2 = new_Operand\<rparr>"

section \<open>Prefixes\<close>

definition INST_PREFIX_LOCK :: uint8 where "INST_PREFIX_LOCK = 0xf0"
definition INST_PREFIX_REPN :: uint8 where "INST_PREFIX_REPN = 0xf2"
definition INST_PREFIX_REP :: uint8 where "INST_PREFIX_REP = 0xf3"
definition INST_PREFIX_OPSIZE :: uint8 where "INST_PREFIX_OPSIZE = 0x66"
definition INST_PREFIX_ADSIZE :: uint8 where "INST_PREFIX_ADSIZE = 0x67"
definition INST_PREFIX_SEGMENT_ES :: uint8 where "INST_PREFIX_SEGMENT_ES = 0x26"
definition INST_PREFIX_SEGMENT_CS :: uint8 where "INST_PREFIX_SEGMENT_CS = 0x2e"
definition INST_PREFIX_SEGMENT_SS :: uint8 where "INST_PREFIX_SEGMENT_SS = 0x36"
definition INST_PREFIX_SEGMENT_DS :: uint8 where "INST_PREFIX_SEGMENT_DS = 0x3e"
definition INST_PREFIX_SEGMENT_FS :: uint8 where "INST_PREFIX_SEGMENT_FS = 0x64"
definition INST_PREFIX_SEGMENT_GS :: uint8 where "INST_PREFIX_SEGMENT_GS = 0x65"

lemmas prefix_consts =
  INST_PREFIX_LOCK_def INST_PREFIX_REPN_def INST_PREFIX_REP_def INST_PREFIX_OPSIZE_def
  INST_PREFIX_ADSIZE_def INST_PREFIX_SEGMENT_ES_def INST_PREFIX_SEGMENT_CS_def
  INST_PREFIX_SEGMENT_SS_def INST_PREFIX_SEGMENT_DS_def INST_PREFIX_SEGMENT_FS_def
  INST_PREFIX_SEGMENT_GS_def

definition is_prefix :: "uint8 \<Rightarrow> bool" where
  "is_prefix b = (b \<in> {INST_PREFIX_LOCK, INST_PREFIX_REPN, INST_PREFIX_REP,
     INST_PREFIX_OPSIZE, INST_PREFIX_ADSIZE, INST_PREFIX_SEGMENT_ES, INST_PREFIX_SEGMENT_CS,
     INST_PREFIX_SEGMENT_SS, INST_PREFIX_SEGMENT_DS, INST_PREFIX_SEGMENT_FS,
     INST_PREFIX_SEGMENT_GS})"

text \<open>
  The loop stores every prefix byte at the next index of a four-byte array; the fifth
  store is out of bounds.
\<close>

function prefix_loop ::
    "memory \<Rightarrow> OpcodeIterator \<Rightarrow> nat \<Rightarrow> uint8 list \<Rightarrow> exn + OpcodeIterator \<times> nat \<times> uint8 list" where
  "prefix_loop mem it n pbs =
     bind_res (iter_at mem it 0) (\<lambda>b.
     if is_prefix b
     then if n < MAX_PREFIX_BYTES
          then bind_res (NextI8 mem it) (\<lambda>c. prefix_loop mem (snd c) (Suc n) (pbs[n := fst c]))
          else Inl (Undefined ''m_PrefixBytes'')
     else Inr (it, n, pbs))"
  by pat_completeness auto
termination
  by (relation "measure (\<lambda>(mem, it, n, pbs). MAX_PREFIX_BYTES - n)") auto

declare prefix_loop.simps [simp del]

definition ProcessPrefix ::
    "memory \<Rightarrow> OpcodeIterator \<Rightarrow> Instruction \<Rightarrow> exn + OpcodeIterator \<times> Instruction" where
  "ProcessPrefix mem it inst =
     bind_res (prefix_loop mem it 0 (in_PrefixBytes inst)) (\<lambda>(it1, n, pbs).
     Inr (it1, inst\<lparr>in_PrefixByteCount := n, in_PrefixBytes := pbs\<rparr>))"

section \<open>Finding the row of an opcode\<close>

text \<open>The opcode bytes of a row against the bytes at the iterator, moved past them on a match.\<close>

definition match_row :: "memory \<Rightarrow> OpcodeIterator \<Rightarrow> OpcodeInfo \<Rightarrow> exn + OpcodeIterator option" where
  "match_row mem it info =
     bind_res (iter_at mem it 0) (\<lambda>b0.
     if oi_Prefix info \<noteq> 0
     then if oi_Prefix info = b0
          then bind_res (iter_at mem it 1) (\<lambda>b1.
               if oi_Opcode info = b1
               then bind_res (NextI8 mem it) (\<lambda>(_, it1).
                    bind_res (NextI8 mem it1) (\<lambda>(_, it2). Inr (Some it2)))
               else Inr None)
          else Inr None
     else if oi_Opcode info = b0
          then bind_res (NextI8 mem it) (\<lambda>(_, it1). Inr (Some it1))
          else Inr None)"

definition extension_differs :: "bool \<Rightarrow> OpcodeInfo \<Rightarrow> PostByte \<Rightarrow> exn + bool" where
  "extension_differs dbg info pb =
     (if PO_REGISTER \<noteq> oi_Postbyte info
      then bind_res (GetRegisterOrOpcode dbg pb) (\<lambda>v. Inr (oi_Postbyte info \<noteq> v))
      else Inr False)"

text \<open>How the search of one table ends: a row, \<open>return NULL\<close>, or on to the next table.\<close>

datatype search = Found OpcodeInfo | Not_found | Next_table

fun find_in_table ::
    "bool \<Rightarrow> memory \<Rightarrow> OpcodeIterator \<Rightarrow> OpcodeIterator \<Rightarrow> OpcodeInfo list \<Rightarrow>
     exn + search \<times> OpcodeIterator" where
  "find_in_table dbg mem it0 it [] = Inl (Undefined ''past the table'')"
| "find_in_table dbg mem it0 it (info # rest) =
     (if oi_AddressingMode info = AM_INV then Inr (Next_table, it)
      else bind_res (match_row mem it info) (\<lambda>m. case m of
          None \<Rightarrow> find_in_table dbg mem it0 it rest
        | Some it1 \<Rightarrow>
            if PO_NONE \<noteq> oi_Postbyte info
            then bind_res (PostByte_assign dbg mem it1 False PostByte_Reset) (\<lambda>(n, _, pb).
                 if n = 0 then Inr (Not_found, it1)
                 else bind_res (extension_differs dbg info pb) (\<lambda>differs.
                      if differs then find_in_table dbg mem it0 it0 rest
                      else Inr (Found info, it1)))
            else Inr (Found info, it1)))"

fun find_in_tables ::
    "bool \<Rightarrow> memory \<Rightarrow> OpcodeIterator \<Rightarrow> OpcodeIterator \<Rightarrow> OpcodeInfo list list \<Rightarrow>
     exn + OpcodeInfo option \<times> OpcodeIterator" where
  "find_in_tables dbg mem it0 it [] = Inr (None, it0)"
| "find_in_tables dbg mem it0 it (t # ts) =
     bind_res (find_in_table dbg mem it0 it t) (\<lambda>(s, it1). case s of
         Found info \<Rightarrow> Inr (Some info, it1)
       | Not_found \<Rightarrow> Inr (None, it0)
       | Next_table \<Rightarrow> find_in_tables dbg mem it0 it1 ts)"

definition FindOpcode ::
    "bool \<Rightarrow> memory \<Rightarrow> OpcodeIterator \<Rightarrow> exn + OpcodeInfo option \<times> OpcodeIterator" where
  "FindOpcode dbg mem it = find_in_tables dbg mem it it opcodes32Table"

section \<open>Operands\<close>

text \<open>The first \<open>switch\<close> of \<open>ProcessOperand\<close>: the size to read, and the operand so far.\<close>

definition assert_modrm :: "bool \<Rightarrow> OpcodeInfo \<Rightarrow> PostByte \<Rightarrow> exn + unit" where
  "assert_modrm dbg info pb =
     bind_res (assert_res dbg (oi_Register info = None) ''explicit register'') (\<lambda>_.
     bind_res (assert_res dbg (GetHasModRM pb) ''GetHasModRM()'') (\<lambda>_.
     assert_res dbg (PO_NONE \<noteq> oi_Postbyte info) ''PO::NONE''))"

definition operand_kind ::
    "bool \<Rightarrow> OpcodeInfo \<Rightarrow> PostByte \<Rightarrow> Operand \<Rightarrow> OPERAND_TYPE \<Rightarrow> exn + nat \<times> Operand" where
  "operand_kind dbg info pb operand t =
     (if t \<in> {OT_GPREG, OT_GPREG8, OT_SREG} then Inr (0, operand_create t)
      else if t \<in> {OT_MRMr, OT_MRMsr, OT_MRMr8}
      then bind_res (assert_res dbg (PO_REGISTER = oi_Postbyte info) ''PO::REGISTER'') (\<lambda>_.
           bind_res (assert_modrm dbg info pb) (\<lambda>_. Inr (0, operand_create t)))
      else if t \<in> {OT_MRM, OT_MRM8}
      then bind_res (assert_modrm dbg info pb) (\<lambda>_. Inr (0, operand_create t))
      else if t = OT_NONE then Inr (0, operand)
      else if t = OT_PEND
      then bind_res (assert_res dbg False ''OT_PEND'') (\<lambda>_. Inr (0, operand))
      else bind_res (SizeOfOperandByType dbg t) (\<lambda>n. Inr (n, operand)))"

text \<open>The second \<open>switch\<close>: the value, for the sizes that have one.\<close>

definition operand_value ::
    "memory \<Rightarrow> OpcodeIterator \<Rightarrow> OPERAND_TYPE \<Rightarrow> nat \<Rightarrow> Operand \<Rightarrow> exn + OpcodeIterator \<times> Operand" where
  "operand_value mem it t n operand =
     (if n = 1 then bind_res (NextI8 mem it) (\<lambda>(v, it1). Inr (it1, setValue8 t v))
      else if n = 2 then bind_res (NextI16 mem it) (\<lambda>(v, it1). Inr (it1, setValue16 t v))
      else if n = 4 then bind_res (NextI32 mem it) (\<lambda>(v, it1). Inr (it1, setValue32 t v))
      else if n = 8 then bind_res (NextI64 mem it) (\<lambda>(v, it1). Inr (it1, setValue64 t v))
      else Inr (it, operand))"

definition ProcessOperand ::
    "bool \<Rightarrow> memory \<Rightarrow> OpcodeInfo \<Rightarrow> PostByte \<Rightarrow> OpcodeIterator \<Rightarrow> Operand \<Rightarrow> OPERAND_TYPE \<Rightarrow>
     exn + OpcodeIterator \<times> Operand" where
  "ProcessOperand dbg mem info pb it operand t =
     bind_res (operand_kind dbg info pb operand t) (\<lambda>(n, operand1).
     operand_value mem it t n operand1)"

section \<open>Postbytes and displacement\<close>

definition displacement_type :: "PostByte \<Rightarrow> uint8 \<Rightarrow> uint8 \<Rightarrow> OPERAND_TYPE option" where
  "displacement_type pb mode rm =
     (if mode = MODE_REG_IND
      then if PBYTE_DISP = rm then Some OT_IMM
           else if GetHasSIB pb \<and> SIBBASE_DISP = GetBase pb then Some OT_IMM
           else None
      else if mode = MODE_REG_IND_DISP then Some OT_IMM
      else if mode = MODE_REG_IND_DISP8 then Some OT_IMM8
      else None)"

definition ProcessPostfix ::
    "bool \<Rightarrow> memory \<Rightarrow> OpcodeInfo \<Rightarrow> OpcodeIterator \<Rightarrow> PostByte \<Rightarrow> Operand \<Rightarrow>
     exn + OpcodeIterator \<times> PostByte \<times> Operand" where
  "ProcessPostfix dbg mem info it pb disp =
     bind_res (PostByte_assign dbg mem it True pb) (\<lambda>(_, it1, pb1).
     bind_res (GetRegisterOrOpcode dbg pb1) (\<lambda>reg.
     bind_res (assert_res dbg (PO_REGISTER = oi_Postbyte info \<or> reg = oi_Postbyte info)
                 ''ProcessPostfix'') (\<lambda>_.
     bind_res (GetMode dbg pb1) (\<lambda>mode.
     bind_res (GetRegisterOrMode dbg pb1) (\<lambda>rm.
     case displacement_type pb1 mode rm of
       None \<Rightarrow> Inr (it1, pb1, disp)
     | Some t \<Rightarrow> bind_res (ProcessOperand dbg mem info pb1 it1 disp t) (\<lambda>(it2, disp1).
                 Inr (it2, pb1, disp1)))))))"

section \<open>Decode\<close>

text \<open>The part of \<open>Decode\<close> after a row is found: postbytes, displacement, three operands.\<close>

definition decode_operands ::
    "bool \<Rightarrow> memory \<Rightarrow> OpcodeInfo \<Rightarrow> OpcodeIterator \<Rightarrow> Instruction \<Rightarrow> exn + OpcodeIterator \<times> Instruction" where
  "decode_operands dbg mem info it inst =
     bind_res
       (if PO_NONE \<noteq> oi_Postbyte info
        then ProcessPostfix dbg mem info it (in_Postbyte inst) (in_Displacement inst)
        else Inr (it, in_Postbyte inst, in_Displacement inst)) (\<lambda>(it1, pb, disp).
     bind_res (ProcessOperand dbg mem info pb it1 (in_OperandDst inst) (oi_OperandTypeDst info))
       (\<lambda>(it2, dst).
     bind_res (ProcessOperand dbg mem info pb it2 (in_OperandSrc1 inst) (oi_OperandTypeSrc1 info))
       (\<lambda>(it3, src1).
     bind_res (ProcessOperand dbg mem info pb it3 (in_OperandSrc2 inst) (oi_OperandTypeSrc2 info))
       (\<lambda>(it4, src2).
     Inr (it4, inst\<lparr>in_Postbyte := pb, in_Displacement := disp, in_OperandDst := dst,
                    in_OperandSrc1 := src1, in_OperandSrc2 := src2\<rparr>)))))"

definition Decode ::
    "bool \<Rightarrow> memory \<Rightarrow> Instruction \<Rightarrow> OpcodeIterator \<Rightarrow> exn + bool \<times> OpcodeIterator \<times> Instruction" where
  "Decode dbg mem inst it =
     (let inst0 = (Instruction_Reset inst)\<lparr>in_Address := getAddress it\<rparr> in
      bind_res (ProcessPrefix mem it inst0) (\<lambda>(it1, inst1).
      bind_res (FindOpcode dbg mem it1) (\<lambda>(r, it2). case r of
        None \<Rightarrow> Inr (False, it, Instruction_Reset inst1)
      | Some info \<Rightarrow>
          if oi_IsTerminator info then Inr (False, it, Instruction_Reset inst1)
          else bind_res (decode_operands dbg mem info it2 (inst1\<lparr>in_Info := Some info\<rparr>))
                 (\<lambda>(it3, inst2).
               Inr (True, it3, inst2\<lparr>in_CodeSize := getAddress it3 - in_Address inst2\<rparr>)))))"

section \<open>Relocate\<close>

definition relocate_operand :: "bool \<Rightarrow> Instruction \<Rightarrow> uint64 \<Rightarrow> Operand \<Rightarrow> exn + Operand" where
  "relocate_operand dbg inst address x =
     (if IsRelative (op_Type x)
      then (let v = (in_Address inst + in_CodeSize inst + op_IntValue x)
                      - (address + in_CodeSize inst)
            in if op_Size x = 1 then Inr (setValue8 (op_Type x) (ucast v))
               else if op_Size x = 2 then Inr (setValue16 (op_Type x) (ucast v))
               else if op_Size x = 4 then Inr (setValue32 (op_Type x) (ucast v))
               else if op_Size x = 8 then Inr (setValue64 (op_Type x) v)
               else bind_res (assert_res dbg False ''Relocate'') (\<lambda>_. Inr x))
      else Inr x)"

definition Relocate :: "bool \<Rightarrow> uint64 \<Rightarrow> Instruction \<Rightarrow> exn + Instruction" where
  "Relocate dbg address inst =
     bind_res (relocate_operand dbg inst address (in_OperandDst inst)) (\<lambda>dst.
     bind_res (relocate_operand dbg inst address (in_OperandSrc1 inst)) (\<lambda>src1.
     bind_res (relocate_operand dbg inst address (in_OperandSrc2 inst)) (\<lambda>src2.
     Inr (inst\<lparr>in_OperandDst := dst, in_OperandSrc1 := src1, in_OperandSrc2 := src2,
               in_Address := address\<rparr>))))"

section \<open>Emit\<close>

text \<open>\<open>*(ptr++) = b\<close>: the store, and the pointer after it.\<close>

definition put_byte :: "uint8 \<Rightarrow> ptr \<Rightarrow> (memory, ptr) cpp" where
  "put_byte b p = and_then (modify (\<lambda>mem. mem(p := b))) (\<lambda>_. ret (p + 1))"

primrec append_value :: "nat \<Rightarrow> uint64 \<Rightarrow> ptr \<Rightarrow> (memory, ptr) cpp" where
  "append_value 0 v p = ret p"
| "append_value (Suc n) v p =
     and_then (put_byte (ucast (v AND 0xff)) p) (append_value n (drop_bit 8 v))"

definition AppendOperand :: "Operand \<Rightarrow> ptr \<Rightarrow> (memory, ptr) cpp" where
  "AppendOperand x p =
     (if op_Size x \<noteq> 0 then append_value (op_Size x) (op_IntValue x) p else ret p)"

primrec put_prefixes :: "uint8 list \<Rightarrow> nat list \<Rightarrow> ptr \<Rightarrow> (memory, ptr) cpp" where
  "put_prefixes pbs [] p = ret p"
| "put_prefixes pbs (i # is) p = and_then (put_byte (pbs ! i) p) (put_prefixes pbs is)"

definition put_if :: "bool \<Rightarrow> uint8 \<Rightarrow> ptr \<Rightarrow> (memory, ptr) cpp" where
  "put_if c b p = (if c then put_byte b p else ret p)"

definition Emit :: "bool \<Rightarrow> Instruction \<Rightarrow> ptr \<Rightarrow> (memory, ptr) cpp" where
  "Emit dbg inst p =
     and_then (put_prefixes (in_PrefixBytes inst) [0..<in_PrefixByteCount inst] p) (\<lambda>p1.
     case in_Info inst of
       None \<Rightarrow> throw (Undefined ''m_Info'')
     | Some info \<Rightarrow>
         and_then (put_if (oi_Prefix info \<noteq> 0) (oi_Prefix info) p1) (\<lambda>p2.
         and_then (put_byte (oi_Opcode info) p2) (\<lambda>p3.
         and_then (put_if (GetHasModRM (in_Postbyte inst)) (GetModRMValue (in_Postbyte inst)) p3) (\<lambda>p4.
         and_then (put_if (GetHasSIB (in_Postbyte inst)) (GetSIBValue (in_Postbyte inst)) p4) (\<lambda>p5.
         and_then (AppendOperand (in_Displacement inst) p5) (\<lambda>p6.
         and_then (AppendOperand (in_OperandDst inst) p6) (\<lambda>p7.
         and_then (AppendOperand (in_OperandSrc1 inst) p7) (\<lambda>p8.
         and_then (AppendOperand (in_OperandSrc2 inst) p8) (\<lambda>p9.
         and_then (lift_res (assert_res dbg (scast (p9 - p) = in_CodeSize inst) ''Emit'')) (\<lambda>_.
         ret p9))))))))))"

end
