(* ===== verification/CodeHook_Bytes.thy ===== *)
theory CodeHook_Bytes
  imports CodeHook_Instruction
begin

text \<open>
  The bytes of an instruction: what every step of the decoder consumes, and what every
  step of \<open>Emit\<close> writes. The two meet in \<open>code_bytes\<close>, the bytes an \<open>Instruction\<close> object
  stands for.
\<close>

section \<open>Reading and writing runs of bytes\<close>

text \<open>\<open>consumes mem it bs it'\<close>: the bytes \<open>bs\<close> stand at \<open>it\<close>, and \<open>it'\<close> is just after them.\<close>

definition consumes :: "memory \<Rightarrow> ptr \<Rightarrow> uint8 list \<Rightarrow> ptr \<Rightarrow> bool" where
  "consumes mem it bs it' = (bs = bytes_at mem it (length bs) \<and> it' = it + of_nat (length bs))"

lemma consumes_Nil [simp]: "consumes mem it [] it' \<longleftrightarrow> it' = it"
  by (simp add: consumes_def)

lemma consumes_single [simp]: "consumes mem it [b] it' \<longleftrightarrow> b = mem it \<and> it' = it + 1"
  by (simp add: consumes_def)

lemma consumes_append:
  assumes "consumes mem it bs it1" and "consumes mem it1 cs it2"
  shows "consumes mem it (bs @ cs) it2"
proof -
  have "bytes_at mem it (length (bs @ cs)) =
      bytes_at mem it (length bs) @ bytes_at mem it1 (length cs)"
    using assms(1) by (simp add: bytes_at_add consumes_def)
  with assms show ?thesis
    by (simp add: consumes_def add.assoc)
qed

lemma consumes_Cons:
  assumes "consumes mem (it + 1) cs it2" and "b = mem it"
  shows "consumes mem it (b # cs) it2"
  using consumes_append [of mem it "[b]" "it + 1" cs it2] assms by simp

lemma consumes_bytes: "consumes mem it bs it' \<Longrightarrow> bytes_at mem it (length bs) = bs"
  by (simp add: consumes_def)

lemma consumes_bytes_at: "consumes mem it (bytes_at mem it n) (it + of_nat n)"
  by (simp add: consumes_def)

primrec write_bytes :: "memory \<Rightarrow> ptr \<Rightarrow> uint8 list \<Rightarrow> memory" where
  "write_bytes mem p [] = mem"
| "write_bytes mem p (b # bs) = write_bytes (mem(p := b)) (p + 1) bs"

lemma write_bytes_append:
  "write_bytes mem p (bs @ cs) = write_bytes (write_bytes mem p bs) (p + of_nat (length bs)) cs"
  by (induction bs arbitrary: mem p) (auto simp: add.assoc)

text \<open>The addresses of a block: those less than \<open>n\<close> bytes after \<open>p\<close>, modulo the address space.\<close>

definition in_block :: "ptr \<Rightarrow> nat \<Rightarrow> ptr \<Rightarrow> bool" where
  "in_block p n a = (unat (a - p) < n)"

lemma in_block_Suc: "in_block p (Suc n) a \<longleftrightarrow> a = p \<or> in_block (p + 1) n a \<and> a \<noteq> p"
proof (cases "a = p")
  case False
  then have "a - p \<noteq> 0"
    by simp
  then have "unat (a - p) = Suc (unat (a - p - 1))"
    using unat_minus_one [of "a - p"] by (simp add: unat_gt_0 Suc_pred')
  with False show ?thesis
    by (simp add: in_block_def algebra_simps)
qed (simp add: in_block_def)

lemma in_block_mono: "in_block p m a \<Longrightarrow> m \<le> n \<Longrightarrow> in_block p n a"
  by (simp add: in_block_def)

lemma write_bytes_outside: "\<not> in_block p (length bs) a \<Longrightarrow> write_bytes mem p bs a = mem a"
  by (induction bs arbitrary: mem p) (auto simp: in_block_Suc)

lemma write_bytes_first:
  "length bs < 2 ^ 32 \<Longrightarrow> write_bytes (mem(p := b)) (p + 1) bs p = b"
proof -
  assume small: "length bs < 2 ^ 32"
  have "unat (p - (p + 1)) = 2 ^ 32 - 1"
    by (simp add: unsigned_minus_1_eq_mask mask_eq_exp_minus_1)
  then have "\<not> in_block (p + 1) (length bs) p"
    using small by (simp add: in_block_def)
  then show ?thesis
    by (simp add: write_bytes_outside)
qed

text \<open>What was written is there, as long as the block does not wrap onto itself.\<close>

lemma bytes_at_write_bytes:
  "length bs \<le> 2 ^ 32 \<Longrightarrow> bytes_at (write_bytes mem p bs) p (length bs) = bs"
  by (induction bs arbitrary: mem p) (auto simp: write_bytes_first)

section \<open>Emit\<close>

definition operand_bytes :: "Operand \<Rightarrow> uint8 list" where
  "operand_bytes x = le_bytes (op_Size x) (op_IntValue x)"

definition byte_if :: "bool \<Rightarrow> uint8 \<Rightarrow> uint8 list" where
  "byte_if c b = (if c then [b] else [])"

definition opcode_bytes :: "OpcodeInfo \<Rightarrow> uint8 list" where
  "opcode_bytes info = byte_if (oi_Prefix info \<noteq> 0) (oi_Prefix info) @ [oi_Opcode info]"

definition postbyte_bytes :: "PostByte \<Rightarrow> uint8 list" where
  "postbyte_bytes pb =
     byte_if (GetHasModRM pb) (GetModRMValue pb) @ byte_if (GetHasSIB pb) (GetSIBValue pb)"

definition code_bytes :: "Instruction \<Rightarrow> uint8 list" where
  "code_bytes inst =
     take (in_PrefixByteCount inst) (in_PrefixBytes inst) @
     (case in_Info inst of None \<Rightarrow> [] | Some info \<Rightarrow> opcode_bytes info) @
     postbyte_bytes (in_Postbyte inst) @
     operand_bytes (in_Displacement inst) @ operand_bytes (in_OperandDst inst) @
     operand_bytes (in_OperandSrc1 inst) @ operand_bytes (in_OperandSrc2 inst)"

text \<open>\<open>stores f bs\<close>: started at any pointer, \<open>f\<close> writes \<open>bs\<close> there and returns the pointer after.\<close>

definition stores :: "(ptr \<Rightarrow> (memory, ptr) cpp) \<Rightarrow> uint8 list \<Rightarrow> bool" where
  "stores f bs = (\<forall>p mem. f p mem = (Inr (p + of_nat (length bs)), write_bytes mem p bs))"

named_theorems stores_intros

lemma storesD: "stores f bs \<Longrightarrow> f p mem = (Inr (p + of_nat (length bs)), write_bytes mem p bs)"
  by (simp add: stores_def)

lemma stores_ret [stores_intros]: "stores ret []"
  by (simp add: stores_def ret_def)

lemma put_byte_run: "put_byte b p mem = (Inr (p + 1), mem(p := b))"
  by (simp add: put_byte_def and_then_def modify_def ret_def)

lemma stores_put [stores_intros]: "stores (put_byte b) [b]"
  by (simp add: stores_def put_byte_run)

lemma stores_then [stores_intros]:
  "stores f bs \<Longrightarrow> stores g cs \<Longrightarrow> stores (\<lambda>p. and_then (f p) g) (bs @ cs)"
  by (simp add: stores_def and_then_def write_bytes_append add.assoc)

lemma stores_put_if [stores_intros]: "stores (put_if c b) (byte_if c b)"
  by (cases c) (simp_all add: stores_def put_if_def byte_if_def put_byte_def and_then_def
      modify_def ret_def)

lemma stores_append_value: "stores (append_value n v) (le_bytes n v)"
proof (induction n arbitrary: v)
  case 0
  show ?case by (simp add: stores_def ret_def)
next
  case (Suc n)
  then show ?case
    by (simp add: stores_def and_then_def put_byte_run add.assoc)
qed

lemma stores_AppendOperand [stores_intros]: "stores (AppendOperand x) (operand_bytes x)"
  using stores_append_value [of "op_Size x" "op_IntValue x"]
  by (cases "op_Size x = 0") (auto simp: stores_def AppendOperand_def operand_bytes_def ret_def)

lemma stores_put_prefixes [stores_intros]: "stores (put_prefixes pbs is) (map ((!) pbs) is)"
proof (induction "is")
  case Nil
  show ?case by (simp add: stores_def ret_def)
next
  case (Cons i "is")
  then show ?case
    by (simp add: stores_def and_then_def put_byte_run add.assoc)
qed

lemma map_nth_upt: "n \<le> length xs \<Longrightarrow> map ((!) xs) [0..<n] = take n xs"
  by (rule nth_equalityI) auto

definition emit_ok :: "bool \<Rightarrow> Instruction \<Rightarrow> bool" where
  "emit_ok dbg inst =
     (in_Info inst \<noteq> None \<and> in_PrefixByteCount inst \<le> length (in_PrefixBytes inst) \<and>
      (dbg \<longrightarrow> in_CodeSize inst = scast (of_nat (length (code_bytes inst)) :: ptr)))"

lemma Emit_writes:
  assumes "emit_ok dbg inst"
  shows "Emit dbg inst p mem =
    (Inr (p + of_nat (length (code_bytes inst))), write_bytes mem p (code_bytes inst))"
proof -
  obtain info where info: "in_Info inst = Some info"
    using assms by (auto simp: emit_ok_def)
  note steps = stores_put_prefixes [of "in_PrefixBytes inst" "[0..<in_PrefixByteCount inst]", THEN storesD]
    stores_put [THEN storesD] stores_put_if [THEN storesD] stores_AppendOperand [THEN storesD]
  show ?thesis
    using assms
    by (simp add: Emit_def info and_then_def steps code_bytes_def opcode_bytes_def
        postbyte_bytes_def write_bytes_append ac_simps emit_ok_def map_nth_upt lift_res_def ret_def
        assert_res_def min.absorb1)
qed

section \<open>Decode\<close>

text \<open>What a step of the decoder consumed, from the fact that it returned.\<close>

named_theorems returned

lemma NextI8_returned [returned]:
  "NextI8 mem it = Inr (b, it') \<longleftrightarrow> it \<noteq> 0 \<and> b = mem it \<and> it' = it + 1"
  by (auto simp: NextI8_def)

lemma iter_at_returned [returned]: "iter_at mem it i = Inr b \<longleftrightarrow> it \<noteq> 0 \<and> b = mem (it + of_nat i)"
  by (auto simp: iter_at_def)

lemma assert_res_returned [returned]: "assert_res dbg c msg = Inr u \<longleftrightarrow> dbg \<longrightarrow> c"
  by (simp add: assert_res_def)

lemma GetMode_returned [returned]:
  "GetMode dbg pb = Inr v \<longleftrightarrow> (dbg \<longrightarrow> GetHasModRM pb) \<and> v = high_field (GetModRMValue pb)"
  by (auto simp: GetMode_def bind_res_Inr_iff returned)

lemma GetRegisterOrOpcode_returned [returned]:
  "GetRegisterOrOpcode dbg pb = Inr v \<longleftrightarrow>
   (dbg \<longrightarrow> GetHasModRM pb) \<and> v = middle_field (GetModRMValue pb)"
  by (auto simp: GetRegisterOrOpcode_def bind_res_Inr_iff returned)

lemma GetRegisterOrMode_returned [returned]:
  "GetRegisterOrMode dbg pb = Inr v \<longleftrightarrow>
   (dbg \<longrightarrow> GetHasModRM pb) \<and> v = low_field (GetModRMValue pb)"
  by (auto simp: GetRegisterOrMode_def bind_res_Inr_iff returned)

subsection \<open>Prefixes\<close>

lemma prefix_loop_consumes:
  assumes "prefix_loop mem it n pbs = Inr (it', n', pbs')"
    and "length pbs = MAX_PREFIX_BYTES" and "n \<le> MAX_PREFIX_BYTES"
  shows "n \<le> n' \<and> n' \<le> MAX_PREFIX_BYTES \<and> length pbs' = MAX_PREFIX_BYTES \<and>
    take n pbs' = take n pbs \<and> consumes mem it (drop n (take n' pbs')) it'"
  using assms
proof (induction mem it n pbs rule: prefix_loop.induct)
  case (1 mem it n pbs)
  show ?case
  proof (cases "is_prefix (mem it)")
    case True
    with 1(2) have n: "n < MAX_PREFIX_BYTES"
      and rec: "prefix_loop mem (it + 1) (Suc n) (pbs[n := mem it]) = Inr (it', n', pbs')"
      and read: "iter_at mem it 0 = Inr (mem it)" "NextI8 mem it = Inr (mem it, it + 1)"
      by (auto simp: prefix_loop.simps [of mem it n pbs] bind_res_Inr_iff returned split: if_splits)
    have IH: "Suc n \<le> n' \<and> n' \<le> MAX_PREFIX_BYTES \<and> length pbs' = MAX_PREFIX_BYTES \<and>
        take (Suc n) pbs' = take (Suc n) (pbs[n := mem it]) \<and>
        consumes mem (it + 1) (drop (Suc n) (take n' pbs')) it'"
      using 1(1) [OF read(1) True n read(2)] rec 1(3) n by simp
    then have "pbs' ! n = mem it" and "take n pbs' = take n pbs"
      using n 1(3)
      by (metis Suc_n_not_le_n lessI nth_list_update_eq nth_take,
          metis list.size(3) take_update_cancel min.absorb1 le_add2 plus_1_eq_Suc take_take order_refl)
    moreover have "drop n (take n' pbs') = pbs' ! n # drop (Suc n) (take n' pbs')"
      using IH by (subst Cons_nth_drop_Suc [symmetric]) auto
    ultimately show ?thesis
      using IH by (auto intro: consumes_Cons)
  next
    case False
    with 1(2) show ?thesis
      using 1(3,4) by (auto simp: prefix_loop.simps [of mem it n pbs] bind_res_Inr_iff returned)
  qed
qed

subsection \<open>Opcode rows\<close>

lemma match_row_consumes:
  "match_row mem it info = Inr (Some it') \<Longrightarrow> consumes mem it (opcode_bytes info) it'"
  by (auto simp: match_row_def bind_res_Inr_iff returned opcode_bytes_def byte_if_def consumes_def
      split: if_splits)

definition extension_fits :: "OpcodeInfo \<Rightarrow> uint8 \<Rightarrow> bool" where
  "extension_fits info modrm =
     (oi_Postbyte info \<in> {PO_NONE, PO_REGISTER} \<or> middle_field modrm = oi_Postbyte info)"

lemma PostByte_assign_peek:
  assumes "PostByte_assign dbg mem it False PostByte_Reset = Inr (n, it', pb)"
  shows "n \<noteq> 0 \<and> GetModRMValue pb = mem it"
  using assms
  by (auto simp: PostByte_assign_def read_modrm_def bind_res_Inr_iff returned GetModRMValue_def
      SetDataValue_def split: if_splits)

lemma find_in_table_cases:
  assumes "find_in_table dbg mem it it t = Inr (s, it')"
  shows "(s = Next_table \<and> it' = it) \<or>
    (\<exists>info. s = Found info \<and> info \<in> set (table_rows t) \<and>
       consumes mem it (opcode_bytes info) it' \<and> extension_fits info (mem it'))"
  using assms
proof (induction t)
  case (Cons info rest)
  show ?case
  proof (cases "oi_AddressingMode info = AM_INV")
    case True
    with Cons.prems show ?thesis by simp
  next
    case False
    then obtain m where m: "match_row mem it info = Inr m"
      using Cons.prems by (auto simp: bind_res_Inr_iff)
    have rest: ?thesis if "find_in_table dbg mem it it rest = Inr (s, it')"
      using Cons.IH [OF that] False by (auto simp: table_rows_def)
    show ?thesis
    proof (cases m)
      case None
      with Cons.prems m False show ?thesis by (intro rest) simp
    next
      case (Some it1)
      then have c: "consumes mem it (opcode_bytes info) it1"
        using m match_row_consumes by simp
      have "find_in_table dbg mem it it rest = Inr (s, it') \<or>
          s = Found info \<and> it' = it1 \<and> extension_fits info (mem it1)"
        using Cons.prems m False Some
        by (auto simp: bind_res_Inr_iff extension_differs_def extension_fits_def
            returned dest!: PostByte_assign_peek split: if_splits)
      then show ?thesis
        using c False by (auto dest: rest simp: table_rows_def)
    qed
  qed
qed simp

lemma find_in_tables_found:
  assumes "find_in_tables dbg mem it it ts = Inr (Some info, it')"
  shows "info \<in> set (concat (map table_rows ts)) \<and>
    consumes mem it (opcode_bytes info) it' \<and> extension_fits info (mem it')"
  using assms
proof (induction ts)
  case (Cons t ts)
  then obtain s it1 where "find_in_table dbg mem it it t = Inr (s, it1)"
    by (auto simp: bind_res_Inr_iff)
  with Cons find_in_table_cases [OF this] show ?case
    by auto
qed simp

lemma FindOpcode_found:
  "FindOpcode dbg mem it = Inr (Some info, it') \<Longrightarrow>
   info \<in> set all_rows \<and> consumes mem it (opcode_bytes info) it' \<and> extension_fits info (mem it')"
  unfolding FindOpcode_def all_rows_def by (rule find_in_tables_found)

subsection \<open>Postbytes\<close>

lemma PostByte_assign_consumes:
  assumes "PostByte_assign dbg mem it True PostByte_Reset = Inr (n, it', pb)"
  shows "consumes mem it (postbyte_bytes pb) it' \<and> GetHasModRM pb \<and> GetModRMValue pb = mem it"
  using assms
  by (auto simp: PostByte_assign_def read_modrm_def bind_res_Inr_iff returned GetModRMValue_def
      SetDataValue_def postbyte_bytes_def byte_if_def GetHasModRM_def GetHasSIB_def GetSIBValue_def
      PostByte_Reset_def new_PostByteT_def consumes_def split: if_splits)

lemma length_postbyte_bytes: "length (postbyte_bytes pb) \<le> 2"
  by (simp add: postbyte_bytes_def byte_if_def)

subsection \<open>Operands\<close>

text \<open>The bytes an operand of each type has in the code.\<close>

fun coded_size :: "OPERAND_TYPE \<Rightarrow> nat" where
  "coded_size OT_IMM = 4"
| "coded_size OT_IMM8 = 1"
| "coded_size OT_IMM16 = 2"
| "coded_size OT_IMM32 = 4"
| "coded_size OT_IMM64 = 8"
| "coded_size OT_REL = 4"
| "coded_size OT_REL8 = 1"
| "coded_size OT_REL16 = 2"
| "coded_size OT_REL32 = 4"
| "coded_size OT_REL64 = 8"
| "coded_size t = 0"

lemma operand_kind_returned:
  assumes "operand_kind dbg info pb x t = Inr (n, y)"
  shows "n = coded_size t \<and> (y = x \<or> y = operand_create t) \<and> (t = OT_NONE \<longrightarrow> y = x)"
  using assms
  by (cases t)
    (auto simp: operand_kind_def bind_res_Inr_iff assert_modrm_def returned MACHINE_SIZE_def)

lemma le_bytes_read:
  "n \<in> {1, 2, 4, 8} \<Longrightarrow> le_bytes n (le_value (bytes_at mem it n)) = bytes_at mem it n"
  using le_bytes_value [of "bytes_at mem it n"] by auto

lemma ucast_ucast_le_value:
  assumes "8 * n \<le> LENGTH('a :: len)" and "8 * n \<le> 64"
  shows "(ucast (ucast (le_value (bytes_at mem it n)) :: 'a word) :: uint64) =
    le_value (bytes_at mem it n)"
proof -
  have "le_value (bytes_at mem it n) = take_bit LENGTH('a) (le_value (bytes_at mem it n))"
    using le_value_small [of "bytes_at mem it n"] take_bit_take_bit [of "LENGTH('a)" "8 * n"]
      assms by (simp add: min_absorb2) (metis min.absorb2 take_bit_take_bit)
  moreover have "(ucast (ucast v :: 'a word) :: uint64) = take_bit LENGTH('a) v" for v :: uint64
    by (rule bit_word_eqI) (simp add: bit_simps)
  ultimately show ?thesis
    by simp
qed

lemma le_bytes_stored:
  "le_bytes (Suc 0) (ucast (mem it :: uint8)) = bytes_at mem it (Suc 0)"
  "le_bytes 2 (ucast (ucast (le_value (bytes_at mem it 2)) :: 16 word)) = bytes_at mem it 2"
  "le_bytes 4 (ucast (ucast (le_value (bytes_at mem it 4)) :: 32 word)) = bytes_at mem it 4"
  "le_bytes 8 (le_value (bytes_at mem it 8)) = bytes_at mem it 8"
  subgoal
    using le_bytes_value [of "[mem it]"] by (simp del: le_bytes.simps)
  subgoal
    by (subst ucast_ucast_le_value) (simp_all add: le_bytes_read del: le_bytes.simps bytes_at.simps)
  subgoal
    by (subst ucast_ucast_le_value) (simp_all add: le_bytes_read del: le_bytes.simps bytes_at.simps)
  subgoal
    by (simp add: le_bytes_read del: le_bytes.simps bytes_at.simps)
  done

lemma operand_value_consumes:
  assumes "operand_value mem it t n x = Inr (it', y)" and "op_Size x = 0"
    and "n \<in> {0, 1, 2, 4, 8}"
  shows "consumes mem it (operand_bytes y) it' \<and> op_Size y = n \<and>
    (n = 0 \<longrightarrow> y = x) \<and> (n \<noteq> 0 \<longrightarrow> op_Type y = t)"
proof (cases "n = 0")
  case True
  with assms show ?thesis
    by (auto simp: operand_value_def operand_bytes_def)
next
  case False
  with assms show ?thesis
    by (auto simp: operand_value_def bind_res_Inr_iff NextI8_def NextI16_def NextI32_def NextI64_def
        setValue_defs operand_bytes_def consumes_def le_bytes_stored simp del: le_bytes.simps
        bytes_at.simps split: if_splits)
qed

lemma ProcessOperand_consumes:
  assumes "ProcessOperand dbg mem info pb it x t = Inr (it', y)" and "op_Size x = 0"
  shows "consumes mem it (operand_bytes y) it' \<and> op_Size y = coded_size t \<and>
    (coded_size t \<noteq> 0 \<longrightarrow> op_Type y = t) \<and>
    (coded_size t = 0 \<longrightarrow> op_Type y = op_Type x \<or> op_Type y = t)"
proof -
  obtain n z where k: "operand_kind dbg info pb x t = Inr (n, z)"
    and v: "operand_value mem it t n z = Inr (it', y)"
    using assms(1) by (auto simp: ProcessOperand_def bind_res_Inr_iff)
  have "n = coded_size t" and "op_Size z = 0" and "op_Type z = op_Type x \<or> op_Type z = t"
    using operand_kind_returned [OF k] assms(2) by (auto simp: operand_create_def)
  moreover have "coded_size t \<in> {0, 1, 2, 4, 8}"
    by (cases t) simp_all
  ultimately show ?thesis
    using operand_value_consumes [OF v] by auto
qed

text \<open>A relative operand has one of the four sizes \<open>Relocate\<close> knows.\<close>

definition sized :: "Operand \<Rightarrow> bool" where
  "sized x = (IsRelative (op_Type x) \<longrightarrow> op_Size x = coded_size (op_Type x))"

lemma ProcessOperand_sized:
  assumes "ProcessOperand dbg mem info pb it x t = Inr (it', y)" and "op_Size x = 0"
    and "op_Type x = OT_NONE"
  shows "sized y"
  using ProcessOperand_consumes [OF assms(1,2)] assms(3)
  by (cases t) (auto simp: sized_def IsRelative_def)

lemma length_operand_bytes [simp]: "length (operand_bytes x) = op_Size x"
  by (simp add: operand_bytes_def)

lemma operand_bytes_new [simp]: "operand_bytes new_Operand = []"
  by (simp add: operand_bytes_def new_Operand_def)

lemma op_Size_new [simp]: "op_Size new_Operand = 0"
  by (simp add: new_Operand_def)

lemma op_Type_new [simp]: "op_Type new_Operand = OT_NONE"
  by (simp add: new_Operand_def)

lemma ProcessPostfix_consumes:
  assumes "ProcessPostfix dbg mem info it PostByte_Reset new_Operand = Inr (it', pb, disp)"
  shows "consumes mem it (postbyte_bytes pb @ operand_bytes disp) it' \<and>
    op_Size disp \<le> 4 \<and> GetModRMValue pb = mem it \<and> GetHasModRM pb"
proof -
  obtain n it1 pb1 where a: "PostByte_assign dbg mem it True PostByte_Reset = Inr (n, it1, pb1)"
    and d: "(case displacement_type pb1 (high_field (GetModRMValue pb1)) (low_field (GetModRMValue pb1)) of
        None \<Rightarrow> Inr (it1, pb1, new_Operand)
      | Some t \<Rightarrow> bind_res (ProcessOperand dbg mem info pb1 it1 new_Operand t) (\<lambda>(it2, disp1).
          Inr (it2, pb1, disp1))) = Inr (it', pb, disp)"
    using assms by (auto simp: ProcessPostfix_def bind_res_Inr_iff returned)
  have "pb1 = pb"
    using d by (auto simp: bind_res_Inr_iff split: option.splits)
  have pb: "consumes mem it (postbyte_bytes pb) it1" "GetHasModRM pb" "GetModRMValue pb = mem it"
    using PostByte_assign_consumes [OF a] \<open>pb1 = pb\<close> by auto
  have "consumes mem it1 (operand_bytes disp) it' \<and> op_Size disp \<le> 4"
    using d by (auto simp: bind_res_Inr_iff displacement_type_def dest!: ProcessOperand_consumes
        split: option.splits if_splits)
  with pb show ?thesis
    by (auto intro: consumes_append)
qed

section \<open>Decode and Emit together\<close>

text \<open>An instruction object as the constructor leaves its operands.\<close>

definition fresh :: "Instruction \<Rightarrow> bool" where
  "fresh inst = (in_Postbyte inst = PostByte_Reset \<and> in_Displacement inst = new_Operand \<and>
     in_OperandDst inst = new_Operand \<and> in_OperandSrc1 inst = new_Operand \<and>
     in_OperandSrc2 inst = new_Operand)"

definition row_size :: "OpcodeInfo \<Rightarrow> nat" where
  "row_size info = length (opcode_bytes info) + (if oi_Postbyte info = PO_NONE then 0 else 6) +
     coded_size (oi_OperandTypeDst info) + coded_size (oi_OperandTypeSrc1 info) +
     coded_size (oi_OperandTypeSrc2 info)"

lemma rows_short: "list_all (\<lambda>r. row_size r \<le> 11) all_rows"
  by (simp add: all_rows_def table_rows_def row_eval row_size_def opcode_bytes_def byte_if_def)

lemma decode_operands_consumes:
  assumes "decode_operands dbg mem info it inst = Inr (it', inst')" and "fresh inst"
    and "in_Info inst = Some info"
  shows "\<exists>bs. consumes mem it bs it' \<and>
    code_bytes inst' = take (in_PrefixByteCount inst) (in_PrefixBytes inst) @ opcode_bytes info @ bs \<and>
    length (opcode_bytes info @ bs) \<le> row_size info \<and>
    in_Info inst' = Some info \<and> in_Address inst' = in_Address inst \<and>
    in_PrefixByteCount inst' = in_PrefixByteCount inst \<and> in_PrefixBytes inst' = in_PrefixBytes inst \<and>
    sized (in_OperandDst inst') \<and> sized (in_OperandSrc1 inst') \<and> sized (in_OperandSrc2 inst')"
proof -
  obtain it1 pb disp it2 dst it3 src1 src2 where
    p: "(if PO_NONE \<noteq> oi_Postbyte info
         then ProcessPostfix dbg mem info it PostByte_Reset new_Operand
         else Inr (it, PostByte_Reset, new_Operand)) = Inr (it1, pb, disp)"
    and o1: "ProcessOperand dbg mem info pb it1 new_Operand (oi_OperandTypeDst info) = Inr (it2, dst)"
    and o2: "ProcessOperand dbg mem info pb it2 new_Operand (oi_OperandTypeSrc1 info) = Inr (it3, src1)"
    and o3: "ProcessOperand dbg mem info pb it3 new_Operand (oi_OperandTypeSrc2 info) = Inr (it', src2)"
    and inst': "inst' = inst\<lparr>in_Postbyte := pb, in_Displacement := disp, in_OperandDst := dst,
      in_OperandSrc1 := src1, in_OperandSrc2 := src2\<rparr>"
    using assms(1,2) by (auto simp: decode_operands_def bind_res_Inr_iff fresh_def cong: if_cong)
  have c0: "consumes mem it (postbyte_bytes pb @ operand_bytes disp) it1 \<and>
      length (postbyte_bytes pb @ operand_bytes disp) \<le> (if oi_Postbyte info = PO_NONE then 0 else 6)"
  proof (cases "oi_Postbyte info = PO_NONE")
    case True
    with p show ?thesis
      by (auto simp: postbyte_bytes_def byte_if_def PostByte_Reset_def new_PostByteT_def
          GetHasModRM_def GetHasSIB_def)
  next
    case False
    with p ProcessPostfix_consumes length_postbyte_bytes [of pb] show ?thesis
      by fastforce
  qed
  note c1 = ProcessOperand_consumes [OF o1 op_Size_new]
    and c2 = ProcessOperand_consumes [OF o2 op_Size_new]
    and c3 = ProcessOperand_consumes [OF o3 op_Size_new]
  have "consumes mem it ((postbyte_bytes pb @ operand_bytes disp) @ operand_bytes dst @
      operand_bytes src1 @ operand_bytes src2) it'"
    using c0 c1 c2 c3 by (blast intro: consumes_append)
  moreover have "length (opcode_bytes info @ (postbyte_bytes pb @ operand_bytes disp) @
      operand_bytes dst @ operand_bytes src1 @ operand_bytes src2) \<le> row_size info"
    using c0 c1 c2 c3 by (simp add: row_size_def)
  moreover have "sized dst" and "sized src1" and "sized src2"
    using o1 o2 o3 by (auto intro: ProcessOperand_sized)
  ultimately show ?thesis
    unfolding inst' by (intro exI) (auto simp: code_bytes_def assms(3))
qed

end
