(* ===== verification/CodeHook_Decode.thy ===== *)
theory CodeHook_Decode
  imports CodeHook_Bytes
begin

text \<open>
  What \<open>Decode\<close>, \<open>Relocate\<close> and \<open>Emit\<close> promise together: an instruction is emitted as the
  bytes it was decoded from, moving it keeps the target of a 32-bit branch and of a short
  branch exactly when the target is still in range, a decode goes wrong only at a fifth
  prefix byte, and a debug build differs from a release build on two rows only.
\<close>

section \<open>What a decoded instruction is\<close>

lemma fresh_new: "fresh new_Instruction"
  by (simp add: fresh_def new_Instruction_def Instruction_Reset_def)

definition decoded :: "memory \<Rightarrow> ptr \<Rightarrow> ptr \<Rightarrow> Instruction \<Rightarrow> bool" where
  "decoded mem it it' inst =
     (consumes mem it (code_bytes inst) it' \<and> 1 \<le> length (code_bytes inst) \<and>
      length (code_bytes inst) \<le> 15 \<and> emit_ok False inst \<and>
      in_Address inst = getAddress it \<and> in_CodeSize inst = getAddress it' - getAddress it \<and>
      sized (in_OperandDst inst) \<and> sized (in_OperandSrc1 inst) \<and> sized (in_OperandSrc2 inst))"

lemma ProcessPrefix_returned:
  assumes "ProcessPrefix mem it inst = Inr (it', inst')" and "in_PrefixBytes inst = replicate MAX_PREFIX_BYTES 0"
  shows "\<exists>n pbs. inst' = inst\<lparr>in_PrefixByteCount := n, in_PrefixBytes := pbs\<rparr> \<and> n \<le> MAX_PREFIX_BYTES \<and>
    length pbs = MAX_PREFIX_BYTES \<and> consumes mem it (take n pbs) it'"
proof -
  obtain n pbs where l: "prefix_loop mem it 0 (in_PrefixBytes inst) = Inr (it', n, pbs)"
    and "inst' = inst\<lparr>in_PrefixByteCount := n, in_PrefixBytes := pbs\<rparr>"
    using assms(1) by (auto simp: ProcessPrefix_def bind_res_Inr_iff)
  with prefix_loop_consumes [OF l] assms(2) show ?thesis
    by auto
qed

lemma Decode_returned:
  assumes "Decode dbg mem new_Instruction it = Inr (True, it', inst)"
  shows "decoded mem it it' inst \<and> (\<exists>info \<in> set all_rows. in_Info inst = Some info)"
proof -
  let ?i0 = "(Instruction_Reset new_Instruction)\<lparr>in_Address := getAddress it\<rparr>"
  obtain it1 inst1 it2 info inst2 where
    pre: "ProcessPrefix mem it ?i0 = Inr (it1, inst1)"
    and row: "FindOpcode dbg mem it1 = Inr (Some info, it2)"
    and ops: "decode_operands dbg mem info it2 (inst1\<lparr>in_Info := Some info\<rparr>) = Inr (it', inst2)"
    and inst: "inst = inst2\<lparr>in_CodeSize := getAddress it' - in_Address inst2\<rparr>"
    using assms by (auto simp: Decode_def Let_def bind_res_Inr_iff split: option.splits if_splits)
  have "in_PrefixBytes ?i0 = replicate MAX_PREFIX_BYTES 0"
    by (simp add: Instruction_Reset_def)
  with ProcessPrefix_returned [OF pre] obtain n pbs where
    inst1: "inst1 = ?i0\<lparr>in_PrefixByteCount := n, in_PrefixBytes := pbs\<rparr>"
    and n: "n \<le> 4" "length pbs = 4" and c1: "consumes mem it (take n pbs) it1"
    by (auto simp: MAX_PREFIX_BYTES_def)
  have "fresh (inst1\<lparr>in_Info := Some info\<rparr>)"
    by (simp add: inst1 fresh_def Instruction_Reset_def new_Instruction_def)
  from decode_operands_consumes [OF ops this] obtain bs where
    c3: "consumes mem it2 bs it'"
    and code: "code_bytes inst2 = take n pbs @ opcode_bytes info @ bs"
    and len: "length (opcode_bytes info @ bs) \<le> row_size info"
    and i2: "in_Info inst2 = Some info" "in_Address inst2 = getAddress it"
      "in_PrefixByteCount inst2 = n" "in_PrefixBytes inst2 = pbs" "sized (in_OperandDst inst2)"
      "sized (in_OperandSrc1 inst2)" "sized (in_OperandSrc2 inst2)"
    by (auto simp: inst1)
  have info: "info \<in> set all_rows" and c2: "consumes mem it1 (opcode_bytes info) it2"
    using FindOpcode_found [OF row] by auto
  have "row_size info \<le> 11"
    using info rows_short by (auto simp: list_all_iff)
  then have "length (code_bytes inst2) \<le> 15" and "1 \<le> length (code_bytes inst2)"
    using len n by (auto simp: code opcode_bytes_def)
  moreover have "consumes mem it (code_bytes inst2) it'"
    unfolding code using c1 c2 c3 by (blast intro: consumes_append)
  moreover have "code_bytes inst = code_bytes inst2"
    by (simp add: inst code_bytes_def)
  ultimately show ?thesis
    using i2 n info by (auto simp: decoded_def emit_ok_def inst)
qed

lemma decoded_size:
  assumes "decoded mem it it' inst"
  shows "unat (it' - it) = length (code_bytes inst)" and "ucast (in_CodeSize inst) = it' - it"
proof -
  have "it' - it = of_nat (length (code_bytes inst))" and "length (code_bytes inst) \<le> 15"
    using assms by (auto simp: decoded_def consumes_def)
  then show "unat (it' - it) = length (code_bytes inst)"
    by (simp add: unat_of_nat)
  show "ucast (in_CodeSize inst) = it' - it"
    using assms by (simp add: decoded_def ucast_sub_down)
qed

section \<open>Moving an instruction\<close>

lemma relocate_operand_size:
  assumes "sized x"
  shows "\<exists>y. relocate_operand dbg inst address x = Inr y \<and> op_Size y = op_Size x \<and>
    op_Type y = op_Type x \<and> (\<not> IsRelative (op_Type x) \<longrightarrow> y = x)"
  using assms
  by (cases "op_Type x")
    (auto simp: relocate_operand_def Let_def setValue_defs sized_def IsRelative_def)

lemma Relocate_returned:
  assumes "decoded mem it it' inst"
  shows "\<exists>inst'. Relocate dbg address inst = Inr inst' \<and> emit_ok False inst' \<and>
    length (code_bytes inst') = length (code_bytes inst) \<and> in_CodeSize inst' = in_CodeSize inst \<and>
    in_Address inst' = address"
proof -
  obtain d s1 s2 where
    "relocate_operand dbg inst address (in_OperandDst inst) = Inr d \<and> op_Size d = op_Size (in_OperandDst inst)"
    "relocate_operand dbg inst address (in_OperandSrc1 inst) = Inr s1 \<and> op_Size s1 = op_Size (in_OperandSrc1 inst)"
    "relocate_operand dbg inst address (in_OperandSrc2 inst) = Inr s2 \<and> op_Size s2 = op_Size (in_OperandSrc2 inst)"
    using assms relocate_operand_size unfolding decoded_def by meson
  with assms show ?thesis
    by (auto simp: Relocate_def decoded_def emit_ok_def code_bytes_def)
qed

text \<open>
  The address a relative operand stands for: that of the next instruction plus the signed
  value, in the 32-bit address space.
\<close>

definition branch_target :: "Instruction \<Rightarrow> Operand \<Rightarrow> ptr option" where
  "branch_target inst x =
     (case getSignedValue x of
        Inl e \<Rightarrow> None
      | Inr v \<Rightarrow> Some (ucast (in_Address inst + in_CodeSize inst) + word_of_int v))"

lemma word_of_sint [simp]: "word_of_int (sint (w :: 'a :: len word)) = (scast w :: 'b :: len word)"
  by simp

lemma relocate_operand_near:
  assumes "IsRelative (op_Type x)" and "op_Size x = 4"
    and "relocate_operand dbg inst address x = Inr y"
    and "in_CodeSize inst' = in_CodeSize inst" and "in_Address inst' = address"
  shows "branch_target inst' y = branch_target inst x"
proof -
  let ?v = "(in_Address inst + in_CodeSize inst + op_IntValue x) - (address + in_CodeSize inst)"
  have y: "y = setValue32 (op_Type x) (ucast ?v)"
    using assms(1-3) by (simp add: relocate_operand_def Let_def)
  have "(ucast (ucast w :: uint64) :: uint32) = w" for w :: uint32
    by (rule bit_word_eqI) (auto simp: bit_simps)
  then show ?thesis
    by (simp add: branch_target_def getSignedValue_def y setValue32_def assms ucast_add_down
        ucast_sub_down algebra_simps)
qed

text \<open>A short branch: the eight bits of the new distance, with their sign, against the distance.\<close>

definition in_short_range :: "uint32 \<Rightarrow> bool" where
  "in_short_range d = (-128 \<le> sint d \<and> sint d < 128)"

lemma short_range_iff: "scast (ucast d :: uint8) = d \<longleftrightarrow> in_short_range d"
proof -
  have "sint (scast (ucast d :: uint8) :: uint32) = signed_take_bit 7 (sint d)"
    by (rule bit_eqI) (simp add: bit_simps min_def)
  then have "scast (ucast d :: uint8) = d \<longleftrightarrow> signed_take_bit 7 (sint d) = sint d"
    by (metis signed_word_eqI)
  also have "\<dots> \<longleftrightarrow> in_short_range d"
    by (simp add: in_short_range_def signed_take_bit_int_eq_self_iff)
  finally show ?thesis .
qed

lemma relocate_operand_short:
  assumes "IsRelative (op_Type x)" and "op_Size x = 1"
    and "relocate_operand dbg inst address x = Inr y"
    and "in_CodeSize inst' = in_CodeSize inst" and "in_Address inst' = address"
    and "branch_target inst x = Some target"
  shows "branch_target inst' y = Some target \<longleftrightarrow>
    in_short_range (target - ucast (address + in_CodeSize inst))"
proof -
  let ?v = "(in_Address inst + in_CodeSize inst + op_IntValue x) - (address + in_CodeSize inst)"
  let ?d = "target - ucast (address + in_CodeSize inst)"
  have y: "y = setValue8 (op_Type x) (ucast ?v)"
    using assms(1-3) by (simp add: relocate_operand_def Let_def)
  have t: "target = ucast (in_Address inst + in_CodeSize inst) + scast (ucast (op_IntValue x) :: uint8)"
    using assms(2,6) by (simp add: branch_target_def getSignedValue_def)
  have narrow: "(ucast (ucast w :: uint64) :: uint8) = w"
    "(ucast (scast w :: uint32) :: uint8) = w" for w :: uint8
    by (rule bit_word_eqI, auto simp: bit_simps)+
  have narrow2: "(ucast (ucast w :: uint32) :: uint8) = ucast w" for w :: uint64
    by (rule bit_word_eqI) (auto simp: bit_simps)
  have "(ucast ?v :: uint8) = ucast ?d"
    by (simp add: t ucast_sub_down ucast_add_down narrow narrow2 algebra_simps)
  then have "branch_target inst' y = Some (ucast (address + in_CodeSize inst) + scast (ucast ?d :: uint8))"
    by (simp add: branch_target_def getSignedValue_def y setValue8_def assms narrow)
  then show ?thesis
    using short_range_iff [of ?d] by (simp add: algebra_simps)
qed

section \<open>How a decode goes wrong\<close>

text \<open>The exceptions other than the overrun of the prefix array.\<close>

definition plain :: "exn \<Rightarrow> bool" where
  "plain e = (e = null_pointer \<or> (\<exists>m. e = Aborted m))"

lemma plain_simps [simp]: "plain null_pointer" "plain (Aborted m)" "\<not> plain (Undefined m)"
  by (simp_all add: plain_def null_pointer_def)

named_theorems threw

lemma iter_at_threw [threw]: "iter_at mem it i = Inl e \<longleftrightarrow> it = 0 \<and> e = null_pointer"
  by (auto simp: iter_at_def)

lemma NextI8_threw [threw]: "NextI8 mem it = Inl e \<longleftrightarrow> it = 0 \<and> e = null_pointer"
  by (auto simp: NextI8_def)

lemma assert_res_threw [threw]: "assert_res dbg c msg = Inl e \<longleftrightarrow> dbg \<and> \<not> c \<and> e = Aborted msg"
  by (auto simp: assert_res_def)

lemma fields_threw [threw]:
  "GetMode dbg pb = Inl e \<longleftrightarrow> dbg \<and> \<not> GetHasModRM pb \<and> e = Aborted ''GetHasModRM()''"
  "GetRegisterOrOpcode dbg pb = Inl e \<longleftrightarrow> dbg \<and> \<not> GetHasModRM pb \<and> e = Aborted ''GetHasModRM()''"
  "GetRegisterOrMode dbg pb = Inl e \<longleftrightarrow> dbg \<and> \<not> GetHasModRM pb \<and> e = Aborted ''GetHasModRM()''"
  by (auto simp: GetMode_def GetRegisterOrOpcode_def GetRegisterOrMode_def bind_res_Inl_iff threw)

lemma match_row_plain: "match_row mem it info = Inl e \<Longrightarrow> plain e"
  by (auto simp: match_row_def bind_res_Inl_iff threw split: if_splits)

lemma PostByte_assign_plain: "PostByte_assign dbg mem it inc pb = Inl e \<Longrightarrow> plain e"
  by (auto simp: PostByte_assign_def read_modrm_def bind_res_Inl_iff threw split: if_splits)

lemma find_in_table_plain:
  assumes "find_in_table dbg mem it0 it t = Inl e" and "\<exists>r \<in> set t. oi_AddressingMode r = AM_INV"
  shows "plain e"
  using assms
proof (induction t arbitrary: it)
  case (Cons info rest)
  show ?case
  proof (cases "oi_AddressingMode info = AM_INV")
    case True
    with Cons.prems show ?thesis by simp
  next
    case False
    then have IH: "find_in_table dbg mem it0 it' rest = Inl e \<Longrightarrow> plain e" for it'
      using Cons by auto
    from Cons.prems(1) False show ?thesis
      by (auto simp: bind_res_Inl_iff extension_differs_def threw dest: match_row_plain
          PostByte_assign_plain IH split: option.splits if_splits)
  qed
qed simp

lemma find_in_tables_plain:
  assumes "find_in_tables dbg mem it0 it ts = Inl e"
    and "\<forall>t \<in> set ts. \<exists>r \<in> set t. oi_AddressingMode r = AM_INV"
  shows "plain e"
  using assms
proof (induction ts arbitrary: it)
  case (Cons t ts)
  from Cons.prems(1) consider "find_in_table dbg mem it0 it t = Inl e"
    | s it1 where "find_in_table dbg mem it0 it t = Inr (s, it1)"
    by (auto simp: bind_res_Inl_iff)
  then show ?case
  proof cases
    case 1
    with Cons.prems(2) show ?thesis by (auto dest: find_in_table_plain)
  next
    case 2
    with Cons show ?thesis by (cases s) auto
  qed
qed simp

lemma FindOpcode_plain: "FindOpcode dbg mem it = Inl e \<Longrightarrow> plain e"
  unfolding FindOpcode_def using find_in_tables_plain table_ends by blast

lemma operand_value_plain: "operand_value mem it t n x = Inl e \<Longrightarrow> plain e"
  by (auto simp: operand_value_def bind_res_Inl_iff NextI8_def NextI16_def NextI32_def
      NextI64_def split: if_splits)

lemma SizeOfOperandByType_plain: "SizeOfOperandByType dbg t = Inl e \<Longrightarrow> plain e"
  by (cases t) (auto simp: bind_res_Inl_iff threw)

lemma ProcessOperand_plain: "ProcessOperand dbg mem info pb it x t = Inl e \<Longrightarrow> plain e"
  by (auto simp: ProcessOperand_def operand_kind_def assert_modrm_def bind_res_Inl_iff threw
      dest: operand_value_plain SizeOfOperandByType_plain split: if_splits)

lemma ProcessPostfix_plain: "ProcessPostfix dbg mem info it pb x = Inl e \<Longrightarrow> plain e"
  by (auto simp: ProcessPostfix_def bind_res_Inl_iff threw dest: PostByte_assign_plain
      ProcessOperand_plain split: option.splits)

lemma decode_operands_plain: "decode_operands dbg mem info it inst = Inl e \<Longrightarrow> plain e"
  by (auto simp: decode_operands_def bind_res_Inl_iff dest: ProcessPostfix_plain
      ProcessOperand_plain split: if_splits)

text \<open>The prefix array is overrun exactly when five readable prefix bytes stand in a row.\<close>

definition prefix_run :: "memory \<Rightarrow> ptr \<Rightarrow> nat \<Rightarrow> bool" where
  "prefix_run mem it n = (\<forall>i < n. it + of_nat i \<noteq> 0 \<and> is_prefix (mem (it + of_nat i)))"

lemma prefix_run_Suc:
  "prefix_run mem it (Suc n) \<longleftrightarrow> it \<noteq> 0 \<and> is_prefix (mem it) \<and> prefix_run mem (it + 1) n"
  unfolding prefix_run_def All_less_Suc2 by (simp add: add.assoc)

lemma prefix_loop_overrun:
  "n \<le> MAX_PREFIX_BYTES \<Longrightarrow>
   (\<exists>m. prefix_loop mem it n pbs = Inl (Undefined m)) \<longleftrightarrow>
   prefix_run mem it (Suc (MAX_PREFIX_BYTES - n))"
proof (induction mem it n pbs rule: prefix_loop.induct)
  case (1 mem it n pbs)
  show ?case
  proof (cases "it \<noteq> 0 \<and> is_prefix (mem it) \<and> n < MAX_PREFIX_BYTES")
    case True
    then have "prefix_loop mem it n pbs = prefix_loop mem (it + 1) (Suc n) (pbs[n := mem it])"
      by (simp add: prefix_loop.simps [of mem it n pbs] iter_at_def NextI8_def)
    moreover have "MAX_PREFIX_BYTES - n = Suc (MAX_PREFIX_BYTES - Suc n)"
      using True by arith
    ultimately show ?thesis
      using 1(1) [of "mem it" "(mem it, it + 1)"] True
      by (simp add: iter_at_def NextI8_def prefix_run_Suc [of mem it])
  next
    case False
    then show ?thesis
      using 1(2) by (auto simp: prefix_loop.simps [of mem it n pbs] iter_at_def null_pointer_def
          prefix_run_Suc) (simp add: prefix_run_def)
  qed
qed

lemma prefix_loop_undefined: "prefix_loop mem it n pbs = Inl (Undefined m) \<Longrightarrow> m = ''m_PrefixBytes''"
proof (induction mem it n pbs rule: prefix_loop.induct)
  case (1 mem it n pbs)
  show ?case
  proof (cases "it \<noteq> 0 \<and> is_prefix (mem it) \<and> n < MAX_PREFIX_BYTES")
    case True
    then have "prefix_loop mem it n pbs = prefix_loop mem (it + 1) (Suc n) (pbs[n := mem it])"
      by (simp add: prefix_loop.simps [of mem it n pbs] iter_at_def NextI8_def)
    then show ?thesis
      using 1(1) [of "mem it" "(mem it, it + 1)"] 1(2) True
      by (simp add: iter_at_def NextI8_def)
  next
    case False
    then show ?thesis
      using 1(2) by (auto simp: prefix_loop.simps [of mem it n pbs] iter_at_def null_pointer_def
          split: if_splits)
  qed
qed

lemma Decode_undefined_prefix:
  "Decode dbg mem inst it = Inl (Undefined m) \<longleftrightarrow>
   prefix_loop mem it 0 (replicate MAX_PREFIX_BYTES 0) = Inl (Undefined m)"
proof -
  let ?i0 = "(Instruction_Reset inst)\<lparr>in_Address := getAddress it\<rparr>"
  have i0: "in_PrefixBytes ?i0 = replicate MAX_PREFIX_BYTES 0"
    by (simp add: Instruction_Reset_def)
  show ?thesis
  proof (cases "prefix_loop mem it 0 (in_PrefixBytes ?i0)")
    case (Inl e)
    then show ?thesis
      unfolding i0 by (simp add: Decode_def Let_def ProcessPrefix_def i0)
  next
    case (Inr r)
    then show ?thesis
      unfolding i0 by (auto simp: Decode_def Let_def ProcessPrefix_def bind_res_Inl_iff i0
          dest!: FindOpcode_plain decode_operands_plain split: option.splits if_splits prod.splits)
  qed
qed

lemma Decode_overrun:
  "Decode dbg mem inst it = Inl (Undefined ''m_PrefixBytes'') \<longleftrightarrow> prefix_run mem it 5"
proof -
  let ?loop = "prefix_loop mem it 0 (replicate MAX_PREFIX_BYTES 0)"
  have "?loop = Inl (Undefined ''m_PrefixBytes'') \<longleftrightarrow> (\<exists>m. ?loop = Inl (Undefined m))"
    using prefix_loop_undefined by blast
  also have "\<dots> \<longleftrightarrow> prefix_run mem it 5"
    using prefix_loop_overrun [of 0 mem it] by (simp add: MAX_PREFIX_BYTES_def)
  finally show ?thesis
    unfolding Decode_undefined_prefix .
qed

lemma Decode_undefined: "Decode dbg mem inst it = Inl (Undefined m) \<Longrightarrow> m = ''m_PrefixBytes''"
  unfolding Decode_undefined_prefix by (rule prefix_loop_undefined)

section \<open>Debug and release builds\<close>

text \<open>
  A row whose decoding satisfies every assertion: no register is named beside a ModRM
  operand, and the operands that read the register field have \<open>PO::REGISTER\<close>.
\<close>

definition needs_register_field :: "OPERAND_TYPE \<Rightarrow> bool" where
  "needs_register_field t = (t \<in> {OT_MRMr, OT_MRMsr, OT_MRMr8})"

definition row_asserts :: "OpcodeInfo \<Rightarrow> bool" where
  "row_asserts r =
     ((has_modrm_operand r \<longrightarrow> oi_Register r = None \<and> oi_Postbyte r \<noteq> PO_NONE) \<and>
      (needs_register_field (oi_OperandTypeDst r) \<or> needs_register_field (oi_OperandTypeSrc1 r) \<or>
       needs_register_field (oi_OperandTypeSrc2 r) \<longrightarrow> oi_Postbyte r = PO_REGISTER) \<and>
      OT_PEND \<notin> {oi_OperandTypeDst r, oi_OperandTypeSrc1 r, oi_OperandTypeSrc2 r})"

text \<open>The two rows of \<open>IMUL\<close> with one operand name the accumulator beside \<open>OT_MRM8\<close> or \<open>OT_MRM\<close>.\<close>

definition imul_row :: "OpcodeInfo \<Rightarrow> bool" where
  "imul_row r = (oi_Prefix r = 0 \<and> oi_Opcode r \<in> {0xf6, 0xf7} \<and> oi_Postbyte r = 5)"

lemma rows_assert: "list_all (\<lambda>r. row_asserts r \<or> imul_row r) all_rows"
  by (simp add: all_rows_def table_rows_def row_eval row_asserts_def imul_row_def
      needs_register_field_def)

lemma imul_rows_named:
  "list_all (\<lambda>r. imul_row r \<longrightarrow> oi_Register r \<noteq> None \<and> oi_Postbyte r \<noteq> PO_NONE \<and>
     oi_OperandTypeDst r \<in> {OT_MRM, OT_MRM8}) all_rows"
  by (simp add: all_rows_def table_rows_def row_eval imul_row_def)

lemma PostByte_assign_dbg: "PostByte_assign dbg mem it inc pb = PostByte_assign False mem it inc pb"
proof -
  have "GetMode dbg (pb\<lparr>pb_ModRM := SetDataValue b\<rparr>) = GetMode False (pb\<lparr>pb_ModRM := SetDataValue b\<rparr>)"
    "GetRegisterOrMode dbg (pb\<lparr>pb_ModRM := SetDataValue b\<rparr>) =
     GetRegisterOrMode False (pb\<lparr>pb_ModRM := SetDataValue b\<rparr>)" for b
    by (simp_all add: GetMode_def GetRegisterOrMode_def GetHasModRM_def SetDataValue_def)
  then show ?thesis
    by (auto simp: PostByte_assign_def read_modrm_def bind_res_assoc intro!: bind_res_cong)
qed

lemma PostByte_assign_has_modrm:
  "PostByte_assign dbg mem it inc pb = Inr (n, it', pb') \<Longrightarrow> GetHasModRM pb'"
  by (auto simp: PostByte_assign_def read_modrm_def bind_res_Inr_iff GetHasModRM_def SetDataValue_def
      split: if_splits)

lemma fields_dbg:
  assumes "GetHasModRM pb"
  shows "GetMode dbg pb = Inr (high_field (GetModRMValue pb))"
    "GetRegisterOrOpcode dbg pb = Inr (middle_field (GetModRMValue pb))"
    "GetRegisterOrMode dbg pb = Inr (low_field (GetModRMValue pb))"
  using assms by (simp_all add: GetMode_def GetRegisterOrOpcode_def GetRegisterOrMode_def)

lemma find_in_table_dbg:
  "find_in_table dbg mem it0 it t = find_in_table False mem it0 it t"
proof (induction t arbitrary: it)
  case (Cons info rest)
  then show ?case
    by (auto simp: PostByte_assign_dbg [of dbg] extension_differs_def fields_dbg
        dest!: PostByte_assign_has_modrm intro!: bind_res_cong split: option.split)
qed simp

lemma find_in_tables_dbg:
  "find_in_tables dbg mem it0 it ts = find_in_tables False mem it0 it ts"
  by (induction ts arbitrary: it) (auto simp: find_in_table_dbg [of dbg] intro!: bind_res_cong
      split: search.split)

lemma FindOpcode_dbg: "FindOpcode dbg mem it = FindOpcode False mem it"
  unfolding FindOpcode_def by (rule find_in_tables_dbg)

text \<open>The operands of a row, in the order they are processed, as one function of the flag.\<close>

lemma operand_kind_dbg:
  assumes "IsModRM t \<Longrightarrow> oi_Register info = None \<and> oi_Postbyte info \<noteq> PO_NONE \<and> GetHasModRM pb"
    and "needs_register_field t \<Longrightarrow> oi_Postbyte info = PO_REGISTER" and "t \<noteq> OT_PEND"
  shows "operand_kind dbg info pb x t = operand_kind False info pb x t"
  using assms
  by (cases t) (auto simp: operand_kind_def assert_modrm_def IsModRM_def needs_register_field_def)

lemma ProcessOperand_dbg:
  assumes "row_asserts info" and "oi_Postbyte info \<noteq> PO_NONE \<Longrightarrow> GetHasModRM pb"
    and "t \<in> {oi_OperandTypeDst info, oi_OperandTypeSrc1 info, oi_OperandTypeSrc2 info} \<or>
         t \<in> {OT_IMM, OT_IMM8}"
  shows "ProcessOperand dbg mem info pb it x t = ProcessOperand False mem info pb it x t"
proof -
  have "operand_kind dbg info pb x t = operand_kind False info pb x t"
  proof (rule operand_kind_dbg)
    assume "IsModRM t"
    then have "has_modrm_operand info"
      using assms(3) by (auto simp: has_modrm_operand_def) (simp_all add: IsModRM_def)
    then show "oi_Register info = None \<and> oi_Postbyte info \<noteq> PO_NONE \<and> GetHasModRM pb"
      using assms(1,2) by (simp add: row_asserts_def)
  next
    assume "needs_register_field t"
    then show "oi_Postbyte info = PO_REGISTER"
      using assms(1,3) unfolding row_asserts_def
      by (auto simp: needs_register_field_def [of OT_IMM] needs_register_field_def [of OT_IMM8])
  next
    show "t \<noteq> OT_PEND"
      using assms(1,3) unfolding row_asserts_def by auto
  qed
  then show ?thesis
    by (simp add: ProcessOperand_def)
qed

lemma ProcessPostfix_dbg:
  assumes "extension_fits info (mem it)" and "oi_Postbyte info \<noteq> PO_NONE"
  shows "ProcessPostfix dbg mem info it PostByte_Reset x = ProcessPostfix False mem info it PostByte_Reset x"
proof (cases "PostByte_assign False mem it True PostByte_Reset")
  case (Inl e)
  then show ?thesis
    by (simp add: ProcessPostfix_def PostByte_assign_dbg [of dbg])
next
  case (Inr r)
  then obtain n it1 pb where a: "PostByte_assign False mem it True PostByte_Reset = Inr (n, it1, pb)"
    by (cases r) auto
  have m: "GetHasModRM pb" "GetModRMValue pb = mem it"
    using PostByte_assign_consumes [OF a] by auto
  have fit: "PO_REGISTER = oi_Postbyte info \<or> middle_field (mem it) = oi_Postbyte info"
    using assms by (auto simp: extension_fits_def)
  have k: "operand_kind dbg info pb x t = operand_kind False info pb x t" if "t \<in> {OT_IMM, OT_IMM8}" for t
    using that by (intro operand_kind_dbg) (auto simp: IsModRM_def needs_register_field_def)
  have t: "displacement_type pb mode rm = Some t \<Longrightarrow> t \<in> {OT_IMM, OT_IMM8}" for t mode rm
    by (auto simp: displacement_type_def split: if_splits)
  have "ProcessPostfix d mem info it PostByte_Reset x =
      (case displacement_type pb (high_field (mem it)) (low_field (mem it)) of
        None \<Rightarrow> Inr (it1, pb, x)
      | Some t \<Rightarrow> bind_res (ProcessOperand d mem info pb it1 x t) (\<lambda>(it2, disp1). Inr (it2, pb, disp1)))"
    for d
    using fit by (auto simp: ProcessPostfix_def PostByte_assign_dbg [of d] a fields_dbg m assert_res_def)
  then show ?thesis
    by (cases "displacement_type pb (high_field (mem it)) (low_field (mem it))")
      (use t k in \<open>auto simp: ProcessOperand_def\<close>)
qed

lemma ProcessPostfix_has_modrm:
  "ProcessPostfix dbg mem info it pb x = Inr (it', pb', y) \<Longrightarrow> GetHasModRM pb'"
  by (auto simp: ProcessPostfix_def bind_res_Inr_iff dest: PostByte_assign_has_modrm
      split: option.splits)

lemma decode_operands_dbg:
  assumes "row_asserts info" and "extension_fits info (mem it)" and "in_Postbyte inst = PostByte_Reset"
  shows "decode_operands dbg mem info it inst = decode_operands False mem info it inst"
proof -
  let ?p = "\<lambda>d. if PO_NONE \<noteq> oi_Postbyte info
    then ProcessPostfix d mem info it (in_Postbyte inst) (in_Displacement inst)
    else Inr (it, in_Postbyte inst, in_Displacement inst)"
  have p: "?p dbg = ?p False"
    using ProcessPostfix_dbg [of info mem it dbg] assms(2,3) by simp
  have m: "oi_Postbyte info \<noteq> PO_NONE \<Longrightarrow> GetHasModRM pb" if "?p False = Inr (it1, pb, x)" for it1 pb x
    using that ProcessPostfix_has_modrm by auto
  have o: "ProcessOperand dbg mem info pb it1 x t = ProcessOperand False mem info pb it1 x t"
    if "?p False = Inr (it2, pb, y)"
      and "t \<in> {oi_OperandTypeDst info, oi_OperandTypeSrc1 info, oi_OperandTypeSrc2 info}"
    for pb it1 it2 x y t
    using ProcessOperand_dbg [OF assms(1) m [OF that(1)]] that(2) by blast
  show ?thesis
    unfolding decode_operands_def p
    by (intro bind_res_cong refl) (auto simp: o intro!: bind_res_cong)
qed

text \<open>On an \<open>IMUL\<close> row the first operand's assertion fails, once the postbytes were read.\<close>

lemma decode_operands_imul:
  assumes "info \<in> set all_rows" and "imul_row info"
  shows "(\<exists>e. decode_operands True mem info it inst = Inl e \<and>
     ProcessPostfix True mem info it (in_Postbyte inst) (in_Displacement inst) = Inl e) \<or>
    decode_operands True mem info it inst = Inl (Aborted ''explicit register'')"
proof -
  have row: "oi_Register info \<noteq> None" "oi_Postbyte info \<noteq> PO_NONE"
    "oi_OperandTypeDst info = OT_MRM \<or> oi_OperandTypeDst info = OT_MRM8"
    using assms imul_rows_named by (auto simp: list_all_iff)
  then have "ProcessOperand True mem info pb it1 x (oi_OperandTypeDst info) =
      Inl (Aborted ''explicit register'')" for pb it1 x
    by (auto simp: ProcessOperand_def operand_kind_def assert_modrm_def assert_res_def)
  then show ?thesis
    using row(2)
    by (cases "ProcessPostfix True mem info it (in_Postbyte inst) (in_Displacement inst)")
      (auto simp: decode_operands_def)
qed

text \<open>
  The bytes at the iterator are an instruction the decoder takes for one of these two rows, up
  to and with its postbytes and displacement, which a release build reads without an exception.
\<close>

definition takes_imul_row :: "memory \<Rightarrow> ptr \<Rightarrow> bool" where
  "takes_imul_row mem it =
     (case ProcessPrefix mem it (Instruction_Reset new_Instruction\<lparr>in_Address := getAddress it\<rparr>) of
        Inl e \<Rightarrow> False
      | Inr (it1, inst1) \<Rightarrow>
          (case FindOpcode False mem it1 of
             Inl e \<Rightarrow> False
           | Inr (None, it2) \<Rightarrow> False
           | Inr (Some info, it2) \<Rightarrow>
               imul_row info \<and> \<not> isl (ProcessPostfix False mem info it2 PostByte_Reset new_Operand)))"

lemma imul_row_no_end: "imul_row info \<Longrightarrow> info \<in> set all_rows \<Longrightarrow> \<not> oi_IsTerminator info"
proof -
  have "list_all (\<lambda>r. imul_row r \<longrightarrow> \<not> oi_IsTerminator r) all_rows"
    by (simp add: all_rows_def table_rows_def row_eval imul_row_def)
  then show "imul_row info \<Longrightarrow> info \<in> set all_rows \<Longrightarrow> \<not> oi_IsTerminator info"
    by (auto simp: list_all_iff)
qed

lemma imul_row_asserts: "imul_row info \<Longrightarrow> info \<in> set all_rows \<Longrightarrow> \<not> row_asserts info"
  using imul_rows_named by (auto simp: list_all_iff row_asserts_def has_modrm_operand_def IsModRM_def)

lemma Decode_debug:
  "Decode True mem new_Instruction it =
   (if takes_imul_row mem it then Inl (Aborted ''explicit register'')
    else Decode False mem new_Instruction it)"
proof -
  let ?i0 = "(Instruction_Reset new_Instruction)\<lparr>in_Address := getAddress it\<rparr>"
  consider (prefix) e where "ProcessPrefix mem it ?i0 = Inl e"
    | (search) it1 inst1 e where "ProcessPrefix mem it ?i0 = Inr (it1, inst1)" "FindOpcode False mem it1 = Inl e"
    | (none) it1 inst1 it2 where "ProcessPrefix mem it ?i0 = Inr (it1, inst1)" "FindOpcode False mem it1 = Inr (None, it2)"
    | (row) it1 inst1 info it2 where "ProcessPrefix mem it ?i0 = Inr (it1, inst1)"
        "FindOpcode False mem it1 = Inr (Some info, it2)"
    by (metis obj_sumE old.prod.exhaust option.exhaust)
  then show ?thesis
  proof cases
    case row
    let ?inst = "inst1\<lparr>in_Info := Some info\<rparr>"
    have info: "info \<in> set all_rows" "extension_fits info (mem it2)"
      using FindOpcode_found [OF row(2)] by auto
    have pb: "in_Postbyte ?inst = PostByte_Reset" "in_Displacement ?inst = new_Operand"
      using row(1) by (auto simp: ProcessPrefix_def bind_res_Inr_iff Instruction_Reset_def new_Instruction_def)
    have takes: "takes_imul_row mem it \<longleftrightarrow>
        imul_row info \<and> \<not> isl (ProcessPostfix False mem info it2 PostByte_Reset new_Operand)"
      using row by (simp add: takes_imul_row_def)
    have same: "Decode True mem new_Instruction it = Decode False mem new_Instruction it"
      if "decode_operands True mem info it2 ?inst = decode_operands False mem info it2 ?inst"
      using row that by (simp add: Decode_def Let_def FindOpcode_dbg [of True])
    show ?thesis
    proof (cases "imul_row info")
      case False
      then have "row_asserts info"
        using info(1) rows_assert by (auto simp: list_all_iff)
      then have "decode_operands True mem info it2 ?inst = decode_operands False mem info it2 ?inst"
        using info(2) pb by (intro decode_operands_dbg) simp_all
      with same takes False show ?thesis
        by simp
    next
      case True
      have named: "oi_Postbyte info \<noteq> PO_NONE" "\<not> oi_IsTerminator info"
        using imul_rows_named True info(1) imul_row_no_end by (auto simp: list_all_iff)
      then have post: "ProcessPostfix True mem info it2 PostByte_Reset new_Operand =
          ProcessPostfix False mem info it2 PostByte_Reset new_Operand"
        using ProcessPostfix_dbg [of info mem it2 True] info(2) by simp
      show ?thesis
      proof (cases "ProcessPostfix False mem info it2 PostByte_Reset new_Operand")
        case (Inl e)
        then have "decode_operands True mem info it2 ?inst = decode_operands False mem info it2 ?inst"
          using named(1) post pb by (simp add: decode_operands_def)
        with same takes Inl show ?thesis
          by simp
      next
        case (Inr r)
        then have "decode_operands True mem info it2 ?inst = Inl (Aborted ''explicit register'')"
          using decode_operands_imul [OF info(1) True, of mem it2 ?inst] post pb by auto
        then have "Decode True mem new_Instruction it = Inl (Aborted ''explicit register'')"
          using row named(2) by (simp add: Decode_def Let_def FindOpcode_dbg [of True])
        with takes True Inr show ?thesis
          by simp
      qed
    qed
  qed (simp_all add: Decode_def Let_def FindOpcode_dbg [of True] takes_imul_row_def)
qed

section \<open>The operands of a decoded instruction\<close>

text \<open>The start-up check vouches for every row that is searched.\<close>

lemma check_table_rows: "check_table t = Inr u \<Longrightarrow> list_all row_check (table_rows t)"
  by (induction t) (auto simp: table_rows_def bind_res_Inr_iff assert_res_def split: if_splits)

lemma check_tables_rows: "check_tables ts = Inr n \<Longrightarrow> list_all row_check (concat (map table_rows ts))"
  by (induction ts) (auto simp: bind_res_Inr_iff dest: check_table_rows)

lemma CheckOpcodes_rows: "CheckOpcodes = Inr n \<Longrightarrow> list_all row_check all_rows"
  unfolding CheckOpcodes_def all_rows_def by (rule check_tables_rows)

lemma CheckOpcodes_passes: "CheckOpcodes = Inr 0"
  by (simp add: CheckOpcodes_def row_eval)

lemma rows_relative:
  "list_all (\<lambda>r. \<not> IsRelative (oi_OperandTypeDst r) \<and> \<not> IsRelative (oi_OperandTypeSrc2 r) \<and>
     (IsRelative (oi_OperandTypeSrc1 r) \<longrightarrow> oi_OperandTypeSrc1 r \<in> {OT_REL, OT_REL8}) \<and>
     OT_PEND \<notin> {oi_OperandTypeDst r, oi_OperandTypeSrc1 r, oi_OperandTypeSrc2 r}) all_rows"
  by (simp add: all_rows_def table_rows_def row_eval)

lemma ProcessOperand_type:
  assumes "ProcessOperand dbg mem info pb it new_Operand t = Inr (it', y)" and "t \<noteq> OT_PEND"
  shows "op_Type y = t \<and> op_Size y = coded_size t"
proof -
  obtain n z where k: "operand_kind dbg info pb new_Operand t = Inr (n, z)"
    and v: "operand_value mem it t n z = Inr (it', y)"
    using assms(1) by (auto simp: ProcessOperand_def bind_res_Inr_iff)
  have "op_Size y = coded_size t" and "coded_size t \<noteq> 0 \<Longrightarrow> op_Type y = t"
    using ProcessOperand_consumes [OF assms(1)] by auto
  moreover have "op_Type y = t" if "coded_size t = 0"
  proof -
    have "n = 0" and "op_Type z = t"
      using k that assms(2)
      by (cases t; auto simp: operand_kind_def bind_res_Inr_iff operand_create_def)+
    with v show ?thesis
      by (simp add: operand_value_def)
  qed
  ultimately show ?thesis
    by blast
qed

lemma decode_operands_typed:
  assumes "decode_operands dbg mem info it inst = Inr (it', inst')" and "fresh inst"
    and "info \<in> set all_rows"
  shows "(op_Type (in_OperandDst inst'), op_Size (in_OperandDst inst')) =
      (oi_OperandTypeDst info, coded_size (oi_OperandTypeDst info)) \<and>
    (op_Type (in_OperandSrc1 inst'), op_Size (in_OperandSrc1 inst')) =
      (oi_OperandTypeSrc1 info, coded_size (oi_OperandTypeSrc1 info)) \<and>
    (op_Type (in_OperandSrc2 inst'), op_Size (in_OperandSrc2 inst')) =
      (oi_OperandTypeSrc2 info, coded_size (oi_OperandTypeSrc2 info)) \<and>
    (GetHasModRM (in_Postbyte inst') \<longleftrightarrow> oi_Postbyte info \<noteq> PO_NONE)"
proof -
  obtain it1 pb disp it2 dst it3 src1 src2 where
    p: "(if PO_NONE \<noteq> oi_Postbyte info
         then ProcessPostfix dbg mem info it PostByte_Reset new_Operand
         else Inr (it, PostByte_Reset, new_Operand)) = Inr (it1, pb, disp)"
    and o1: "ProcessOperand dbg mem info pb it1 new_Operand (oi_OperandTypeDst info) = Inr (it2, dst)"
    and o2: "ProcessOperand dbg mem info pb it2 new_Operand (oi_OperandTypeSrc1 info) = Inr (it3, src1)"
    and o3: "ProcessOperand dbg mem info pb it3 new_Operand (oi_OperandTypeSrc2 info) = Inr (it', src2)"
    and inst': "inst' = inst\<lparr>in_Postbyte := pb, in_Displacement := disp, in_OperandDst := dst,
      in_OperandSrc1 := src1, in_OperandSrc2 := src2\<rparr>"
    using assms(1,2) by (auto simp: decode_operands_def bind_res_Inr_iff fresh_def cong: if_cong)
  have "GetHasModRM pb \<longleftrightarrow> oi_Postbyte info \<noteq> PO_NONE"
    using p ProcessPostfix_has_modrm
    by (auto simp: PostByte_Reset_def new_PostByteT_def GetHasModRM_def split: if_splits)
  moreover have "oi_OperandTypeDst info \<noteq> OT_PEND" "oi_OperandTypeSrc1 info \<noteq> OT_PEND"
    "oi_OperandTypeSrc2 info \<noteq> OT_PEND"
    using rows_relative assms(3) by (auto simp: list_all_iff)
  ultimately show ?thesis
    using ProcessOperand_type [OF o1] ProcessOperand_type [OF o2] ProcessOperand_type [OF o3]
    by (simp add: inst')
qed

lemma Decode_row:
  assumes "Decode dbg mem new_Instruction it = Inr (True, it', inst)"
  shows "\<exists>info \<in> set all_rows. in_Info inst = Some info \<and>
    map (\<lambda>x. (op_Type x, op_Size x)) [in_OperandDst inst, in_OperandSrc1 inst, in_OperandSrc2 inst] =
      map (\<lambda>t. (t, coded_size t))
        [oi_OperandTypeDst info, oi_OperandTypeSrc1 info, oi_OperandTypeSrc2 info] \<and>
    (GetHasModRM (in_Postbyte inst) \<longleftrightarrow> oi_Postbyte info \<noteq> PO_NONE)"
proof -
  let ?i0 = "(Instruction_Reset new_Instruction)\<lparr>in_Address := getAddress it\<rparr>"
  obtain it1 inst1 it2 info inst2 where
    pre: "ProcessPrefix mem it ?i0 = Inr (it1, inst1)"
    and row: "FindOpcode dbg mem it1 = Inr (Some info, it2)"
    and ops: "decode_operands dbg mem info it2 (inst1\<lparr>in_Info := Some info\<rparr>) = Inr (it', inst2)"
    and inst: "inst = inst2\<lparr>in_CodeSize := getAddress it' - in_Address inst2\<rparr>"
    using assms by (auto simp: Decode_def Let_def bind_res_Inr_iff split: option.splits if_splits)
  have fresh: "fresh (inst1\<lparr>in_Info := Some info\<rparr>)"
    using pre by (auto simp: ProcessPrefix_def bind_res_Inr_iff fresh_def Instruction_Reset_def
        new_Instruction_def)
  have info: "info \<in> set all_rows"
    using FindOpcode_found [OF row] by simp
  have "in_Info inst2 = Some info"
    using decode_operands_consumes [OF ops fresh] by auto
  with decode_operands_typed [OF ops fresh info] info show ?thesis
    by (intro bexI [of _ info]) (simp_all add: inst)
qed

section \<open>Opcodes without a row\<close>

definition row_matches :: "memory \<Rightarrow> ptr \<Rightarrow> OpcodeInfo \<Rightarrow> bool" where
  "row_matches mem it r =
     (if oi_Prefix r = 0 then oi_Opcode r = mem it
      else oi_Prefix r = mem it \<and> oi_Opcode r = mem (it + 1))"

lemma match_row_none: "it \<noteq> 0 \<Longrightarrow> \<not> row_matches mem it r \<Longrightarrow> match_row mem it r = Inr None"
  by (auto simp: match_row_def row_matches_def iter_at_def split: if_splits)

lemma find_in_table_none:
  assumes "it \<noteq> 0" and "\<forall>r \<in> set (table_rows t). \<not> row_matches mem it r"
    and "\<exists>r \<in> set t. oi_AddressingMode r = AM_INV"
  shows "find_in_table dbg mem it it t = Inr (Next_table, it)"
  using assms(2,3)
  by (induction t) (auto simp: table_rows_def match_row_none [OF assms(1)])

lemma FindOpcode_none:
  assumes "it \<noteq> 0" and "\<forall>r \<in> set all_rows. \<not> row_matches mem it r"
  shows "FindOpcode dbg mem it = Inr (None, it)"
proof -
  have "find_in_tables dbg mem it it ts = Inr (None, it)" if "set ts \<subseteq> set opcodes32Table" for ts
    using that
  proof (induction ts)
    case (Cons t ts)
    then have "find_in_table dbg mem it it t = Inr (Next_table, it)"
      using assms table_ends [of t] by (intro find_in_table_none) (auto simp: all_rows_def)
    with Cons show ?case by simp
  qed simp
  then show ?thesis
    unfolding FindOpcode_def by blast
qed

lemma Decode_unknown:
  assumes "it \<noteq> 0" and "\<not> is_prefix (mem it)" and "\<forall>r \<in> set all_rows. \<not> row_matches mem it r"
  shows "Decode dbg mem inst it = Inr (False, it, Instruction_Reset inst)"
proof -
  have "prefix_loop mem it 0 pbs = Inr (it, 0, pbs)" for pbs
    using assms by (simp add: prefix_loop.simps [of mem it] iter_at_def)
  then show ?thesis
    by (simp add: Decode_def Let_def ProcessPrefix_def FindOpcode_none assms Instruction_Reset_def)
qed

end
