(* ===== verification/CodeHook_Hook.thy ===== *)
theory CodeHook_Hook
  imports CodeHook_Decode
begin

text \<open>
  Redirecting a function (\<open>cpuIA32_Assembler.cpp\<close>, \<open>cpuIA32_HookSystem.cpp\<close>,
  \<open>cpu_Win32MemoryBlock.cpp\<close>): the small assembler, the copy of the first instructions of a
  function into a thunk, the page protection guard and \<open>InstallHook\<close>.

  Windows is a parameter: a record of the five functions the sources call, over a state of
  its own. The address space itself (what the code reads and writes) is the memory of the
  model; the protection the calls set does not influence reads and writes here.
  \<open>HookError\<close> shows a message box and calls \<open>ExitProcess\<close>: it does not return.
\<close>

section \<open>Assembler\<close>

text \<open>An \<open>Assembler\<close> object is its pointer; a function returns the pointer it leaves behind.\<close>

definition put_u32 :: "uint32 \<Rightarrow> ptr \<Rightarrow> (memory, ptr) cpp" where
  "put_u32 v = append_value 4 (ucast v)"

text \<open>
  \<open>*(m_Address++) = address - (m_Address + 4)\<close>: the right side is evaluated first, with the
  address of the operand itself.
\<close>

definition Relative32 :: "uint8 \<Rightarrow> ptr \<Rightarrow> ptr \<Rightarrow> (memory, ptr) cpp" where
  "Relative32 opcode address p =
     and_then (put_byte opcode p) (\<lambda>p1. put_u32 (address - (p1 + 4)) p1)"

definition Absolute32 :: "uint8 \<Rightarrow> ptr \<Rightarrow> ptr \<Rightarrow> (memory, ptr) cpp" where
  "Absolute32 opcode address p = and_then (put_byte opcode p) (put_u32 address)"

definition Immediate32 :: "uint8 \<Rightarrow> uint32 \<Rightarrow> ptr \<Rightarrow> (memory, ptr) cpp" where
  "Immediate32 opcode v p = and_then (put_byte opcode p) (put_u32 v)"

definition Jump :: "ptr \<Rightarrow> ptr \<Rightarrow> (memory, ptr) cpp" where
  "Jump address = Relative32 0xe9 address"

definition JumpIndirect :: "ptr \<Rightarrow> ptr \<Rightarrow> (memory, ptr) cpp" where
  "JumpIndirect address p = and_then (put_byte 0xff p) (Absolute32 0x25 address)"

definition Call :: "ptr \<Rightarrow> ptr \<Rightarrow> (memory, ptr) cpp" where
  "Call address = Relative32 0xe8 address"

definition Push :: "ptr \<Rightarrow> ptr \<Rightarrow> (memory, ptr) cpp" where
  "Push address = Absolute32 0x68 address"

definition AddESP :: "uint32 \<Rightarrow> ptr \<Rightarrow> (memory, ptr) cpp" where
  "AddESP count p = and_then (put_byte 0x81 p) (Immediate32 0xc4 count)"

definition Return :: "ptr \<Rightarrow> (memory, ptr) cpp" where
  "Return = put_byte 0xc3"

section \<open>RelocateCode\<close>

definition reading :: "('s \<Rightarrow> exn + 'a) \<Rightarrow> ('s, 'a) cpp" where
  "reading f s = (f s, s)"

lemma reading_run: "reading f s = (f s, s)"
  by (simp add: reading_def)

text \<open>The arguments of \<open>DEBUG_OUT\<close>, which a release build does not evaluate.\<close>

definition trace :: "bool \<Rightarrow> OpcodeIterator \<Rightarrow> (memory, unit) cpp" where
  "trace dbg it = reading (\<lambda>mem.
     if dbg then bind_res (iter_at mem it 0) (\<lambda>_. bind_res (iter_at mem it 1) (\<lambda>_. Inr ()))
     else Inr ())"

text \<open>
  The loop. The first argument bounds the number of instructions; \<open>None\<close> says that the
  bound was not enough.
\<close>

fun relocate_loop ::
    "nat \<Rightarrow> bool \<Rightarrow> uint64 \<Rightarrow> uint64 \<Rightarrow> ptr \<Rightarrow> OpcodeIterator \<Rightarrow> uint64 \<Rightarrow> uint32 \<Rightarrow>
     (memory, uint32 option) cpp" where
  "relocate_loop fuel dbg minCodeBytes maxBufferSize dst it address totalBytes =
     (if \<not> ucast totalBytes < minCodeBytes then ret (Some totalBytes)
      else case fuel of
        0 \<Rightarrow> ret None
      | Suc fuel' \<Rightarrow>
          and_then (reading (\<lambda>mem. Decode dbg mem new_Instruction it)) (\<lambda>(result, it1, opcode).
          if \<not> result then and_then (trace dbg it1) (\<lambda>_. ret (Some 0))
          else let opcodeSize = ucast (in_CodeSize opcode) :: uint32 in
            if ucast (totalBytes + opcodeSize) \<ge> maxBufferSize
            then and_then (trace dbg it1) (\<lambda>_. ret (Some 0))
            else and_then (lift_res (Relocate dbg address opcode)) (\<lambda>opcode1.
                 and_then (Emit dbg opcode1 dst) (\<lambda>dst1.
                 relocate_loop fuel' dbg minCodeBytes maxBufferSize dst1 it1
                   (address + ucast opcodeSize) (totalBytes + opcodeSize)))))"

declare relocate_loop.simps [simp del]

definition RelocateCode ::
    "bool \<Rightarrow> ptr \<Rightarrow> ptr \<Rightarrow> uint64 \<Rightarrow> uint64 \<Rightarrow> (memory, uint32 option) cpp" where
  "RelocateCode dbg dst src minCodeBytes maxBufferSize =
     relocate_loop (unat minCodeBytes) dbg minCodeBytes maxBufferSize dst src (getAddress dst) 0"

section \<open>Windows\<close>

record mbi =
  mbi_BaseAddress :: ptr
  mbi_RegionSize :: uint32
  mbi_Protect :: uint32

text \<open>
  \<open>VirtualQuery\<close> gives \<open>None\<close> where it returns another size than the structure's;
  \<open>VirtualProtect\<close> gives its result and what it leaves in the variable for the old
  protection.
\<close>

record 'os win32 =
  w_GetModuleHandleA :: "string \<Rightarrow> 'os \<Rightarrow> ptr \<times> 'os"
  w_GetProcAddress :: "ptr \<Rightarrow> string \<Rightarrow> 'os \<Rightarrow> ptr \<times> 'os"
  w_VirtualAlloc :: "ptr \<Rightarrow> uint32 \<Rightarrow> uint32 \<Rightarrow> uint32 \<Rightarrow> 'os \<Rightarrow> ptr \<times> 'os"
  w_VirtualQuery :: "ptr \<Rightarrow> 'os \<Rightarrow> mbi option \<times> 'os"
  w_VirtualProtect :: "ptr \<Rightarrow> uint32 \<Rightarrow> uint32 \<Rightarrow> 'os \<Rightarrow> (bool \<times> uint32) \<times> 'os"

record 'os process =
  pr_Memory :: memory
  pr_Os :: 'os

definition in_memory :: "(memory, 'a) cpp \<Rightarrow> ('os process, 'a) cpp" where
  "in_memory = zoom pr_Memory (\<lambda>mem s. s\<lparr>pr_Memory := mem\<rparr>)"

definition api :: "('os \<Rightarrow> 'a \<times> 'os) \<Rightarrow> ('os process, 'a) cpp" where
  "api f s = (Inr (fst (f (pr_Os s))), s\<lparr>pr_Os := snd (f (pr_Os s))\<rparr>)"

definition PAGE_READWRITE :: uint32 where "PAGE_READWRITE = 0x04"
definition PAGE_EXECUTE_READ :: uint32 where "PAGE_EXECUTE_READ = 0x20"
definition PAGE_EXECUTE_READWRITE :: uint32 where "PAGE_EXECUTE_READWRITE = 0x40"
definition MEM_COMMIT :: uint32 where "MEM_COMMIT = 0x1000"

section \<open>MemoryBlock\<close>

record MemoryBlock =
  mb_Memory :: ptr
  mb_LockedProtection :: uint32

definition new_MemoryBlock :: "bool \<Rightarrow> ptr \<Rightarrow> exn + MemoryBlock" where
  "new_MemoryBlock dbg p = bind_res (assert_res dbg (p \<noteq> 0) ''NULL != memory'') (\<lambda>_.
     Inr \<lparr>mb_Memory = p, mb_LockedProtection = 0\<rparr>)"

definition MemoryBlock_Lock ::
    "bool \<Rightarrow> 'os win32 \<Rightarrow> MemoryBlock \<Rightarrow> uint32 \<Rightarrow> ('os process, bool \<times> MemoryBlock) cpp" where
  "MemoryBlock_Lock dbg w mb prot =
     and_then (lift_res (assert_res dbg (mb_LockedProtection mb = 0) ''0 == m_LockedProtection'')) (\<lambda>_.
     if mb_LockedProtection mb \<noteq> 0 then ret (False, mb)
     else and_then (api (w_VirtualQuery w (mb_Memory mb))) (\<lambda>q. case q of
         None \<Rightarrow> ret (False, mb)
       | Some m \<Rightarrow>
           and_then (api (w_VirtualProtect w (mbi_BaseAddress m) (mbi_RegionSize m) prot)) (\<lambda>(ok, old).
           and_then (lift_res (assert_res dbg (old \<noteq> 0) ''0 != m_LockedProtection'')) (\<lambda>_.
           if \<not> ok then ret (False, mb\<lparr>mb_LockedProtection := old\<rparr>)
           else ret (True, mb\<lparr>mb_LockedProtection := mbi_Protect m\<rparr>)))))"

definition MemoryBlock_Unlock ::
    "bool \<Rightarrow> 'os win32 \<Rightarrow> MemoryBlock \<Rightarrow> ('os process, bool \<times> MemoryBlock) cpp" where
  "MemoryBlock_Unlock dbg w mb =
     and_then (lift_res (assert_res dbg (mb_LockedProtection mb \<noteq> 0) ''0 != m_LockedProtection'')) (\<lambda>_.
     if mb_LockedProtection mb = 0 then ret (False, mb)
     else and_then (api (w_VirtualQuery w (mb_Memory mb))) (\<lambda>q. case q of
         None \<Rightarrow> ret (False, mb)
       | Some m \<Rightarrow>
           and_then (api (w_VirtualProtect w (mbi_BaseAddress m) (mbi_RegionSize m)
             (mb_LockedProtection mb))) (\<lambda>(ok, old).
           ret (ok, mb\<lparr>mb_LockedProtection := 0\<rparr>))))"

definition MemoryBlock_destroy :: "bool \<Rightarrow> 'os win32 \<Rightarrow> MemoryBlock \<Rightarrow> ('os process, unit) cpp" where
  "MemoryBlock_destroy dbg w mb =
     (if mb_LockedProtection mb \<noteq> 0
      then and_then (MemoryBlock_Unlock dbg w mb) (\<lambda>_. ret ())
      else ret ())"

text \<open>
  A scope with a local object: the destructor runs when the body returns and when it
  throws, but not when the process ended or the behaviour is undefined.
\<close>

definition scoped :: "('s, 'a) cpp \<Rightarrow> ('s, unit) cpp \<Rightarrow> ('s, 'a) cpp" where
  "scoped body destroy s = (case body s of
       (Inr x, s') \<Rightarrow> and_then destroy (\<lambda>_. ret x) s'
     | (Inl e, s') \<Rightarrow>
         (case e of
            Aborted m \<Rightarrow> (Inl e, s')
          | Undefined m \<Rightarrow> (Inl e, s')
          | _ \<Rightarrow> and_then destroy (\<lambda>_. throw e) s'))"

section \<open>InstallHook\<close>

datatype HOOK_ERROR =
    HOOK_SUCCESS | HOOK_NOMODULE | HOOK_NOFUNC | HOOK_NORELOCATE | HOOK_NOREDIRECT
  | HOOK_COREFAILED | HOOK_OUTOFMEMORY

definition THUNK_BUFFER_SIZE :: nat where
  "THUNK_BUFFER_SIZE = 256"

text \<open>\<open>HookError\<close>: the text of the message, and the end of the process.\<close>

fun hook_error_text :: "HOOK_ERROR \<Rightarrow> string" where
  "hook_error_text HOOK_NOMODULE = ''Unable to find DLL''"
| "hook_error_text HOOK_NOFUNC = ''The DLL does not contain the requested function''"
| "hook_error_text HOOK_NORELOCATE = ''Unable to install hook stub''"
| "hook_error_text HOOK_NOREDIRECT = ''Unable to install hook proxy''"
| "hook_error_text HOOK_COREFAILED =
     ''An unexpected failure expected in the core integration system.''"
| "hook_error_text HOOK_OUTOFMEMORY = ''Unable to allocate memory for integration bridge''"
| "hook_error_text HOOK_SUCCESS = ''Unknown.''"

definition HookError :: "HOOK_ERROR \<Rightarrow> ('s, 'a) cpp" where
  "HookError status = throw (Aborted (hook_error_text status))"

primrec fill_zero :: "nat \<Rightarrow> ptr \<Rightarrow> (memory, ptr) cpp" where
  "fill_zero 0 p = ret p"
| "fill_zero (Suc n) p = and_then (put_byte 0 p) (fill_zero n)"

text \<open>The scope of \<open>thunkLock\<close>: fill the thunk.\<close>

definition fill_thunk ::
    "bool \<Rightarrow> ptr \<Rightarrow> ptr \<Rightarrow> ptr \<Rightarrow> ptr \<Rightarrow> (memory, HOOK_ERROR) cpp" where
  "fill_thunk dbg thunkJumpPtr thunkFunctionPtr procAddress proxyFunction =
     and_then (put_u32 proxyFunction thunkJumpPtr) (\<lambda>_.
     and_then (put_u32 thunkFunctionPtr (thunkJumpPtr + 4)) (\<lambda>_.
     and_then (RelocateCode dbg thunkFunctionPtr procAddress 6 (of_nat THUNK_BUFFER_SIZE)) (\<lambda>r.
     case r of
       None \<Rightarrow> throw (Undefined ''RelocateCode'')
     | Some used \<Rightarrow>
         if used = 0 then ret HOOK_NORELOCATE
         else and_then (Jump (procAddress + used) (thunkFunctionPtr + used)) (\<lambda>_.
              ret HOOK_SUCCESS))))"

definition build_thunk ::
    "bool \<Rightarrow> 'os win32 \<Rightarrow> ptr \<Rightarrow> ptr \<Rightarrow> ptr \<Rightarrow> ('os process, HOOK_ERROR) cpp" where
  "build_thunk dbg w codeBuffer procAddress proxyFunction =
     and_then (lift_res (new_MemoryBlock dbg codeBuffer)) (\<lambda>mb.
     and_then (MemoryBlock_Lock dbg w mb PAGE_READWRITE) (\<lambda>(result, mb1).
     scoped
       (if \<not> result then ret HOOK_COREFAILED
        else in_memory (fill_thunk dbg codeBuffer (codeBuffer + 16) procAddress proxyFunction))
       (MemoryBlock_destroy dbg w mb1)))"

text \<open>The scope of \<open>procLock\<close>: report the thunk, then overwrite the start of the function.\<close>

definition redirect ::
    "bool \<Rightarrow> 'os win32 \<Rightarrow> ptr \<Rightarrow> ptr \<Rightarrow> ptr \<Rightarrow> ('os process, HOOK_ERROR) cpp" where
  "redirect dbg w codeBuffer procAddress thunkFunctionOut =
     and_then (lift_res (new_MemoryBlock dbg procAddress)) (\<lambda>mb.
     and_then (MemoryBlock_Lock dbg w mb PAGE_READWRITE) (\<lambda>(result, mb1).
     scoped
       (if \<not> result then ret HOOK_NOREDIRECT
        else in_memory
          (and_then (put_u32 (codeBuffer + 16) thunkFunctionOut) (\<lambda>_.
           and_then (JumpIndirect codeBuffer procAddress) (\<lambda>_. ret HOOK_SUCCESS))))
       (MemoryBlock_destroy dbg w mb1)))"

text \<open>The end of \<open>InstallHook\<close>: the thunk becomes read-only, and a failure is reported.\<close>

definition finish_install :: "'os win32 \<Rightarrow> ptr \<Rightarrow> HOOK_ERROR \<Rightarrow> ('os process, HOOK_ERROR) cpp" where
  "finish_install w codeBuffer status =
     and_then (api (w_VirtualAlloc w codeBuffer (of_nat THUNK_BUFFER_SIZE) MEM_COMMIT PAGE_EXECUTE_READ))
       (\<lambda>_. if status \<noteq> HOOK_SUCCESS then HookError status else ret status)"

definition InstallHook_at ::
    "bool \<Rightarrow> 'os win32 \<Rightarrow> ptr \<Rightarrow> ptr \<Rightarrow> ptr \<Rightarrow> ('os process, HOOK_ERROR) cpp" where
  "InstallHook_at dbg w procAddress proxyFunction thunkFunctionOut =
     and_then (api (w_VirtualAlloc w 0 (of_nat THUNK_BUFFER_SIZE) MEM_COMMIT PAGE_EXECUTE_READWRITE))
       (\<lambda>codeBuffer.
     if codeBuffer = 0 then HookError HOOK_OUTOFMEMORY
     else
       and_then (in_memory (fill_zero THUNK_BUFFER_SIZE codeBuffer)) (\<lambda>_.
       and_then (build_thunk dbg w codeBuffer procAddress proxyFunction) (\<lambda>status.
       and_then (if status = HOOK_SUCCESS then redirect dbg w codeBuffer procAddress thunkFunctionOut
                 else ret status) (finish_install w codeBuffer))))"

definition InstallHook ::
    "bool \<Rightarrow> 'os win32 \<Rightarrow> string \<Rightarrow> string \<Rightarrow> ptr \<Rightarrow> ptr \<Rightarrow> ('os process, HOOK_ERROR) cpp" where
  "InstallHook dbg w moduleName functionName proxyFunction thunkBufferOut =
     and_then (api (w_GetModuleHandleA w moduleName)) (\<lambda>module.
     if module = 0 then ret HOOK_NOMODULE
     else and_then (api (w_GetProcAddress w module functionName)) (\<lambda>procAddress.
       if procAddress = 0 then ret HOOK_NOFUNC
       else InstallHook_at dbg w procAddress proxyFunction thunkBufferOut))"

end
