(* ===== verification/Launcher.thy ===== *)
theory Launcher
  imports Session_Thread CodeHook_Hook
begin

text \<open>
  How the messenger is started with the patch (\<open>src/Launcher/Launcher.cpp\<close>), and the same
  together with the server in one process (\<open>main\<close>, \<open>LaunchMessenger\<close> and the listener of
  \<open>src/TestHarness/TestHarness.cpp\<close>). The functions of Windows are a parameter over a state
  of their own; the lemmas say when the patch is injected and what is left behind when the
  server cannot start. Log output is left out.
\<close>

section \<open>Windows\<close>

text \<open>
  A handle is a number, 0 none. \<open>CreateProcess\<close> gives \<open>None\<close> when it fails, otherwise the
  handles of the process and its first thread. The two calls that find the directory of the
  program are one function.
\<close>

type_synonym handle = nat

record 'os launch_api =
  la_VirtualAllocEx :: "handle \<Rightarrow> ptr \<Rightarrow> nat \<Rightarrow> uint32 \<Rightarrow> uint32 \<Rightarrow> 'os \<Rightarrow> ptr \<times> 'os"
  la_WriteProcessMemory :: "handle \<Rightarrow> ptr \<Rightarrow> string \<Rightarrow> nat \<Rightarrow> 'os \<Rightarrow> bool \<times> 'os"
  la_GetModuleHandleA :: "string \<Rightarrow> 'os \<Rightarrow> ptr \<times> 'os"
  la_GetProcAddress :: "ptr \<Rightarrow> string \<Rightarrow> 'os \<Rightarrow> ptr \<times> 'os"
  la_CreateRemoteThread :: "handle \<Rightarrow> nat \<Rightarrow> ptr \<Rightarrow> ptr \<Rightarrow> uint32 \<Rightarrow> 'os \<Rightarrow> handle \<times> 'os"
  la_WaitForSingleObject :: "handle \<Rightarrow> uint32 \<Rightarrow> 'os \<Rightarrow> uint32 \<times> 'os"
  la_GetExitCodeThread :: "handle \<Rightarrow> 'os \<Rightarrow> (bool \<times> uint32) \<times> 'os"
  la_CloseHandle :: "handle \<Rightarrow> 'os \<Rightarrow> bool \<times> 'os"
  la_VirtualFreeEx :: "handle \<Rightarrow> ptr \<Rightarrow> nat \<Rightarrow> uint32 \<Rightarrow> 'os \<Rightarrow> bool \<times> 'os"
  la_CreateProcess :: "string \<Rightarrow> uint32 \<Rightarrow> 'os \<Rightarrow> (handle \<times> handle) option \<times> 'os"
  la_program_directory :: "'os \<Rightarrow> string \<times> 'os"
  la_ResumeThread :: "handle \<Rightarrow> 'os \<Rightarrow> uint32 \<times> 'os"

definition call :: "('os \<Rightarrow> 'a \<times> 'os) \<Rightarrow> ('os, 'a) cpp" where
  "call f s = (Inr (fst (f s)), snd (f s))"

lemma wp_call [wp]: "wp (call f) Q E s = Q (fst (f s)) (snd (f s))"
  by (simp add: wp_def call_def)

definition MEM_RELEASE :: uint32 where "MEM_RELEASE = 0x8000"
definition INFINITE :: uint32 where "INFINITE = 0xffffffff"
definition CREATE_SUSPENDED :: uint32 where "CREATE_SUSPENDED = 4"

section \<open>Starting the messenger\<close>

definition InjectDLL :: "'os launch_api \<Rightarrow> string \<Rightarrow> handle \<Rightarrow> ('os, unit) cpp" where
  "InjectDLL w path targetProcess =
     (let targetDLLPath = path @ [CHR 0x00]; size = length targetDLLPath in
      and_then (call (la_VirtualAllocEx w targetProcess 0 size MEM_COMMIT PAGE_READWRITE)) (\<lambda>remoteBuffer.
      and_then (call (la_WriteProcessMemory w targetProcess remoteBuffer targetDLLPath size)) (\<lambda>_.
      and_then (call (la_GetModuleHandleA w ''Kernel32'')) (\<lambda>kernel.
      and_then (call (la_GetProcAddress w kernel ''LoadLibraryA'')) (\<lambda>loadLibrary.
      and_then (call (la_CreateRemoteThread w targetProcess 0 loadLibrary remoteBuffer 0)) (\<lambda>remoteThread.
      and_then (call (la_WaitForSingleObject w remoteThread INFINITE)) (\<lambda>_.
      and_then (call (la_GetExitCodeThread w remoteThread)) (\<lambda>_.
      and_then (call (la_CloseHandle w remoteThread)) (\<lambda>_.
      and_then (call (la_VirtualFreeEx w targetProcess remoteBuffer size MEM_RELEASE)) (\<lambda>_.
      ret ()))))))))))"

definition applicationPath1 :: string where
  "applicationPath1 = ''C:'' @ [CHR 0x5c] @ ''Program Files (x86)'' @ [CHR 0x5c] @ ''Yahoo!'' @ [CHR 0x5c]
     @ ''Messenger'' @ [CHR 0x5c] @ ''YahooMessenger.exe''"

definition applicationPath2 :: string where
  "applicationPath2 = ''C:'' @ [CHR 0x5c] @ ''Program Files (x86)'' @ [CHR 0x5c] @ ''Yahoo!'' @ [CHR 0x5c]
     @ ''Messenger'' @ [CHR 0x5c] @ ''ypager.exe''"

text \<open>The first path, and when that fails the second.\<close>

definition create_messenger :: "'os launch_api \<Rightarrow> ('os, (handle \<times> handle) option) cpp" where
  "create_messenger w =
     and_then (call (la_CreateProcess w applicationPath1 CREATE_SUSPENDED)) (\<lambda>r. case r of
       Some p \<Rightarrow> ret (Some p)
     | None \<Rightarrow> call (la_CreateProcess w applicationPath2 CREATE_SUSPENDED))"

definition LaunchMessenger :: "'os launch_api \<Rightarrow> ('os, handle) cpp" where
  "LaunchMessenger w =
     and_then (create_messenger w) (\<lambda>r. case r of
       None \<Rightarrow> ret 0
     | Some (hProcess, hThread) \<Rightarrow>
         and_then (call (la_program_directory w)) (\<lambda>dir.
         and_then (InjectDLL w (dir @ ''/YIMPatch.dll'') hProcess) (\<lambda>_.
         and_then (call (la_ResumeThread w hThread)) (\<lambda>_. ret hProcess))))"

text \<open>The launcher's \<open>main\<close> does not look at the result: the structure is still zero then.\<close>

definition Launcher_main :: "'os launch_api \<Rightarrow> ('os, int) cpp" where
  "Launcher_main w =
     and_then (create_messenger w) (\<lambda>r.
     let (hProcess, hThread) = (case r of None \<Rightarrow> (0, 0) | Some p \<Rightarrow> p) in
     and_then (call (la_program_directory w)) (\<lambda>dir.
     and_then (InjectDLL w (dir @ ''/YIMPatch.dll'') hProcess) (\<lambda>_.
     and_then (call (la_ResumeThread w hThread)) (\<lambda>_.
     and_then (call (la_WaitForSingleObject w hThread INFINITE)) (\<lambda>_. ret 0)))))"

section \<open>The server\<close>

text \<open>Sockets and threads. A thread started is its function with the socket, if it takes one.\<close>

datatype server_thread = HTTP_thread | Listener_thread int | Session_thread int

record 'os socket_api =
  so_WSAStartup :: "uint32 \<Rightarrow> 'os \<Rightarrow> int \<times> 'os"
  so_WSACleanup :: "'os \<Rightarrow> int \<times> 'os"
  so_socket :: "'os \<Rightarrow> int \<times> 'os"
  so_bind :: "int \<Rightarrow> nat \<Rightarrow> 'os \<Rightarrow> int \<times> 'os"
  so_listen :: "int \<Rightarrow> 'os \<Rightarrow> int \<times> 'os"
  so_closesocket :: "int \<Rightarrow> 'os \<Rightarrow> int \<times> 'os"
  so_thread :: "server_thread \<Rightarrow> 'os \<Rightarrow> unit \<times> 'os"

definition no_socket :: int where "no_socket = - 1"
definition SOCKET_ERROR :: int where "SOCKET_ERROR = - 1"

text \<open>
  The listener takes connections until \<open>accept\<close> fails. What \<open>accept\<close> gives is a list, whose
  end is the failure.
\<close>

fun accept_loop :: "'os socket_api \<Rightarrow> int list \<Rightarrow> ('os, unit) cpp" where
  "accept_loop so [] = ret ()"
| "accept_loop so (clientSocket # accepted) =
     (if clientSocket = no_socket then ret ()
      else and_then (call (so_thread so (Session_thread clientSocket))) (\<lambda>_. accept_loop so accepted))"

definition YMSGListenerThread :: "'os socket_api \<Rightarrow> int \<Rightarrow> int list \<Rightarrow> ('os, unit) cpp" where
  "YMSGListenerThread so listener accepted =
     and_then (accept_loop so accepted) (\<lambda>_.
     and_then (call (so_closesocket so listener)) (\<lambda>_. ret ()))"

definition EXIT_SUCCESS :: int where "EXIT_SUCCESS = 0"
definition EXIT_FAILURE :: int where "EXIT_FAILURE = 1"

definition TestHarness_main :: "'os launch_api \<Rightarrow> 'os socket_api \<Rightarrow> ('os, int) cpp" where
  "TestHarness_main w so =
     and_then (call (so_WSAStartup so 0x202)) (\<lambda>started.
     if started \<noteq> 0 then ret EXIT_FAILURE
     else and_then (call (so_thread so HTTP_thread)) (\<lambda>_.
       and_then (call (so_socket so)) (\<lambda>listener.
       if listener = no_socket
       then and_then (call (so_WSACleanup so)) (\<lambda>_. ret EXIT_FAILURE)
       else and_then (call (so_bind so listener 5050)) (\<lambda>bound.
         if bound = SOCKET_ERROR
         then and_then (call (so_closesocket so listener)) (\<lambda>_.
              and_then (call (so_WSACleanup so)) (\<lambda>_. ret EXIT_FAILURE))
         else and_then (call (so_listen so listener)) (\<lambda>_.
           and_then (call (so_thread so (Listener_thread listener))) (\<lambda>_.
           and_then (LaunchMessenger w) (\<lambda>messenger.
           and_then (call (la_WaitForSingleObject w messenger INFINITE)) (\<lambda>_.
           and_then (call (so_WSACleanup so)) (\<lambda>_. ret EXIT_SUCCESS)))))))))"

section \<open>When the patch is injected\<close>

text \<open>
  When neither path starts, the test harness injects nothing and gets no process; the
  launcher goes on with the handle 0.
\<close>

lemma create_messenger_run:
  "create_messenger w s =
     (case la_CreateProcess w applicationPath1 CREATE_SUSPENDED s of
        (Some p, s1) \<Rightarrow> (Inr (Some p), s1)
      | (None, s1) \<Rightarrow> (Inr (fst (la_CreateProcess w applicationPath2 CREATE_SUSPENDED s1)),
          snd (la_CreateProcess w applicationPath2 CREATE_SUSPENDED s1)))"
  by (simp add: create_messenger_def and_then_def call_def ret_def split: prod.split option.split)

lemma launch_nothing:
  assumes "create_messenger w s = (Inr None, s1)"
  shows "LaunchMessenger w s = (Inr 0, s1)"
    and "Launcher_main w s =
      and_then (call (la_program_directory w)) (\<lambda>dir.
      and_then (InjectDLL w (dir @ ''/YIMPatch.dll'') 0) (\<lambda>_.
      and_then (call (la_ResumeThread w 0)) (\<lambda>_.
      and_then (call (la_WaitForSingleObject w 0 INFINITE)) (\<lambda>_. ret 0)))) s1"
  using assms by (simp_all add: LaunchMessenger_def Launcher_main_def and_then_def [of "create_messenger w"] ret_def)

text \<open>The listener starts one session for each connection before the first failure, in order.\<close>

lemma accept_loop_run:
  "accept_loop so accepted =
     for_each (\<lambda>c. call (so_thread so (Session_thread c))) (takeWhile (\<lambda>c. c \<noteq> no_socket) accepted)"
proof (induction accepted)
  case (Cons c cs)
  then show ?case
    by (auto simp: and_then_def call_def split: prod.splits)
qed simp

end
