(* ===== verification/CodeHook_Relocation.thy ===== *)
theory CodeHook_Relocation
  imports CodeHook_Hook
begin

text \<open>
  \<open>RelocateCode\<close>. First: the decoder looks at 40 bytes at most, so that code elsewhere can
  be written between two decodes. Then the loop: it stops within its bound, stays inside
  the block it was given, and on success has written the moved instructions of the
  original, one after the other.
\<close>

section \<open>The window of the decoder\<close>

definition agree :: "memory \<Rightarrow> memory \<Rightarrow> ptr \<Rightarrow> nat \<Rightarrow> bool" where
  "agree mem mem' p n = (\<forall>i < n. mem (p + of_nat i) = mem' (p + of_nat i))"

lemma agree_at: "agree mem mem' p n \<Longrightarrow> i < n \<Longrightarrow> mem (p + of_nat i) = mem' (p + of_nat i)"
  by (simp add: agree_def)

lemma agree_head: "agree mem mem' p n \<Longrightarrow> 0 < n \<Longrightarrow> mem p = mem' p"
  using agree_at [of mem mem' p n 0] by simp

lemma agree_second: "agree mem mem' p n \<Longrightarrow> 1 < n \<Longrightarrow> mem (p + 1) = mem' (p + 1)"
  using agree_at [of mem mem' p n 1] by simp

lemma agree_shift:
  assumes "agree mem mem' p n" and "k + m \<le> n"
  shows "agree mem mem' (p + of_nat k) m"
  unfolding agree_def
proof (intro allI impI)
  fix i
  assume "i < m"
  with assms have "mem (p + of_nat (k + i)) = mem' (p + of_nat (k + i))"
    by (intro agree_at) auto
  then show "mem (p + of_nat k + of_nat i) = mem' (p + of_nat k + of_nat i)"
    by (simp add: add.assoc)
qed

lemma agree_mono: "agree mem mem' p n \<Longrightarrow> m \<le> n \<Longrightarrow> agree mem mem' p m"
  by (simp add: agree_def)

lemma agree_consumes:
  "agree mem mem' p n \<Longrightarrow> consumes mem p bs q \<Longrightarrow> length bs + m \<le> n \<Longrightarrow> agree mem mem' q m"
  by (auto simp: consumes_def intro: agree_shift)

lemma bytes_at_agree: "agree mem mem' p n \<Longrightarrow> bytes_at mem p n = bytes_at mem' p n"
  by (rule nth_equalityI) (auto simp: nth_bytes_at agree_def)

lemma prefix_loop_local:
  assumes "agree mem mem' it k" and "MAX_PREFIX_BYTES < k + n" and "0 < k"
  shows "prefix_loop mem it n pbs = prefix_loop mem' it n pbs"
  using assms
proof (induction mem it n pbs arbitrary: k rule: prefix_loop.induct)
  case (1 mem it n pbs)
  show ?case
  proof (cases "it \<noteq> 0 \<and> is_prefix (mem it) \<and> n < MAX_PREFIX_BYTES")
    case True
    have k: "0 < k - 1"
      using 1(3) True by (simp add: MAX_PREFIX_BYTES_def)
    have same: "mem it = mem' it"
      using 1(2,4) by (auto intro: agree_head)
    have step: "prefix_loop m it n pbs = prefix_loop m (it + 1) (Suc n) (pbs[n := m it])"
      if "m it = mem it" for m
      using True that by (simp add: prefix_loop.simps [of m it n pbs] iter_at_def NextI8_def)
    have "agree mem mem' (it + 1) (k - 1)"
      using agree_shift [OF 1(2), of 1 "k - 1"] 1(4) by simp
    moreover have "prefix_loop mem (it + 1) (Suc n) (pbs[n := mem it]) =
        prefix_loop mem' (it + 1) (Suc n) (pbs[n := mem it])"
      using 1(1) [of "mem it" "(mem it, it + 1)" "k - 1"] True calculation 1(3) k
      by (simp add: iter_at_def NextI8_def)
    ultimately show ?thesis
      by (simp add: step same [symmetric])
  next
    case False
    moreover have "mem it = mem' it"
      using 1(2,4) by (auto intro: agree_head)
    ultimately show ?thesis
      by (auto simp: prefix_loop.simps [of _ it n pbs] iter_at_def)
  qed
qed

lemma match_row_local:
  assumes "agree mem mem' it 2"
  shows "match_row mem it info = match_row mem' it info"
  using agree_head [OF assms] agree_second [OF assms]
  by (auto simp: match_row_def iter_at_def NextI8_def)

lemma PostByte_assign_local:
  assumes "agree mem mem' it 2"
  shows "PostByte_assign dbg mem it inc pb = PostByte_assign dbg mem' it inc pb"
proof -
  have same: "iter_at mem it 0 = iter_at mem' it 0" "iter_at mem it 1 = iter_at mem' it 1"
    "NextI8 mem it = NextI8 mem' it" "NextI8 mem (it + 1) = NextI8 mem' (it + 1)"
    using agree_head [OF assms] agree_second [OF assms] by (simp_all add: iter_at_def NextI8_def)
  then show ?thesis
    unfolding PostByte_assign_def read_modrm_def same
    by (intro bind_res_cong refl) (auto simp: returned same intro!: bind_res_cong)
qed

lemma length_opcode_bytes: "length (opcode_bytes info) \<le> 2"
  by (simp add: opcode_bytes_def byte_if_def)

lemma find_in_table_local:
  assumes "agree mem mem' it 4"
  shows "find_in_table dbg mem it it t = find_in_table dbg mem' it it t"
proof (induction t)
  case (Cons info rest)
  have row: "match_row mem it info = match_row mem' it info"
    using assms by (intro match_row_local) (auto intro: agree_mono)
  have post: "PostByte_assign dbg mem it1 False PostByte_Reset = PostByte_assign dbg mem' it1 False PostByte_Reset"
    if "match_row mem' it info = Inr (Some it1)" for it1
    using that row agree_consumes [OF assms match_row_consumes [of mem it info it1], of 2]
      length_opcode_bytes [of info]
    by (intro PostByte_assign_local) simp
  show ?case
    using Cons by (auto simp: row post intro!: bind_res_cong split: option.split)
qed simp

lemma find_in_tables_local:
  assumes "agree mem mem' it 4"
  shows "find_in_tables dbg mem it it ts = find_in_tables dbg mem' it it ts"
proof (induction ts)
  case (Cons t ts)
  have "find_in_table dbg mem' it it t = Inr (Next_table, it1) \<Longrightarrow> it1 = it" for it1
    using find_in_table_cases [of dbg mem' it t Next_table it1] by auto
  with Cons show ?case
    by (auto simp: find_in_table_local [OF assms] intro!: bind_res_cong split: search.split)
qed simp

lemma operand_value_local:
  assumes "agree mem mem' it 8"
  shows "operand_value mem it t n x = operand_value mem' it t n x"
proof -
  have "bytes_at mem it k = bytes_at mem' it k" if "k \<le> 8" for k
    using assms that by (intro bytes_at_agree) (rule agree_mono)
  moreover have "mem it = mem' it"
    using assms by (auto intro: agree_head)
  ultimately show ?thesis
    by (simp add: operand_value_def NextI8_def NextI16_def NextI32_def NextI64_def del: bytes_at.simps)
qed

lemma ProcessOperand_local:
  "agree mem mem' it 8 \<Longrightarrow> ProcessOperand dbg mem info pb it x t = ProcessOperand dbg mem' info pb it x t"
  by (simp add: ProcessOperand_def operand_value_local [of mem mem'])

lemma ProcessPostfix_local:
  assumes "agree mem mem' it 10"
  shows "ProcessPostfix dbg mem info it PostByte_Reset x = ProcessPostfix dbg mem' info it PostByte_Reset x"
proof -
  have a: "PostByte_assign dbg mem it True PostByte_Reset = PostByte_assign dbg mem' it True PostByte_Reset"
    using assms by (intro PostByte_assign_local) (auto intro: agree_mono)
  have "agree mem mem' it1 8"
    if "PostByte_assign dbg mem' it True PostByte_Reset = Inr (n, it1, pb)" for n it1 pb
    using PostByte_assign_consumes [of dbg mem it n it1 pb] that a length_postbyte_bytes [of pb]
      agree_consumes [OF assms, of "postbyte_bytes pb" it1 8] by simp
  then show ?thesis
    unfolding ProcessPostfix_def a
    by (intro bind_res_cong refl)
      (auto simp: ProcessOperand_local [of mem mem'] intro!: bind_res_cong split: option.split)
qed

lemma coded_size_le: "coded_size t \<le> 8"
  by (cases t) simp_all

text \<open>One operand after the other: equal as far as the window reaches.\<close>

lemma bind_operand_local:
  assumes "agree mem mem' it1 n" and "n = 8 + m"
    and "\<And>it2 y. agree mem mem' it2 m \<Longrightarrow> f (it2, y) = f' (it2, y)"
  shows "bind_res (ProcessOperand dbg mem info pb it1 new_Operand t) f =
    bind_res (ProcessOperand dbg mem' info pb it1 new_Operand t) f'"
proof -
  have same: "ProcessOperand dbg mem info pb it1 new_Operand t = ProcessOperand dbg mem' info pb it1 new_Operand t"
    using agree_mono [OF assms(1), of 8] assms(2) by (intro ProcessOperand_local) simp
  show ?thesis
  proof (rule bind_res_cong [OF same])
    fix r
    assume r: "ProcessOperand dbg mem' info pb it1 new_Operand t = Inr r"
    obtain it2 y where [simp]: "r = (it2, y)"
      by (cases r)
    have "consumes mem it1 (operand_bytes y) it2" and "op_Size y = coded_size t"
      using ProcessOperand_consumes [of dbg mem info pb it1 new_Operand t it2 y] same r by auto
    then have "agree mem mem' it2 m"
      using agree_consumes [OF assms(1), of "operand_bytes y" it2 m] coded_size_le [of t] assms(2) by simp
    then show "f r = f' r"
      using assms(3) by simp
  qed
qed

lemma decode_operands_local:
  assumes "agree mem mem' it 30" and "fresh inst"
  shows "decode_operands dbg mem info it inst = decode_operands dbg mem' info it inst"
proof -
  let ?p = "\<lambda>m. if PO_NONE \<noteq> oi_Postbyte info
    then ProcessPostfix dbg m info it (in_Postbyte inst) (in_Displacement inst)
    else Inr (it, in_Postbyte inst, in_Displacement inst)"
  have p: "?p mem = ?p mem'"
    using assms(2) agree_mono [OF assms(1), of 10] by (simp add: ProcessPostfix_local [of mem mem'] fresh_def)
  have new: "in_OperandDst inst = new_Operand" "in_OperandSrc1 inst = new_Operand"
    "in_OperandSrc2 inst = new_Operand"
    using assms(2) by (simp_all add: fresh_def)
  have a1: "agree mem mem' it1 24" if "?p mem' = Inr (it1, pb, disp)" for it1 pb disp
  proof (cases "oi_Postbyte info = PO_NONE")
    case True
    with that agree_mono [OF assms(1), of 24] show ?thesis by simp
  next
    case False
    then have "ProcessPostfix dbg mem info it PostByte_Reset new_Operand = Inr (it1, pb, disp)"
      using that p assms(2) by (simp add: fresh_def)
    then show ?thesis
      using ProcessPostfix_consumes length_postbyte_bytes [of pb] agree_consumes [OF assms(1)]
      by fastforce
  qed
  show ?thesis
    unfolding decode_operands_def p
    apply (rule bind_res_cong [OF refl])
    subgoal premises r for r
    proof -
      obtain it1 pb disp where r1: "r = (it1, pb, disp)"
        by (cases r)
      have a: "agree mem mem' it1 24"
        using a1 r r1 by simp
      show ?thesis
        unfolding r1 new prod.case
        by (rule bind_operand_local [OF a, of 16], simp, unfold prod.case,
            rule bind_operand_local [where m = 8], assumption, simp, unfold prod.case,
            rule bind_operand_local [where m = 0], assumption, simp, rule refl)
    qed
    done
qed

lemma Decode_local:
  assumes "agree mem mem' it 40"
  shows "Decode dbg mem new_Instruction it = Decode dbg mem' new_Instruction it"
proof -
  let ?i0 = "(Instruction_Reset new_Instruction)\<lparr>in_Address := getAddress it\<rparr>"
  have pre: "ProcessPrefix mem it ?i0 = ProcessPrefix mem' it ?i0"
    using prefix_loop_local [of mem mem' it 5 0] agree_mono [OF assms, of 5]
    by (simp add: ProcessPrefix_def MAX_PREFIX_BYTES_def)
  show ?thesis
    unfolding Decode_def Let_def pre
    apply (rule bind_res_cong [OF refl])
    subgoal premises r for r
    proof -
      obtain it1 inst1 where r1: "r = (it1, inst1)"
        by (cases r)
      have "in_PrefixBytes ?i0 = replicate MAX_PREFIX_BYTES 0"
        by (simp add: Instruction_Reset_def)
      then obtain n pbs where inst1: "inst1 = ?i0\<lparr>in_PrefixByteCount := n, in_PrefixBytes := pbs\<rparr>"
        and n: "n \<le> 4" "length pbs = 4" and c: "consumes mem it (take n pbs) it1"
        using ProcessPrefix_returned [of mem it ?i0 it1 inst1] r pre r1
        by (auto simp: MAX_PREFIX_BYTES_def)
      then have a: "agree mem mem' it1 36"
        using agree_consumes [OF assms c, of 36] by simp
      have find: "FindOpcode dbg mem it1 = FindOpcode dbg mem' it1"
        unfolding FindOpcode_def using agree_mono [OF a, of 4] by (intro find_in_tables_local) simp
      have ops: "decode_operands dbg mem info it2 (inst1\<lparr>in_Info := Some info\<rparr>) =
          decode_operands dbg mem' info it2 (inst1\<lparr>in_Info := Some info\<rparr>)"
        if "FindOpcode dbg mem' it1 = Inr (Some info, it2)" for info it2
      proof (rule decode_operands_local)
        have "consumes mem it1 (opcode_bytes info) it2"
          using FindOpcode_found [of dbg mem it1 info it2] find that by simp
        then show "agree mem mem' it2 30"
          using agree_consumes [OF a, of "opcode_bytes info" it2 30] length_opcode_bytes [of info] by simp
        show "fresh (inst1\<lparr>in_Info := Some info\<rparr>)"
          by (simp add: inst1 fresh_def Instruction_Reset_def new_Instruction_def)
      qed
      show ?thesis
        unfolding r1 prod.case find
        by (rule bind_res_cong [OF refl]) (auto simp: ops split: option.split)
    qed
    done
qed

section \<open>One turn of the loop\<close>

lemma relocate_loop_stop:
  "\<not> unat totalBytes < unat minCodeBytes \<Longrightarrow>
   relocate_loop fuel dbg minCodeBytes maxBufferSize dst it address totalBytes mem =
   (Inr (Some totalBytes), mem)"
  by (simp add: relocate_loop.simps [of fuel] ret_def word_less_nat_alt)

lemma relocate_loop_turn:
  assumes "unat totalBytes < unat minCodeBytes" and "unat totalBytes < 2 ^ 31"
  shows "(\<exists>e. Decode False mem new_Instruction it = Inl e \<and>
      relocate_loop (Suc fuel) False minCodeBytes maxBufferSize dst it address totalBytes mem = (Inl e, mem)) \<or>
    ((\<forall>it1 i. Decode False mem new_Instruction it = Inr (True, it1, i) \<longrightarrow>
         unat maxBufferSize \<le> unat totalBytes + length (code_bytes i)) \<and>
      relocate_loop (Suc fuel) False minCodeBytes maxBufferSize dst it address totalBytes mem =
      (Inr (Some 0), mem)) \<or>
    (\<exists>it1 i j. Decode False mem new_Instruction it = Inr (True, it1, i) \<and>
      Relocate False address i = Inr j \<and> length (code_bytes j) = length (code_bytes i) \<and>
      unat totalBytes + length (code_bytes i) < unat maxBufferSize \<and>
      relocate_loop (Suc fuel) False minCodeBytes maxBufferSize dst it address totalBytes mem =
      relocate_loop fuel False minCodeBytes maxBufferSize (dst + of_nat (length (code_bytes i))) it1
        (address + of_nat (length (code_bytes i))) (totalBytes + of_nat (length (code_bytes i)))
        (write_bytes mem dst (code_bytes j)))"
proof -
  have run: "ucast totalBytes < minCodeBytes"
    using assms(1) by (simp add: word_less_nat_alt)
  note loop = relocate_loop.simps [of "Suc fuel" False minCodeBytes maxBufferSize dst it address totalBytes]
  consider (threw) e where "Decode False mem new_Instruction it = Inl e"
    | (stuck) it1 i where "Decode False mem new_Instruction it = Inr (False, it1, i)"
    | (ok) it1 i where "Decode False mem new_Instruction it = Inr (True, it1, i)"
  proof (cases "Decode False mem new_Instruction it")
    case (Inr r)
    then show ?thesis
      using stuck ok by (cases r; cases "fst r") auto
  qed (rule threw)
  then show ?thesis
  proof cases
    case threw
    with run show ?thesis
      by (simp add: loop and_then_def reading_def)
  next
    case stuck
    with run show ?thesis
      by (simp add: loop and_then_def reading_def trace_def ret_def)
  next
    case ok
    let ?k = "length (code_bytes i)"
    have dec: "decoded mem it it1 i"
      using Decode_returned [OF ok] by simp
    then have k: "?k \<le> 15" and size: "ucast (in_CodeSize i) = (of_nat ?k :: uint32)"
      using decoded_size(2) [OF dec] by (auto simp: decoded_def consumes_def)
    have sum: "unat (totalBytes + of_nat ?k) = unat totalBytes + ?k"
      using k assms(2) by (simp add: unat_word_ariths unat_of_nat)
    obtain j where j: "Relocate False address i = Inr j" "emit_ok False j"
      "length (code_bytes j) = length (code_bytes i)"
      using Relocate_returned [OF dec, of False address] by auto
    have wide: "ucast (of_nat ?k :: uint32) = (of_nat ?k :: uint64)"
      using k by (simp add: word_unat_eq_iff unat_of_nat)
    show ?thesis
    proof (cases "unat maxBufferSize \<le> unat totalBytes + ?k")
      case True
      then have "maxBufferSize \<le> ucast (totalBytes + of_nat ?k)"
        by (simp add: word_le_nat_alt sum)
      with run ok True show ?thesis
        by (simp add: loop and_then_def reading_def trace_def ret_def size Let_def)
    next
      case False
      then have fits: "\<not> maxBufferSize \<le> ucast (totalBytes + of_nat ?k)"
        by (simp add: word_le_nat_alt sum)
      have "relocate_loop (Suc fuel) False minCodeBytes maxBufferSize dst it address totalBytes mem =
        relocate_loop fuel False minCodeBytes maxBufferSize (dst + of_nat ?k) it1
          (address + of_nat ?k) (totalBytes + of_nat ?k) (write_bytes mem dst (code_bytes j))"
        using run ok fits j
        by (simp add: loop and_then_def reading_def size Let_def lift_res_def Emit_writes wide)
      with ok j False show ?thesis
        by auto
    qed
  qed
qed

section \<open>The whole loop\<close>

text \<open>
  Whatever happens, the loop has enough turns, and what it wrote is one run of bytes from
  \<open>dst\<close> that together with the bytes counted before stays below the limit.
\<close>

definition wrote :: "memory \<Rightarrow> ptr \<Rightarrow> uint32 \<Rightarrow> uint64 \<Rightarrow> uint64 \<Rightarrow>
    (exn + uint32 option) \<times> memory \<Rightarrow> uint8 list \<Rightarrow> bool" where
  "wrote mem dst totalBytes minCodeBytes maxBufferSize r bs =
     (snd r = write_bytes mem dst bs \<and>
      (bs \<noteq> [] \<longrightarrow> unat totalBytes + length bs < unat maxBufferSize \<and>
                  unat totalBytes + length bs < unat minCodeBytes + 15) \<and>
      (case fst r of
         Inl e \<Rightarrow> \<exists>mem1 it1. Decode False mem1 new_Instruction it1 = Inl e
       | Inr None \<Rightarrow> False
       | Inr (Some n) \<Rightarrow> n = 0 \<or> n = totalBytes + of_nat (length bs) \<and> unat minCodeBytes \<le> unat n))"

lemma relocate_loop_wrote:
  assumes "unat minCodeBytes \<le> unat totalBytes + fuel" and "unat minCodeBytes < 2 ^ 31"
  shows "\<exists>bs. wrote mem dst totalBytes minCodeBytes maxBufferSize
    (relocate_loop fuel False minCodeBytes maxBufferSize dst it address totalBytes mem) bs"
  using assms(1)
proof (induction fuel arbitrary: dst it address totalBytes mem)
  case 0
  then show ?case
    by (intro exI [of _ "[]"]) (simp add: relocate_loop_stop wrote_def)
next
  case (Suc fuel)
  show ?case
  proof (cases "unat totalBytes < unat minCodeBytes")
    case False
    then show ?thesis
      by (intro exI [of _ "[]"]) (simp add: relocate_loop_stop wrote_def)
  next
    case True
    then have small: "unat totalBytes < 2 ^ 31"
      using assms(2) by simp
    let ?r = "relocate_loop (Suc fuel) False minCodeBytes maxBufferSize dst it address totalBytes mem"
    from relocate_loop_turn [OF True small, of mem it fuel maxBufferSize dst address]
    show ?thesis
    proof (elim disjE exE conjE)
      fix e assume "Decode False mem new_Instruction it = Inl e" and "?r = (Inl e, mem)"
      then show ?thesis
        by (intro exI [of _ "[]"]) (auto simp: wrote_def)
    next
      assume "?r = (Inr (Some 0), mem)"
      then show ?thesis
        by (intro exI [of _ "[]"]) (simp add: wrote_def)
    next
      fix it1 i j
      let ?k = "length (code_bytes i)"
      assume dec: "Decode False mem new_Instruction it = Inr (True, it1, i)"
        and j: "length (code_bytes j) = ?k"
        and fits: "unat totalBytes + ?k < unat maxBufferSize"
        and turn: "?r = relocate_loop fuel False minCodeBytes maxBufferSize (dst + of_nat ?k) it1
          (address + of_nat ?k) (totalBytes + of_nat ?k) (write_bytes mem dst (code_bytes j))"
      have k: "1 \<le> ?k" "?k \<le> 15"
        using Decode_returned [OF dec] by (auto simp: decoded_def)
      have sum: "unat (totalBytes + of_nat ?k) = unat totalBytes + ?k"
        using k small by (simp add: unat_word_ariths unat_of_nat)
      have "unat minCodeBytes \<le> unat (totalBytes + of_nat ?k) + fuel"
        using Suc.prems k sum by simp
      from Suc.IH [OF this, of "write_bytes mem dst (code_bytes j)" "dst + of_nat ?k" it1 "address + of_nat ?k"]
      obtain bs where "wrote (write_bytes mem dst (code_bytes j)) (dst + of_nat ?k)
          (totalBytes + of_nat ?k) minCodeBytes maxBufferSize ?r bs"
        unfolding turn by blast
      then have "wrote mem dst totalBytes minCodeBytes maxBufferSize ?r (code_bytes j @ bs)"
        using fits True k sum j
        by (auto simp: wrote_def write_bytes_append add.assoc split: sum.splits option.splits)
      then show ?thesis ..
    qed
  qed
qed

text \<open>On success: the instructions of the original, and the same moved one after the other.\<close>

fun decodes :: "memory \<Rightarrow> ptr \<Rightarrow> Instruction list \<Rightarrow> ptr \<Rightarrow> bool" where
  "decodes mem it [] it' = (it' = it)"
| "decodes mem it (i # is) it' =
     (case Decode False mem new_Instruction it of
        Inr (result, it1, j) \<Rightarrow> result \<and> j = i \<and> decodes mem it1 is it'
      | Inl e \<Rightarrow> False)"

fun moved :: "uint64 \<Rightarrow> Instruction list \<Rightarrow> Instruction list \<Rightarrow> bool" where
  "moved address [] js = (js = [])"
| "moved address (i # is) [] = False"
| "moved address (i # is) (j # js) =
     (Relocate False address i = Inr j \<and> moved (address + of_nat (length (code_bytes i))) is js)"

text \<open>The code that is read, with the decoder's window, and the block that is written.\<close>

definition apart :: "ptr \<Rightarrow> ptr \<Rightarrow> nat \<Rightarrow> bool" where
  "apart it dst n = (\<forall>i < n + 40. \<forall>k < n + 15. it + of_nat i \<noteq> dst + of_nat k)"

lemma apart_shift:
  assumes "apart it dst n" and "k < n"
  shows "apart (it + of_nat k) (dst + of_nat k) (n - k)"
  unfolding apart_def
proof (intro allI impI)
  fix a b
  assume "a < n - k + 40" and "b < n - k + 15"
  then have "k + a < n + 40" and "k + b < n + 15"
    using assms(2) by auto
  then have "it + of_nat (k + a) \<noteq> dst + of_nat (k + b)"
    using assms(1) unfolding apart_def by blast
  then show "it + of_nat k + of_nat a \<noteq> dst + of_nat k + of_nat b"
    by (simp add: add.assoc)
qed

lemma agree_write:
  assumes "agree mem0 mem it n" and "\<And>i k. i < n \<Longrightarrow> k < length bs \<Longrightarrow> it + of_nat i \<noteq> dst + of_nat k"
  shows "agree mem0 (write_bytes mem dst bs) it n"
  unfolding agree_def
proof (intro allI impI)
  fix i
  assume i: "i < n"
  have "\<not> in_block dst (length bs) (it + of_nat i)"
  proof
    assume "in_block dst (length bs) (it + of_nat i)"
    then have "unat (it + of_nat i - dst) < length bs"
      by (simp add: in_block_def)
    from assms(2) [OF i this] show False
      by simp
  qed
  then show "mem0 (it + of_nat i) = write_bytes mem dst bs (it + of_nat i)"
    using assms(1) i by (simp add: write_bytes_outside agree_def)
qed

text \<open>
  The loop succeeds when the original starts with instructions that reach the minimum with
  the last one and not before, and that fit.
\<close>

fun just_enough :: "nat \<Rightarrow> nat \<Rightarrow> Instruction list \<Rightarrow> bool" where
  "just_enough least k [] = (least \<le> k)"
| "just_enough least k (i # is) = (k < least \<and> just_enough least (k + length (code_bytes i)) is)"

definition total_size :: "Instruction list \<Rightarrow> nat" where
  "total_size is = length (concat (map code_bytes is))"

lemma total_size_simps [simp]:
  "total_size [] = 0" "total_size (i # is) = length (code_bytes i) + total_size is"
  by (simp_all add: total_size_def)

lemma relocate_loop_copies:
  assumes "unat minCodeBytes \<le> unat totalBytes + fuel" and "unat minCodeBytes < 2 ^ 31"
    and "agree mem0 mem it (unat minCodeBytes - unat totalBytes + 40)"
    and "apart it dst (unat minCodeBytes - unat totalBytes)"
    and "relocate_loop fuel False minCodeBytes maxBufferSize dst it address totalBytes mem =
         (Inr (Some n), mem')" and "n \<noteq> 0"
  shows "\<exists>is js m. n = totalBytes + of_nat m \<and> unat n = unat totalBytes + m \<and>
    decodes mem0 it is (it + of_nat m) \<and> moved address is js \<and>
    length (concat (map code_bytes js)) = m \<and>
    mem' = write_bytes mem dst (concat (map code_bytes js)) \<and>
    just_enough (unat minCodeBytes) (unat totalBytes) is \<and> total_size is = m \<and>
    (is = [] \<or> unat totalBytes + m < unat maxBufferSize)"
  using assms(1,3-6)
proof (induction fuel arbitrary: dst it address totalBytes mem)
  case 0
  then show ?case
    by (intro exI [of _ "[]"] exI [of _ 0]) (simp add: relocate_loop_stop)
next
  case (Suc fuel)
  show ?case
  proof (cases "unat totalBytes < unat minCodeBytes")
    case False
    with Suc.prems show ?thesis
      by (intro exI [of _ "[]"] exI [of _ 0]) (simp add: relocate_loop_stop)
  next
    case less: True
    then have small: "unat totalBytes < 2 ^ 31"
      using assms(2) by simp
    let ?r = "relocate_loop (Suc fuel) False minCodeBytes maxBufferSize dst it address totalBytes mem"
    obtain it1 i j where dec: "Decode False mem new_Instruction it = Inr (True, it1, i)"
      and rel: "Relocate False address i = Inr j"
      and j: "length (code_bytes j) = length (code_bytes i)"
      and fits: "unat totalBytes + length (code_bytes i) < unat maxBufferSize"
      and turn: "?r = relocate_loop fuel False minCodeBytes maxBufferSize (dst + of_nat (length (code_bytes i)))
        it1 (address + of_nat (length (code_bytes i))) (totalBytes + of_nat (length (code_bytes i)))
        (write_bytes mem dst (code_bytes j))"
      using relocate_loop_turn [OF less small, of mem it fuel maxBufferSize dst address] Suc.prems(4,5)
      by auto
    let ?k = "length (code_bytes i)"
    have d: "decoded mem it it1 i"
      using Decode_returned [OF dec] by simp
    then have k: "1 \<le> ?k" "?k \<le> 15" and it1: "it1 = it + of_nat ?k"
      by (auto simp: decoded_def consumes_def)
    have sum: "unat (totalBytes + of_nat ?k) = unat totalBytes + ?k"
      using k small by (simp add: unat_word_ariths unat_of_nat)
    define N where "N = unat minCodeBytes - unat totalBytes"
    have dec0: "Decode False mem0 new_Instruction it = Inr (True, it1, i)"
      using Decode_local [OF agree_mono [OF Suc.prems(2)], of False] dec by simp
    have agree0: "agree mem0 (write_bytes mem dst (code_bytes j)) it (N + 40)"
      using Suc.prems(2,3) k j by (intro agree_write) (auto simp: N_def apart_def)
    show ?thesis
    proof (cases "unat minCodeBytes \<le> unat totalBytes + ?k")
      case True
      then have "relocate_loop fuel False minCodeBytes maxBufferSize (dst + of_nat ?k) it1
          (address + of_nat ?k) (totalBytes + of_nat ?k) (write_bytes mem dst (code_bytes j)) =
          (Inr (Some (totalBytes + of_nat ?k)), write_bytes mem dst (code_bytes j))"
        by (intro relocate_loop_stop) (simp add: sum)
      then have "n = totalBytes + of_nat ?k" and "mem' = write_bytes mem dst (code_bytes j)"
        using Suc.prems(4) turn by auto
      then show ?thesis
        using dec0 rel j sum it1 fits True less
        by (intro exI [of _ "[i]"] exI [of _ "[j]"] exI [of _ ?k]) simp
    next
      case False
      then have N: "unat minCodeBytes - unat (totalBytes + of_nat ?k) = N - ?k" "?k < N"
        by (auto simp: sum N_def)
      have "agree mem0 (write_bytes mem dst (code_bytes j)) it1 (N - ?k + 40)"
        unfolding it1 using agree0 N(2) by (auto intro: agree_shift)
      moreover have "apart it1 (dst + of_nat ?k) (N - ?k)"
        unfolding it1 using Suc.prems(3) N(2) by (intro apart_shift) (auto simp: N_def)
      moreover have "unat minCodeBytes \<le> unat (totalBytes + of_nat ?k) + fuel"
        using Suc.prems(1) k sum by simp
      ultimately obtain "is" js m where
        n: "n = totalBytes + of_nat ?k + of_nat m" "unat n = unat totalBytes + ?k + m"
        and "decodes mem0 it1 is (it1 + of_nat m)" and "moved (address + of_nat ?k) is js"
        and "length (concat (map code_bytes js)) = m"
        and "mem' = write_bytes (write_bytes mem dst (code_bytes j)) (dst + of_nat ?k)
          (concat (map code_bytes js))"
        and "just_enough (unat minCodeBytes) (unat totalBytes + ?k) is" and "total_size is = m"
        and "is = [] \<or> unat totalBytes + ?k + m < unat maxBufferSize"
        using Suc.IH [of "totalBytes + of_nat ?k" "write_bytes mem dst (code_bytes j)" it1
          "dst + of_nat ?k" "address + of_nat ?k"] Suc.prems(4,5) turn N(1) sum by auto
      then show ?thesis
        using dec0 rel j it1 fits less
        by (intro exI [of _ "i # is"] exI [of _ "j # js"] exI [of _ "?k + m"])
          (auto simp: write_bytes_append add.assoc)
    qed
  qed
qed

text \<open>
  The loop runs into the overrun of the prefix array only when the original code does: after
  some whole instructions that do not reach the minimum, five prefix bytes stand in a row.
\<close>

definition overrun :: "memory \<Rightarrow> ptr \<Rightarrow> nat \<Rightarrow> bool" where
  "overrun mem it n = (\<exists>is it'. decodes mem it is it' \<and> total_size is < n \<and> prefix_run mem it' 5)"

lemma overrun_here: "prefix_run mem it 5 \<Longrightarrow> 0 < n \<Longrightarrow> overrun mem it n"
  unfolding overrun_def by (intro exI [of _ "[]"] exI [of _ it]) simp

lemma overrun_after:
  assumes "Decode False mem new_Instruction it = Inr (True, it1, i)"
    and "overrun mem it1 (n - length (code_bytes i))"
  shows "overrun mem it n"
proof -
  obtain "is" it' where "decodes mem it1 is it'" "total_size is < n - length (code_bytes i)"
    "prefix_run mem it' 5"
    using assms(2) by (auto simp: overrun_def)
  with assms(1) show ?thesis
    unfolding overrun_def by (intro exI [of _ "i # is"] exI [of _ it']) simp
qed

lemma relocate_loop_undefined:
  assumes "unat minCodeBytes < 2 ^ 31"
    and "agree mem0 mem it (unat minCodeBytes - unat totalBytes + 40)"
    and "apart it dst (unat minCodeBytes - unat totalBytes)"
    and "fst (relocate_loop fuel False minCodeBytes maxBufferSize dst it address totalBytes mem) =
         Inl (Undefined m)"
  shows "overrun mem0 it (unat minCodeBytes - unat totalBytes)"
  using assms(2-4)
proof (induction fuel arbitrary: dst it address totalBytes mem)
  case 0
  then show ?case
    by (simp add: relocate_loop.simps [of 0] ret_def split: if_splits)
next
  case (Suc fuel)
  define N where "N = unat minCodeBytes - unat totalBytes"
  have less: "unat totalBytes < unat minCodeBytes"
    using Suc.prems(3) by (cases "unat totalBytes < unat minCodeBytes") (simp_all add: relocate_loop_stop)
  then have small: "unat totalBytes < 2 ^ 31" and N: "0 < N"
    using assms(1) by (simp_all add: N_def)
  have same: "Decode False mem new_Instruction it = Decode False mem0 new_Instruction it"
    using Decode_local [OF agree_mono [OF Suc.prems(1)], of False] by simp
  let ?r = "relocate_loop (Suc fuel) False minCodeBytes maxBufferSize dst it address totalBytes mem"
  from relocate_loop_turn [OF less small, of mem it fuel maxBufferSize dst address]
  show ?case
  proof (elim disjE exE conjE)
    fix e
    assume e: "Decode False mem new_Instruction it = Inl e" and "?r = (Inl e, mem)"
    then have "Decode False mem0 new_Instruction it = Inl (Undefined m)"
      using Suc.prems(3) same by simp
    then have "prefix_run mem0 it 5"
      using Decode_undefined Decode_overrun by blast
    with N show ?thesis
      unfolding N_def by (rule overrun_here [rotated])
  next
    assume "?r = (Inr (Some 0), mem)"
    then show ?thesis
      using Suc.prems(3) by simp
  next
    fix it1 i j
    let ?k = "length (code_bytes i)"
    assume dec: "Decode False mem new_Instruction it = Inr (True, it1, i)"
      and j: "length (code_bytes j) = ?k"
      and turn: "?r = relocate_loop fuel False minCodeBytes maxBufferSize (dst + of_nat ?k) it1
        (address + of_nat ?k) (totalBytes + of_nat ?k) (write_bytes mem dst (code_bytes j))"
    have k: "1 \<le> ?k" "?k \<le> 15" and it1: "it1 = it + of_nat ?k"
      using Decode_returned [OF dec] by (auto simp: decoded_def consumes_def)
    have sum: "unat (totalBytes + of_nat ?k) = unat totalBytes + ?k"
      using k small by (simp add: unat_word_ariths unat_of_nat)
    have "?k < N"
    proof (rule ccontr)
      assume "\<not> ?k < N"
      then have "fst ?r = Inr (Some (totalBytes + of_nat ?k))"
        unfolding turn by (subst relocate_loop_stop) (simp_all add: sum N_def)
      with Suc.prems(3) show False
        by simp
    qed
    then have N': "unat minCodeBytes - unat (totalBytes + of_nat ?k) = N - ?k"
      by (simp add: sum N_def)
    have agree0: "agree mem0 (write_bytes mem dst (code_bytes j)) it (N + 40)"
      using Suc.prems(1,2) k j by (intro agree_write) (auto simp: N_def apart_def)
    have "agree mem0 (write_bytes mem dst (code_bytes j)) it1 (N - ?k + 40)"
      unfolding it1 using agree0 \<open>?k < N\<close> by (auto intro: agree_shift)
    moreover have "apart it1 (dst + of_nat ?k) (N - ?k)"
      unfolding it1 using Suc.prems(2) \<open>?k < N\<close> by (intro apart_shift) (auto simp: N_def)
    ultimately have "overrun mem0 it1 (N - ?k)"
      using Suc.IH [of "write_bytes mem dst (code_bytes j)" it1 "totalBytes + of_nat ?k"
          "dst + of_nat ?k" "address + of_nat ?k"] Suc.prems(3) unfolding turn N' by blast
    with dec same show ?thesis
      using overrun_after [of mem0 it it1 i N] by (simp add: N_def)
  qed
qed

lemma relocate_loop_succeeds:
  assumes "unat minCodeBytes \<le> unat totalBytes + fuel" and "unat minCodeBytes < 2 ^ 31"
    and "agree mem0 mem it (unat minCodeBytes - unat totalBytes + 40)"
    and "apart it dst (unat minCodeBytes - unat totalBytes)"
    and "decodes mem0 it is it'" and "just_enough (unat minCodeBytes) (unat totalBytes) is"
    and "unat totalBytes + total_size is < unat maxBufferSize \<or> is = []"
  shows "fst (relocate_loop fuel False minCodeBytes maxBufferSize dst it address totalBytes mem) =
    Inr (Some (totalBytes + of_nat (total_size is)))"
  using assms(1,3-7)
proof (induction fuel arbitrary: dst it address totalBytes mem "is")
  case 0
  then show ?case
    by (cases "is") (simp_all add: relocate_loop_stop)
next
  case (Suc fuel)
  show ?case
  proof (cases "is")
    case Nil
    with Suc.prems show ?thesis
      by (simp add: relocate_loop_stop)
  next
    case (Cons i js)
    then have less: "unat totalBytes < unat minCodeBytes"
      using Suc.prems(5) by simp
    then have small: "unat totalBytes < 2 ^ 31"
      using assms(2) by simp
    obtain it1 where dec0: "Decode False mem0 new_Instruction it = Inr (True, it1, i)"
      and rest: "decodes mem0 it1 js it'"
      using Suc.prems(4) Cons by (auto split: sum.splits)
    have dec: "Decode False mem new_Instruction it = Inr (True, it1, i)"
      using Decode_local [OF agree_mono [OF Suc.prems(2)], of False] dec0 by simp
    let ?k = "length (code_bytes i)"
    let ?r = "relocate_loop (Suc fuel) False minCodeBytes maxBufferSize dst it address totalBytes mem"
    obtain j where j: "length (code_bytes j) = ?k"
      and turn: "?r = relocate_loop fuel False minCodeBytes maxBufferSize (dst + of_nat ?k) it1
        (address + of_nat ?k) (totalBytes + of_nat ?k) (write_bytes mem dst (code_bytes j))"
      using relocate_loop_turn [OF less small, of mem it fuel maxBufferSize dst address] dec
        Suc.prems(6) Cons by auto
    have k: "1 \<le> ?k" "?k \<le> 15" and it1: "it1 = it + of_nat ?k"
      using Decode_returned [OF dec] by (auto simp: decoded_def consumes_def)
    have sum: "unat (totalBytes + of_nat ?k) = unat totalBytes + ?k"
      using k small by (simp add: unat_word_ariths unat_of_nat)
    have enough: "just_enough (unat minCodeBytes) (unat (totalBytes + of_nat ?k)) js"
      using Suc.prems(5) Cons sum by simp
    have last: "js = []" if "unat minCodeBytes \<le> unat totalBytes + ?k"
      using enough that sum by (cases js) auto
    define N where "N = unat minCodeBytes - unat totalBytes"
    have agree0: "agree mem0 (write_bytes mem dst (code_bytes j)) it (N + 40)"
      using Suc.prems(2,3) k j by (intro agree_write) (auto simp: N_def apart_def)
    show ?thesis
    proof (cases "unat minCodeBytes \<le> unat totalBytes + ?k")
      case True
      then show ?thesis
        using last Cons turn by (simp add: relocate_loop_stop sum)
    next
      case False
      then have N: "unat minCodeBytes - unat (totalBytes + of_nat ?k) = N - ?k" "?k < N"
        by (auto simp: sum N_def)
      have "agree mem0 (write_bytes mem dst (code_bytes j)) it1 (N - ?k + 40)"
        unfolding it1 using agree0 N(2) by (auto intro: agree_shift)
      moreover have "apart it1 (dst + of_nat ?k) (N - ?k)"
        unfolding it1 using Suc.prems(3) N(2) by (intro apart_shift) (auto simp: N_def)
      ultimately show ?thesis
        using Suc.IH [of "totalBytes + of_nat ?k" "write_bytes mem dst (code_bytes j)" it1
          "dst + of_nat ?k" js "address + of_nat ?k"] Suc.prems(1,6) turn N(1) sum enough rest Cons k
        by (simp add: add.assoc)
    qed
  qed
qed

end
