(* ===== verification/CodeHook_Install.thy ===== *)
theory CodeHook_Install
  imports CodeHook_Relocation
begin

text \<open>
  \<open>InstallHook\<close>: where it writes, what a finished hook looks like in memory, and that a
  failure leaves the hooked function alone. The lemmas first separate what the calls of
  Windows do to their own state from what the code does to memory.
\<close>

section \<open>Blocks at offsets of one address\<close>

lemma in_block_offset:
  assumes "in_block (p + of_nat k) n a" and "k + n \<le> m" and "m \<le> 2 ^ 32"
  shows "in_block p m a"
proof -
  define d where "d = a - (p + of_nat k)"
  have "d + of_nat k = a - p" and "unat d + k < 2 ^ 32"
    using assms by (simp_all add: in_block_def d_def)
  then have "unat (a - p) = unat d + k"
    by (simp add: unat_word_ariths unat_of_nat flip: \<open>d + of_nat k = a - p\<close>)
  with assms show ?thesis
    by (simp add: in_block_def d_def)
qed

lemma in_block_offsets:
  assumes "x < 2 ^ 16" and "b < 2 ^ 16" and "m < 2 ^ 16"
  shows "in_block (c + of_nat b) m (c + of_nat x) \<longleftrightarrow> b \<le> x \<and> x < b + m"
proof (cases "b \<le> x")
  case True
  then have d: "c + of_nat x - (c + of_nat b) = of_nat (x - b)"
    by (simp add: of_nat_diff)
  show ?thesis
    unfolding in_block_def d unat_of_nat using True assms by auto
next
  case False
  then have "c + of_nat x - (c + of_nat b) = - of_nat (b - x)"
    by (simp add: of_nat_diff)
  also have "- of_nat (b - x) = (of_nat (2 ^ 32 - (b - x)) :: ptr)"
    using assms by (subst of_nat_diff) simp_all
  finally have d: "c + of_nat x - (c + of_nat b) = of_nat (2 ^ 32 - (b - x))" .
  have "unat (c + of_nat x - (c + of_nat b)) = 2 ^ 32 - (b - x)"
    unfolding d unat_of_nat using False by simp
  then show ?thesis
    using False assms by (simp add: in_block_def)
qed

lemma bytes_at_other:
  assumes "\<And>i. i < n \<Longrightarrow> \<not> in_block q (length bs) (p + of_nat i)"
  shows "bytes_at (write_bytes mem q bs) p n = bytes_at mem p n"
  using assms by (intro nth_equalityI) (simp_all add: nth_bytes_at write_bytes_outside)

lemma bytes_at_prefix: "m \<le> n \<Longrightarrow> bytes_at mem p n = bs \<Longrightarrow> bytes_at mem p m = take m bs"
  using bytes_at_add [of mem p m "n - m"] by auto

section \<open>Assembler\<close>

definition u32_bytes :: "uint32 \<Rightarrow> uint8 list" where
  "u32_bytes v = le_bytes 4 (ucast v)"

lemma length_u32_bytes [simp]: "length (u32_bytes v) = 4"
  by (simp add: u32_bytes_def del: le_bytes.simps)

lemma put_u32_run: "put_u32 v p mem = (Inr (p + 4), write_bytes mem p (u32_bytes v))"
  using storesD [OF stores_append_value, of 4 "ucast v" p mem]
  by (simp add: put_u32_def u32_bytes_def del: le_bytes.simps)

lemma Jump_run:
  "Jump address p mem = (Inr (p + 5), write_bytes mem p (0xe9 # u32_bytes (address - (p + 5))))"
  by (simp add: Jump_def Relative32_def and_then_def put_byte_run put_u32_run add.commute)

lemma JumpIndirect_run:
  "JumpIndirect address p mem = (Inr (p + 6), write_bytes mem p (0xff # 0x25 # u32_bytes address))"
  by (simp add: JumpIndirect_def Absolute32_def and_then_def put_byte_run put_u32_run)

text \<open>The number the four bytes hold, as \<open>NextI32\<close> reads it.\<close>

lemma le_value_le_bytes: "n \<le> 8 \<Longrightarrow> le_value (le_bytes n v) = take_bit (8 * n) v"
proof (induction n arbitrary: v)
  case (Suc n)
  have "le_value (le_bytes n (drop_bit 8 v)) = take_bit (8 * n) (drop_bit 8 v)"
    using Suc by simp
  moreover have "ucast (ucast (v AND 0xff) :: uint8) OR push_bit 8 (take_bit (8 * n) (drop_bit 8 v)) =
      take_bit (8 * Suc n) v"
    unfolding and_0xff by (rule bit_word_eqI) (auto simp: bit_simps)
  ultimately show ?case
    by simp
qed simp

lemma NextI32_u32_bytes:
  assumes "bytes_at mem p 4 = u32_bytes v" and "p \<noteq> 0"
  shows "NextI32 mem p = Inr (v, p + 4)"
proof -
  have "le_value (u32_bytes v) = take_bit 32 (ucast v)"
    unfolding u32_bytes_def by (subst le_value_le_bytes) simp_all
  then have "(ucast (le_value (u32_bytes v)) :: uint32) = v"
    by (simp add: bit_eq_iff bit_simps)
  with assms show ?thesis
    by (simp add: NextI32_def del: bytes_at.simps)
qed

section \<open>The thunk\<close>

text \<open>
  The thunk at \<open>code\<close>, for the original code in \<open>mem0\<close>: two pointers, then at offset 16 the
  moved instructions \<open>js\<close> of the first \<open>n\<close> bytes, then a jump to the rest of the function.
\<close>

definition thunk_ready ::
    "memory \<Rightarrow> memory \<Rightarrow> ptr \<Rightarrow> ptr \<Rightarrow> ptr \<Rightarrow> nat \<Rightarrow> Instruction list \<Rightarrow> Instruction list \<Rightarrow> bool" where
  "thunk_ready mem0 mem code procAddress proxy n is js =
     (6 \<le> n \<and> n \<le> 20 \<and>
      decodes mem0 procAddress is (procAddress + of_nat n) \<and>
      moved (getAddress (code + 16)) is js \<and>
      length (concat (map code_bytes js)) = n \<and>
      bytes_at mem code 8 = u32_bytes proxy @ u32_bytes (code + 16) \<and>
      bytes_at mem (code + 16) (n + 5) =
        concat (map code_bytes js) @
        0xe9 # u32_bytes (procAddress + of_nat n - (code + 16 + of_nat n + 5)))"

text \<open>What the window of the original function must keep clear of.\<close>

definition clear_of_thunk :: "ptr \<Rightarrow> ptr \<Rightarrow> bool" where
  "clear_of_thunk code procAddress = (\<forall>i < 46. \<not> in_block code 256 (procAddress + of_nat i))"

lemma RelocateCode_wrote:
  "\<exists>bs. wrote mem dst 0 6 256 (RelocateCode False dst src 6 256 mem) bs"
  unfolding RelocateCode_def by (rule relocate_loop_wrote) simp_all

lemma head_bytes:
  "write_bytes (write_bytes mem code (u32_bytes proxy)) (code + 4) (u32_bytes v) =
   write_bytes mem code (u32_bytes proxy @ u32_bytes v)"
  by (simp add: write_bytes_append)

definition thunk_head :: "memory \<Rightarrow> ptr \<Rightarrow> ptr \<Rightarrow> memory" where
  "thunk_head mem code proxy = write_bytes mem code (u32_bytes proxy @ u32_bytes (code + 16))"

lemma fill_thunk_cases:
  fixes code procAddress proxy :: ptr
  obtains (threw) e bs where "length bs < 21"
      "fill_thunk False code (code + 16) procAddress proxy mem =
       (Inl e, write_bytes (thunk_head mem code proxy) (code + 16) bs)"
      "fst (RelocateCode False (code + 16) procAddress 6 256 (thunk_head mem code proxy)) = Inl e"
    | (failed) bs where "length bs < 21"
      "fill_thunk False code (code + 16) procAddress proxy mem =
       (Inr HOOK_NORELOCATE, write_bytes (thunk_head mem code proxy) (code + 16) bs)"
    | (complete) bs n where "n = length bs" "6 \<le> n" "n < 21"
      "RelocateCode False (code + 16) procAddress 6 256 (thunk_head mem code proxy) =
       (Inr (Some (of_nat n)), write_bytes (thunk_head mem code proxy) (code + 16) bs)"
      "fill_thunk False code (code + 16) procAddress proxy mem =
       (Inr HOOK_SUCCESS, write_bytes (thunk_head mem code proxy) (code + 16)
          (bs @ 0xe9 # u32_bytes (procAddress + of_nat n - (code + 16 + of_nat n + 5))))"
proof -
  let ?head = "thunk_head mem code proxy"
  let ?r = "RelocateCode False (code + 16) procAddress 6 256 ?head"
  obtain bs where w: "wrote ?head (code + 16) 0 6 256 ?r bs"
    using RelocateCode_wrote by blast
  then have len: "length bs < 21" and mem': "snd ?r = write_bytes ?head (code + 16) bs"
    by (auto simp: wrote_def)
  have run: "fill_thunk False code (code + 16) procAddress proxy mem =
    (case ?r of
       (Inl e, mem') \<Rightarrow> (Inl e, mem')
     | (Inr r, mem') \<Rightarrow>
        (case r of None \<Rightarrow> throw (Undefined ''RelocateCode'')
         | Some used \<Rightarrow> if used = 0 then ret HOOK_NORELOCATE
             else and_then (Jump (procAddress + used) (code + 16 + used)) (\<lambda>_. ret HOOK_SUCCESS)) mem')"
    unfolding fill_thunk_def THUNK_BUFFER_SIZE_def
    by (simp add: and_then_def put_u32_run head_bytes thunk_head_def)
  show thesis
  proof (cases "fst ?r")
    case (Inl e)
    then show ?thesis
      using run len mem' by (intro threw [of bs e]) (auto simp: prod_eq_iff split: prod.splits)
  next
    case (Inr q)
    then obtain used where q: "?r = (Inr (Some used), write_bytes ?head (code + 16) bs)"
      using w mem' by (cases q) (auto simp: wrote_def prod_eq_iff)
    show ?thesis
    proof (cases "used = 0")
      case True
      then show ?thesis
        using run len q by (intro failed [of bs]) (auto simp: ret_def)
    next
      case False
      then have used: "used = of_nat (length bs)" "6 \<le> unat used"
        using w q by (auto simp: wrote_def)
      then have "6 \<le> length bs"
        using len by (simp add: unat_of_nat)
      then show ?thesis
        using run len q False used
        by (intro complete [of "length bs" bs])
          (auto simp: and_then_def ret_def Jump_run write_bytes_append algebra_simps)
    qed
  qed
qed

lemma thunk_head_outside: "\<not> in_block code 256 a \<Longrightarrow> thunk_head mem code proxy a = mem a"
  unfolding thunk_head_def by (rule write_bytes_outside) (use in_block_mono [of code 8 a 256] in auto)

lemma body_outside:
  assumes "length bs \<le> 240" and "\<not> in_block code 256 a"
  shows "write_bytes (thunk_head mem code proxy) (code + 16) bs a = mem a"
proof -
  have "\<not> in_block (code + of_nat 16) (length bs) a"
    using assms in_block_offset [of code 16 "length bs" a 256] by auto
  then show ?thesis
    using assms(2) by (simp add: write_bytes_outside thunk_head_outside)
qed

lemma fill_thunk_outside:
  "\<not> in_block code 256 a \<Longrightarrow> snd (fill_thunk False code (code + 16) procAddress proxy mem) a = mem a"
  by (rule fill_thunk_cases [of code procAddress proxy mem]) (simp_all add: body_outside)

text \<open>The code that is moved and the thunk it is moved into, as the loop asks for them.\<close>

lemma thunk_window:
  assumes "agree mem0 mem procAddress 46" and "clear_of_thunk code procAddress"
  shows "agree mem0 (thunk_head mem code proxy) procAddress (unat (6 :: uint64) - unat (0 :: uint32) + 40)"
  using assms by (simp add: agree_def clear_of_thunk_def thunk_head_outside)

lemma thunk_apart:
  assumes "clear_of_thunk code procAddress"
  shows "apart procAddress (code + 16) (unat (6 :: uint64) - unat (0 :: uint32))"
  unfolding apart_def
proof (intro allI impI)
  fix i k
  assume "i < unat (6 :: uint64) - unat (0 :: uint32) + 40"
    and k: "k < unat (6 :: uint64) - unat (0 :: uint32) + 15"
  then have "\<not> in_block code 256 (procAddress + of_nat i)"
    using assms by (simp add: clear_of_thunk_def)
  moreover have "in_block (code + of_nat 0) 256 (code + of_nat (16 + k))"
    using k by (subst in_block_offsets) simp_all
  ultimately show "procAddress + of_nat i \<noteq> code + 16 + of_nat k"
    by (auto simp: add.assoc)
qed

lemma fill_thunk_undefined:
  assumes "fst (fill_thunk False code (code + 16) procAddress proxy mem) = Inl (Undefined m)"
    and "agree mem0 mem procAddress 46" and "clear_of_thunk code procAddress"
  shows "overrun mem0 procAddress 6"
proof (cases rule: fill_thunk_cases [of code procAddress proxy mem, case_names threw failed complete])
  case (threw e bs)
  then have e: "fst (relocate_loop (unat (6 :: uint64)) False 6 256 (code + 16) procAddress
      (getAddress (code + 16)) 0 (thunk_head mem code proxy)) = Inl (Undefined m)"
    using assms(1) by (simp add: RelocateCode_def)
  from relocate_loop_undefined [OF _ thunk_window [OF assms(2,3)] thunk_apart [OF assms(3)] e]
  show ?thesis
    by simp
qed (use assms(1) in simp_all)

lemma fill_thunk_ready:
  assumes "fill_thunk False code (code + 16) procAddress proxy mem = (Inr HOOK_SUCCESS, mem')"
    and "agree mem0 mem procAddress 46" and "clear_of_thunk code procAddress"
  shows "\<exists>n is js. thunk_ready mem0 mem' code procAddress proxy n is js"
  using assms(1)
proof (cases rule: fill_thunk_cases [of code procAddress proxy mem, case_names threw failed complete])
  case (complete bs n)
  let ?head = "thunk_head mem code proxy"
  let ?rest = "0xe9 # u32_bytes (procAddress + of_nat n - (code + 16 + of_nat n + 5))"
  have mem': "mem' = write_bytes ?head (code + 16) (bs @ ?rest)"
    using complete assms(1) by simp
  note agree = thunk_window [OF assms(2,3), of proxy] and apart = thunk_apart [OF assms(3)]
  have "of_nat n \<noteq> (0 :: uint32)"
    using complete(2,3) by (simp add: word_unat_eq_iff unat_of_nat)
  have "unat (6 :: uint64) \<le> unat (0 :: uint32) + unat (6 :: uint64)" and "unat (6 :: uint64) < 2 ^ 31"
    by simp_all
  from relocate_loop_copies [OF this agree apart complete(4) [unfolded RelocateCode_def] \<open>of_nat n \<noteq> 0\<close>]
  obtain "is" js m where m: "unat (of_nat n :: uint32) = unat (0 :: uint32) + m"
    and is_: "decodes mem0 procAddress is (procAddress + of_nat m)"
    and js: "moved (getAddress (code + 16)) is js" "length (concat (map code_bytes js)) = m"
    and w: "write_bytes ?head (code + 16) bs = write_bytes ?head (code + 16) (concat (map code_bytes js))"
    by metis
  have mn: "m = n"
    using m complete(3) by (simp add: unat_of_nat)
  have "bytes_at (write_bytes ?head (code + 16) bs) (code + 16) (length bs) = bs"
    using complete by (intro bytes_at_write_bytes) simp
  moreover have "bytes_at (write_bytes ?head (code + 16) (concat (map code_bytes js))) (code + 16)
      (length (concat (map code_bytes js))) = concat (map code_bytes js)"
    using js(2) mn complete by (intro bytes_at_write_bytes) simp
  ultimately have bs: "bs = concat (map code_bytes js)"
    using w js(2) mn complete(1) by simp
  have "bytes_at mem' (code + 16) (n + 5) = bs @ ?rest"
    using bytes_at_write_bytes [of "bs @ ?rest" ?head "code + 16"] complete
    by (simp add: mem' del: bytes_at.simps)
  moreover have "bytes_at mem' code 8 = bytes_at ?head code 8"
    unfolding mem'
  proof (rule bytes_at_other)
    fix i :: nat
    assume "i < 8"
    then show "\<not> in_block (code + 16) (length (bs @ ?rest)) (code + of_nat i)"
      using in_block_offsets [of i 16 "length (bs @ ?rest)" code] complete by simp
  qed
  moreover have "bytes_at ?head code 8 = u32_bytes proxy @ u32_bytes (code + 16)"
    using bytes_at_write_bytes [of "u32_bytes proxy @ u32_bytes (code + 16)" mem code]
    by (simp add: thunk_head_def del: bytes_at.simps)
  ultimately have "thunk_ready mem0 mem' code procAddress proxy n is js"
    unfolding thunk_ready_def using is_ js complete(2,3) mn bs
    by (simp del: bytes_at.simps write_bytes.simps)
  then show ?thesis
    by blast
qed (use assms(1) in auto)

section \<open>What reaches memory\<close>

text \<open>The outcome of a function and the memory it leaves, without the state of Windows.\<close>

definition mem_run :: "('os process, 'a) cpp \<Rightarrow> 'os process \<Rightarrow> (exn + 'a) \<times> memory" where
  "mem_run m s = (fst (m s), pr_Memory (snd (m s)))"

text \<open>A function that returns and leaves memory alone.\<close>

named_theorems quiet_intros

definition quiet :: "('os process, 'a) cpp \<Rightarrow> bool" where
  "quiet m = (\<forall>s. \<exists>x. mem_run m s = (Inr x, pr_Memory s))"

lemma quiet_ret [quiet_intros]: "quiet (ret x)"
  by (simp add: quiet_def mem_run_def ret_def)

lemma quiet_api [quiet_intros]: "quiet (api f)"
  by (simp add: quiet_def mem_run_def api_def)

lemma quiet_assert [quiet_intros]: "quiet (lift_res (assert_res False c msg))"
  by (simp add: quiet_def mem_run_def lift_res_def)

lemma quiet_then [quiet_intros]:
  assumes "quiet m" and "\<And>x. quiet (f x)"
  shows "quiet (and_then m f)"
  unfolding quiet_def
proof
  fix s
  obtain x s1 where 1: "m s = (Inr x, s1)" "pr_Memory s1 = pr_Memory s"
    using assms(1) by (metis (no_types) mem_run_def prod.collapse prod.inject quiet_def)
  obtain y where "mem_run (f x) s1 = (Inr y, pr_Memory s1)"
    using assms(2) by (auto simp: quiet_def)
  then show "\<exists>x. mem_run (and_then m f) s = (Inr x, pr_Memory s)"
    using 1 by (auto simp: mem_run_def and_then_def split: prod.splits)
qed

lemma quiet_if [quiet_intros]: "quiet m \<Longrightarrow> quiet n \<Longrightarrow> quiet (if b then m else n)"
  by simp

lemma quiet_option [quiet_intros]:
  "quiet m \<Longrightarrow> (\<And>x. quiet (f x)) \<Longrightarrow> quiet (case r of None \<Rightarrow> m | Some x \<Rightarrow> f x)"
  by (cases r) simp_all

lemma quiet_pair [quiet_intros]: "(\<And>x y. quiet (f x y)) \<Longrightarrow> quiet (case r of (x, y) \<Rightarrow> f x y)"
  by (cases r) simp

lemma quiet_Lock [quiet_intros]: "quiet (MemoryBlock_Lock False w mb prot)"
  unfolding MemoryBlock_Lock_def by (intro quiet_intros)

lemma quiet_Unlock [quiet_intros]: "quiet (MemoryBlock_Unlock False w mb)"
  unfolding MemoryBlock_Unlock_def by (intro quiet_intros)

lemma quiet_destroy [quiet_intros]: "quiet (MemoryBlock_destroy False w mb)"
  unfolding MemoryBlock_destroy_def by (intro quiet_intros)

lemma mem_run_quiet_then:
  assumes "quiet m"
  shows "\<exists>x s1. m s = (Inr x, s1) \<and> pr_Memory s1 = pr_Memory s \<and> mem_run (and_then m f) s = mem_run (f x) s1"
proof -
  obtain x s1 where 1: "m s = (Inr x, s1)" "pr_Memory s1 = pr_Memory s"
    using assms by (metis (no_types) mem_run_def prod.collapse prod.inject quiet_def)
  then show ?thesis
    by (simp add: mem_run_def and_then_def)
qed

lemma mem_run_scoped:
  assumes "quiet destroy"
  shows "mem_run (scoped body destroy) s = mem_run body s"
proof (cases "body s")
  case (Pair r s1)
  obtain u s2 where d: "destroy s1 = (Inr u, s2)" "pr_Memory s2 = pr_Memory s1"
    using assms by (metis (no_types) mem_run_def prod.collapse prod.inject quiet_def)
  then show ?thesis
    using Pair
    by (auto simp: mem_run_def scoped_def and_then_def ret_def throw_def split: sum.split exn.split)
qed

lemma mem_run_in_memory: "mem_run (in_memory m) s = m (pr_Memory s)"
  by (simp add: mem_run_def in_memory_def zoom_def split: prod.splits)

lemma mem_run_ret: "mem_run (ret x) s = (Inr x, pr_Memory s)"
  by (simp add: mem_run_def ret_def)

lemma build_thunk_mem:
  "mem_run (build_thunk False w code procAddress proxy) s =
     (Inr HOOK_COREFAILED, pr_Memory s) \<or>
   mem_run (build_thunk False w code procAddress proxy) s =
     fill_thunk False code (code + 16) procAddress proxy (pr_Memory s)"
proof -
  let ?mb = "\<lparr>mb_Memory = code, mb_LockedProtection = 0\<rparr>"
  have start: "build_thunk False w code procAddress proxy =
    and_then (MemoryBlock_Lock False w ?mb PAGE_READWRITE) (\<lambda>(result, mb1).
      scoped (if \<not> result then ret HOOK_COREFAILED
              else in_memory (fill_thunk False code (code + 16) procAddress proxy))
        (MemoryBlock_destroy False w mb1))"
    by (rule ext) (simp add: build_thunk_def new_MemoryBlock_def and_then_def lift_res_def)
  obtain x s1 where "pr_Memory s1 = pr_Memory s"
    and "mem_run (build_thunk False w code procAddress proxy) s =
      mem_run (case x of (result, mb1) \<Rightarrow>
        scoped (if \<not> result then ret HOOK_COREFAILED
                else in_memory (fill_thunk False code (code + 16) procAddress proxy))
          (MemoryBlock_destroy False w mb1)) s1"
    using mem_run_quiet_then [OF quiet_Lock, of w ?mb PAGE_READWRITE s] unfolding start by blast
  then show ?thesis
    by (cases x) (simp add: mem_run_scoped quiet_destroy mem_run_in_memory mem_run_ret)
qed

definition redirected :: "memory \<Rightarrow> ptr \<Rightarrow> ptr \<Rightarrow> ptr \<Rightarrow> memory" where
  "redirected mem code procAddress out =
     write_bytes (write_bytes mem out (u32_bytes (code + 16))) procAddress
       (0xff # 0x25 # u32_bytes code)"

lemma redirect_mem:
  "mem_run (redirect False w code procAddress out) s = (Inr HOOK_NOREDIRECT, pr_Memory s) \<or>
   mem_run (redirect False w code procAddress out) s =
     (Inr HOOK_SUCCESS, redirected (pr_Memory s) code procAddress out)"
proof -
  let ?mb = "\<lparr>mb_Memory = procAddress, mb_LockedProtection = 0\<rparr>"
  let ?store = "and_then (put_u32 (code + 16) out) (\<lambda>_.
      and_then (JumpIndirect code procAddress) (\<lambda>_. ret HOOK_SUCCESS))"
  have start: "redirect False w code procAddress out =
    and_then (MemoryBlock_Lock False w ?mb PAGE_READWRITE) (\<lambda>(result, mb1).
      scoped (if \<not> result then ret HOOK_NOREDIRECT else in_memory ?store)
        (MemoryBlock_destroy False w mb1))"
    by (rule ext) (simp add: redirect_def new_MemoryBlock_def and_then_def lift_res_def)
  have wrote: "?store mem = (Inr HOOK_SUCCESS, redirected mem code procAddress out)" for mem
    by (simp add: and_then_def put_u32_run JumpIndirect_run ret_def redirected_def)
  obtain x s1 where "pr_Memory s1 = pr_Memory s"
    and "mem_run (redirect False w code procAddress out) s =
      mem_run (case x of (result, mb1) \<Rightarrow>
        scoped (if \<not> result then ret HOOK_NOREDIRECT else in_memory ?store)
          (MemoryBlock_destroy False w mb1)) s1"
    using mem_run_quiet_then [OF quiet_Lock, of w ?mb PAGE_READWRITE s] unfolding start by blast
  then show ?thesis
    by (cases x) (simp add: mem_run_scoped quiet_destroy mem_run_in_memory mem_run_ret wrote)
qed

section \<open>InstallHook\<close>

definition thunk_address :: "'os win32 \<Rightarrow> 'os process \<Rightarrow> ptr" where
  "thunk_address w s = fst (w_VirtualAlloc w 0 (of_nat THUNK_BUFFER_SIZE) MEM_COMMIT
     PAGE_EXECUTE_READWRITE (pr_Os s))"

lemma fill_zero_run: "fill_zero n p mem = (Inr (p + of_nat n), write_bytes mem p (replicate n 0))"
  by (induction n arbitrary: p mem) (simp_all add: ret_def and_then_def put_byte_run add.assoc)

definition zeroed :: "memory \<Rightarrow> ptr \<Rightarrow> memory" where
  "zeroed mem code = write_bytes mem code (replicate THUNK_BUFFER_SIZE 0)"

lemma zeroed_outside: "\<not> in_block code 256 a \<Longrightarrow> zeroed mem code a = mem a"
  unfolding zeroed_def by (rule write_bytes_outside) (simp add: THUNK_BUFFER_SIZE_def)

lemma mem_run_then:
  "mem_run (and_then m f) s =
   (case mem_run m s of (Inl e, mem) \<Rightarrow> (Inl e, mem) | (Inr x, mem) \<Rightarrow> mem_run (f x) (snd (m s)))"
  by (simp add: mem_run_def and_then_def split: prod.splits sum.splits)

lemma mem_run_after: "pr_Memory (snd (m s)) = snd (mem_run m s)"
  by (simp add: mem_run_def)

lemma mem_run_api: "mem_run (api f) s = (Inr (fst (f (pr_Os s))), pr_Memory s)"
  by (simp add: mem_run_def api_def)

lemma mem_run_HookError: "mem_run (HookError status) s = (Inl (Aborted (hook_error_text status)), pr_Memory s)"
  by (simp add: mem_run_def HookError_def throw_def)

lemma finish_install_mem:
  "mem_run (finish_install w code status) s =
   (if status = HOOK_SUCCESS then Inr HOOK_SUCCESS else Inl (Aborted (hook_error_text status)),
    pr_Memory s)"
  by (simp add: finish_install_def mem_run_then mem_run_api mem_run_after mem_run_HookError mem_run_ret)

lemma InstallHook_at_cases:
  fixes w :: "'os win32" and s :: "'os process"
  defines "code \<equiv> thunk_address w s" and "mem \<equiv> pr_Memory s"
  obtains (failed) e mem' where
      "mem_run (InstallHook_at False w procAddress proxy out) s = (Inl e, mem')"
      "\<And>a. \<not> (code \<noteq> 0 \<and> in_block code 256 a) \<Longrightarrow> mem' a = mem a"
      "\<And>m. e = Undefined m \<Longrightarrow> code \<noteq> 0 \<and>
         fst (fill_thunk False code (code + 16) procAddress proxy (zeroed mem code)) = Inl e"
    | (installed) mem1 where "code \<noteq> 0"
      "fill_thunk False code (code + 16) procAddress proxy (zeroed mem code) = (Inr HOOK_SUCCESS, mem1)"
      "mem_run (InstallHook_at False w procAddress proxy out) s =
       (Inr HOOK_SUCCESS, redirected mem1 code procAddress out)"
proof (cases "code = 0")
  case True
  then show ?thesis
    by (intro failed [of "Aborted (hook_error_text HOOK_OUTOFMEMORY)" mem])
      (simp_all add: InstallHook_at_def mem_run_then mem_run_api mem_run_after mem_run_HookError
        code_def thunk_address_def mem_def)
next
  case False
  let ?b = "build_thunk False w code procAddress proxy"
  let ?next = "\<lambda>status. and_then (if status = HOOK_SUCCESS
      then redirect False w code procAddress out else ret status) (finish_install w code)"
  define s1 where "s1 = snd (in_memory (fill_zero THUNK_BUFFER_SIZE code)
    (snd (api (w_VirtualAlloc w 0 (of_nat THUNK_BUFFER_SIZE) MEM_COMMIT PAGE_EXECUTE_READWRITE) s)))"
  have s1: "pr_Memory s1 = zeroed mem code"
    by (simp add: s1_def mem_run_after mem_run_in_memory fill_zero_run zeroed_def mem_run_api mem_def)
  have addr: "fst (w_VirtualAlloc w 0 (of_nat THUNK_BUFFER_SIZE) MEM_COMMIT
      PAGE_EXECUTE_READWRITE (pr_Os s)) = code"
    by (simp add: code_def thunk_address_def)
  have run: "mem_run (InstallHook_at False w procAddress proxy out) s =
      (case mem_run ?b s1 of (Inl e, m) \<Rightarrow> (Inl e, m)
       | (Inr status, m) \<Rightarrow> mem_run (?next status) (snd (?b s1)))"
    using False by (simp add: InstallHook_at_def mem_run_then [of "api _"] mem_run_then [of "in_memory _"]
        mem_run_then [of ?b] mem_run_api mem_run_in_memory fill_zero_run addr flip: s1_def)
  have out: "zeroed mem code a = mem a" if "\<not> (code \<noteq> 0 \<and> in_block code 256 a)" for a
    using that False by (simp add: zeroed_outside)
  have thunk_out: "snd (fill_thunk False code (code + 16) procAddress proxy (zeroed mem code)) a = mem a"
    if "\<not> (code \<noteq> 0 \<and> in_block code 256 a)" for a
    using that False by (simp add: fill_thunk_outside zeroed_outside)
  show ?thesis
    using build_thunk_mem [of w code procAddress proxy s1]
  proof
    assume b: "mem_run ?b s1 = (Inr HOOK_COREFAILED, pr_Memory s1)"
    then have "mem_run (InstallHook_at False w procAddress proxy out) s =
        (Inl (Aborted (hook_error_text HOOK_COREFAILED)), zeroed mem code)"
      by (simp add: run mem_run_then [of "ret _"] mem_run_ret mem_run_after finish_install_mem s1)
    then show ?thesis
      by (rule failed) (simp_all add: out)
  next
    assume b: "mem_run ?b s1 = fill_thunk False code (code + 16) procAddress proxy (pr_Memory s1)"
    show ?thesis
    proof (cases "fill_thunk False code (code + 16) procAddress proxy (zeroed mem code)"
        rule: prod.exhaust)
      case (Pair r mem1)
      have out1: "mem1 a = mem a" if "\<not> (code \<noteq> 0 \<and> in_block code 256 a)" for a
        using thunk_out [OF that] Pair by simp
      consider (threw) e where "r = Inl e" | (norelocate) "r = Inr HOOK_NORELOCATE" | (success) "r = Inr HOOK_SUCCESS"
        using Pair by (cases rule: fill_thunk_cases [of code procAddress proxy "zeroed mem code"]) auto
      then show ?thesis
      proof cases
        case threw
        then show ?thesis
          using b run Pair s1 thunk_out False by (intro failed [of e mem1]) auto
      next
        case norelocate
        then have "mem_run (InstallHook_at False w procAddress proxy out) s =
            (Inl (Aborted (hook_error_text HOOK_NORELOCATE)), mem1)"
          using b Pair s1
          by (simp add: run mem_run_then [of "ret _"] mem_run_ret mem_run_after finish_install_mem)
        then show ?thesis
          by (rule failed) (simp_all add: out1)
      next
        case success
        then have next_: "mem_run (InstallHook_at False w procAddress proxy out) s =
            mem_run (and_then (redirect False w code procAddress out) (finish_install w code)) (snd (?b s1))"
          and m: "pr_Memory (snd (?b s1)) = mem1"
          using b Pair s1 by (simp_all add: run mem_run_after)
        show ?thesis
          using redirect_mem [of w code procAddress out "snd (?b s1)"]
        proof
          assume "mem_run (redirect False w code procAddress out) (snd (?b s1)) =
            (Inr HOOK_NOREDIRECT, pr_Memory (snd (?b s1)))"
          then have "mem_run (InstallHook_at False w procAddress proxy out) s =
              (Inl (Aborted (hook_error_text HOOK_NOREDIRECT)), mem1)"
            by (simp add: next_ mem_run_then [of "redirect _ _ _ _ _"] finish_install_mem mem_run_after m [unfolded mem_run_after])
          then show ?thesis
            by (rule failed) (simp_all add: out1)
        next
          assume "mem_run (redirect False w code procAddress out) (snd (?b s1)) =
            (Inr HOOK_SUCCESS, redirected (pr_Memory (snd (?b s1))) code procAddress out)"
          then have "mem_run (InstallHook_at False w procAddress proxy out) s =
              (Inr HOOK_SUCCESS, redirected mem1 code procAddress out)"
            by (simp add: next_ mem_run_then [of "redirect _ _ _ _ _"] finish_install_mem mem_run_after m [unfolded mem_run_after])
          then show ?thesis
            using False Pair success by (intro installed) auto
        qed
      qed
    qed
  qed
qed

end
