(* ===== verification/CodeHook_Properties.thy ===== *)
theory CodeHook_Properties
  imports CodeHook_Install
begin

text \<open>
  The properties of the code patcher, each with a concrete instance. The sample function
  used by the instances starts with \<open>lea ecx, [esp+4]; and esp, -16\<close> at address \<open>0x1000\<close>: seven
  bytes, where a hook needs six.
\<close>

section \<open>Sample code\<close>

definition prologue :: memory where
  "prologue = (\<lambda>_. 0x90)(0x1000 := 0x8d, 0x1001 := 0x4c, 0x1002 := 0x24, 0x1003 := 0x04,
     0x1004 := 0x83, 0x1005 := 0xe4, 0x1006 := 0xf0)"

fun decode_all :: "memory \<Rightarrow> nat \<Rightarrow> ptr \<Rightarrow> Instruction list" where
  "decode_all mem 0 it = []"
| "decode_all mem (Suc n) it = (case Decode False mem new_Instruction it of
     Inr (result, it1, i) \<Rightarrow> if result then i # decode_all mem n it1 else []
   | Inl e \<Rightarrow> [])"

lemma prologue_decodes:
  "decodes prologue 0x1000 (decode_all prologue 2 0x1000) 0x1007"
  by code_simp

lemma prologue_enough:
  "just_enough 6 0 (decode_all prologue 2 0x1000) \<and> total_size (decode_all prologue 2 0x1000) = 7"
  by code_simp

section \<open>RelocateCode\<close>

lemma decodes_unique:
  assumes "decodes mem it is it1" and "decodes mem it js it2"
    and "just_enough least k is" and "just_enough least k js"
  shows "is = js"
  using assms
proof (induction "is" arbitrary: it js k)
  case Nil
  then show ?case by (cases js) auto
next
  case (Cons i "is")
  then show ?case by (cases js) (auto split: sum.splits)
qed

lemma just_enough_total: "just_enough least k is \<Longrightarrow> least \<le> k + total_size is"
  by (induction least k "is" rule: just_enough.induct) auto

lemma moved_unique: "moved a is js \<Longrightarrow> moved a is ks \<Longrightarrow> js = ks"
proof (induction a "is" js arbitrary: ks rule: moved.induct)
  case (3 a i "is" j js)
  then show ?case by (cases ks) auto
qed auto

text \<open>What a successful run is, as one predicate, and the direction from the run to it.\<close>

definition relocation ::
    "memory \<Rightarrow> ptr \<Rightarrow> ptr \<Rightarrow> uint64 \<Rightarrow> uint64 \<Rightarrow> uint32 \<Rightarrow> Instruction list \<Rightarrow> Instruction list \<Rightarrow> bool" where
  "relocation mem dst src minCodeBytes maxBufferSize n is js =
     (decodes mem src is (src + n) \<and> just_enough (unat minCodeBytes) 0 is \<and>
      total_size is = unat n \<and> unat n < unat maxBufferSize \<and> moved (getAddress dst) is js)"

lemma RelocateCode_result:
  assumes "apart src dst (unat minCodeBytes)" and "unat minCodeBytes < 2 ^ 31" and "minCodeBytes \<noteq> 0"
    and "RelocateCode False dst src minCodeBytes maxBufferSize mem = (Inr (Some n), mem')" and "n \<noteq> 0"
  shows "\<exists>is js. relocation mem dst src minCodeBytes maxBufferSize n is js \<and>
    mem' = write_bytes mem dst (concat (map code_bytes js))"
proof -
  have fuel: "unat minCodeBytes \<le> unat (0 :: uint32) + unat minCodeBytes"
    and agree: "agree mem mem src (unat minCodeBytes - unat (0 :: uint32) + 40)"
    and ap: "apart src dst (unat minCodeBytes - unat (0 :: uint32))"
    using assms(1) by (simp_all add: agree_def)
  obtain "is" js l where l: "n = 0 + of_nat l" "unat n = unat (0 :: uint32) + l"
    and f: "decodes mem src is (src + of_nat l)" "moved (getAddress dst) is js"
      "mem' = write_bytes mem dst (concat (map code_bytes js))"
      "just_enough (unat minCodeBytes) (unat (0 :: uint32)) is" "total_size is = l"
      "is = [] \<or> unat (0 :: uint32) + l < unat maxBufferSize"
    using relocate_loop_copies [OF fuel assms(2) agree ap assms(4) [unfolded RelocateCode_def] assms(5)]
    by metis
  have "is \<noteq> []"
    using f(4) assms(3) by (auto simp: unat_eq_zero)
  with l f show ?thesis
    by (intro exI [of _ "is"] exI [of _ js]) (simp add: relocation_def)
qed

lemma RelocateCode_success:
  assumes "apart src dst (unat minCodeBytes)" and "unat minCodeBytes < 2 ^ 31"
    and "relocation mem0 dst src minCodeBytes maxBufferSize n is js"
    and "agree mem0 mem src (unat minCodeBytes + 40)"
  shows "fst (RelocateCode False dst src minCodeBytes maxBufferSize mem) = Inr (Some n)"
proof -
  have "fst (RelocateCode False dst src minCodeBytes maxBufferSize mem) =
      Inr (Some (0 + of_nat (total_size is)))"
    unfolding RelocateCode_def using assms
    by (intro relocate_loop_succeeds [of _ _ _ mem0]) (auto simp: relocation_def)
  then show ?thesis
    using assms(3) by (simp add: relocation_def)
qed

text \<open>
  C27. \<open>RelocateCode\<close> refines a description without a loop: it returns the size \<open>n\<close> (not 0)
  and leaves the memory \<open>mem'\<close> exactly when the original code starts with whole
  instructions \<open>is\<close> that reach the minimum with the last one, together \<open>n\<close> bytes and below
  the buffer size, and \<open>mem'\<close> is the old memory with these instructions, each moved to its
  new address, written one after the other at the destination. Asked of the caller: the
  code read (40 bytes past the minimum, the decoder's window) and the block written do not
  overlap.
\<close>

theorem RelocateCode_refines:
  assumes "apart src dst (unat minCodeBytes)" and "unat minCodeBytes < 2 ^ 31" and "minCodeBytes \<noteq> 0"
  shows "RelocateCode False dst src minCodeBytes maxBufferSize mem = (Inr (Some n), mem') \<and> n \<noteq> 0 \<longleftrightarrow>
    (\<exists>is js. relocation mem dst src minCodeBytes maxBufferSize n is js \<and>
       mem' = write_bytes mem dst (concat (map code_bytes js)))"
proof
  assume "RelocateCode False dst src minCodeBytes maxBufferSize mem = (Inr (Some n), mem') \<and> n \<noteq> 0"
  then show "\<exists>is js. relocation mem dst src minCodeBytes maxBufferSize n is js \<and>
       mem' = write_bytes mem dst (concat (map code_bytes js))"
    using RelocateCode_result [OF assms] by blast
next
  let ?r = "RelocateCode False dst src minCodeBytes maxBufferSize mem"
  assume "\<exists>is js. relocation mem dst src minCodeBytes maxBufferSize n is js \<and>
       mem' = write_bytes mem dst (concat (map code_bytes js))"
  then obtain "is" js where f: "relocation mem dst src minCodeBytes maxBufferSize n is js"
    and mem': "mem' = write_bytes mem dst (concat (map code_bytes js))"
    by blast
  have "fst ?r = Inr (Some n)"
    by (rule RelocateCode_success [OF assms(1,2) f]) (simp add: agree_def)
  then have r: "?r = (Inr (Some n), snd ?r)"
    by (simp add: prod_eq_iff)
  have n: "n \<noteq> 0"
    using f assms(3) just_enough_total [of "unat minCodeBytes" 0 "is"]
    by (auto simp: relocation_def unat_eq_zero)
  obtain is2 js2 where g: "relocation mem dst src minCodeBytes maxBufferSize n is2 js2"
      "snd ?r = write_bytes mem dst (concat (map code_bytes js2))"
    using RelocateCode_result [OF assms r n] by blast
  have "is2 = is"
    using f g(1) unfolding relocation_def by (blast intro: decodes_unique)
  then have "js2 = js"
    using f g(1) moved_unique unfolding relocation_def by blast
  then show "?r = (Inr (Some n), mem') \<and> n \<noteq> 0"
    using r g(2) mem' n by simp
qed

lemma apart_blocks:
  assumes "unat (dst - src) = d" and "n + 40 \<le> d" and "d + n + 15 \<le> 2 ^ 32"
  shows "apart src dst n"
  unfolding apart_def
proof (intro allI impI)
  fix i k
  assume i: "i < n + 40" and k: "k < n + 15"
  show "src + of_nat i \<noteq> dst + of_nat k"
  proof
    assume "src + of_nat i = dst + of_nat k"
    then have "of_nat i = (dst - src) + of_nat k"
      by (simp add: algebra_simps)
    moreover have "dst - src = of_nat (unat (dst - src))"
      by simp
    ultimately have "(of_nat i :: ptr) = of_nat (d + k)"
      unfolding assms(1) by simp
    then have "unat (of_nat i :: ptr) = unat (of_nat (d + k) :: ptr)"
      by simp
    with i k assms(2,3) show False
      unfolding unat_of_nat by simp
  qed
qed

text \<open>Seven bytes of the sample are moved to \<open>0x20010\<close>, for a minimum of six.\<close>

lemma apart_prologue: "apart 0x1000 0x20010 6"
  by (rule apart_blocks [of _ _ "0x1f010"]) simp_all

definition moved_all :: "uint64 \<Rightarrow> Instruction list \<Rightarrow> Instruction list" where
  "moved_all a is = map (\<lambda>(i, b). case Relocate False b i of Inr j \<Rightarrow> j | Inl e \<Rightarrow> i)
     (zip is (map (\<lambda>n. a + of_nat (total_size (take n is))) [0..<length is]))"

lemma prologue_relocation:
  "relocation prologue 0x20010 0x1000 6 256 7 (decode_all prologue 2 0x1000)
     (moved_all (getAddress 0x20010) (decode_all prologue 2 0x1000))"
  by code_simp

theorem RelocateCode_refines_witness:
  "RelocateCode False 0x20010 0x1000 6 256 prologue =
     (Inr (Some 7), write_bytes prologue 0x20010
        (concat (map code_bytes (moved_all (getAddress 0x20010) (decode_all prologue 2 0x1000)))))"
  using RelocateCode_refines [of "0x1000" "0x20010" 6 256 prologue 7] apart_prologue
    prologue_relocation by auto

section \<open>InstallHook\<close>

text \<open>
  A hooked function: its first six bytes are an indirect jump through the first word of the
  thunk, that word is the proxy, the caller's variable holds the address of the thunk's
  code, and the thunk is ready. It is a description of these three blocks; that the rest of
  memory keeps its bytes is the second part of C28.
\<close>

definition hooked :: "memory \<Rightarrow> memory \<Rightarrow> ptr \<Rightarrow> ptr \<Rightarrow> ptr \<Rightarrow> ptr \<Rightarrow> bool" where
  "hooked mem0 mem code procAddress proxy out =
     (bytes_at mem procAddress 6 = 0xff # 0x25 # u32_bytes code \<and>
      NextI32 mem code = Inr (proxy, code + 4) \<and>
      NextI32 mem out = Inr (code + 16, out + 4) \<and>
      (\<exists>n is js. thunk_ready mem0 mem code procAddress proxy n is js))"

text \<open>Where the three blocks \<open>InstallHook\<close> writes have to lie.\<close>

definition hook_layout :: "ptr \<Rightarrow> ptr \<Rightarrow> ptr \<Rightarrow> bool" where
  "hook_layout code procAddress out =
     (out \<noteq> 0 \<and> clear_of_thunk code procAddress \<and>
      (\<forall>i < 4. \<not> in_block code 256 (out + of_nat i) \<and> \<not> in_block procAddress 6 (out + of_nat i)))"

lemma not_in_two_blocks:
  assumes "\<And>i. i < n \<Longrightarrow> \<not> in_block code 256 (p + of_nat i)" and "in_block code 256 a"
  shows "\<not> in_block p n a"
proof
  assume "in_block p n a"
  then have "\<not> in_block code 256 (p + of_nat (unat (a - p)))"
    by (intro assms(1)) (simp add: in_block_def)
  moreover have "p + of_nat (unat (a - p)) = a"
    by simp
  ultimately show False
    using assms(2) by metis
qed

lemma redirected_hooked:
  assumes "fill_thunk False code (code + 16) procAddress proxy mem = (Inr HOOK_SUCCESS, mem1)"
    and "agree mem0 mem procAddress 46" and "hook_layout code procAddress out" and "code \<noteq> 0"
  shows "hooked mem0 (redirected mem1 code procAddress out) code procAddress proxy out"
proof -
  let ?mem = "redirected mem1 code procAddress out"
  have layout: "clear_of_thunk code procAddress" "out \<noteq> 0"
    "\<And>i. i < 4 \<Longrightarrow> \<not> in_block code 256 (out + of_nat i) \<and> \<not> in_block procAddress 6 (out + of_nat i)"
    using assms(3) by (auto simp: hook_layout_def)
  obtain n "is" js where ready: "thunk_ready mem0 mem1 code procAddress proxy n is js"
    using fill_thunk_ready [OF assms(1,2) layout(1)] by blast
  have keep: "?mem a = mem1 a" if "in_block code 256 a" for a
    using not_in_two_blocks [of 6 code procAddress a] not_in_two_blocks [of 4 code out a] layout that
    by (simp add: redirected_def write_bytes_outside clear_of_thunk_def del: write_bytes.simps)
  have block: "bytes_at ?mem (code + of_nat k) m = bytes_at mem1 (code + of_nat k) m" if "k + m \<le> 256" for k m
  proof (rule nth_equalityI)
    fix i
    assume "i < length (bytes_at ?mem (code + of_nat k) m)"
    then have "in_block (code + of_nat 0) 256 (code + of_nat (k + i))"
      using that by (subst in_block_offsets) simp_all
    then show "bytes_at ?mem (code + of_nat k) m ! i = bytes_at mem1 (code + of_nat k) m ! i"
      using keep \<open>i < length _\<close> by (simp add: nth_bytes_at add.assoc)
  qed simp
  have "bytes_at ?mem code 8 = u32_bytes proxy @ u32_bytes (code + 16)"
    using block [of 0 8] ready by (simp add: thunk_ready_def del: bytes_at.simps)
  then have "bytes_at ?mem code 4 = u32_bytes proxy"
    using bytes_at_prefix [of 4 8 ?mem code] by (simp del: bytes_at.simps)
  moreover have "bytes_at ?mem out 4 = u32_bytes (code + 16)"
  proof -
    have "bytes_at ?mem out 4 = bytes_at (write_bytes mem1 out (u32_bytes (code + 16))) out 4"
      unfolding redirected_def using layout(3) by (intro bytes_at_other) simp
    also have "\<dots> = u32_bytes (code + 16)"
      using bytes_at_write_bytes [of "u32_bytes (code + 16)" mem1 out] by (simp del: bytes_at.simps)
    finally show ?thesis .
  qed
  moreover have "bytes_at ?mem procAddress 6 = 0xff # 0x25 # u32_bytes code"
    using bytes_at_write_bytes [of "0xff # 0x25 # u32_bytes code" "write_bytes mem1 out (u32_bytes (code + 16))" procAddress]
    by (simp add: redirected_def del: bytes_at.simps write_bytes.simps)
  moreover have "thunk_ready mem0 ?mem code procAddress proxy n is js"
    using ready block [of 0 8] block [of 16 "n + 5"] by (simp add: thunk_ready_def del: bytes_at.simps)
  ultimately show ?thesis
    using assms(4) layout(2) unfolding hooked_def by (blast intro: NextI32_u32_bytes)
qed

text \<open>
  C28. When \<open>InstallHook\<close> of a release build returns success, the function is hooked: its
  first six bytes are \<open>jmp [thunk]\<close>, the thunk's first word is the proxy function, the
  variable of the caller holds the address of the thunk's code, and that code is the
  original's first whole instructions (six to twenty bytes), each moved to its new address,
  followed by a jump to the byte of the original after them. Every byte of memory outside the
  256 of the thunk, the six of the function and the four of the variable is as it was. Asked
  of the environment: the allocated thunk, the start of the function and the caller's
  variable do not overlap.
\<close>

theorem InstallHook_installs:
  assumes "fst (InstallHook_at False w procAddress proxy out s) = Inr HOOK_SUCCESS"
    and "hook_layout (thunk_address w s) procAddress out"
  shows "hooked (pr_Memory s) (pr_Memory (snd (InstallHook_at False w procAddress proxy out s)))
      (thunk_address w s) procAddress proxy out \<and>
    {a. pr_Memory (snd (InstallHook_at False w procAddress proxy out s)) a \<noteq> pr_Memory s a}
      \<subseteq> {a. in_block (thunk_address w s) 256 a \<or> in_block procAddress 6 a \<or> in_block out 4 a}"
proof (cases rule: InstallHook_at_cases [where w = w and s = s and procAddress = procAddress
      and proxy = proxy and out = out, case_names failed installed])
  case (failed e mem')
  then show ?thesis
    using assms(1) by (simp add: mem_run_def)
next
  case (installed mem1)
  have "clear_of_thunk (thunk_address w s) procAddress"
    using assms(2) by (simp add: hook_layout_def)
  then have "agree (pr_Memory s) (zeroed (pr_Memory s) (thunk_address w s)) procAddress 46"
    by (simp add: agree_def clear_of_thunk_def zeroed_outside)
  from redirected_hooked [OF installed(2) this assms(2) installed(1)]
  have "hooked (pr_Memory s) (redirected mem1 (thunk_address w s) procAddress out)
      (thunk_address w s) procAddress proxy out" .
  moreover have "redirected mem1 (thunk_address w s) procAddress out a = pr_Memory s a"
    if "\<not> in_block (thunk_address w s) 256 a" "\<not> in_block procAddress 6 a" "\<not> in_block out 4 a" for a
    using fill_thunk_outside [OF that(1), of procAddress proxy "zeroed (pr_Memory s) (thunk_address w s)"]
      installed(2) that
    by (simp add: redirected_def write_bytes_outside zeroed_outside del: write_bytes.simps)
  ultimately show ?thesis
    using installed(3) by (auto simp: mem_run_def)
qed

text \<open>The instance: an environment in which every call succeeds.\<close>

definition sample_api :: "unit win32" where
  "sample_api = \<lparr>w_GetModuleHandleA = \<lambda>_ os. (0x400000, os), w_GetProcAddress = \<lambda>_ _ os. (0x1000, os),
     w_VirtualAlloc = \<lambda>_ _ _ _ os. (0x20000, os),
     w_VirtualQuery = \<lambda>p os. (Some \<lparr>mbi_BaseAddress = p, mbi_RegionSize = 0x1000, mbi_Protect = 0x20\<rparr>, os),
     w_VirtualProtect = \<lambda>_ _ _ os. ((True, 0x20), os)\<rparr>"

definition sample_process :: "unit process" where
  "sample_process = \<lparr>pr_Memory = prologue, pr_Os = ()\<rparr>"

lemma clear_blocks:
  assumes "unat (code - p) = d" and "n \<le> d" and "d + 256 \<le> 2 ^ 32" and "i < n"
  shows "\<not> in_block code 256 (p + of_nat i)"
proof -
  have "p + of_nat i - code = of_nat i - of_nat (unat (code - p))"
    by simp
  also have "\<dots> = - of_nat (d - i)"
    using assms by (simp add: of_nat_diff)
  also have "\<dots> = of_nat (2 ^ 32 - (d - i))"
    using assms by (subst of_nat_diff) simp_all
  finally have e: "p + of_nat i - code = of_nat (2 ^ 32 - (d - i))" .
  show ?thesis
    unfolding in_block_def e unat_of_nat using assms by simp
qed

lemma sample_layout: "hook_layout 0x20000 0x1000 0x3000"
proof -
  have "\<not> in_block 0x1000 6 (0x3000 + of_nat i)" if "i < 4" for i
    using in_block_offsets [of "0x2000 + i" 0 6 "0x1000"] that by simp
  then show ?thesis
    using clear_blocks [of "0x20000" "0x1000" "0x1f000" 46] clear_blocks [of "0x20000" "0x3000" "0x1d000" 4]
    by (simp add: hook_layout_def clear_of_thunk_def)
qed

lemma sample_thunk:
  "fst (fill_thunk False 0x20000 (0x20000 + 16) 0x1000 proxy (zeroed prologue 0x20000)) = Inr HOOK_SUCCESS"
proof -
  have "fst (RelocateCode False 0x20010 0x1000 6 256 (thunk_head (zeroed prologue 0x20000) 0x20000 proxy)) =
      Inr (Some 7)"
    using clear_blocks [of "0x20000" "0x1000" "0x1f000" 46] apart_prologue prologue_relocation
    by (intro RelocateCode_success [of _ _ _ prologue])
      (auto simp: agree_def thunk_head_outside zeroed_outside)
  then show ?thesis
    by (cases "RelocateCode False 0x20010 0x1000 6 256 (thunk_head (zeroed prologue 0x20000) 0x20000 proxy)")
      (simp add: fill_thunk_def and_then_def put_u32_run
        head_bytes [where code = "0x20000", simplified] thunk_head_def THUNK_BUFFER_SIZE_def
        Jump_run ret_def)
qed

lemma sample_install:
  "fst (InstallHook_at False sample_api 0x1000 proxy 0x3000 sample_process) = Inr HOOK_SUCCESS"
proof -
  obtain mem1 where f: "fill_thunk False 0x20000 0x20010 0x1000 proxy (zeroed prologue 0x20000) =
      (Inr HOOK_SUCCESS, mem1)"
    using sample_thunk [of proxy] by (simp add: prod_eq_iff)
  then show ?thesis
    by (simp add: InstallHook_at_def and_then_def api_def sample_api_def sample_process_def in_memory_def
        zoom_def fill_zero_run build_thunk_def redirect_def new_MemoryBlock_def MemoryBlock_Lock_def
        MemoryBlock_destroy_def MemoryBlock_Unlock_def scoped_def lift_res_def ret_def put_u32_run
        JumpIndirect_run finish_install_def zeroed_def del: write_bytes.simps bytes_at.simps)
qed

theorem InstallHook_installs_witness:
  "hooked prologue (pr_Memory (snd (InstallHook_at False sample_api 0x1000 0x5000 0x3000 sample_process)))
     0x20000 0x1000 0x5000 0x3000 \<and>
   pr_Memory (snd (InstallHook_at False sample_api 0x1000 0x5000 0x3000 sample_process)) 0x1006 = 0xf0"
proof -
  let ?mem = "pr_Memory (snd (InstallHook_at False sample_api 0x1000 0x5000 0x3000 sample_process))"
  have s: "thunk_address sample_api sample_process = 0x20000" "pr_Memory sample_process = prologue"
    by (simp_all add: thunk_address_def sample_api_def sample_process_def)
  have i: "hooked prologue ?mem 0x20000 0x1000 0x5000 0x3000 \<and>
    {a. ?mem a \<noteq> prologue a} \<subseteq> {a. in_block 0x20000 256 a \<or> in_block 0x1000 6 a \<or> in_block 0x3000 4 a}"
    using InstallHook_installs [of sample_api "0x1000" "0x5000" "0x3000" sample_process]
      sample_install sample_layout s by simp
  have "\<not> (in_block 0x20000 256 0x1006 \<or> in_block 0x1000 6 0x1006 \<or> in_block 0x3000 4 0x1006)"
    by (simp add: in_block_def)
  then have "?mem 0x1006 = prologue 0x1006"
    using conjunct2 [OF i] by blast
  with conjunct1 [OF i] show ?thesis
    by (simp add: prologue_def)
qed

text \<open>
  C29. \<open>InstallHook\<close> of a release build is all or nothing: given a function's address it
  returns success, or it does not return (the process ends with a message, or an exception
  leaves it), never another status; and when it does not return, no byte outside the thunk it
  allocated has changed, so that the function and the caller's variable are as before. The
  one case about which nothing is promised is the array overrun of C33: the model stops there
  with \<open>Undefined\<close>, the program runs on; it is reached only when, after fewer than six bytes
  of whole instructions, five prefix bytes stand in a row in the function's own code. Asked
  of the environment: the allocated thunk keeps clear of the function's first 46 bytes.
\<close>

theorem InstallHook_all_or_nothing:
  assumes "clear_of_thunk (thunk_address w s) procAddress"
  shows "case fst (InstallHook_at False w procAddress proxy out s) of
      Inr status \<Rightarrow> status = HOOK_SUCCESS
    | Inl e \<Rightarrow>
        if is_undefined e then overrun (pr_Memory s) procAddress 6
        else {a. pr_Memory (snd (InstallHook_at False w procAddress proxy out s)) a \<noteq> pr_Memory s a}
          \<subseteq> {a. thunk_address w s \<noteq> 0 \<and> in_block (thunk_address w s) 256 a}"
proof (cases rule: InstallHook_at_cases [where w = w and s = s and procAddress = procAddress
      and proxy = proxy and out = out, case_names failed installed])
  case (failed e mem')
  have "agree (pr_Memory s) (zeroed (pr_Memory s) (thunk_address w s)) procAddress 46"
    using assms by (simp add: agree_def clear_of_thunk_def zeroed_outside)
  then have "overrun (pr_Memory s) procAddress 6" if "is_undefined e"
    using that failed(3) fill_thunk_undefined [OF _ _ assms] by (cases e) auto
  with failed(1,2) show ?thesis
    by (auto simp: mem_run_def)
next
  case (installed mem1)
  then show ?thesis
    by (simp add: mem_run_def)
qed

text \<open>The instance: no memory is left for the thunk, so that the process ends and nothing changes.\<close>

theorem InstallHook_all_or_nothing_witness:
  "pr_Memory (snd (InstallHook_at False (sample_api\<lparr>w_VirtualAlloc := \<lambda>_ _ _ _ os. (0, os)\<rparr>)
     0x1000 0x5000 0x3000 sample_process)) = prologue"
proof -
  let ?api = "sample_api\<lparr>w_VirtualAlloc := \<lambda>_ _ _ _ os. (0, os)\<rparr>"
  have address: "thunk_address ?api sample_process = 0"
    by (simp add: thunk_address_def)
  have "clear_of_thunk 0 0x1000"
  proof -
    have "\<not> in_block 0 256 (0x1000 + of_nat i)" if "i < 46" for i
      using in_block_offsets [of "0x1000 + i" 0 256 0] that by simp
    then show ?thesis
      by (simp add: clear_of_thunk_def)
  qed
  moreover have "fst (InstallHook_at False ?api 0x1000 0x5000 0x3000 sample_process) =
      Inl (Aborted (hook_error_text HOOK_OUTOFMEMORY))"
    by (simp add: InstallHook_at_def and_then_def api_def HookError_def throw_def)
  ultimately show ?thesis
    using InstallHook_all_or_nothing [of ?api sample_process "0x1000" "0x5000" "0x3000"] address
    by (auto simp: sample_process_def)
qed

section \<open>Termination of RelocateCode\<close>

text \<open>
  C30. \<open>RelocateCode\<close> terminates on every memory, within one turn of its loop for each byte
  of the minimum (which is below 2 GB): the result is never that the bound ran out. What it
  wrote, on success or not, is one run of bytes from the destination, shorter than the
  buffer and less than 15 bytes longer than the minimum; an exception is one a decode threw.
\<close>

theorem RelocateCode_terminates:
  assumes "unat minCodeBytes < 2 ^ 31"
  shows "\<exists>bs. wrote mem dst 0 minCodeBytes maxBufferSize
    (RelocateCode False dst src minCodeBytes maxBufferSize mem) bs"
  unfolding RelocateCode_def by (rule relocate_loop_wrote) (use assms in simp_all)

theorem RelocateCode_terminates_witness:
  "\<exists>bs. wrote prologue 0x20010 0 6 256 (RelocateCode False 0x20010 0x1000 6 256 prologue) bs"
  by (rule RelocateCode_terminates) simp

section \<open>One instruction\<close>

text \<open>
  C31. Decode and emit are inverse: an instruction that was decoded from \<open>it\<close> to \<open>it'\<close> is
  emitted, anywhere, as exactly the bytes it was decoded from; it has one to fifteen bytes,
  and its recorded size, as a 32-bit number, is the distance the iterator moved.
\<close>

theorem decode_emit_roundtrip:
  assumes "Decode dbg mem new_Instruction it = Inr (True, it', inst)"
  shows "Emit False inst p mem2 =
      (Inr (p + (it' - it)), write_bytes mem2 p (bytes_at mem it (unat (it' - it)))) \<and>
    1 \<le> unat (it' - it) \<and> unat (it' - it) \<le> 15 \<and> ucast (in_CodeSize inst) = it' - it"
proof -
  have d: "decoded mem it it' inst"
    using Decode_returned [OF assms] by simp
  have "it' - it = of_nat (length (code_bytes inst))"
    and "bytes_at mem it (length (code_bytes inst)) = code_bytes inst"
    using d by (auto simp: decoded_def consumes_def)
  then show ?thesis
    using decoded_size [OF d] d by (simp add: Emit_writes decoded_def)
qed

theorem decode_emit_roundtrip_witness:
  "Emit False (hd (decode_all prologue 2 0x1000)) 0x2000 prologue =
     (Inr (0x2000 + 4), write_bytes prologue 0x2000 (bytes_at prologue 0x1000 4))"
proof -
  have "Decode False prologue new_Instruction 0x1000 =
      Inr (True, 0x1004, hd (decode_all prologue 2 0x1000))"
    by code_simp
  from decode_emit_roundtrip [OF this, of "0x2000" prologue] show ?thesis
    by (simp del: bytes_at.simps write_bytes.simps)
qed

text \<open>
  C32. Moving an instruction keeps what its branches point to: a relative operand of four
  bytes has the same target at the new address, and one of a single byte has the same target
  exactly when that target is within a signed byte of the end of the moved instruction. (The
  code does not check the range; the other case redirects the branch. In the rows of the
  tables a relative operand is always the first source, of one of these sizes: C35.)
\<close>

theorem Relocate_branch_target:
  assumes "Relocate dbg address inst = Inr inst'" and "IsRelative (op_Type (in_OperandSrc1 inst))"
    and "branch_target inst (in_OperandSrc1 inst) = Some target"
    and "op_Size (in_OperandSrc1 inst) = 4 \<or> op_Size (in_OperandSrc1 inst) = 1"
  shows "branch_target inst' (in_OperandSrc1 inst') = Some target \<longleftrightarrow>
    op_Size (in_OperandSrc1 inst) = 4 \<or>
    in_short_range (target - ucast (address + in_CodeSize inst))"
proof -
  have r: "relocate_operand dbg inst address (in_OperandSrc1 inst) = Inr (in_OperandSrc1 inst')"
    and i: "in_CodeSize inst' = in_CodeSize inst" "in_Address inst' = address"
    using assms(1) by (auto simp: Relocate_def bind_res_Inr_iff)
  show ?thesis
  proof (cases "op_Size (in_OperandSrc1 inst) = 4")
    case True
    with relocate_operand_near [OF assms(2) True r i] assms(3) show ?thesis
      by simp
  next
    case False
    with assms(4) relocate_operand_short [OF assms(2) _ r i assms(3)] show ?thesis
      by simp
  qed
qed

text \<open>The short branch \<open>loop +2\<close> at \<open>0x1000\<close>, moved by 16 bytes and out of range.\<close>

definition short_branch :: Instruction where
  "short_branch = hd (decode_all ((\<lambda>_. 0x90)(0x1000 := 0xe2, 0x1001 := 0x02)) 1 0x1000)"

definition moved_to :: "uint64 \<Rightarrow> Instruction \<Rightarrow> Instruction" where
  "moved_to a i = (case Relocate False a i of Inr j \<Rightarrow> j | Inl e \<Rightarrow> i)"

theorem Relocate_branch_target_witness:
  "branch_target (moved_to 0x1010 short_branch) (in_OperandSrc1 (moved_to 0x1010 short_branch)) = Some 0x1004 \<and>
   branch_target (moved_to 0x2000 short_branch) (in_OperandSrc1 (moved_to 0x2000 short_branch)) \<noteq> Some 0x1004"
proof -
  have 1: "Relocate False 0x1010 short_branch = Inr (moved_to 0x1010 short_branch)"
    and 2: "Relocate False 0x2000 short_branch = Inr (moved_to 0x2000 short_branch)"
    and 3: "IsRelative (op_Type (in_OperandSrc1 short_branch))"
    and 4: "branch_target short_branch (in_OperandSrc1 short_branch) = Some 0x1004"
    and 5: "op_Size (in_OperandSrc1 short_branch) = 1"
    and 6: "in_short_range (0x1004 - ucast (0x1010 + in_CodeSize short_branch))"
    and 7: "\<not> in_short_range (0x1004 - ucast (0x2000 + in_CodeSize short_branch))"
    by code_simp+
  from Relocate_branch_target [OF 1 3 4] Relocate_branch_target [OF 2 3 4] 5 6 7 show ?thesis
    by simp
qed

text \<open>
  C33. \<open>Decode\<close> writes past the four bytes of \<open>m_PrefixBytes\<close> exactly when five prefix bytes
  stand in a row at the iterator (an instruction may legally have more than four), in a debug
  and in a release build; and its search never walks past the row that ends a table, the
  other access the model checks for being out of bounds. (Not a claim that nothing else in
  \<open>Decode\<close> is undefined by the standard: the bit-fields of a postbyte, whose union is marked
  as such in \<open>cpu_PostByte.h\<close>, are read as the compilers of the project lay them out.)
\<close>

theorem Decode_prefix_overrun:
  "(Decode dbg mem inst it = Inl (Undefined ''m_PrefixBytes'') \<longleftrightarrow> prefix_run mem it 5) \<and>
   Decode dbg mem inst it \<noteq> Inl (Undefined ''past the table'')"
  using Decode_overrun [of dbg mem inst it] Decode_undefined [of dbg mem inst it] by auto

text \<open>
  C34. Debug and release builds decode alike, but for one thing: at an instruction that is
  taken for one of the two one-operand rows of \<open>IMUL\<close> (\<open>F6 /5\<close> and \<open>F7 /5\<close>, which name a
  register beside a ModRM operand), once its postbytes and displacement are read, the debug
  build ends the process with a failed assertion, and does so nowhere else.
\<close>

theorem Decode_debug_release:
  "Decode True mem new_Instruction it =
   (if takes_imul_row mem it then Inl (Aborted ''explicit register'')
    else Decode False mem new_Instruction it)"
  by (rule Decode_debug)

section \<open>The tables\<close>

text \<open>
  C35. A decoded instruction is well typed, as the start-up check of a debug build
  (\<open>CheckOpcodes\<close>, which passes on the tables) asks of the row it was decoded from: it has a
  row; its three operands have the row's types and, each, the number of code bytes of that
  type; there is a ModRM byte exactly when one of them is a ModRM operand; the destination and
  the second source are never relative, and a relative first source has one or four bytes, so
  that C32 covers every branch \<open>Relocate\<close> moves.
\<close>

theorem Decode_typed:
  assumes "Decode dbg mem new_Instruction it = Inr (True, it', inst)"
  shows "\<exists>info \<in> set all_rows. in_Info inst = Some info \<and> row_check info \<and>
    map op_Type [in_OperandDst inst, in_OperandSrc1 inst, in_OperandSrc2 inst] =
      [oi_OperandTypeDst info, oi_OperandTypeSrc1 info, oi_OperandTypeSrc2 info] \<and>
    (\<forall>x \<in> {in_OperandDst inst, in_OperandSrc1 inst, in_OperandSrc2 inst}.
       op_Size x = coded_size (op_Type x)) \<and>
    (GetHasModRM (in_Postbyte inst) \<longleftrightarrow>
       IsModRM (op_Type (in_OperandDst inst)) \<or> IsModRM (op_Type (in_OperandSrc1 inst)) \<or>
       IsModRM (op_Type (in_OperandSrc2 inst))) \<and>
    \<not> IsRelative (op_Type (in_OperandDst inst)) \<and> \<not> IsRelative (op_Type (in_OperandSrc2 inst)) \<and>
    (IsRelative (op_Type (in_OperandSrc1 inst)) \<longrightarrow> op_Size (in_OperandSrc1 inst) \<in> {1, 4})"
proof -
  obtain info where info: "info \<in> set all_rows" "in_Info inst = Some info" and
    t: "map (\<lambda>x. (op_Type x, op_Size x)) [in_OperandDst inst, in_OperandSrc1 inst, in_OperandSrc2 inst] =
      map (\<lambda>t. (t, coded_size t)) [oi_OperandTypeDst info, oi_OperandTypeSrc1 info, oi_OperandTypeSrc2 info]"
      "GetHasModRM (in_Postbyte inst) \<longleftrightarrow> oi_Postbyte info \<noteq> PO_NONE"
    using Decode_row [OF assms] by blast
  have row: "row_check info"
    using CheckOpcodes_rows [OF CheckOpcodes_passes] info(1) by (auto simp: list_all_iff)
  moreover have "oi_Postbyte info \<noteq> PO_NONE \<longleftrightarrow> has_modrm_operand info"
    using row by (auto simp: row_check_def)
  moreover have "\<not> IsRelative (oi_OperandTypeDst info)" "\<not> IsRelative (oi_OperandTypeSrc2 info)"
    "IsRelative (oi_OperandTypeSrc1 info) \<Longrightarrow> oi_OperandTypeSrc1 info \<in> {OT_REL, OT_REL8}"
    using rows_relative info(1) by (auto simp: list_all_iff)
  ultimately show ?thesis
    using info t by (intro bexI [OF _ info(1)]) (auto simp: has_modrm_operand_def)
qed

text \<open>The instance: the short branch of C32.\<close>

theorem Decode_typed_witness:
  "op_Size (in_OperandSrc1 short_branch) = 1 \<and> \<not> GetHasModRM (in_Postbyte short_branch)"
proof -
  have d: "Decode False ((\<lambda>_. 0x90)(0x1000 := 0xe2, 0x1001 := 0x02)) new_Instruction 0x1000 =
      Inr (True, 0x1002, short_branch)"
    and t: "op_Type (in_OperandDst short_branch) = OT_NONE"
      "op_Type (in_OperandSrc1 short_branch) = OT_REL8" "op_Type (in_OperandSrc2 short_branch) = OT_NONE"
    by code_simp+
  from Decode_typed [OF d] show ?thesis
    by (auto simp: t IsModRM_def)
qed

text \<open>
  Bytes that start with no prefix and match no row of the searched tables are not
  decoded: the result is false, the iterator does not move, the object is reset.
\<close>

theorem Decode_unknown_opcode:
  assumes "it \<noteq> 0" and "\<not> is_prefix (mem it)" and "\<forall>r \<in> set all_rows. \<not> row_matches mem it r"
  shows "Decode dbg mem inst it = Inr (False, it, Instruction_Reset inst)"
  by (rule Decode_unknown [OF assms])

text \<open>The instance: \<open>adc al, 5\<close>, which has a row in \<open>opcodesTableADC\<close>, a table not searched.\<close>

theorem Decode_unknown_opcode_witness:
  "Decode True ((\<lambda>_. 0x90)(0x1000 := 0x14, 0x1001 := 0x05)) new_Instruction 0x1000 =
     Inr (False, 0x1000, Instruction_Reset new_Instruction) \<and>
   0x14 \<in> oi_Opcode ` set (table_rows opcodesTableADC)"
proof
  show "Decode True ((\<lambda>_. 0x90)(0x1000 := 0x14, 0x1001 := 0x05)) new_Instruction 0x1000 =
     Inr (False, 0x1000, Instruction_Reset new_Instruction)"
    by (rule Decode_unknown_opcode)
      (simp_all add: is_prefix_def prefix_consts all_rows_def table_rows_def row_eval row_matches_def)
  show "0x14 \<in> oi_Opcode ` set (table_rows opcodesTableADC)"
    by (simp add: opcodesTableADC_def table_rows_def row_defs)
qed

end
