(* ===== verification/YIMPatch.thy ===== *)
theory YIMPatch
  imports CodeHook_Hook
begin

text \<open>
  The library loaded into the messenger (\<open>src/YIMPatch\<close>): it overwrites one function by eight
  bytes, and hooks five functions of Windows, so that connections of the messenger go to
  this computer. \<open>Winsock_Hooks.cpp\<close>, \<open>WinINet_Hooks.cpp\<close>, \<open>CreateFile_Hooks.cpp\<close> hold the
  proxies, \<open>CopyPatcha.cpp\<close> the eight bytes, \<open>YIMPatch.cpp\<close> the entry.

  Windows is again a parameter, the record of \<open>CodeHook_Hook\<close> with the functions called here
  in addition. A proxy gets the original function as its argument: the pointer
  \<open>original_...\<close> that \<open>InstallHook\<close> sets. Log output is left out.
\<close>

section \<open>Winsock\<close>

text \<open>
  An address is the bytes behind the pointer \<open>name\<close>, as many as may be read there; the code
  reads sixteen when the family is \<open>AF_INET\<close>, whatever \<open>namelen\<close> says.
\<close>

type_synonym uint16 = "16 word"

definition AF_INET :: uint16 where
  "AF_INET = 2"

definition INADDR_LOOPBACK :: uint32 where
  "INADDR_LOOPBACK = 0x7f000001"

definition sizeof_sockaddr_in :: nat where
  "sizeof_sockaddr_in = 16"

definition sa_family :: "uint8 list \<Rightarrow> uint16" where
  "sa_family name = ucast (le_value (take 2 name))"

definition s_addr :: "uint8 list \<Rightarrow> uint32" where
  "s_addr address = ucast (le_value (take 4 (drop 4 address)))"

definition ntohl :: "uint32 \<Rightarrow> uint32" where
  "ntohl v = ucast (le_value (rev (le_bytes 4 (ucast v))))"

definition proxy_connect ::
    "(uint32 \<Rightarrow> uint8 list \<Rightarrow> int \<Rightarrow> ('s, int) cpp) \<Rightarrow> uint32 \<Rightarrow> uint8 list \<Rightarrow> int \<Rightarrow> ('s, int) cpp" where
  "proxy_connect original_connect s name namelen =
     (if length name < 2 then throw (Undefined ''read past the address'')
      else if AF_INET = sa_family name then
        if length name < sizeof_sockaddr_in then throw (Undefined ''read past the address'')
        else let address = take sizeof_sockaddr_in name;
                 address' =
                   (if INADDR_LOOPBACK \<noteq> ntohl (s_addr address) \<and>
                       address ! 4 = 101 \<and> address ! 5 = 101 \<and> address ! 6 = 101 \<and> address ! 7 = 101
                    then address[4 := 127, 5 := 0, 6 := 0, 7 := 1]
                    else address)
             in original_connect s address' (int sizeof_sockaddr_in)
      else original_connect s name namelen)"

section \<open>WinINet\<close>

text \<open>The arguments of a call; names are strings of characters or of 16-bit words.\<close>

record 'c InternetConnect =
  ic_hInternet :: ptr
  ic_lpszServerName :: "'c list option"
  ic_nServerPort :: uint16
  ic_lpszUserName :: "'c list option"
  ic_lpszPassword :: "'c list option"
  ic_dwService :: uint32
  ic_dwFlags :: uint32
  ic_dwContext :: uint32

definition addresss :: "string list" where
  "addresss = [''insider.msg.yahoo.com'', ''pgq.yahoo.com'', ''chat.yahoo.com'',
     ''calendar.yahoo.com'', ''my.yahoo.com'', ''address.yahoo.com'']"

definition wide :: "string \<Rightarrow> uint16 list" where
  "wide = map (\<lambda>c. of_nat (of_char c))"

definition redirect_to :: "'c list list \<Rightarrow> 'c list \<Rightarrow> 'c InternetConnect \<Rightarrow> 'c InternetConnect" where
  "redirect_to hosts suffix_text call = (case ic_lpszServerName call of
       None \<Rightarrow> call
     | Some lpszServerName \<Rightarrow>
         if lpszServerName \<in> set hosts
         then call\<lparr>ic_lpszServerName := Some (lpszServerName @ suffix_text), ic_nServerPort := 41337\<rparr>
         else call)"

definition proxy_InternetConnectA ::
    "(char InternetConnect \<Rightarrow> ('s, ptr) cpp) \<Rightarrow> char InternetConnect \<Rightarrow> ('s, ptr) cpp" where
  "proxy_InternetConnectA original_InternetConnectA call =
     (if ic_lpszServerName call = None then throw (Undefined ''comparison with a null pointer'')
      else original_InternetConnectA (redirect_to addresss ''.localhost'' call))"

definition proxy_InternetConnectW ::
    "(uint16 InternetConnect \<Rightarrow> ('s, ptr) cpp) \<Rightarrow> uint16 InternetConnect \<Rightarrow> ('s, ptr) cpp" where
  "proxy_InternetConnectW original_InternetConnectW call =
     (if ic_lpszServerName call = None then throw (Undefined ''comparison with a null pointer'')
      else original_InternetConnectW (redirect_to (map wide addresss) (wide ''.localhost'') call))"

section \<open>CreateFile\<close>

record 'c CreateFile =
  cf_lpFileName :: "'c list option"
  cf_dwDesiredAccess :: uint32
  cf_dwShareMode :: uint32
  cf_lpSecurityAttributes :: ptr
  cf_dwCreationDisposition :: uint32
  cf_dwFlagsAndAttributes :: uint32
  cf_hTemplateFile :: ptr

text \<open>The text written before the call takes the name apart, so it must not be null.\<close>

definition proxy_CreateFileA ::
    "(char CreateFile \<Rightarrow> ('s, ptr) cpp) \<Rightarrow> char CreateFile \<Rightarrow> ('s, ptr) cpp" where
  "proxy_CreateFileA original_CreateFileA call =
     (if cf_lpFileName call = None then throw (Undefined ''appending a null pointer'')
      else original_CreateFileA call)"

definition proxy_CreateFileW ::
    "(uint16 CreateFile \<Rightarrow> ('s, ptr) cpp) \<Rightarrow> uint16 CreateFile \<Rightarrow> ('s, ptr) cpp" where
  "proxy_CreateFileW original_CreateFileW call =
     (if cf_lpFileName call = None then throw (Undefined ''appending a null pointer'')
      else original_CreateFileW call)"

section \<open>Windows, and where the library lies\<close>

text \<open>
  \<open>w_VirtualProtect_null\<close> is \<open>VirtualProtect\<close> called with a null pointer for the old protection.
\<close>

record 'os patch_api = "'os win32" +
  w_VirtualProtect_null :: "ptr \<Rightarrow> uint32 \<Rightarrow> uint32 \<Rightarrow> 'os \<Rightarrow> bool \<times> 'os"
  w_GetModuleHandleW :: "string \<Rightarrow> 'os \<Rightarrow> ptr \<times> 'os"
  w_MessageBoxA :: "string \<Rightarrow> string \<Rightarrow> 'os \<Rightarrow> int \<times> 'os"
  w_AllocConsole :: "'os \<Rightarrow> bool \<times> 'os"
  w_SetConsoleTitle :: "string \<Rightarrow> 'os \<Rightarrow> bool \<times> 'os"
  w_freopen :: "string \<Rightarrow> string \<Rightarrow> string \<Rightarrow> 'os \<Rightarrow> ptr \<times> 'os"

record image =
  im_proxy_connect :: ptr
  im_original_connect :: ptr
  im_proxy_CreateFileA :: ptr
  im_original_CreateFileA :: ptr
  im_proxy_CreateFileW :: ptr
  im_original_CreateFileW :: ptr
  im_proxy_InternetConnectA :: ptr
  im_original_InternetConnectA :: ptr
  im_proxy_InternetConnectW :: ptr
  im_original_InternetConnectW :: ptr

section \<open>The flat patch\<close>

primrec copy_bytes :: "uint8 list \<Rightarrow> ptr \<Rightarrow> (memory, ptr) cpp" where
  "copy_bytes [] p = ret p"
| "copy_bytes (b # bs) p = and_then (put_byte b p) (copy_bytes bs)"

definition ApplyFlatPatch :: "'os patch_api \<Rightarrow> ptr \<Rightarrow> uint8 list \<Rightarrow> ('os process, bool) cpp" where
  "ApplyFlatPatch w address bytes =
     and_then (api (w_VirtualProtect w address (of_nat (length bytes)) PAGE_READWRITE))
       (\<lambda>(ok, oldPageSettings).
     if \<not> ok
     then and_then (api (w_MessageBoxA w ''Unable to access memory for flat patch'' ''Page Settings Error''))
            (\<lambda>_. ret False)
     else and_then (in_memory (copy_bytes bytes address)) (\<lambda>_.
          and_then (api (w_VirtualProtect_null w address (of_nat (length bytes)) oldPageSettings)) (\<lambda>_.
          ret True)))"

definition returnTrueInEax :: "uint8 list" where
  "returnTrueInEax = [0xb8, 0x01, 0x00, 0x00, 0x00, 0xc2, 0x04, 0x00]"

definition ApplyCopyPatcha :: "'os patch_api \<Rightarrow> ('os process, unit) cpp" where
  "ApplyCopyPatcha w = and_then (ApplyFlatPatch w 0x4c3603 returnTrueInEax) (\<lambda>_. ret ())"

section \<open>The hooks\<close>

text \<open>The status \<open>InstallHook\<close> returns is not looked at.\<close>

definition Hook_Winsock :: "bool \<Rightarrow> 'os patch_api \<Rightarrow> image \<Rightarrow> ('os process, unit) cpp" where
  "Hook_Winsock dbg w im =
     and_then (InstallHook dbg (win32.truncate w) ''ws2_32.dll'' ''connect''
       (im_proxy_connect im) (im_original_connect im)) (\<lambda>_. ret ())"

definition Hook_CreateFile :: "bool \<Rightarrow> 'os patch_api \<Rightarrow> image \<Rightarrow> ('os process, unit) cpp" where
  "Hook_CreateFile dbg w im =
     and_then (InstallHook dbg (win32.truncate w) ''kernel32.dll'' ''CreateFileA''
       (im_proxy_CreateFileA im) (im_original_CreateFileA im)) (\<lambda>_.
     and_then (InstallHook dbg (win32.truncate w) ''kernel32.dll'' ''CreateFileW''
       (im_proxy_CreateFileW im) (im_original_CreateFileW im)) (\<lambda>_. ret ()))"

definition Hook_WinINet :: "bool \<Rightarrow> 'os patch_api \<Rightarrow> image \<Rightarrow> ('os process, unit) cpp" where
  "Hook_WinINet dbg w im =
     and_then (InstallHook dbg (win32.truncate w) ''Wininet.dll'' ''InternetConnectA''
       (im_proxy_InternetConnectA im) (im_original_InternetConnectA im)) (\<lambda>_.
     and_then (InstallHook dbg (win32.truncate w) ''Wininet.dll'' ''InternetConnectW''
       (im_proxy_InternetConnectW im) (im_original_InternetConnectW im)) (\<lambda>_. ret ()))"

section \<open>The entry\<close>

definition InitializeConsole :: "'os patch_api \<Rightarrow> ('os process, unit) cpp" where
  "InitializeConsole w =
     and_then (api (w_AllocConsole w)) (\<lambda>_.
     and_then (api (w_SetConsoleTitle w ''Messenger Debug'')) (\<lambda>_.
     and_then (api (w_freopen w ''conin$'' ''r'' ''stdin'')) (\<lambda>_.
     and_then (api (w_freopen w ''conout$'' ''w'' ''stdout'')) (\<lambda>_.
     and_then (api (w_freopen w ''conout$'' ''w'' ''stderr'')) (\<lambda>_. ret ())))))"

text \<open>The condition, with the calls a conjunction makes: the next only when the one before found nothing.\<close>

fun no_module :: "'os patch_api \<Rightarrow> string list \<Rightarrow> ('os process, bool) cpp" where
  "no_module w [] = ret True"
| "no_module w (name # names) =
     and_then (api (w_GetModuleHandleW w name)) (\<lambda>module.
       if module \<noteq> 0 then ret False else no_module w names)"

definition InstallHooks :: "bool \<Rightarrow> 'os patch_api \<Rightarrow> image \<Rightarrow> ('os process, unit) cpp" where
  "InstallHooks dbg w im =
     and_then (no_module w [''Yahoo~1.exe'', ''YahooMessenger.exe'', ''ypager.exe'']) (\<lambda>foreign.
     if foreign
     then and_then (api (w_MessageBoxA w ''Unable to patch non-Yahoo! Messenger application'' ''Patch Error''))
            (\<lambda>_. ret ())
     else and_then (InitializeConsole w) (\<lambda>_.
          and_then (ApplyCopyPatcha w) (\<lambda>_.
          and_then (Hook_Winsock dbg w im) (\<lambda>_.
          and_then (Hook_CreateFile dbg w im) (\<lambda>_.
          Hook_WinINet dbg w im)))))"

definition DLL_PROCESS_ATTACH :: uint32 where
  "DLL_PROCESS_ATTACH = 1"

definition DllMain :: "bool \<Rightarrow> 'os patch_api \<Rightarrow> image \<Rightarrow> uint32 \<Rightarrow> ('os process, bool) cpp" where
  "DllMain dbg w im reason =
     and_then (if reason = DLL_PROCESS_ATTACH then InstallHooks dbg w im else ret ()) (\<lambda>_. ret True)"

end
