(* ===== verification/YIMPatch_Facts.thy ===== *)
theory YIMPatch_Facts
  imports CodeHook_Properties YIMPatch
begin

text \<open>
  What the patch leaves in memory: the effect of one \<open>InstallHook\<close> by name, and of several
  in a row when their blocks lie apart.
\<close>

section \<open>One hook\<close>

record hook =
  hk_module :: string
  hk_function :: string
  hk_proxy :: ptr
  hk_out :: ptr

definition install :: "'os win32 \<Rightarrow> hook \<Rightarrow> ('os process, unit) cpp" where
  "install w h = and_then (InstallHook False w (hk_module h) (hk_function h) (hk_proxy h) (hk_out h))
     (\<lambda>_. ret ())"

text \<open>Where a hook goes: the thunk and the function, when Windows finds the function.\<close>

definition hook_site :: "'os win32 \<Rightarrow> hook \<Rightarrow> 'os process \<Rightarrow> (ptr \<times> ptr) option" where
  "hook_site w h s =
     (let (module, os1) = w_GetModuleHandleA w (hk_module h) (pr_Os s) in
      if module = 0 then None
      else let (procAddress, os2) = w_GetProcAddress w module (hk_function h) os1 in
        if procAddress = 0 then None
        else Some (thunk_address w (s\<lparr>pr_Os := os2\<rparr>), procAddress))"

text \<open>The bytes a hook writes, and those its working depends on.\<close>

definition block :: "ptr \<Rightarrow> nat \<Rightarrow> ptr set" where
  "block p n = {a. in_block p n a}"

definition written :: "ptr \<Rightarrow> ptr \<Rightarrow> ptr \<Rightarrow> ptr set" where
  "written code p out = block code 256 \<union> block p 6 \<union> block out 4"

definition needed :: "ptr \<Rightarrow> ptr \<Rightarrow> ptr \<Rightarrow> ptr set" where
  "needed code p out = block code 256 \<union> block p 46 \<union> block out 4"

lemma in_blockI: "i < n \<Longrightarrow> n \<le> 2 ^ 32 \<Longrightarrow> p + of_nat i \<in> block p n"
  by (simp add: block_def in_block_def unat_of_nat)

lemma agree_block:
  assumes "\<And>a. a \<in> block p n \<Longrightarrow> mem a = mem' a" "n \<le> 2 ^ 32"
  shows "agree mem mem' p n"
  using assms in_blockI unfolding agree_def by blast

lemma hooked_keep:
  assumes "hooked mem0 mem code p proxy out"
    and "\<And>a. a \<in> needed code p out \<Longrightarrow> mem' a = mem a"
  shows "hooked mem0 mem' code p proxy out"
proof -
  have bytes: "bytes_at mem' q m = bytes_at mem q m" if "\<And>i. i < m \<Longrightarrow> q + of_nat i \<in> needed code p out" for q m
    using that assms(2) by (intro bytes_at_agree) (simp add: agree_def)
  have *: "bytes_at mem' p 6 = bytes_at mem p 6" "bytes_at mem' out 4 = bytes_at mem out 4"
    "bytes_at mem' code 4 = bytes_at mem code 4" "bytes_at mem' code 8 = bytes_at mem code 8"
    by (rule bytes; simp add: needed_def block_def in_block_def unat_of_nat)+
  moreover have "bytes_at mem' (code + 16) (n + 5) = bytes_at mem (code + 16) (n + 5)" if "n \<le> 20" for n
  proof (rule bytes)
    fix i
    assume "i < n + 5"
    then have "code + of_nat (16 + i) \<in> block code 256"
      using that by (intro in_blockI) simp_all
    then show "code + 16 + of_nat i \<in> needed code p out"
      by (simp add: needed_def add.assoc)
  qed
  moreover obtain n "is" js where "thunk_ready mem0 mem code p proxy n is js"
    using assms(1) unfolding hooked_def by blast
  ultimately have "thunk_ready mem0 mem' code p proxy n is js"
    unfolding thunk_ready_def by metis
  with * show ?thesis
    using assms(1) unfolding hooked_def NextI32_def by metis
qed

lemma redirected_outside:
  assumes "a \<notin> written code p out"
  shows "redirected mem code p out a = mem a"
  using assms by (simp add: redirected_def write_bytes_outside written_def block_def del: write_bytes.simps)

lemma install_step:
  assumes "install w h s = (Inr (), s')"
  shows "case hook_site w h s of
      None \<Rightarrow> pr_Memory s' = pr_Memory s
    | Some (code, p) \<Rightarrow>
        (\<forall>a. a \<notin> written code p (hk_out h) \<longrightarrow> pr_Memory s' a = pr_Memory s a)
        \<and> (\<forall>mem0. agree mem0 (pr_Memory s) p 46 \<longrightarrow> hook_layout code p (hk_out h) \<longrightarrow>
            hooked mem0 (pr_Memory s') code p (hk_proxy h) (hk_out h))"
proof -
  obtain module os1 where m: "w_GetModuleHandleA w (hk_module h) (pr_Os s) = (module, os1)"
    by (cases "w_GetModuleHandleA w (hk_module h) (pr_Os s)")
  obtain p os2 where p: "w_GetProcAddress w module (hk_function h) os1 = (p, os2)"
    by (cases "w_GetProcAddress w module (hk_function h) os1")
  show ?thesis
  proof (cases "module = 0 \<or> p = 0")
    case True
    then show ?thesis
      using assms m p
      by (cases "module = 0") (auto simp: install_def InstallHook_def and_then_def api_def ret_def hook_site_def)
  next
    case False
    let ?s = "s\<lparr>pr_Os := os2\<rparr>" and ?out = "hk_out h" and ?proxy = "hk_proxy h"
    let ?code = "thunk_address w ?s"
    have site: "hook_site w h s = Some (?code, p)"
      using False m p by (simp add: hook_site_def)
    have at: "fst (InstallHook_at False w p ?proxy ?out ?s) \<noteq> Inl e"
      "pr_Memory s' = pr_Memory (snd (InstallHook_at False w p ?proxy ?out ?s))" for e
      using assms m p False
      by (auto simp: install_def InstallHook_def and_then_def api_def ret_def split: prod.splits sum.splits)
    show ?thesis
    proof (cases rule: InstallHook_at_cases [where w = w and s = ?s and procAddress = p
          and proxy = ?proxy and out = ?out, case_names failed installed])
      case (failed e mem')
      then show ?thesis
        using at(1) [of e] by (simp add: mem_run_def)
    next
      case (installed mem1)
      then have mem: "pr_Memory s' = redirected mem1 ?code p ?out"
        using at(2) by (simp add: mem_run_def)
      have "mem1 a = pr_Memory s a" if "a \<notin> block ?code 256" for a
        using fill_thunk_outside [of ?code a p ?proxy "zeroed (pr_Memory s) ?code"] installed(2) that
        by (simp add: block_def zeroed_outside)
      then have "pr_Memory s' a = pr_Memory s a" if "a \<notin> written ?code p ?out" for a
        using that by (simp add: mem redirected_outside) (simp add: written_def)
      moreover have "hooked mem0 (pr_Memory s') ?code p ?proxy ?out"
        if "agree mem0 (pr_Memory s) p 46" "hook_layout ?code p ?out" for mem0
      proof -
        have "agree mem0 (zeroed (pr_Memory s) ?code) p 46"
          using that by (simp add: agree_def hook_layout_def clear_of_thunk_def zeroed_outside)
        with installed(2) show ?thesis
          unfolding mem by (intro redirected_hooked [OF _ _ that(2) installed(1)]) simp_all
      qed
      ultimately show ?thesis
        by (simp add: site)
    qed
  qed
qed

section \<open>Several hooks\<close>

fun hook_sites :: "'os win32 \<Rightarrow> hook list \<Rightarrow> 'os process \<Rightarrow> (ptr \<times> ptr \<times> hook) list" where
  "hook_sites w [] s = []"
| "hook_sites w (h # hs) s =
     (case hook_site w h s of None \<Rightarrow> [] | Some (code, p) \<Rightarrow> [(code, p, h)])
       @ hook_sites w hs (snd (install w h s))"

text \<open>
  The sites lie apart: what one hook writes is nothing another one needs, and each has the
  layout a single hook asks for.
\<close>

fun apart_sites :: "(ptr \<times> ptr \<times> hook) list \<Rightarrow> bool" where
  "apart_sites [] = True"
| "apart_sites ((code, p, h) # sites) =
     (hook_layout code p (hk_out h)
      \<and> (\<forall>(code', p', h') \<in> set sites.
            written code p (hk_out h) \<inter> needed code' p' (hk_out h') = {}
          \<and> written code' p' (hk_out h') \<inter> needed code p (hk_out h) = {})
      \<and> apart_sites sites)"

lemma written_needed: "written code p out \<subseteq> needed code p out"
  by (auto simp: written_def needed_def block_def in_block_def)

lemma installs_frame:
  assumes "for_each (install w) hs s = (Inr (), s')"
    and "\<And>code p h. (code, p, h) \<in> set (hook_sites w hs s) \<Longrightarrow> a \<notin> written code p (hk_out h)"
  shows "pr_Memory s' a = pr_Memory s a"
  using assms
proof (induction hs arbitrary: s)
  case Nil
  then show ?case by (simp add: ret_def)
next
  case (Cons h hs)
  then obtain s1 where h: "install w h s = (Inr (), s1)" and hs: "for_each (install w) hs s1 = (Inr (), s')"
    by (auto simp: and_then_def split: prod.splits sum.splits)
  have "pr_Memory s' a = pr_Memory s1 a"
    using Cons.IH [OF hs] Cons.prems(2) h by simp
  also have "\<dots> = pr_Memory s a"
    using install_step [OF h] Cons.prems(2) by (auto split: option.splits)
  finally show ?case .
qed

lemma installs_hooked:
  assumes "for_each (install w) hs s = (Inr (), s')" and "apart_sites (hook_sites w hs s)"
    and "\<And>code p h. (code, p, h) \<in> set (hook_sites w hs s) \<Longrightarrow> agree mem0 (pr_Memory s) p 46"
    and "(code, p, h) \<in> set (hook_sites w hs s)"
  shows "hooked mem0 (pr_Memory s') code p (hk_proxy h) (hk_out h)"
  using assms
proof (induction hs arbitrary: s)
  case Nil
  then show ?case by simp
next
  case (Cons k ks)
  then obtain s1 where k: "install w k s = (Inr (), s1)" and ks: "for_each (install w) ks s1 = (Inr (), s')"
    by (auto simp: and_then_def split: prod.splits sum.splits)
  let ?rest = "hook_sites w ks s1"
  have sites: "hook_sites w (k # ks) s =
      (case hook_site w k s of None \<Rightarrow> [] | Some (code, p) \<Rightarrow> [(code, p, k)]) @ ?rest"
    by (simp add: k)
  have rest_apart: "apart_sites ?rest"
    using Cons.prems(2) unfolding sites by (auto split: option.splits)
  have rest_agree: "agree mem0 (pr_Memory s1) p' 46" if "(code', p', h') \<in> set ?rest" for code' p' h'
  proof -
    have before: "agree mem0 (pr_Memory s) p' 46"
      using Cons.prems(3) that unfolding sites by auto
    have same: "pr_Memory s a = pr_Memory s1 a" if "a \<in> block p' 46" for a
    proof (cases "hook_site w k s")
      case None
      then show ?thesis using install_step [OF k] by simp
    next
      case (Some site)
      obtain code1 p1 where site: "hook_site w k s = Some (code1, p1)"
        using Some by (cases site) simp
      moreover have "a \<in> needed code' p' (hk_out h')"
        using that by (simp add: needed_def)
      ultimately have "a \<notin> written code1 p1 (hk_out k)"
        using Cons.prems(2) \<open>(code', p', h') \<in> set ?rest\<close> unfolding sites by auto
      then show ?thesis
        using install_step [OF k] site by simp
    qed
    have "agree (pr_Memory s) (pr_Memory s1) p' 46"
      by (rule agree_block) (simp_all add: same)
    with before show ?thesis
      by (simp add: agree_def)
  qed
  show ?case
  proof (cases "(code, p, h) \<in> set ?rest")
    case True
    then show ?thesis
      by (intro Cons.IH [OF ks rest_apart]) (rule rest_agree)
  next
    case False
    then have site: "hook_site w k s = Some (code, p)" and h: "h = k"
      using Cons.prems(4) unfolding sites by (auto split: option.splits)
    have "agree mem0 (pr_Memory s) p 46" "hook_layout code p (hk_out k)"
      using Cons.prems(2) Cons.prems(3) [of code p k] site unfolding sites by simp_all
    then have "hooked mem0 (pr_Memory s1) code p (hk_proxy h) (hk_out h)"
      using install_step [OF k] site h by simp
    moreover have "pr_Memory s' a = pr_Memory s1 a" if "a \<in> needed code p (hk_out h)" for a
      using Cons.prems(2) that site h unfolding sites
      by (intro installs_frame [OF ks]) auto
    ultimately show ?thesis
      by (rule hooked_keep)
  qed
qed

section \<open>The whole patch\<close>

lemma wp_api [wp]: "wp (api f) Q E s = Q (fst (f (pr_Os s))) (s\<lparr>pr_Os := snd (f (pr_Os s))\<rparr>)"
  by (simp add: wp_def api_def)

lemma copy_bytes_run: "copy_bytes bs p mem = (Inr (p + of_nat (length bs)), write_bytes mem p bs)"
  by (induction bs arbitrary: p mem) (simp_all add: ret_def and_then_def put_byte_run add.assoc)

lemma wp_copy_bytes [wp]:
  "wp (copy_bytes bs p) Q E mem = Q (p + of_nat (length bs)) (write_bytes mem p bs)"
  by (simp add: wp_def copy_bytes_run)

lemma no_module_quiet:
  "wp (no_module w names) (\<lambda>_ s'. pr_Memory s' = pr_Memory s) (\<lambda>_ _. False) s"
proof (induction names arbitrary: s)
  case (Cons name names)
  then show ?case
    using Cons.IH [of "s\<lparr>pr_Os := snd (w_GetModuleHandleW w name (pr_Os s))\<rparr>"] by (simp add: wp)
qed (simp add: wp)

definition messengers :: "string list" where
  "messengers = [''Yahoo~1.exe'', ''YahooMessenger.exe'', ''ypager.exe'']"

text \<open>Everything before the hooks; the result tells whether the eight bytes were written.\<close>

definition prepare :: "'os patch_api \<Rightarrow> ('os process, bool) cpp" where
  "prepare w = and_then (no_module w messengers) (\<lambda>_.
     and_then (InitializeConsole w) (\<lambda>_. ApplyFlatPatch w 0x4c3603 returnTrueInEax))"

lemma prepare_run:
  obtains patched s1 where "prepare w s = (Inr patched, s1)"
    "pr_Memory s1 = (if patched then write_bytes (pr_Memory s) 0x4c3603 returnTrueInEax else pr_Memory s)"
proof -
  have flat: "wp (ApplyFlatPatch w 0x4c3603 returnTrueInEax)
      (\<lambda>patched s1. pr_Memory s1 =
        (if patched then write_bytes m 0x4c3603 returnTrueInEax else m)) (\<lambda>_ _. False) s"
    if "pr_Memory s = m" for s m
    using that by (simp add: ApplyFlatPatch_def in_memory_def wp split: prod.split del: write_bytes.simps)
  have "wp (prepare w) (\<lambda>patched s1. pr_Memory s1 =
      (if patched then write_bytes (pr_Memory s) 0x4c3603 returnTrueInEax else pr_Memory s))
      (\<lambda>_ _. False) s"
    unfolding prepare_def wp_and_then
    by (rule wp_mono [OF no_module_quiet]) (simp_all add: InitializeConsole_def wp flat)
  then show ?thesis
    using that by (auto simp: wp_def split: prod.splits sum.splits)
qed

definition hook_of :: "string \<Rightarrow> string \<Rightarrow> ptr \<Rightarrow> ptr \<Rightarrow> hook" where
  "hook_of m f proxy out = \<lparr>hk_module = m, hk_function = f, hk_proxy = proxy, hk_out = out\<rparr>"

definition hooks_of :: "image \<Rightarrow> hook list" where
  "hooks_of im =
    [hook_of ''ws2_32.dll'' ''connect'' (im_proxy_connect im) (im_original_connect im),
     hook_of ''kernel32.dll'' ''CreateFileA'' (im_proxy_CreateFileA im) (im_original_CreateFileA im),
     hook_of ''kernel32.dll'' ''CreateFileW'' (im_proxy_CreateFileW im) (im_original_CreateFileW im),
     hook_of ''Wininet.dll'' ''InternetConnectA'' (im_proxy_InternetConnectA im)
       (im_original_InternetConnectA im),
     hook_of ''Wininet.dll'' ''InternetConnectW'' (im_proxy_InternetConnectW im)
       (im_original_InternetConnectW im)]"

lemma install_hook_of: "and_then (InstallHook False w m f proxy out) (\<lambda>_. ret ()) = install w (hook_of m f proxy out)"
  by (simp add: install_def hook_of_def)

lemma and_then_assoc: "and_then (and_then m f) g = and_then m (\<lambda>x. and_then (f x) g)"
  by (rule ext) (simp add: and_then_def split: prod.splits sum.splits)

lemma and_then_ret: "and_then (ret x) f = f x"
  by (rule ext) (simp add: and_then_def ret_def)

lemma install_then: "and_then (InstallHook False w m f proxy out) (\<lambda>_. g) =
    and_then (install w (hook_of m f proxy out)) (\<lambda>_. g)"
  by (simp add: install_def hook_of_def and_then_assoc and_then_ret)

lemma hooks_run:
  "and_then (Hook_Winsock False w im) (\<lambda>_. and_then (Hook_CreateFile False w im) (\<lambda>_. Hook_WinINet False w im)) =
   for_each (install (win32.truncate w)) (hooks_of im)"
  unfolding Hook_Winsock_def Hook_CreateFile_def Hook_WinINet_def hooks_of_def for_each.simps
    and_then_assoc and_then_ret install_then ..

lemma InstallHooks_run:
  assumes "no_module w messengers s = (Inr False, s0)"
  shows "InstallHooks False w im s =
    for_each (install (win32.truncate w)) (hooks_of im) (snd (prepare w s))"
proof -
  have "InstallHooks False w im s =
      and_then (InitializeConsole w) (\<lambda>_. and_then (ApplyCopyPatcha w) (\<lambda>_.
        and_then (Hook_Winsock False w im) (\<lambda>_. and_then (Hook_CreateFile False w im) (\<lambda>_.
        Hook_WinINet False w im)))) s0"
    using assms unfolding InstallHooks_def messengers_def [symmetric]
    by (simp add: and_then_def [of "no_module _ _"])
  also have "\<dots> = and_then (prepare w) (\<lambda>_. for_each (install (win32.truncate w)) (hooks_of im)) s"
    unfolding hooks_run prepare_def and_then_assoc and_then_def [of "no_module w messengers"] assms
      ApplyCopyPatcha_def and_then_ret by simp
  finally have "InstallHooks False w im s =
      and_then (prepare w) (\<lambda>_. for_each (install (win32.truncate w)) (hooks_of im)) s" .
  moreover obtain patched s1 where "prepare w s = (Inr patched, s1)"
    by (rule prepare_run [of w s])
  ultimately show ?thesis
    by (simp add: and_then_def)
qed

end
