(* ===== verification/Mongoose_Websocket.thy ===== *)
theory Mongoose_Websocket
  imports CString "HOL-Library.Word"
begin

text \<open>
  The websocket part of the bundled web server (\<open>src/mongoose/mongoose.c\<close>): its SHA-1 and
  base64 code, the answer to the upgrade of a connection, and how a frame is taken from the
  input. A character of the input is a byte.
\<close>

unbundle bit_operations_syntax

type_synonym word32 = "32 word"
type_synonym byte = "8 word"

definition byte_of :: "char \<Rightarrow> byte" where
  "byte_of c = of_nat (of_char c)"

definition char_of_byte :: "byte \<Rightarrow> char" where
  "char_of_byte b = char_of (unat b)"

section \<open>SHA-1\<close>

text \<open>A word of the block: \<open>blk0\<close> swaps the bytes on a little-endian machine.\<close>

definition blk0 :: "byte list \<Rightarrow> nat \<Rightarrow> word32" where
  "blk0 bs i =
     push_bit 24 (ucast (bs ! (4 * i))) OR push_bit 16 (ucast (bs ! (4 * i + 1))) OR
     push_bit 8 (ucast (bs ! (4 * i + 2))) OR ucast (bs ! (4 * i + 3))"

definition rol :: "word32 \<Rightarrow> nat \<Rightarrow> word32" where
  "rol v bits = push_bit bits v OR drop_bit (32 - bits) v"

text \<open>The word of round \<open>i\<close> and the block, of which later rounds replace the words in turn.\<close>

definition blk :: "word32 list \<Rightarrow> nat \<Rightarrow> word32 \<times> word32 list" where
  "blk l i =
     (if i < 16 then (l ! i, l)
      else let v = rol (l ! ((i + 13) mod 16) XOR l ! ((i + 8) mod 16) XOR l ! ((i + 2) mod 16)
                        XOR l ! (i mod 16)) 1
           in (v, l[i mod 16 := v]))"

text \<open>\<open>R0\<close> to \<open>R4\<close>: the function of the round and its constant.\<close>

definition round_value :: "nat \<Rightarrow> word32 \<Rightarrow> word32 \<Rightarrow> word32 \<Rightarrow> word32" where
  "round_value i w x y =
     (if i < 20 then (w AND (x XOR y)) XOR y
      else if i < 40 then w XOR x XOR y
      else if i < 60 then ((w OR x) AND y) OR (w AND x)
      else w XOR x XOR y)"

definition round_constant :: "nat \<Rightarrow> word32" where
  "round_constant i =
     (if i < 20 then 0x5A827999 else if i < 40 then 0x6ED9EBA1
      else if i < 60 then 0x8F1BBCDC else 0xCA62C1D6)"

text \<open>
  The code gives the five variables another role in every round; here they change places
  instead, and after eighty rounds each is in its own place again.
\<close>

fun sha1_rounds ::
    "nat list \<Rightarrow> word32 list \<Rightarrow> word32 \<times> word32 \<times> word32 \<times> word32 \<times> word32 \<Rightarrow>
     word32 \<times> word32 \<times> word32 \<times> word32 \<times> word32" where
  "sha1_rounds [] l s = s"
| "sha1_rounds (i # is) l (v, w, x, y, z) =
     (let (k, l1) = blk l i;
          z1 = z + (round_value i w x y + k + round_constant i + rol v 5)
      in sha1_rounds is l1 (z1, v, rol w 30, x, y))"

definition SHA1Transform :: "word32 list \<Rightarrow> byte list \<Rightarrow> word32 list" where
  "SHA1Transform state buffer =
     (let (a, b, c, d, e) = sha1_rounds [0..<80] (map (blk0 buffer) [0..<16])
            (state ! 0, state ! 1, state ! 2, state ! 3, state ! 4)
      in [state ! 0 + a, state ! 1 + b, state ! 2 + c, state ! 3 + d, state ! 4 + e])"

text \<open>The buffer is not initialised by the code; nothing of it is read before it is written.\<close>

record SHA1_CTX =
  sc_state :: "word32 list"
  sc_count0 :: word32
  sc_count1 :: word32
  sc_buffer :: "byte list"

definition SHA1Init :: SHA1_CTX where
  "SHA1Init = \<lparr>sc_state = [0x67452301, 0xEFCDAB89, 0x98BADCFE, 0x10325476, 0xC3D2E1F0],
     sc_count0 = 0, sc_count1 = 0, sc_buffer = replicate 64 0\<rparr>"

definition copy_to :: "byte list \<Rightarrow> nat \<Rightarrow> byte list \<Rightarrow> byte list" where
  "copy_to buffer j data = take j buffer @ data @ drop (j + length data) buffer"

function sha1_blocks :: "word32 list \<Rightarrow> byte list \<Rightarrow> word32 list \<times> byte list" where
  "sha1_blocks state data =
     (if 64 \<le> length data then sha1_blocks (SHA1Transform state (take 64 data)) (drop 64 data)
      else (state, data))"
  by pat_completeness auto
termination
  by (relation "measure (\<lambda>(state, data). length data)") auto

declare sha1_blocks.simps [simp del]

definition SHA1Update :: "byte list \<Rightarrow> SHA1_CTX \<Rightarrow> SHA1_CTX" where
  "SHA1Update data c =
     (let len = of_nat (length data) :: word32;
          count0 = sc_count0 c + push_bit 3 len;
          count1 = sc_count1 c + (if count0 < sc_count0 c then 1 else 0) + drop_bit 29 len;
          j = unat (drop_bit 3 (sc_count0 c) AND 63);
          c1 = c\<lparr>sc_count0 := count0, sc_count1 := count1\<rparr>
      in if j + length data > 63
         then let i = 64 - j;
                  (state, rest) = sha1_blocks
                    (SHA1Transform (sc_state c) (copy_to (sc_buffer c) j (take i data))) (drop i data)
              in c1\<lparr>sc_state := state, sc_buffer := copy_to (copy_to (sc_buffer c) j (take i data)) 0 rest\<rparr>
         else c1\<lparr>sc_buffer := copy_to (sc_buffer c) j data\<rparr>)"

text \<open>
  The loop of \<open>SHA1Final\<close> adds zero bytes one by one; the first argument bounds the turns,
  and \<open>None\<close> says that it was not enough.
\<close>

fun sha1_pad :: "nat \<Rightarrow> SHA1_CTX \<Rightarrow> SHA1_CTX option" where
  "sha1_pad fuel c =
     (if sc_count0 c AND 504 = 448 then Some c
      else case fuel of 0 \<Rightarrow> None | Suc fuel' \<Rightarrow> sha1_pad fuel' (SHA1Update [0] c))"

declare sha1_pad.simps [simp del]

definition be_bytes :: "word32 \<Rightarrow> byte list" where
  "be_bytes v = map (\<lambda>i. ucast (drop_bit ((3 - i) * 8) v AND 255)) [0..<4]"

definition SHA1Final :: "SHA1_CTX \<Rightarrow> byte list option" where
  "SHA1Final c =
     (let finalcount = be_bytes (sc_count1 c) @ be_bytes (sc_count0 c) in
      map_option (\<lambda>c1. concat (map be_bytes (sc_state (SHA1Update finalcount c1))))
        (sha1_pad 64 (SHA1Update [128] c)))"

definition sha1 :: "byte list \<Rightarrow> byte list option" where
  "sha1 data = SHA1Final (SHA1Update data SHA1Init)"

text \<open>The padding ends within its 64 turns, so that every input has a digest.\<close>

lemma count_full: "(c :: word32) AND 504 = 448 \<longleftrightarrow> unat c div 8 mod 64 = 56"
proof -
  have "c AND 504 = push_bit 3 (take_bit 6 (drop_bit 3 c))"
  proof -
    have mask: "(504 :: word32) = push_bit 3 (mask 6)"
      by (simp add: mask_eq_exp_minus_1)
    show ?thesis
      unfolding mask by (rule bit_word_eqI) (auto simp: bit_simps)
  qed
  also have "(push_bit 3 (take_bit 6 (drop_bit 3 c)) :: word32) = 448 \<longleftrightarrow> take_bit 6 (drop_bit 3 c) = 56"
  proof
    assume "push_bit 3 (take_bit 6 (drop_bit 3 c)) = (448 :: word32)"
    then have "drop_bit 3 (push_bit 3 (take_bit 6 (drop_bit 3 c))) = drop_bit 3 (448 :: word32)"
      by simp
    moreover have "drop_bit 3 (push_bit 3 (take_bit 6 (drop_bit 3 c))) = take_bit 6 (drop_bit 3 c)"
      by (rule bit_word_eqI) (auto simp: bit_simps)
    ultimately show "take_bit 6 (drop_bit 3 c) = 56"
      by simp
  qed simp
  also have "\<dots> \<longleftrightarrow> unat (take_bit 6 (drop_bit 3 c)) = 56"
    by (simp add: word_unat_eq_iff)
  also have "unat (take_bit 6 (drop_bit 3 c)) = unat c div 8 mod 64"
  proof -
    have "take_bit 32 (unat c) = unat c"
      using unsigned_less [of c, where 'a = nat] by (simp add: take_bit_nat_eq_self)
    then show ?thesis
      by (simp add: unsigned_take_bit_eq unsigned_drop_bit_eq take_bit_eq_mod [of 6 "_ :: nat"]
          drop_bit_eq_div [of 3 "_ :: nat"])
  qed
  finally show ?thesis .
qed

lemma count_next: "unat ((c :: word32) + 8) div 8 mod 64 = (unat c div 8 mod 64 + 1) mod 64"
proof -
  have "unat (c + 8) = (unat c + 8) mod 2 ^ 32"
    by (simp add: unat_word_ariths)
  also have "\<dots> div 8 mod 64 = (unat c + 8) div 8 mod 64"
  proof -
    have "drop_bit 3 (take_bit 32 n) = take_bit 29 (drop_bit 3 n)" for n :: nat
      by (rule bit_eqI) (auto simp: bit_simps)
    then have "n mod 2 ^ 32 div 8 = n div 8 mod 2 ^ 29" for n :: nat
      by (simp add: drop_bit_eq_div take_bit_eq_mod)
    then show ?thesis
      by (simp add: mod_mod_cancel)
  qed
  also have "(unat c + 8) div 8 = unat c div 8 + 1"
    by simp
  also have "\<dots> mod 64 = (unat c div 8 mod 64 + 1) mod 64"
    by (simp add: mod_simps)
  finally show ?thesis .
qed

definition pad_turns :: "nat \<Rightarrow> nat" where
  "pad_turns k = (if k \<le> 56 then 56 - k else 120 - k)"

lemma pad_turns_next: "k < 64 \<Longrightarrow> k \<noteq> 56 \<Longrightarrow> Suc (pad_turns ((k + 1) mod 64)) = pad_turns k"
  by (cases "k = 63") (auto simp: pad_turns_def)

lemma sha1_pad_enough: "pad_turns (unat (sc_count0 c) div 8 mod 64) \<le> n \<Longrightarrow> sha1_pad n c \<noteq> None"
proof (induction n arbitrary: c)
  case 0
  have "unat (sc_count0 c) div 8 mod 64 < 64"
    by simp
  then have "unat (sc_count0 c) div 8 mod 64 = 56"
    using 0 unfolding pad_turns_def by (auto split: if_splits)
  then show ?case
    by (simp add: sha1_pad.simps [of 0] count_full)
next
  case (Suc n)
  show ?case
  proof (cases "unat (sc_count0 c) div 8 mod 64 = 56")
    case True
    then show ?thesis
      by (simp add: sha1_pad.simps [of "Suc n"] count_full)
  next
    case False
    have "sc_count0 (SHA1Update [0] c) = sc_count0 c + 8"
      by (simp add: SHA1Update_def Let_def split: prod.split)
    then have "Suc (pad_turns (unat (sc_count0 (SHA1Update [0] c)) div 8 mod 64)) =
        pad_turns (unat (sc_count0 c) div 8 mod 64)"
      using pad_turns_next [OF _ False] by (simp add: count_next)
    then have "sha1_pad n (SHA1Update [0] c) \<noteq> None"
      using Suc.prems by (intro Suc.IH) simp
    then show ?thesis
      using False by (simp add: sha1_pad.simps [of "Suc n"] count_full)
  qed
qed

lemma sha1_total: "sha1 data \<noteq> None"
proof -
  have "pad_turns (k mod 64) \<le> 64" for k
    using mod_less_divisor [of 64 k] by (auto simp: pad_turns_def)
  then have "sha1_pad 64 c \<noteq> None" for c
    by (rule sha1_pad_enough)
  then show ?thesis
    by (simp add: sha1_def SHA1Final_def Let_def)
qed

section \<open>Base64\<close>

definition b64 :: string where
  "b64 = ''ABCDEFGHIJKLMNOPQRSTUVWXYZabcdefghijklmnopqrstuvwxyz0123456789+/''"

fun base64_groups :: "byte list \<Rightarrow> string" where
  "base64_groups [] = []"
| "base64_groups [a] = [b64 ! unat (drop_bit 2 a), b64 ! unat (push_bit 4 (a AND 3))]"
| "base64_groups [a, b] =
     [b64 ! unat (drop_bit 2 a), b64 ! unat (push_bit 4 (a AND 3) OR drop_bit 4 b),
      b64 ! unat (push_bit 2 (b AND 15))]"
| "base64_groups (a # b # c # src) =
     [b64 ! unat (drop_bit 2 a), b64 ! unat (push_bit 4 (a AND 3) OR drop_bit 4 b),
      b64 ! unat (push_bit 2 (b AND 15) OR drop_bit 6 c), b64 ! unat (c AND 63)]
     @ base64_groups src"

definition base64_encode :: "byte list \<Rightarrow> string" where
  "base64_encode src =
     (let dst = base64_groups src in dst @ replicate ((4 - length dst mod 4) mod 4) CHR ''='')"

section \<open>The answer to an upgrade\<close>

text \<open>
  \<open>mg_snprintf\<close> of a single text: on Windows a text longer than the buffer leaves an empty
  string, one that fills it loses its last character.
\<close>

definition mg_snprintf :: "nat \<Rightarrow> string \<Rightarrow> string" where
  "mg_snprintf buflen s = (if buflen < length s then [] else take (buflen - 1) s)"

definition magic :: string where
  "magic = ''258EAFA5-E914-47DA-95CA-C5AB0DC85B11''"

definition send_websocket_handshake :: "string \<Rightarrow> string" where
  "send_websocket_handshake key =
     (let crlf = [CHR 0x0D, CHR 0x0A];
          sha = the (sha1 (map byte_of (mg_snprintf 500 (key @ magic))))
      in ''HTTP/1.1 101 Switching Protocols'' @ crlf @ ''Upgrade: websocket'' @ crlf
         @ ''Connection: Upgrade'' @ crlf @ ''Sec-WebSocket-Accept: '' @ base64_encode sha
         @ crlf @ crlf)"

section \<open>Frames\<close>

text \<open>
  A frame as \<open>deliver_websocket_frame\<close> hands it to the handler: its first byte, the length of
  its data, and the input from the data on, with the data unmasked.
\<close>

record frame =
  fr_wsbits :: nat
  fr_data_len :: int
  fr_content :: string

definition byte_at :: "string \<Rightarrow> nat \<Rightarrow> nat" where
  "byte_at buf i = of_char (buf ! i)"

definition to_int32 :: "int \<Rightarrow> int" where
  "to_int32 n = sint (of_int n :: 32 word)"

definition be_value :: "string \<Rightarrow> int" where
  "be_value bs = foldl (\<lambda>v c. 256 * v + of_char c) 0 bs"

text \<open>
  The length of the header and of the data; both are 0 when the header is not there yet. Of
  the eight bytes of a long length the first four are shifted out of the \<open>int\<close>.
\<close>

definition frame_lengths :: "string \<Rightarrow> nat \<times> int" where
  "frame_lengths buf =
     (let buf_len = length buf in
      if buf_len < 2 then (0, 0)
      else let len = byte_at buf 1 AND 127;
               mask_len = (if byte_at buf 1 AND 128 \<noteq> 0 then 4 else 0)
           in if len < 126 \<and> mask_len \<le> buf_len then (2 + mask_len, int len)
              else if len = 126 \<and> 4 + mask_len \<le> buf_len
              then (4 + mask_len, int (256 * byte_at buf 2 + byte_at buf 3))
              else if 10 + mask_len \<le> buf_len
              then (10 + mask_len, to_int32 (be_value (take 4 (drop 6 buf))))
              else (0, 0))"

text \<open>The data, exclusive or with the four bytes before it, over and over.\<close>

definition unmask :: "string \<Rightarrow> string \<Rightarrow> string" where
  "unmask key data =
     map (\<lambda>i. char_of ((of_char (data ! i) :: nat) XOR of_char (key ! (i mod 4)))) [0..<length data]"

text \<open>
  A frame that is complete in the input, and what is left of the input behind it. The length
  of the frame is an \<open>int\<close>: beyond its range the sum is undefined.
\<close>

definition INT_MAX :: int where
  "INT_MAX = 2147483647"

definition deliver_frame :: "string \<Rightarrow> exn + (frame \<times> string) option" where
  "deliver_frame buf =
     (let (header_len, data_len) = frame_lengths buf;
          frame_len = int header_len + data_len;
          masked = (2 \<le> length buf \<and> byte_at buf 1 AND 128 \<noteq> 0);
          data = take (nat data_len) (drop header_len buf);
          data' = (if masked then unmask (take 4 (drop (header_len - 4) buf)) data else data)
      in if frame_len > INT_MAX then Inl (Undefined ''frame_len'')
         else if 0 < frame_len \<and> frame_len \<le> int (length buf)
         then Inr (Some
           (\<lparr>fr_wsbits = byte_at buf 0, fr_data_len = data_len,
             fr_content = data' @ drop (nat data_len) (drop header_len buf)\<rparr>,
            drop (nat frame_len) buf))
         else Inr None)"

lemma deliver_frame_shorter:
  "deliver_frame buf = Inr (Some (f, rest)) \<Longrightarrow> length rest < length buf"
  by (auto simp: deliver_frame_def Let_def split: prod.splits if_splits)

end
