(* ===== verification/Mongoose_Http.thy ===== *)
theory Mongoose_Http
  imports Mongoose_Websocket
begin

text \<open>
  The request side of the bundled web server (\<open>src/mongoose/mongoose.c\<close>): finding the end of
  a request, splitting it into method, URI, version and headers, decoding and cleaning the
  URI, and looking up headers and form variables. The lemmas show that a cleaned URI cannot
  climb out of a directory and that decoding undoes encoding.

  A C string is the list of its characters without the NUL behind it; \<open>c_str\<close> is how C reads
  a buffer that may hold a NUL earlier. Where the code writes NUL bytes into the request to
  end its words, the words are lists of their own here. The character classes are those of
  the C locale. The code compares \<open>HTTP/\<close> with \<open>memcmp\<close>, which can read past a shorter word;
  the word's NUL already decides the comparison, so the model compares prefixes.
\<close>

unbundle bit_operations_syntax

section \<open>Characters and C strings\<close>

definition c_str :: "string \<Rightarrow> string" where
  "c_str s = takeWhile (\<lambda>c. c \<noteq> CHR 0x00) s"

definition code_of :: "char \<Rightarrow> nat" where
  "code_of c = of_char c"

definition to_lower :: "char \<Rightarrow> char" where
  "to_lower c = (if 65 \<le> code_of c \<and> code_of c \<le> 90 then char_of (code_of c + 32) else c)"

definition is_xdigit :: "char \<Rightarrow> bool" where
  "is_xdigit c = (is_digit c \<or> (97 \<le> code_of (to_lower c) \<and> code_of (to_lower c) \<le> 102))"

definition is_print :: "char \<Rightarrow> bool" where
  "is_print c = (32 \<le> code_of c \<and> code_of c \<le> 126)"

definition is_alnum :: "char \<Rightarrow> bool" where
  "is_alnum c = (is_digit c \<or> (97 \<le> code_of (to_lower c) \<and> code_of (to_lower c) \<le> 122))"

lemma c_str_clean [simp]: "CHR 0x00 \<notin> set (c_str s)"
  by (auto simp: c_str_def dest: set_takeWhileD)

lemma c_str_id: "CHR 0x00 \<notin> set s \<Longrightarrow> c_str s = s"
  unfolding c_str_def by (rule takeWhile_all) auto

section \<open>Comparing without case\<close>

definition lowercase :: "char \<Rightarrow> int" where
  "lowercase c = int (code_of (to_lower c))"

fun mg_strcasecmp :: "string \<Rightarrow> string \<Rightarrow> int" where
  "mg_strcasecmp [] [] = 0"
| "mg_strcasecmp [] (b # bs) = - lowercase b"
| "mg_strcasecmp (a # as) [] = lowercase a"
| "mg_strcasecmp (a # as) (b # bs) =
     (let diff = lowercase a - lowercase b in if diff = 0 then mg_strcasecmp as bs else diff)"

fun mg_strncasecmp :: "string \<Rightarrow> string \<Rightarrow> nat \<Rightarrow> int" where
  "mg_strncasecmp s1 s2 0 = 0"
| "mg_strncasecmp [] [] (Suc n) = 0"
| "mg_strncasecmp [] (b # bs) (Suc n) = - lowercase b"
| "mg_strncasecmp (a # as) [] (Suc n) = lowercase a"
| "mg_strncasecmp (a # as) (b # bs) (Suc n) =
     (let diff = lowercase a - lowercase b in if diff = 0 then mg_strncasecmp as bs n else diff)"

section \<open>Decoding and encoding of URLs\<close>

text \<open>\<open>HEXTOI\<close> of a digit in lower case; \<open>'W'\<close> is ten below \<open>'a'\<close>.\<close>

definition hextoi :: "char \<Rightarrow> nat" where
  "hextoi x = (if is_digit x then code_of x - 48 else code_of x - 87)"

definition hex_byte :: "char \<Rightarrow> char \<Rightarrow> char" where
  "hex_byte a b = char_of (push_bit 4 (hextoi (to_lower a)) OR hextoi (to_lower b))"

text \<open>
  The loop of \<open>mg_url_decode\<close> with room for \<open>n\<close> characters: what was written, and what was
  not read. The URI is decoded in place; the write never overtakes the read.
\<close>

fun url_decode_loop :: "bool \<Rightarrow> nat \<Rightarrow> string \<Rightarrow> string \<times> string" where
  "url_decode_loop form 0 s = ([], s)"
| "url_decode_loop form (Suc n) [] = ([], [])"
| "url_decode_loop form (Suc n) (c # s) =
     (if c = CHR ''%'' \<and> 2 \<le> length s \<and> is_xdigit (s ! 0) \<and> is_xdigit (s ! 1)
      then (let (out, r) = url_decode_loop form n (drop 2 s) in (hex_byte (s ! 0) (s ! 1) # out, r))
      else (let (out, r) = url_decode_loop form n s
            in ((if form \<and> c = CHR ''+'' then CHR '' '' else c) # out, r)))"

definition mg_url_decode :: "string \<Rightarrow> nat \<Rightarrow> bool \<Rightarrow> int \<times> string" where
  "mg_url_decode src dst_len is_form_url_encoded =
     (let (out, r) = url_decode_loop is_form_url_encoded (dst_len - 1) src
      in (if r = [] then int (length out) else - 1, out))"

definition dont_escape :: string where
  "dont_escape = ''._-$,;~()''"

definition hex_digit :: "nat \<Rightarrow> char" where
  "hex_digit n = ''0123456789abcdef'' ! n"

text \<open>
  The loop of \<open>mg_url_encode\<close>; \<open>old\<close> is what the room left in the destination holds. A
  character that needs an escape and has no room is left out, and the destination still
  moves on by one byte, which keeps its old content.
\<close>

fun url_encode_loop :: "string \<Rightarrow> string \<Rightarrow> string" where
  "url_encode_loop [] s = []"
| "url_encode_loop (d # old) [] = []"
| "url_encode_loop (d # old) (c # s) =
     (if is_alnum c \<or> c \<in> set dont_escape then c # url_encode_loop old s
      else if 2 < length (d # old)
      then CHR ''%'' # hex_digit (drop_bit 4 (code_of c)) # hex_digit (code_of c AND 15)
             # url_encode_loop (drop 2 old) s
      else d # url_encode_loop old s)"

definition mg_url_encode :: "string \<Rightarrow> string \<Rightarrow> string" where
  "mg_url_encode src dst = url_encode_loop (butlast dst) src"

section \<open>Cleaning the path\<close>

definition is_sep :: "char \<Rightarrow> bool" where
  "is_sep c = (c = CHR ''/'' \<or> c = CHR 0x5C)"

text \<open>The inner loop skips all following slashes, backslashes and double dots.\<close>

fun skip_seps :: "string \<Rightarrow> string" where
  "skip_seps [] = []"
| "skip_seps [c] = (if is_sep c then [] else [c])"
| "skip_seps (c # d # s) =
     (if is_sep c then skip_seps (d # s)
      else if c = CHR ''.'' \<and> d = CHR ''.'' then skip_seps s
      else c # d # s)"

lemma length_skip_seps: "length (skip_seps s) \<le> length s"
  by (induction s rule: skip_seps.induct) auto

function remove_double_dots_and_double_slashes :: "string \<Rightarrow> string" where
  "remove_double_dots_and_double_slashes [] = []"
| "remove_double_dots_and_double_slashes (c # s) =
     c # remove_double_dots_and_double_slashes (if is_sep c then skip_seps s else s)"
  by pat_completeness auto
termination
  by (relation "measure length") (auto simp: length_skip_seps less_Suc_eq_le)

section \<open>The end of a request\<close>

fun get_request_len_loop :: "int \<Rightarrow> string \<Rightarrow> int" where
  "get_request_len_loop i [] = 0"
| "get_request_len_loop i (c # s) =
     (if \<not> is_print c \<and> c \<noteq> CHR 0x0D \<and> c \<noteq> CHR 0x0A \<and> code_of c < 128 then - 1
      else if c = CHR 0x0A \<and> 1 \<le> length s \<and> s ! 0 = CHR 0x0A then i + 2
      else if c = CHR 0x0A \<and> 2 \<le> length s \<and> s ! 0 = CHR 0x0D \<and> s ! 1 = CHR 0x0A then i + 3
      else get_request_len_loop (i + 1) s)"

definition get_request_len :: "string \<Rightarrow> int" where
  "get_request_len buf = get_request_len_loop 0 buf"

section \<open>The parts of a request\<close>

text \<open>The word at the start of the buffer, and the buffer behind the delimiters that follow.\<close>

definition skip :: "string \<Rightarrow> string \<Rightarrow> string \<times> string" where
  "skip buf delimiters =
     (takeWhile (\<lambda>c. c \<notin> set delimiters) buf,
      dropWhile (\<lambda>c. c \<in> set delimiters) (dropWhile (\<lambda>c. c \<notin> set delimiters) buf))"

text \<open>
  The fields of \<open>mg_connection\<close> a handler reads; a null pointer is \<open>None\<close> and
  \<open>num_headers\<close> is the length of the list of headers.
\<close>

record mg_connection =
  mc_request_method :: "string option"
  mc_uri :: "string option"
  mc_http_version :: "string option"
  mc_query_string :: "string option"
  mc_http_headers :: "(string \<times> string) list"
  mc_content :: "string option"
  mc_content_len :: int
  mc_is_websocket :: bool
  mc_status_code :: nat
  mc_wsbits :: nat

definition crlf :: string where
  "crlf = [CHR 0x0D, CHR 0x0A]"

definition MAX_HEADERS :: nat where
  "MAX_HEADERS = 30"

fun parse_http_headers :: "nat \<Rightarrow> string \<Rightarrow> (string \<times> string) list" where
  "parse_http_headers 0 buf = []"
| "parse_http_headers (Suc n) buf =
     (let (name, buf1) = skip buf '': '';
          (val, buf2) = skip buf1 crlf
      in if name = [] then [] else (name, val) # parse_http_headers n buf2)"

definition is_valid_http_method :: "string \<Rightarrow> bool" where
  "is_valid_http_method method = (method \<in> {''GET'', ''POST'', ''HEAD'', ''CONNECT'', ''PUT'',
     ''DELETE'', ''OPTIONS'', ''PROPFIND'', ''MKCOL''})"

definition is_http :: "string \<Rightarrow> bool" where
  "is_http s = (take 5 s = ''HTTP/'')"

definition reset_connection :: "mg_connection \<Rightarrow> mg_connection" where
  "reset_connection ri = ri\<lparr>mc_request_method := None, mc_uri := None, mc_http_version := None,
     mc_query_string := None, mc_http_headers := [], mc_status_code := 0, mc_is_websocket := False,
     mc_content_len := 0\<rparr>"

text \<open>\<open>strchr(uri, '?')\<close>: the URI up to the question mark, and the query behind it.\<close>

definition split_query :: "string \<Rightarrow> string \<times> string option" where
  "split_query uri =
     (takeWhile (\<lambda>c. c \<noteq> CHR ''?'') uri,
      case dropWhile (\<lambda>c. c \<noteq> CHR ''?'') uri of [] \<Rightarrow> None | _ # q \<Rightarrow> Some q)"

definition clean_uri :: "string \<Rightarrow> string" where
  "clean_uri uri = remove_double_dots_and_double_slashes
     (c_str (snd (mg_url_decode uri (length uri + 1) False)))"

definition parse_http_message :: "string \<Rightarrow> mg_connection \<Rightarrow> int \<times> mg_connection" where
  "parse_http_message buf ri =
     (let (method, b1) = skip (dropWhile is_space (c_str (butlast buf))) '' '';
          (uri, b2) = skip b1 '' '';
          (version, b3) = skip b2 crlf;
          is_request = is_valid_http_method method;
          ri1 = (reset_connection ri)\<lparr>mc_request_method := Some method, mc_uri := Some uri,
            mc_http_version := Some version\<rparr>
      in if (is_request \<and> \<not> is_http version) \<or> (\<not> is_request \<and> \<not> is_http method)
         then (- 1, ri1)
         else (int (length buf),
           ri1\<lparr>mc_http_version := Some (if is_request then drop 5 version else version),
               mc_http_headers := parse_http_headers MAX_HEADERS b3,
               mc_query_string := snd (split_query uri),
               mc_uri := Some (clean_uri (fst (split_query uri)))\<rparr>))"

section \<open>Headers and variables\<close>

fun find_header :: "string \<Rightarrow> (string \<times> string) list \<Rightarrow> string option" where
  "find_header s [] = None"
| "find_header s ((name, val) # hs) =
     (if mg_strcasecmp s name = 0 then Some val else find_header s hs)"

definition mg_get_header :: "mg_connection \<Rightarrow> string \<Rightarrow> string option" where
  "mg_get_header ri s = find_header s (mc_http_headers ri)"

text \<open>
  The loop of \<open>get_var\<close>: \<open>prev\<close> is the character before \<open>p\<close>, if any. The result is the
  undecoded value of the first variable with the name.
\<close>

fun get_var_loop :: "char option \<Rightarrow> string \<Rightarrow> string \<Rightarrow> string option" where
  "get_var_loop prev name [] = None"
| "get_var_loop prev name (c # p) =
     (if length name < length (c # p)
      then if (prev = None \<or> prev = Some CHR ''&'') \<and> (c # p) ! length name = CHR ''=''
                \<and> mg_strncasecmp name (c # p) (length name) = 0
           then Some (takeWhile (\<lambda>d. d \<noteq> CHR ''&'') (drop (length name + 1) (c # p)))
           else get_var_loop (Some c) name p
      else None)"

definition get_var :: "string option \<Rightarrow> string \<Rightarrow> nat \<Rightarrow> int \<times> string" where
  "get_var data name dst_len =
     (if dst_len = 0 then (- 2, [])
      else case data of None \<Rightarrow> (- 1, []) | Some d \<Rightarrow>
        (case get_var_loop None name d of
           None \<Rightarrow> (- 1, [])
         | Some v \<Rightarrow> (let (len, out) = mg_url_decode v dst_len True
                      in (if len = - 1 then - 2 else len, out))))"

text \<open>
  A negative content length, which the request can announce, makes \<open>get_var\<close> compute a
  pointer outside the buffer.
\<close>

definition mg_get_var :: "mg_connection \<Rightarrow> string \<Rightarrow> nat \<Rightarrow> exn + int \<times> string" where
  "mg_get_var conn name dst_len =
     (let (len, out) = get_var (mc_query_string conn) name dst_len
      in if len < 0
         then if mc_content conn \<noteq> None \<and> mc_content_len conn < 0
              then Inl (Undefined ''get_var'')
              else Inr (get_var (map_option (take (nat (mc_content_len conn))) (mc_content conn))
                     name dst_len)
         else Inr (len, out))"

section \<open>What a request leads to\<close>

definition is_valid_uri :: "string \<Rightarrow> bool" where
  "is_valid_uri uri = ((uri \<noteq> [] \<and> hd uri = CHR ''/'') \<or> uri = ''*'')"

definition MAX_REQUEST_SIZE :: nat where
  "MAX_REQUEST_SIZE = 16384"

text \<open>\<open>_atoi64\<close>, cut to an \<open>int\<close>.\<close>

definition atoi64 :: "string \<Rightarrow> int" where
  "atoi64 s = (case fst (scan_long s) of
      None \<Rightarrow> 0
    | Some n \<Rightarrow> max (- (2 ^ 63)) (min (2 ^ 63 - 1) n))"

text \<open>
  What is sent before a handler is called: the answer to the upgrade to a websocket, and the
  interim reply a client can ask for.
\<close>

definition send_websocket_handshake_if_requested :: "mg_connection \<Rightarrow> string \<times> mg_connection" where
  "send_websocket_handshake_if_requested conn =
     (case (mg_get_header conn ''Sec-WebSocket-Version'', mg_get_header conn ''Sec-WebSocket-Key'') of
        (Some ver, Some key) \<Rightarrow> (send_websocket_handshake key, conn\<lparr>mc_is_websocket := True\<rparr>)
      | _ \<Rightarrow> ([], conn))"

definition send_continue_if_expected :: "mg_connection \<Rightarrow> string" where
  "send_continue_if_expected conn = (case mg_get_header conn ''Expect'' of
       None \<Rightarrow> []
     | Some expect_hdr \<Rightarrow>
         if mg_strcasecmp expect_hdr ''100-continue'' = 0
         then ''HTTP/1.1 100 Continue'' @ crlf @ crlf else [])"

text \<open>
  Up to the call of a handler: \<open>process_request\<close> with the part of \<open>open_local_endpoint\<close> that
  finds the handler and the tests of \<open>call_uri_handler_if_data_is_buffered\<close>, for a buffer
  that starts with a request. \<open>handlers\<close> are the registered URI prefixes, the latest first.
  An outcome holds the bytes sent so far and the connection; the rest of the input is its
  content. \<open>Call_handler\<close> is the one call for an ordinary request, \<open>Deliver_frames\<close> the loop
  that calls the handler for every frame of a websocket.
\<close>

datatype outcome =
    Incomplete
  | Http_error nat
  | Local_file string mg_connection
  | Wait_for_content string mg_connection
  | Call_handler string string mg_connection
  | Deliver_frames string string mg_connection

definition find_uri_handler :: "string list \<Rightarrow> string \<Rightarrow> string option" where
  "find_uri_handler handlers uri = find (\<lambda>h. take (length h) uri = h) handlers"

definition open_local_endpoint :: "string list \<Rightarrow> string \<Rightarrow> mg_connection \<Rightarrow> string \<Rightarrow> outcome" where
  "open_local_endpoint handlers sent conn content =
     (let len = (case mg_get_header conn ''Content-Length'' of
                   None \<Rightarrow> 0 | Some cl \<Rightarrow> to_int32 (atoi64 cl));
          conn1 = conn\<lparr>mc_content_len := len\<rparr>
      in case find_uri_handler handlers (the (mc_uri conn)) of
           None \<Rightarrow> Local_file sent conn1
         | Some h \<Rightarrow>
             let conn2 = conn1\<lparr>mc_content := Some content\<rparr>
             in if mc_is_websocket conn2 then Deliver_frames h sent conn2
                else if int (length content) \<ge> len then Call_handler h sent conn2
                else Wait_for_content sent conn2)"

definition process_request :: "string list \<Rightarrow> mg_connection \<Rightarrow> string \<Rightarrow> outcome" where
  "process_request handlers conn buf =
     (let n = get_request_len buf in
      if n < 0 then Http_error 400
      else if n = 0 then (if length buf > MAX_REQUEST_SIZE then Http_error 413 else Incomplete)
      else let (len, conn1) = parse_http_message (take (nat n) buf) conn in
        if len < 0 \<or> \<not> is_valid_uri (the (mc_uri conn1)) then Http_error 400
        else if mc_http_version conn1 \<noteq> Some ''1.0'' \<and> mc_http_version conn1 \<noteq> Some ''1.1''
        then Http_error 505
        else let (handshake, conn2) = send_websocket_handshake_if_requested conn1
             in open_local_endpoint handlers (handshake @ send_continue_if_expected conn2) conn2
                  (drop (nat n) buf))"

end
