(* ===== verification/Mongoose_Reply.thy ===== *)
theory Mongoose_Reply
  imports Mongoose_Http
begin

text \<open>
  The reply side of \<open>src/mongoose/mongoose.c\<close>: status line and headers, and a body sent in
  chunks. A connection is the part of \<open>struct connection\<close> these functions use; its output
  buffer only grows (allocations succeed), so \<open>spool\<close> appends. \<open>unchunk\<close> is what an HTTP
  client does with a chunked body; the lemmas show what it gets from the chunks sent.
\<close>

section \<open>The connection\<close>

record connection =
  co_mg_conn :: mg_connection
  co_remote_iobuf :: string
  co_headers_sent :: bool

definition spool :: "string \<Rightarrow> string \<Rightarrow> string" where
  "spool io buf = io @ buf"

definition mg_write :: "string \<Rightarrow> (connection, unit) cpp" where
  "mg_write buf = modify (\<lambda>c. c\<lparr>co_remote_iobuf := spool (co_remote_iobuf c) buf\<rparr>)"

definition status_code_to_str :: "nat \<Rightarrow> string" where
  "status_code_to_str status_code =
     (if status_code = 200 then ''OK''
      else if status_code = 201 then ''Created''
      else if status_code = 204 then ''No Content''
      else if status_code = 301 then ''Moved Permanently''
      else if status_code = 302 then ''Found''
      else if status_code = 304 then ''Not Modified''
      else if status_code = 400 then ''Bad Request''
      else if status_code = 403 then ''Forbidden''
      else if status_code = 404 then ''Not Found''
      else if status_code = 405 then ''Method Not Allowed''
      else if status_code = 409 then ''Conflict''
      else if status_code = 411 then ''Length Required''
      else if status_code = 413 then ''Request Entity Too Large''
      else if status_code = 415 then ''Unsupported Media Type''
      else if status_code = 423 then ''Locked''
      else if status_code = 500 then ''Server Error''
      else if status_code = 501 then ''Not Implemented''
      else ''Server Error'')"

definition set_status_code :: "nat \<Rightarrow> (connection, unit) cpp" where
  "set_status_code status =
     modify (\<lambda>c. c\<lparr>co_mg_conn := (co_mg_conn c)\<lparr>mc_status_code := status\<rparr>\<rparr>)"

definition status_line :: "nat \<Rightarrow> string" where
  "status_line status = ''HTTP/1.1 '' @ to_string (int status) @ '' '' @ status_code_to_str status @ crlf"

definition mg_send_status :: "nat \<Rightarrow> (connection, unit) cpp" where
  "mg_send_status status = and_then (get_state (\<lambda>c. mc_status_code (co_mg_conn c))) (\<lambda>old.
     if old = 0 then and_then (set_status_code status) (\<lambda>_. mg_write (status_line status))
     else ret ())"

definition mg_send_header :: "string \<Rightarrow> string \<Rightarrow> (connection, unit) cpp" where
  "mg_send_header name v = and_then (mg_send_status 200) (\<lambda>_. mg_write (name @ '': '' @ v @ crlf))"

definition terminate_headers :: "(connection, unit) cpp" where
  "terminate_headers = and_then (get_state co_headers_sent) (\<lambda>sent.
     if \<not> sent
     then and_then (mg_send_header ''Transfer-Encoding'' ''chunked'') (\<lambda>_.
          and_then (mg_write crlf) (\<lambda>_.
          modify (\<lambda>c. c\<lparr>co_headers_sent := True\<rparr>)))
     else ret ())"

section \<open>Chunks\<close>

definition hex_upper_digit :: "nat \<Rightarrow> char" where
  "hex_upper_digit n = ''0123456789ABCDEF'' ! n"

text \<open>\<open>%X\<close>.\<close>

fun hex_upper :: "nat \<Rightarrow> string" where
  "hex_upper n =
     (if n < 16 then [hex_upper_digit n] else hex_upper (n div 16) @ [hex_upper_digit (n mod 16)])"

declare hex_upper.simps [simp del]

definition write_chunk :: "string \<Rightarrow> (connection, unit) cpp" where
  "write_chunk buf =
     and_then (mg_write (hex_upper (length buf) @ crlf)) (\<lambda>_.
     and_then (mg_write buf) (\<lambda>_. mg_write crlf))"

definition mg_send_data :: "string \<Rightarrow> (connection, unit) cpp" where
  "mg_send_data data = and_then terminate_headers (\<lambda>_. write_chunk data)"

definition terminating_chunk :: string where
  "terminating_chunk = ''0'' @ crlf @ crlf"

definition write_terminating_chunk :: "(connection, unit) cpp" where
  "write_terminating_chunk = mg_write terminating_chunk"

text \<open>The end of a handler's call in \<open>call_uri_handler_if_data_is_buffered\<close>.\<close>

definition finish_reply :: "(connection, unit) cpp" where
  "finish_reply = and_then (get_state co_headers_sent) (\<lambda>sent.
     if sent then write_terminating_chunk else ret ())"

section \<open>What a client reads\<close>

definition hex_value :: "string \<Rightarrow> nat" where
  "hex_value ds = foldl (\<lambda>v c. 16 * v + hextoi (to_lower c)) 0 ds"

function unchunk :: "string \<Rightarrow> (string \<times> string) option" where
  "unchunk s =
     (let ds = takeWhile is_xdigit s; t = dropWhile is_xdigit s; n = hex_value ds; body = drop 2 t
      in if ds = [] \<or> take 2 t \<noteq> crlf then None
         else if n = 0 then (if take 2 body = crlf then Some ([], drop 2 body) else None)
         else if take 2 (drop n body) \<noteq> crlf then None
         else map_option (\<lambda>(b, r). (take n body @ b, r)) (unchunk (drop (n + 2) body)))"
  by pat_completeness auto
termination
proof (relation "measure length")
  fix s ds t n body
  assume ds: "ds = takeWhile is_xdigit s" and t: "t = dropWhile is_xdigit s"
    and body: "body = drop 2 t" and "\<not> (ds = [] \<or> take 2 t \<noteq> crlf)"
  have "length s = length ds + length t"
    unfolding ds t by (metis length_append takeWhile_dropWhile_id)
  moreover have "0 < length ds" using \<open>\<not> _\<close> by simp
  ultimately show "(drop (n + 2) body, s) \<in> measure length"
    using body by (simp del: length_greater_0_conv)
qed simp

declare unchunk.simps [simp del]

lemma hex_digit_facts:
  assumes "n < 16"
  shows "is_xdigit (hex_upper_digit n)" "hextoi (to_lower (hex_upper_digit n)) = n"
proof -
  have "n \<in> {0, 1, 2, 3, 4, 5, 6, 7, 8, 9, 10, 11, 12, 13, 14, 15}"
    unfolding insert_iff empty_iff using assms by presburger
  then show "is_xdigit (hex_upper_digit n)" "hextoi (to_lower (hex_upper_digit n)) = n"
    by (auto simp: is_xdigit_def hextoi_def to_lower_def hex_upper_digit_def code_of_def is_digit_def)
qed

lemma hex_value_append: "hex_value (xs @ [c]) = 16 * hex_value xs + hextoi (to_lower c)"
  by (simp add: hex_value_def)

lemma hex_upper_facts:
  "hex_upper n \<noteq> []" "\<forall>c \<in> set (hex_upper n). is_xdigit c" "hex_value (hex_upper n) = n"
proof (induction n rule: hex_upper.induct)
  case (1 n)
  have "hex_value [hex_upper_digit k] = k" if "k < 16" for k
    using that by (simp add: hex_value_def hex_digit_facts)
  with 1 show "hex_upper n \<noteq> []" "\<forall>c \<in> set (hex_upper n). is_xdigit c" "hex_value (hex_upper n) = n"
    by (auto simp: hex_upper.simps [of n] hex_digit_facts hex_value_append)
qed

text \<open>One chunk: its bytes, and what reading it gives.\<close>

definition chunk :: "string \<Rightarrow> string" where
  "chunk buf = hex_upper (length buf) @ crlf @ buf @ crlf"

lemma not_xdigit_cr: "\<not> is_xdigit CHR 0x0D"
  by (simp add: is_xdigit_def to_lower_def code_of_def is_digit_def)

lemma hex_upper_scan:
  "takeWhile is_xdigit (hex_upper n @ crlf @ r) = hex_upper n"
  "dropWhile is_xdigit (hex_upper n @ crlf @ r) = crlf @ r"
proof -
  have "\<And>c. c \<in> set (hex_upper n) \<Longrightarrow> is_xdigit c"
    using hex_upper_facts(2) by blast
  then show "takeWhile is_xdigit (hex_upper n @ crlf @ r) = hex_upper n"
    "dropWhile is_xdigit (hex_upper n @ crlf @ r) = crlf @ r"
    by (simp_all add: takeWhile_append2 dropWhile_append2 crlf_def not_xdigit_cr)
qed

lemma length_crlf [simp]: "length crlf = 2"
  by (simp add: crlf_def)

lemma unchunk_chunk:
  "unchunk (chunk buf @ r) =
     (if buf = [] then (if take 2 (crlf @ r) = crlf then Some ([], r) else None)
      else map_option (\<lambda>(b, r'). (buf @ b, r')) (unchunk r))"
  by (subst unchunk.simps)
    (simp add: chunk_def hex_upper_scan hex_upper_facts Let_def)

lemma unchunk_terminating [simp]: "unchunk (terminating_chunk @ r) = Some ([], r)"
  using unchunk_chunk [of "[]" r]
  by (simp add: chunk_def terminating_chunk_def hex_upper.simps [of 0] hex_upper_digit_def)

text \<open>
  A body of several chunks ends, for the client, at the first empty one, and the rest is
  left on the connection.
\<close>

lemma unchunk_chunks:
  assumes "\<And>p. p \<in> set ps \<Longrightarrow> p \<noteq> []"
  shows "unchunk (concat (map chunk ps) @ terminating_chunk @ r) = Some (concat ps, r)"
  using assms by (induction ps) (simp_all add: unchunk_chunk)

lemma chunk_Nil: "chunk [] = terminating_chunk"
  by (simp add: chunk_def terminating_chunk_def hex_upper.simps [of 0] hex_upper_digit_def)

lemma unchunk_body:
  "unchunk (concat (map chunk ps) @ terminating_chunk) =
     (let good = takeWhile (\<lambda>p. p \<noteq> []) ps; rest = dropWhile (\<lambda>p. p \<noteq> []) ps
      in Some (concat good, concat (map chunk (tl rest)) @ (if rest = [] then [] else terminating_chunk)))"
proof -
  let ?good = "takeWhile (\<lambda>p. p \<noteq> []) ps" and ?rest = "dropWhile (\<lambda>p. p \<noteq> []) ps"
  have good: "\<And>p. p \<in> set ?good \<Longrightarrow> p \<noteq> []"
    by (auto dest: set_takeWhileD)
  have ps: "concat (map chunk ps) = concat (map chunk ?good) @ concat (map chunk ?rest)"
    by (metis concat_append map_append takeWhile_dropWhile_id)
  show ?thesis
  proof (cases ?rest)
    case Nil
    then have "?good = ps"
      by (metis append_Nil2 takeWhile_dropWhile_id)
    then have "unchunk (concat (map chunk ps) @ terminating_chunk) = Some (concat ps, [])"
      using unchunk_chunks [of ps "[]"] by simp
    then show ?thesis
      unfolding Let_def Nil \<open>?good = ps\<close> by simp
  next
    case (Cons p more)
    then have "p = []"
      using dropWhile_head [OF Cons] by simp
    then show ?thesis
      using unchunk_chunks [of ?good "concat (map chunk more) @ terminating_chunk", OF good] ps Cons
      by (simp add: Let_def chunk_Nil)
  qed
qed

section \<open>The bytes of a reply\<close>

lemma wp_mg_write [wp]:
  "wp (mg_write buf) Q E s = Q () (s\<lparr>co_remote_iobuf := co_remote_iobuf s @ buf\<rparr>)"
  by (simp add: mg_write_def wp spool_def)

text \<open>What \<open>terminate_headers\<close> sends on a connection.\<close>

definition chunked_head :: "connection \<Rightarrow> string" where
  "chunked_head c =
     (if co_headers_sent c then []
      else (if mc_status_code (co_mg_conn c) = 0 then status_line 200 else [])
        @ ''Transfer-Encoding: chunked'' @ crlf @ crlf)"

definition headers_done :: "connection \<Rightarrow> connection" where
  "headers_done c =
     (if co_headers_sent c then c
      else c\<lparr>co_mg_conn := (if mc_status_code (co_mg_conn c) = 0
                            then (co_mg_conn c)\<lparr>mc_status_code := 200\<rparr> else co_mg_conn c),
             co_headers_sent := True\<rparr>)"

lemma wp_mg_send_data [wp]:
  "wp (mg_send_data data) Q E c =
     Q () ((headers_done c)\<lparr>co_remote_iobuf := co_remote_iobuf c @ chunked_head c @ chunk data\<rparr>)"
  by (simp add: mg_send_data_def terminate_headers_def mg_send_header_def mg_send_status_def
      set_status_code_def write_chunk_def wp chunked_head_def headers_done_def chunk_def)

lemma wp_finish_reply [wp]:
  "wp finish_reply Q E c =
     Q () (c\<lparr>co_remote_iobuf := co_remote_iobuf c @ (if co_headers_sent c then terminating_chunk else [])\<rparr>)"
  by (simp add: finish_reply_def write_terminating_chunk_def wp)

lemma headers_done_simps [simp]:
  "co_headers_sent (headers_done c)"
  "co_remote_iobuf (headers_done c) = co_remote_iobuf c"
  "mc_uri (co_mg_conn (headers_done c)) = mc_uri (co_mg_conn c)"
  by (simp_all add: headers_done_def)

lemma chunked_head_sent [simp]: "co_headers_sent c \<Longrightarrow> chunked_head c = []"
  by (simp add: chunked_head_def)

lemma headers_done_sent [simp]: "co_headers_sent c \<Longrightarrow> headers_done c = c"
  by (simp add: headers_done_def)

end
