(* ===== verification/Mongoose_Facts.thy ===== *)
theory Mongoose_Facts
  imports Mongoose_Http "HOL-Library.Sublist"
begin

text \<open>
  What the request side of the web server guarantees: a cleaned URI does not climb, encoding
  is undone by decoding, header names are compared up to case, and a variable's value is
  found at a position of the data that determines its name.
\<close>

section \<open>Paths\<close>

text \<open>
  A path as a file system reads it: its components, and the directory it leads to, where an
  empty component and \<open>.\<close> stay and \<open>..\<close> goes up.
\<close>

fun path_components :: "string \<Rightarrow> string list" where
  "path_components [] = [[]]"
| "path_components (c # s) =
     (if is_sep c then [] # path_components s
      else (c # hd (path_components s)) # tl (path_components s))"

fun walk :: "string list \<Rightarrow> string list \<Rightarrow> string list" where
  "walk st [] = st"
| "walk st (w # ws) = walk (if w = [] \<or> w = ''.'' then st else if w = ''..'' then tl st else w # st) ws"

definition resolved :: "string \<Rightarrow> string list" where
  "resolved p = rev (walk [] (path_components p))"

definition stays_below :: "string \<Rightarrow> string \<Rightarrow> bool" where
  "stays_below root p = prefix (resolved root) (resolved p)"

lemma path_components_nonempty [simp]: "path_components s \<noteq> []"
  by (cases s) simp_all

lemma path_components_code [code]:
  "path_components [] = [[]]"
  "path_components (c # s) = (case path_components s of
     [] \<Rightarrow> [[c]] | w # ws \<Rightarrow> if is_sep c then [] # w # ws else (c # w) # ws)"
  by (simp_all split: list.split)

lemma path_components_join:
  "is_sep c \<Longrightarrow> path_components (a @ c # b) = path_components a @ path_components b"
  by (induction a) simp_all

lemma walk_append: "walk st (a @ b) = walk (walk st a) b"
  by (induction a arbitrary: st) simp_all

lemma walk_down: "''..'' \<notin> set ws \<Longrightarrow> \<exists>ds. walk st ws = ds @ st"
proof (induction ws arbitrary: st)
  case (Cons w ws)
  then obtain ds where "walk (if w = [] \<or> w = ''.'' then st else w # st) ws =
      ds @ (if w = [] \<or> w = ''.'' then st else w # st)"
    by (metis list.set_intros(2))
  with Cons.prems show ?case
    by (intro exI [of _ "if w = [] \<or> w = ''.'' then ds else ds @ [w]"]) auto
qed simp

lemma stays_below_join:
  assumes "is_sep c" and "''..'' \<notin> set (path_components b)"
  shows "stays_below a (a @ c # b)"
proof -
  obtain ds where "walk (walk [] (path_components a)) (path_components b) = ds @ walk [] (path_components a)"
    using walk_down [OF assms(2)] by blast
  then show ?thesis
    by (simp add: stays_below_def resolved_def path_components_join [OF assms(1)] walk_append)
qed

section \<open>Cleaned URIs\<close>

abbreviation "clean \<equiv> remove_double_dots_and_double_slashes"

lemma skip_seps_head: "skip_seps s = c # t \<Longrightarrow> \<not> is_sep c \<and> \<not> (c = CHR ''.'' \<and> (\<exists>u. t = CHR ''.'' # u))"
  by (induction s rule: skip_seps.induct) (auto split: if_splits)

lemma clean_head: "clean s = c # t \<Longrightarrow> \<exists>u. s = c # u"
  by (cases s) simp_all

lemma clean_second:
  assumes "clean s = c # d # t" and "\<not> is_sep c"
  shows "\<exists>u. s = c # d # u"
proof (cases s)
  case (Cons a u)
  with assms have "a = c" "clean u = d # t" by auto
  with Cons clean_head [of u d t] show ?thesis by auto
qed (use assms in simp)

lemma first_component_dots: "take 2 (hd (path_components s)) = ''..'' \<Longrightarrow> \<exists>t. s = CHR ''.'' # CHR ''.'' # t"
proof (cases s)
  case (Cons c t)
  assume "take 2 (hd (path_components s)) = ''..''"
  with Cons show ?thesis
    by (cases t) (auto simp: take_Cons' split: if_splits)
qed simp

lemma clean_components:
  "w \<in> set (tl (path_components (clean s))) \<Longrightarrow> take 2 w \<noteq> ''..''"
proof (induction s rule: remove_double_dots_and_double_slashes.induct)
  case (2 c s)
  show ?case
  proof (cases "is_sep c")
    case True
    have "take 2 (hd (path_components (clean (skip_seps s)))) \<noteq> ''..''"
    proof
      assume "take 2 (hd (path_components (clean (skip_seps s)))) = ''..''"
      then obtain t where "clean (skip_seps s) = CHR ''.'' # CHR ''.'' # t"
        using first_component_dots by blast
      then obtain u where "skip_seps s = CHR ''.'' # CHR ''.'' # u"
        using clean_second by (fastforce simp: is_sep_def)
      then show False
        using skip_seps_head by blast
    qed
    with 2 True show ?thesis
      by (cases "path_components (clean (skip_seps s))") auto
  next
    case False
    with 2 show ?thesis by simp
  qed
qed simp

lemma clean_stays_below:
  assumes "clean s = c # b" and "is_sep c"
  shows "stays_below root (root @ clean s)"
proof -
  have "path_components (clean s) = [] # path_components b"
    using assms by simp
  then have "take 2 w \<noteq> ''..''" if "w \<in> set (path_components b)" for w
    using clean_components [of w s] that by simp
  then have "''..'' \<notin> set (path_components b)"
    by fastforce
  then show ?thesis
    using stays_below_join [OF assms(2)] assms(1) by simp
qed

lemma clean_no_NUL: "CHR 0x00 \<notin> set s \<Longrightarrow> CHR 0x00 \<notin> set (clean s)"
proof (induction s rule: remove_double_dots_and_double_slashes.induct)
  case (2 c s)
  have "set (skip_seps s) \<subseteq> set s"
    by (induction s rule: skip_seps.induct) auto
  with 2 show ?case
    by (cases "is_sep c") (auto dest: subsetD)
qed simp

section \<open>Encoding and decoding\<close>

lemma hex_digit_facts_lower:
  assumes "n < 16"
  shows "is_xdigit (hex_digit n)" "hextoi (to_lower (hex_digit n)) = n"
proof -
  have "n \<in> {0, 1, 2, 3, 4, 5, 6, 7, 8, 9, 10, 11, 12, 13, 14, 15}"
    unfolding insert_iff empty_iff using assms by presburger
  then show "is_xdigit (hex_digit n)" "hextoi (to_lower (hex_digit n)) = n"
    by (auto simp: is_xdigit_def hextoi_def to_lower_def hex_digit_def code_of_def is_digit_def)
qed

lemma and_15: "(n :: nat) AND 15 = n mod 16"
  using take_bit_eq_mask [of 4 n] by (simp add: mask_eq_exp_minus_1 take_bit_eq_mod)

lemma nibbles: "push_bit 4 (drop_bit 4 n) OR (n AND 15) = (n :: nat)"
proof -
  have "push_bit 4 (drop_bit 4 n) OR take_bit 4 n = n"
    by (rule bit_eqI) (auto simp: bit_simps)
  then show ?thesis
    by (simp add: and_15 take_bit_eq_mod)
qed

lemma code_nibbles: "drop_bit 4 (code_of c) < 16" "code_of c AND 15 < 16"
proof -
  have "code_of c < 256"
    by (simp add: code_of_def)
  then show "drop_bit 4 (code_of c) < 16"
    by (simp add: drop_bit_eq_div less_mult_imp_div_less)
qed (simp add: and_15)

lemma hex_byte_digits:
  "hex_byte (hex_digit (drop_bit 4 (code_of c))) (hex_digit (code_of c AND 15)) = c"
  by (simp add: hex_byte_def hex_digit_facts_lower code_nibbles nibbles) (simp add: code_of_def)

lemma unescaped_plain:
  assumes "is_alnum c \<or> c \<in> set dont_escape"
  shows "c \<noteq> CHR ''%''" "c \<noteq> CHR ''+''"
  using assms by (auto simp: is_alnum_def is_digit_def to_lower_def code_of_def dont_escape_def)

lemma decode_encode_loop:
  assumes "3 * length s \<le> length old" and "length s \<le> n"
  shows "url_decode_loop form n (url_encode_loop old s) = (s, [])"
  using assms
proof (induction s arbitrary: old n)
  case Nil
  then show ?case by (cases old; cases n) simp_all
next
  case (Cons c s)
  then obtain d old' m where old: "old = d # old'" and n: "n = Suc m"
    by (cases old; cases n) simp_all
  show ?case
    using Cons unescaped_plain [of c] hex_digit_facts_lower code_nibbles [of c]
    by (auto simp: old n hex_byte_digits)
qed

theorem decode_encode:
  assumes "3 * length s < length dst" and "length s < n"
  shows "mg_url_decode (mg_url_encode s dst) n form = (int (length s), s)"
  using assms decode_encode_loop [of s "butlast dst" "n - 1" form]
  by (simp add: mg_url_decode_def mg_url_encode_def)

section \<open>Names\<close>

lemma lowercase_eq: "lowercase a = lowercase b \<longleftrightarrow> to_lower a = to_lower b"
  by (simp add: lowercase_def code_of_def)

lemma strncasecmp_eq:
  "length s \<le> length t \<Longrightarrow> mg_strncasecmp s t (length s) = 0 \<longleftrightarrow>
     map to_lower s = map to_lower (take (length s) t)"
proof (induction s arbitrary: t)
  case (Cons c s)
  then show ?case
    by (cases t) (simp_all add: Let_def lowercase_eq)
qed simp

lemma lowercase_zero: "lowercase c = 0 \<longleftrightarrow> c = CHR 0x00"
proof -
  have "code_of (to_lower c) = 0 \<longleftrightarrow> code_of c = 0"
    by (auto simp: to_lower_def code_of_def)
  then show ?thesis
    using of_char_eq_iff [where 'a = nat, of c "CHR 0x00"] by (simp add: lowercase_def code_of_def)
qed

lemma strcasecmp_eq:
  assumes "CHR 0x00 \<notin> set s" and "CHR 0x00 \<notin> set t"
  shows "mg_strcasecmp s t = 0 \<longleftrightarrow> map to_lower s = map to_lower t"
  using assms
  by (induction s t rule: mg_strcasecmp.induct) (auto simp: Let_def lowercase_eq lowercase_zero)

text \<open>A variable of the name at position \<open>k\<close> of the data.\<close>

definition name_at :: "string \<Rightarrow> string \<Rightarrow> nat \<Rightarrow> bool" where
  "name_at d name k =
     (k + length name < length d \<and> d ! (k + length name) = CHR ''='' \<and>
      map to_lower name = map to_lower (take (length name) (drop k d)))"

lemma get_var_loop_name:
  "get_var_loop prev name d = Some v \<Longrightarrow> \<exists>k. name_at d name k"
proof (induction d arbitrary: prev)
  case (Cons c p)
  show ?case
  proof (cases "get_var_loop (Some c) name p = Some v")
    case True
    with Cons.IH obtain k where "name_at p name k" by blast
    then have "name_at (c # p) name (Suc k)"
      by (simp add: name_at_def)
    then show ?thesis by blast
  next
    case False
    with Cons.prems have "name_at (c # p) name 0"
      using strncasecmp_eq [of name "c # p"]
      by (auto simp: name_at_def split: if_splits)
    then show ?thesis by blast
  qed
qed simp

lemma code_to_lower: "code_of (to_lower c) = (if 65 \<le> code_of c \<and> code_of c \<le> 90 then code_of c + 32 else code_of c)"
  by (simp add: to_lower_def code_of_def)

lemma code_of_eq: "code_of a = code_of b \<longleftrightarrow> a = b"
  by (simp add: code_of_def)

lemma to_lower_equals: "to_lower c = CHR ''='' \<longleftrightarrow> c = CHR ''=''"
proof -
  have "code_of CHR ''='' = 61"
    by (simp add: code_of_def)
  then show ?thesis
    using code_to_lower [of c] by (auto simp flip: code_of_eq)
qed

lemma name_at_unique:
  assumes "name_at d n1 k" and "name_at d n2 k"
    and "CHR ''='' \<notin> set n1" and "CHR ''='' \<notin> set n2"
  shows "map to_lower n1 = map to_lower n2"
proof -
  have "length n1 = length n2"
  proof (rule ccontr)
    have diff: False
      if "name_at d a k" "name_at d b k" "CHR ''='' \<notin> set b" "length a < length b" for a b
    proof -
      have "map to_lower b ! length a = map to_lower (take (length b) (drop k d)) ! length a"
        using that(2) by (simp add: name_at_def)
      moreover have "length a < length (take (length b) (drop k d))"
        using that(2,4) by (auto simp: name_at_def)
      ultimately have "to_lower (b ! length a) = to_lower (d ! (k + length a))"
        using that(2,4) by (simp add: name_at_def)
      then have "b ! length a = CHR ''=''"
        using that(1) to_lower_equals [of "d ! (k + length a)"] to_lower_equals [of "b ! length a"]
        by (simp add: name_at_def)
      then show False
        using that(3,4) nth_mem by fastforce
    qed
    assume "length n1 \<noteq> length n2"
    then show False
      using diff [OF assms(1,2,4)] diff [OF assms(2,1,3)] by linarith
  qed
  then show ?thesis
    using assms(1,2) by (simp add: name_at_def)
qed

end
