(* ===== verification/Std_String.thy ===== *)
theory Std_String
  imports CString
begin

text \<open>
  The operations of \<open>std::string\<close> the program uses beyond concatenation: \<open>find\<close> with and
  without a start position, \<open>substr\<close>, and the replacement of all occurrences
  (\<open>replaceAll\<close> of \<open>src/gloox-1.0.20/src/util.cpp\<close>). The lemmas turn positions into prefixes
  and suffixes, and give \<open>replaceAll\<close> as a scan of the string.
\<close>

section \<open>Searching\<close>

text \<open>\<open>find\<close>; \<open>None\<close> is \<open>npos\<close>.\<close>

fun str_find :: "string \<Rightarrow> string \<Rightarrow> nat option" where
  "str_find pat [] = (if pat = [] then Some 0 else None)"
| "str_find pat (c # s) =
     (if take (length pat) (c # s) = pat then Some 0 else map_option Suc (str_find pat s))"

definition str_find_from :: "string \<Rightarrow> string \<Rightarrow> nat \<Rightarrow> nat option" where
  "str_find_from pat s pos =
     (if pos \<le> length s then map_option (\<lambda>i. pos + i) (str_find pat (drop pos s)) else None)"

lemma str_find_bound: "str_find pat s = Some i \<Longrightarrow> i + length pat \<le> length s"
proof (induction s arbitrary: i)
  case (Cons c s)
  show ?case
  proof (cases "take (length pat) (c # s) = pat")
    case True
    then have "length pat \<le> length (c # s)"
      by (metis length_take min.cobounded1)
    with True Cons.prems show ?thesis by simp
  next
    case False
    then show ?thesis using Cons by (auto split: if_splits)
  qed
qed (auto split: if_splits)

lemma str_find_char: "str_find [c] s = (if c \<in> set s then Some (length (takeWhile (\<lambda>d. d \<noteq> c) s)) else None)"
  by (induction s) auto

lemma str_find_char_append: "c \<notin> set u \<Longrightarrow> str_find [c] (u @ c # r) = Some (length u)"
  by (induction u) auto

lemma str_find_char_absent: "c \<notin> set u \<Longrightarrow> str_find [c] u = None"
  by (simp add: str_find_char)

section \<open>Replacing\<close>

function replaceAll :: "string \<Rightarrow> string \<Rightarrow> string \<Rightarrow> string" where
  "replaceAll find_str replacement target =
     (if find_str = [] then target
      else case str_find find_str target of
        None \<Rightarrow> target
      | Some index \<Rightarrow> take index target @ replacement
          @ replaceAll find_str replacement (drop (index + length find_str) target))"
  by pat_completeness auto
termination
proof (relation "measure (\<lambda>(f, r, t). length t)")
  fix f r t i
  assume "f \<noteq> []" "str_find f t = Some i"
  with str_find_bound [of f t i] have "0 < length f" "i + length f \<le> length t"
    by auto
  then show "((f, r, drop (i + length f) t), (f, r, t)) \<in> measure (\<lambda>(f, r, t). length t)"
    by (simp del: length_greater_0_conv)
qed simp

declare replaceAll.simps [simp del]

lemma replaceAll_Nil [simp]: "replaceAll f r [] = []"
  by (simp add: replaceAll.simps)

lemma replaceAll_Cons:
  assumes "f \<noteq> []"
  shows "replaceAll f r (c # s) =
    (if take (length f) (c # s) = f then r @ replaceAll f r (drop (length f) (c # s))
     else c # replaceAll f r s)"
  using assms replaceAll.simps [of f r "c # s"] replaceAll.simps [of f r s]
  by (auto split: option.splits)

lemma replaceAll_char:
  "replaceAll [c] r s = concat (map (\<lambda>x. if x = c then r else [x]) s)"
  by (induction s) (auto simp: replaceAll_Cons)

lemma replaceAll_skip: "hd f \<noteq> c \<Longrightarrow> replaceAll f r (c # s) = c # replaceAll f r s"
proof (cases f)
  case (Cons a as)
  moreover assume "hd f \<noteq> c"
  ultimately have "take (length f) (c # s) \<noteq> f" by simp
  moreover have "f \<noteq> []" using Cons by simp
  ultimately show ?thesis using replaceAll_Cons [of f r c s] by argo
qed (simp add: replaceAll.simps)

lemma replaceAll_match:
  assumes "f \<noteq> []"
  shows "replaceAll f r (f @ s) = r @ replaceAll f r s"
proof -
  obtain a as where f: "f = a # as" using assms by (cases f) auto
  have "take (length f) (a # as @ s) = f" "drop (length f) (a # as @ s) = s"
    by (simp_all add: f)
  then show ?thesis
    using replaceAll_Cons [OF assms, of r a "as @ s"] by (simp add: f)
qed

end
