(* ===== verification/YahooWeb.thy ===== *)
theory YahooWeb
  imports Mongoose_Reply Mongoose_Facts YMsg_Builder Std_Map Std_String
begin

text \<open>
  The pages of the messenger (\<open>src/YahooWeb\<close>): \<open>Utilities.cpp\<close>, \<open>WebServer.cpp\<close>,
  \<open>YahooInsiderWebServer.cpp\<close>, \<open>MyYahooWebServer.cpp\<close>, \<open>MultilHostWebServer.cpp\<close>, and the
  server \<open>HTTPServerThread\<close> of \<open>src/TestHarness/TestHarness.cpp\<close> puts together.

  The state is the connection of the request, with two records of what leaves the web
  server otherwise: the paths \<open>std::ifstream\<close> was given, and the builders handed to the session
  gateway (whose \<open>DispatchPacket\<close> does nothing). The file system is a parameter \<open>fs\<close>, a map
  from paths to contents. \<open>std::cerr\<close> is left out, and so are the null checks of
  constructors.
\<close>

section \<open>Strings\<close>

text \<open>\<open>std::stoi\<close> and \<open>std::stol\<close>: both types have 32 bits.\<close>

definition std_stol :: "string \<Rightarrow> string \<Rightarrow> exn + int" where
  "std_stol function_name s = (case fst (scan_long s) of
      None \<Rightarrow> Inl (Invalid_argument (''invalid '' @ function_name @ '' argument''))
    | Some n \<Rightarrow> (if n < LONG_MIN \<or> n > LONG_MAX
                 then Inl (Out_of_range (function_name @ '' argument out of range'')) else Inr n))"

section \<open>The state\<close>

record web =
  we_connection :: connection
  we_opened :: "string list"
  we_dispatched :: "string list"

definition on_connection :: "(connection, 'a) cpp \<Rightarrow> (web, 'a) cpp" where
  "on_connection = zoom we_connection (\<lambda>c w. w\<lparr>we_connection := c\<rparr>)"

definition request :: "(web, mg_connection) cpp" where
  "request = get_state (\<lambda>w. co_mg_conn (we_connection w))"

text \<open>\<open>mg_send_data(mg_connection&, const std::string&)\<close> and its overload for vectors.\<close>

definition mg_send_string :: "string \<Rightarrow> (web, unit) cpp" where
  "mg_send_string data = on_connection (mg_send_data data)"

section \<open>Utilities\<close>

definition GetFullURL :: "mg_connection \<Rightarrow> string" where
  "GetFullURL conn =
     (case mg_get_header conn ''Host'' of None \<Rightarrow> [] | Some host \<Rightarrow> host) @
     (case mc_uri conn of None \<Rightarrow> [] | Some uri \<Rightarrow> uri) @
     (case mc_query_string conn of None \<Rightarrow> [] | Some query \<Rightarrow> CHR ''?'' # query)"

definition GenericServeFile :: "(string \<Rightarrow> string option) \<Rightarrow> string \<Rightarrow> (web, bool) cpp" where
  "GenericServeFile fs filepath =
     and_then (modify (\<lambda>w. w\<lparr>we_opened := we_opened w @ [filepath]\<rparr>)) (\<lambda>_.
     case fs filepath of
       None \<Rightarrow> ret False
     | Some reply \<Rightarrow> and_then (mg_send_string reply) (\<lambda>_. ret True))"

definition GenericHandler :: "(string \<Rightarrow> string option) \<Rightarrow> string \<Rightarrow> (web, bool) cpp" where
  "GenericHandler fs rootPath = and_then request (\<lambda>conn.
     case mc_uri conn of
       None \<Rightarrow> ret False
     | Some uri \<Rightarrow> GenericServeFile fs (rootPath @ uri))"

section \<open>WebServer\<close>

definition WebServer_OnRequest :: "(web, bool) cpp" where
  "WebServer_OnRequest = and_then request (\<lambda>conn.
     and_then (mg_send_string (GetFullURL conn)) (\<lambda>_. ret True))"

section \<open>YahooInsiderWebServer\<close>

definition imv_name :: "string \<Rightarrow> nat \<Rightarrow> string" where
  "imv_name fullURL getImvPos =
     (let begin_pos = getImvPos + 8;
          end_pos = (case str_find_from ''&'' fullURL begin_pos of
                       None \<Rightarrow> length fullURL | Some i \<Rightarrow> i)
      in take (end_pos - begin_pos) (drop begin_pos fullURL))"

text \<open>One of the six parts of the configuration: the file, if the URL asks for it.\<close>

definition serve_if :: "(string \<Rightarrow> string option) \<Rightarrow> string \<Rightarrow> string \<times> string \<Rightarrow> (web, unit) cpp" where
  "serve_if fs fullURL = (\<lambda>(parameter, file).
     if str_find parameter fullURL \<noteq> None
     then and_then (GenericServeFile fs (''htdoc/insider.yahoo.com/'' @ file)) (\<lambda>_. ret ())
     else ret ())"

definition configuration_files :: "(string \<times> string) list" where
  "configuration_files =
     [(''&filter=0'', ''filters.xml''), (''&imv=0'', ''imvironments.xml''),
      (''&system=0'', ''system.xml''), (''&sms=0'', ''sms.xml''),
      (''&chatcat='', ''chatCategories.xml''), (''&ab2=0'', ''addressbook.xml'')]"

definition xml_head :: string where
  "xml_head = ''<?xml version=\"1.0\" encoding=\"utf-8\" ?>''"

definition Insider_OnRequest :: "(string \<Rightarrow> string option) \<Rightarrow> (web, bool) cpp" where
  "Insider_OnRequest fs = and_then request (\<lambda>conn.
     if mc_uri conn \<noteq> Some ''/ycontent/'' then ret False
     else let fullURL = GetFullURL conn in
       case str_find ''?getimv='' fullURL of
         Some getImvPos \<Rightarrow>
           GenericServeFile fs
             (''htdoc/insider.yahoo.com/imv/'' @ imv_name fullURL getImvPos @ ''.yim'')
       | None \<Rightarrow>
           if str_find ''?chatroom_'' fullURL \<noteq> None
           then (if str_find ''chatroom_'' fullURL \<noteq> None
                 then GenericServeFile fs ''htdoc/insider.yahoo.com/roomTopics.xml''
                 else ret False)
           else
             and_then (mg_send_string xml_head) (\<lambda>_.
             and_then (mg_send_string ''<yahooinsider intl=\"us\">'') (\<lambda>_.
             and_then (for_each (serve_if fs fullURL) configuration_files) (\<lambda>_.
             and_then (mg_send_string ''</yahooinsider>'') (\<lambda>_. ret True)))))"

section \<open>MyYahooWebServer\<close>

text \<open>\<open>MultilHostWebServer::DispatchPacket\<close> calls the gateway's, which ignores the builder.\<close>

definition DispatchPacket :: "string \<Rightarrow> (web, unit) cpp" where
  "DispatchPacket builder = modify (\<lambda>w. w\<lparr>we_dispatched := we_dispatched w @ [builder]\<rparr>)"

definition BUFFER_SIZE :: nat where
  "BUFFER_SIZE = 1024"

definition numbered :: "string \<Rightarrow> nat \<Rightarrow> string" where
  "numbered name i = name @ to_string (int i)"

text \<open>The body of the loop for a key that is not empty.\<close>

definition append_numbered :: "mg_connection \<Rightarrow> nat \<Rightarrow> string \<Rightarrow> string \<Rightarrow> exn + string" where
  "append_numbered conn i buffer builder =
     bind_res (std_stol ''stol'' (c_str buffer)) (\<lambda>key.
     bind_res (mg_get_var conn (numbered ''value'' i) BUFFER_SIZE) (\<lambda>(valueLength, buffer1).
     Append key (c_str buffer1) builder))"

text \<open>
  The loop over \<open>key0\<close>, \<open>key1\<close> and so on, up to the first that is missing; the first argument
  bounds the number of turns, and \<open>None\<close> says that it was not enough.
\<close>

fun debug_loop :: "nat \<Rightarrow> mg_connection \<Rightarrow> nat \<Rightarrow> string \<Rightarrow> exn + string option" where
  "debug_loop 0 conn i builder = Inr None"
| "debug_loop (Suc fuel) conn i builder =
     bind_res (mg_get_var conn (numbered ''key'' i) BUFFER_SIZE) (\<lambda>(keyLength, buffer).
     if keyLength < 0 then Inr (Some builder)
     else bind_res (if keyLength \<noteq> 0 then append_numbered conn i buffer builder else Inr builder)
            (debug_loop fuel conn (i + 1)))"

text \<open>One turn more than there are places for a variable.\<close>

definition request_fuel :: "mg_connection \<Rightarrow> nat" where
  "request_fuel conn =
     Suc (length (case mc_query_string conn of None \<Rightarrow> [] | Some q \<Rightarrow> q)
          + length (case mc_content conn of None \<Rightarrow> [] | Some c \<Rightarrow> c))"

definition OnDebugSendPacketRequest :: "(web, bool) cpp" where
  "OnDebugSendPacketRequest = and_then request (\<lambda>conn.
     and_then (lift_res (mg_get_var conn ''serviceid'' BUFFER_SIZE)) (\<lambda>(serviceIdLength, buffer).
     if serviceIdLength = 0 then ret False else
     and_then (lift_res (std_stol ''stoi'' (c_str buffer))) (\<lambda>serviceId.
     and_then (lift_res (mg_get_var conn ''attribute'' BUFFER_SIZE)) (\<lambda>(attributeIdLength, buffer1).
     if attributeIdLength = 0 then ret False else
     and_then (lift_res (std_stol ''stol'' (c_str buffer1))) (\<lambda>attribute.
     and_then (lift_res (debug_loop (request_fuel conn) conn 0
         (Initialize_header (Header_new 0 0 (of_int serviceId) (of_int attribute)) []))) (\<lambda>r.
     case r of
       None \<Rightarrow> throw (Undefined ''OnDebugSendPacketRequest'')
     | Some builder \<Rightarrow> and_then (DispatchPacket builder) (\<lambda>_. ret True)))))))"

definition MyYahoo_OnRequest :: "(string \<Rightarrow> string option) \<Rightarrow> string \<Rightarrow> (web, bool) cpp" where
  "MyYahoo_OnRequest fs rootPath = and_then request (\<lambda>conn.
     if mc_uri conn = None then ret False
     else if mc_uri conn = Some ''/tearoff/channel.html''
     then and_then (lift_res (mg_get_var conn ''action'' BUFFER_SIZE)) (\<lambda>(val, buffer).
          if val \<ge> 0 \<and> take (nat val) buffer = ''send'' then OnDebugSendPacketRequest
          else GenericHandler fs rootPath)
     else GenericHandler fs rootPath)"

section \<open>MultilHostWebServer\<close>

type_synonym handlers = "(string, (web, bool) cpp) std_map"

text \<open>\<open>insert_or_assign(...).second\<close> tells whether the host is new.\<close>

definition Add :: "string \<Rightarrow> (web, bool) cpp \<Rightarrow> handlers \<Rightarrow> bool \<times> handlers" where
  "Add hostname handler hs = (map_find hs hostname = None, map_assign hostname handler hs)"

definition host_name :: "string \<Rightarrow> string" where
  "host_name headerHost =
     (case str_find '':'' headerHost of None \<Rightarrow> headerHost | Some pos \<Rightarrow> take pos headerHost)"

definition MultiHost_OnRequest :: "handlers \<Rightarrow> (web, bool) cpp" where
  "MultiHost_OnRequest hs = and_then request (\<lambda>conn.
     and_then
       (case mg_get_header conn ''Host'' of
          None \<Rightarrow> ret False
        | Some headerHost \<Rightarrow>
            (case map_find hs (host_name headerHost) of
               None \<Rightarrow> ret False
             | Some handler \<Rightarrow> handler)) (\<lambda>handled.
     and_then (if \<not> handled then mg_send_string (GetFullURL conn) else ret ()) (\<lambda>_.
     ret True)))"

section \<open>The server\<close>

text \<open>The hosts \<open>HTTPServerThread\<close> adds.\<close>

definition server_handlers :: "(string \<Rightarrow> string option) \<Rightarrow> handlers" where
  "server_handlers fs =
     snd (Add ''my.yahoo.com.localhost'' (MyYahoo_OnRequest fs ''htdoc/my.yahoo.com'')
     (snd (Add ''insider.msg.yahoo.com.localhost'' (Insider_OnRequest fs)
     (snd (Add ''chat.yahoo.com.localhost'' (GenericHandler fs ''htdoc/chat.yahoo.com'')
     (snd (Add ''localhost'' (GenericHandler fs ''htdoc'') [])))))))"

text \<open>
  The answer to a request: \<open>ConnectionCallback\<close> on the server above, and the end of the reply
  by the web server.
\<close>

definition answer :: "(string \<Rightarrow> string option) \<Rightarrow> (web, bool) cpp" where
  "answer fs = and_then (MultiHost_OnRequest (server_handlers fs)) (\<lambda>result.
     and_then (on_connection finish_reply) (\<lambda>_. ret result))"

text \<open>
  The state a handler starts in: nothing opened, and nothing sent but what \<open>process_request\<close>
  sent before.
\<close>

definition web_begin :: "string \<Rightarrow> mg_connection \<Rightarrow> web" where
  "web_begin sent conn =
     \<lparr>we_connection = \<lparr>co_mg_conn = conn, co_remote_iobuf = sent, co_headers_sent = False\<rparr>,
      we_opened = [], we_dispatched = []\<rparr>"

definition web_start :: "mg_connection \<Rightarrow> web" where
  "web_start conn = web_begin [] conn"

section \<open>Websockets\<close>

text \<open>
  The loop over the frames in the input, \<open>do { } while (deliver_websocket_frame(conn))\<close>: the
  handler is the same as for a request, and the reply is not ended. The result is whether a
  call returned true, upon which the server closes the connection once its output is sent,
  and the input that is left.
\<close>

definition with_frame :: "frame \<Rightarrow> (web, unit) cpp" where
  "with_frame f = on_connection (modify (\<lambda>c. c\<lparr>co_mg_conn := (co_mg_conn c)
     \<lparr>mc_content := Some (fr_content f), mc_content_len := fr_data_len f, mc_wsbits := fr_wsbits f\<rparr>\<rparr>))"

function deliver_frames :: "(string \<Rightarrow> string option) \<Rightarrow> string \<Rightarrow> (web, bool \<times> string) cpp" where
  "deliver_frames fs buf =
     (case deliver_frame buf of
        Inl e \<Rightarrow> throw e
      | Inr None \<Rightarrow> ret (False, buf)
      | Inr (Some (f, rest)) \<Rightarrow>
          and_then (with_frame f) (\<lambda>_.
          and_then (MultiHost_OnRequest (server_handlers fs)) (\<lambda>result.
          and_then (deliver_frames fs rest) (\<lambda>(done, left). ret (result \<or> done, left)))))"
  by pat_completeness auto
termination
  by (relation "measure (\<lambda>(fs, buf). length buf)") (auto dest: deliver_frame_shorter)

declare deliver_frames.simps [simp del]

text \<open>A websocket from its first input on, with what arrives after it, piece by piece.\<close>

fun websocket_session ::
    "(string \<Rightarrow> string option) \<Rightarrow> string \<Rightarrow> string list \<Rightarrow> (web, string) cpp" where
  "websocket_session fs buf [] = ret buf"
| "websocket_session fs buf (data # later) =
     and_then (deliver_frames fs (buf @ data)) (\<lambda>(done, left). websocket_session fs left later)"

section \<open>From the bytes that arrive\<close>

text \<open>
  What a connection leads to on the server, whose handler has the prefix \<open>/\<close>, when its input
  is \<open>buf\<close> and, on a websocket, \<open>later\<close>. Where no handler is called no page is opened.
\<close>

definition serve :: "(string \<Rightarrow> string option) \<Rightarrow> mg_connection \<Rightarrow> string \<Rightarrow> string list \<Rightarrow> web" where
  "serve fs conn0 buf later = (case process_request [''/''] conn0 buf of
       Call_handler h sent conn \<Rightarrow> snd (answer fs (web_begin sent conn))
     | Deliver_frames h sent conn \<Rightarrow>
         snd (websocket_session fs [] (the (mc_content conn) # later) (web_begin sent conn))
     | Local_file sent conn \<Rightarrow> web_begin sent conn
     | Wait_for_content sent conn \<Rightarrow> web_begin sent conn
     | _ \<Rightarrow> web_begin [] conn0)"

end
