(* ===== verification/YahooWeb_Facts.thy ===== *)
theory YahooWeb_Facts
  imports YahooWeb
begin

text \<open>
  Lemmas on the pages: which paths are opened, what a request that reaches a handler looks
  like, the bytes of a reply, and the loop over the numbered variables of a debug request.
\<close>

section \<open>Rules\<close>

lemma wp_mg_send_string [wp]:
  "wp (mg_send_string data) Q E w =
     (let c = we_connection w
      in Q () (w\<lparr>we_connection := (headers_done c)
           \<lparr>co_remote_iobuf := co_remote_iobuf c @ chunked_head c @ chunk data\<rparr>\<rparr>))"
  by (simp add: mg_send_string_def on_connection_def wp Let_def)

lemma keeps_option:
  "(x = None \<Longrightarrow> keeps P m) \<Longrightarrow> (\<And>y. x = Some y \<Longrightarrow> keeps P (f y)) \<Longrightarrow>
   keeps P (case x of None \<Rightarrow> m | Some y \<Rightarrow> f y)"
  by (cases x) simp_all

lemma keeps_pair: "(\<And>a b. keeps P (f a b)) \<Longrightarrow> keeps P (case x of (a, b) \<Rightarrow> f a b)"
  by (cases x) simp

section \<open>Paths\<close>

definition insider_files :: "string set" where
  "insider_files = {''htdoc/insider.yahoo.com/roomTopics.xml'', ''htdoc/insider.yahoo.com/filters.xml'',
     ''htdoc/insider.yahoo.com/imvironments.xml'', ''htdoc/insider.yahoo.com/system.xml'',
     ''htdoc/insider.yahoo.com/sms.xml'', ''htdoc/insider.yahoo.com/chatCategories.xml'',
     ''htdoc/insider.yahoo.com/addressbook.xml''}"

definition roots :: "string set" where
  "roots = {''htdoc'', ''htdoc/chat.yahoo.com'', ''htdoc/my.yahoo.com''}"

definition allowed_path :: "string \<Rightarrow> string \<Rightarrow> bool" where
  "allowed_path uri p =
     (p \<in> insider_files \<or> (\<exists>name. p = ''htdoc/insider.yahoo.com/imv/'' @ name @ ''.yim'') \<or>
      (\<exists>root \<in> roots. p = root @ uri))"

definition opens_allowed :: "string \<Rightarrow> web \<Rightarrow> bool" where
  "opens_allowed uri w =
     (mc_uri (co_mg_conn (we_connection w)) = Some uri \<and> (\<forall>p \<in> set (we_opened w). allowed_path uri p))"

lemma keeps_request:
  "(\<And>conn. mc_uri conn = Some uri \<Longrightarrow> keeps (opens_allowed uri) (f conn)) \<Longrightarrow>
   keeps (opens_allowed uri) (and_then request f)"
  by (rule keepsI) (simp add: request_def wp opens_allowed_def keeps_def)

lemma keeps_send [keeps_intros]: "keeps (opens_allowed uri) (mg_send_string data)"
  by (rule keepsI) (simp add: wp Let_def opens_allowed_def)

lemma keeps_serve:
  "allowed_path uri p \<Longrightarrow> keeps (opens_allowed uri) (GenericServeFile fs p)"
  unfolding GenericServeFile_def
  by (intro keeps_intros keeps_option keeps_modify) (auto simp: opens_allowed_def)

lemma keeps_GenericHandler:
  "root \<in> roots \<Longrightarrow> keeps (opens_allowed uri) (GenericHandler fs root)"
  unfolding GenericHandler_def
  by (intro keeps_request keeps_option keeps_intros keeps_serve) (auto simp: allowed_path_def)

lemma keeps_configuration:
  "keeps (opens_allowed uri) (for_each (serve_if fs fullURL) configuration_files)"
  unfolding configuration_files_def for_each.simps serve_if_def prod.case
  by (intro keeps_intros keeps_serve) (simp_all add: allowed_path_def insider_files_def)

lemma keeps_Insider: "keeps (opens_allowed uri) (Insider_OnRequest fs)"
  unfolding Insider_OnRequest_def Let_def
  by (intro keeps_request keeps_option keeps_intros keeps_configuration keeps_serve)
    (auto simp: allowed_path_def insider_files_def)

lemma keeps_dispatch [keeps_intros]: "keeps (opens_allowed uri) (DispatchPacket builder)"
  unfolding DispatchPacket_def by (rule keeps_modify) (simp add: opens_allowed_def)

lemma keeps_debug: "keeps (opens_allowed uri) OnDebugSendPacketRequest"
  unfolding OnDebugSendPacketRequest_def
  by (intro keeps_request keeps_intros keeps_pair keeps_option)

lemma keeps_MyYahoo: "root \<in> roots \<Longrightarrow> keeps (opens_allowed uri) (MyYahoo_OnRequest fs root)"
  unfolding MyYahoo_OnRequest_def
  by (intro keeps_request keeps_intros keeps_pair keeps_debug keeps_GenericHandler)

lemma server_handlers_eq:
  "server_handlers fs =
     [(''chat.yahoo.com.localhost'', GenericHandler fs ''htdoc/chat.yahoo.com''),
      (''insider.msg.yahoo.com.localhost'', Insider_OnRequest fs),
      (''localhost'', GenericHandler fs ''htdoc''),
      (''my.yahoo.com.localhost'', MyYahoo_OnRequest fs ''htdoc/my.yahoo.com'')]"
  by (simp add: server_handlers_def Add_def)

lemma keeps_handler:
  "map_find (server_handlers fs) host = Some handler \<Longrightarrow> keeps (opens_allowed uri) handler"
  by (auto simp: server_handlers_eq map_find_def roots_def split: if_splits
      intro: keeps_GenericHandler keeps_Insider keeps_MyYahoo)

lemma keeps_finish [keeps_intros]: "keeps (opens_allowed uri) (on_connection finish_reply)"
  by (rule keepsI) (simp add: on_connection_def wp opens_allowed_def)

lemma keeps_answer: "keeps (opens_allowed uri) (answer fs)"
  unfolding answer_def MultiHost_OnRequest_def
  by (intro keeps_intros keeps_request keeps_option keeps_handler)

text \<open>The URI a handler sees was cleaned, and starts with the prefix the handler has.\<close>

lemma parse_http_message_uri:
  "parse_http_message buf ri = (len, conn) \<Longrightarrow> 0 \<le> len \<Longrightarrow> \<exists>u. mc_uri conn = Some (clean_uri u)"
  by (auto simp: parse_http_message_def Let_def split: prod.splits if_splits)

text \<open>Frames change the content only.\<close>

lemma keeps_with_frame [keeps_intros]: "keeps (opens_allowed uri) (with_frame f)"
  by (rule keepsI) (simp add: with_frame_def on_connection_def wp opens_allowed_def)

lemma keeps_MultiHost [keeps_intros]: "keeps (opens_allowed uri) (MultiHost_OnRequest (server_handlers fs))"
  unfolding MultiHost_OnRequest_def
  by (intro keeps_intros keeps_request keeps_option keeps_handler)

lemma keeps_deliver_frames: "keeps (opens_allowed uri) (deliver_frames fs buf)"
proof (induction fs buf rule: deliver_frames.induct)
  case (1 fs buf)
  show ?case
  proof (cases "deliver_frame buf")
    case (Inl e)
    then show ?thesis
      by (subst deliver_frames.simps) (simp add: keeps_intros)
  next
    case (Inr r)
    show ?thesis
    proof (cases r)
      case None
      with Inr show ?thesis
        by (subst deliver_frames.simps) (simp add: keeps_intros)
    next
      case (Some q)
      obtain f rest where q: "q = (f, rest)"
        by (cases q)
      have "keeps (opens_allowed uri) (deliver_frames fs rest)"
        using 1 Inr Some q by blast
      then show ?thesis
        using Inr Some q
        by (subst deliver_frames.simps) (auto intro!: keeps_intros keeps_pair)
    qed
  qed
qed

lemma keeps_websocket_session: "keeps (opens_allowed uri) (websocket_session fs buf pieces)"
  by (induction fs buf pieces rule: websocket_session.induct)
    (auto intro!: keeps_intros keeps_pair keeps_deliver_frames)

text \<open>Where a handler is called, the URI was cleaned and starts with its prefix.\<close>

definition reaches_handler :: "outcome \<Rightarrow> (string \<times> mg_connection) option" where
  "reaches_handler out = (case out of
      Call_handler h sent conn \<Rightarrow> Some (h, conn)
    | Deliver_frames h sent conn \<Rightarrow> Some (h, conn)
    | _ \<Rightarrow> None)"

lemma process_request_uri:
  assumes "reaches_handler (process_request hs conn0 buf) = Some (h, conn)"
  shows "\<exists>u. mc_uri conn = Some (clean_uri u) \<and> take (length h) (clean_uri u) = h \<and> h \<in> set hs"
proof -
  obtain len conn1 where p: "parse_http_message (take (nat (get_request_len buf)) buf) conn0 = (len, conn1)"
    by fastforce
  obtain handshake conn2 where k: "send_websocket_handshake_if_requested conn1 = (handshake, conn2)"
    by fastforce
  have "0 \<le> len" and o: "reaches_handler (open_local_endpoint hs (handshake @ send_continue_if_expected conn2)
      conn2 (drop (nat (get_request_len buf)) buf)) = Some (h, conn)"
    using assms p k by (auto simp: process_request_def Let_def reaches_handler_def split: if_splits)
  then obtain u where "mc_uri conn1 = Some (clean_uri u)"
    using parse_http_message_uri [OF p] by blast
  then have "mc_uri conn2 = Some (clean_uri u)"
    using k by (auto simp: send_websocket_handshake_if_requested_def split: option.splits)
  with o show ?thesis
    by (auto simp: open_local_endpoint_def reaches_handler_def Let_def find_uri_handler_def find_Some_iff
        in_set_conv_nth split: option.splits if_splits)
qed

lemma served_connection:
  assumes "we_opened (serve fs conn0 buf later) \<noteq> []"
  shows "\<exists>u. opens_allowed (clean_uri u) (serve fs conn0 buf later) \<and> take 1 (clean_uri u) = ''/''"
proof -
  let ?out = "process_request [''/''] conn0 buf"
  obtain h conn where out: "reaches_handler ?out = Some (h, conn)"
    using assms by (auto simp: serve_def reaches_handler_def web_begin_def split: outcome.splits)
  obtain u where u: "mc_uri conn = Some (clean_uri u)" "take 1 (clean_uri u) = ''/''"
    using process_request_uri [OF out] by auto
  have "opens_allowed (clean_uri u) (web_begin sent conn)" for sent
    by (simp add: opens_allowed_def web_begin_def u)
  then have "opens_allowed (clean_uri u) (snd (answer fs (web_begin sent conn)))"
    and "opens_allowed (clean_uri u) (snd (websocket_session fs x xs (web_begin sent conn)))" for sent x xs
    using keepsD [OF keeps_answer] keepsD [OF keeps_websocket_session] by blast+
  then have "opens_allowed (clean_uri u) (serve fs conn0 buf later)"
    using out by (auto simp: serve_def reaches_handler_def simp del: websocket_session.simps
        split: outcome.splits)
  with u(2) show ?thesis
    by blast
qed

lemma opened_paths:
  assumes "p \<in> set (we_opened (serve fs conn0 buf later))"
  shows "\<exists>uri. mc_uri (co_mg_conn (we_connection (serve fs conn0 buf later))) = Some uri \<and>
    allowed_path uri p \<and> (\<forall>root. stays_below root (root @ uri))"
proof -
  have "we_opened (serve fs conn0 buf later) \<noteq> []"
    using assms by auto
  then obtain u where u: "opens_allowed (clean_uri u) (serve fs conn0 buf later)" "take 1 (clean_uri u) = ''/''"
    using served_connection by blast
  moreover have "stays_below root (root @ clean_uri u)" for root
  proof (cases "clean_uri u")
    case (Cons c b)
    then show ?thesis
      using u(2) clean_stays_below [of _ c b root] unfolding clean_uri_def by (simp add: is_sep_def)
  qed (use u in simp)
  ultimately show ?thesis
    using assms by (auto simp: opens_allowed_def)
qed

section \<open>Replies\<close>

text \<open>The pieces of a body that are sent one after the other.\<close>

lemma wp_send_more:
  "co_headers_sent c \<Longrightarrow> wp (for_each mg_send_data ps) Q E c =
     Q () (c\<lparr>co_remote_iobuf := co_remote_iobuf c @ concat (map chunk ps)\<rparr>)"
  by (induction ps arbitrary: c) (simp_all add: wp)

lemma wp_send_pieces:
  "ps \<noteq> [] \<Longrightarrow> wp (for_each mg_send_data ps) Q E c =
     Q () ((headers_done c)
       \<lparr>co_remote_iobuf := co_remote_iobuf c @ chunked_head c @ concat (map chunk ps)\<rparr>)"
  by (cases ps) (simp_all add: wp wp_send_more)

lemma file_reply_run:
  assumes "mc_uri conn = Some uri" and "mc_status_code conn = 0"
    and "mg_get_header conn ''Host'' = Some headerHost"
    and "(host_name headerHost, root) \<in>
      {(''localhost'', ''htdoc''), (''chat.yahoo.com.localhost'', ''htdoc/chat.yahoo.com'')}"
  shows "\<exists>w. answer fs (web_start conn) = (Inr True, w) \<and> we_opened w = [root @ uri] \<and>
    co_remote_iobuf (we_connection w) = chunked_head (we_connection (web_start conn)) @
      chunk (case fs (root @ uri) of Some f \<Rightarrow> f | None \<Rightarrow> GetFullURL conn) @ terminating_chunk"
proof -
  have find: "map_find (server_handlers fs) (host_name headerHost) = Some (GenericHandler fs root)"
    using assms(4) by (auto simp: server_handlers_eq map_find_def)
  have "wp (answer fs) (\<lambda>x w. x = True \<and> we_opened w = [root @ uri] \<and>
      co_remote_iobuf (we_connection w) = chunked_head (we_connection (web_start conn)) @
        chunk (case fs (root @ uri) of Some f \<Rightarrow> f | None \<Rightarrow> GetFullURL conn) @ terminating_chunk)
      (\<lambda>_ _. False) (web_start conn)"
    using assms(1-3) find
    by (cases "fs (root @ uri)")
      (simp_all add: answer_def MultiHost_OnRequest_def request_def wp on_connection_def web_start_def web_begin_def
        GenericHandler_def GenericServeFile_def Let_def)
  then show ?thesis
    by (auto simp: wp_def split: prod.splits sum.splits)
qed

section \<open>The debug request\<close>

definition has_key :: "mg_connection \<Rightarrow> nat \<Rightarrow> bool" where
  "has_key conn i = (case mg_get_var conn (numbered ''key'' i) BUFFER_SIZE of
      Inl e \<Rightarrow> False | Inr (n, buffer) \<Rightarrow> 0 \<le> n)"

text \<open>Where a variable can be: a position of the query or of the content.\<close>

definition var_places :: "mg_connection \<Rightarrow> (bool \<times> nat) set" where
  "var_places conn =
     (case mc_query_string conn of None \<Rightarrow> {} | Some q \<Rightarrow> Pair True ` {..<length q}) \<union>
     (case mc_content conn of None \<Rightarrow> {} | Some c \<Rightarrow> Pair False ` {..<length c})"

definition var_at :: "mg_connection \<Rightarrow> string \<Rightarrow> bool \<times> nat \<Rightarrow> bool" where
  "var_at conn name = (\<lambda>(in_query, k).
     if in_query then (\<exists>q. mc_query_string conn = Some q \<and> name_at q name k)
     else (\<exists>c. mc_content conn = Some c \<and> name_at (take (nat (mc_content_len conn)) c) name k))"

lemma get_var_name:
  assumes "get_var data name n = (len, out)" and "0 \<le> len"
  shows "\<exists>d k. data = Some d \<and> name_at d name k"
  using assms get_var_loop_name [of None name]
  by (auto simp: get_var_def Let_def split: if_splits option.splits prod.splits)

lemma name_at_less: "name_at d name k \<Longrightarrow> k < length d"
  by (simp add: name_at_def)

lemma has_key_place:
  assumes "has_key conn i"
  shows "\<exists>p \<in> var_places conn. var_at conn (numbered ''key'' i) p"
proof -
  obtain n buffer where v: "mg_get_var conn (numbered ''key'' i) BUFFER_SIZE = Inr (n, buffer)" "0 \<le> n"
    using assms by (auto simp: has_key_def split: sum.splits)
  obtain l out where g: "get_var (mc_query_string conn) (numbered ''key'' i) BUFFER_SIZE = (l, out)"
    by fastforce
  show ?thesis
  proof (cases "l < 0")
    case True
    then have "get_var (map_option (take (nat (mc_content_len conn))) (mc_content conn))
        (numbered ''key'' i) BUFFER_SIZE = (n, buffer)"
      using v g by (simp add: mg_get_var_def split: if_splits)
    from get_var_name [OF this v(2)] obtain d k
      where d: "map_option (take (nat (mc_content_len conn))) (mc_content conn) = Some d"
        "name_at d (numbered ''key'' i) k"
      by blast
    then obtain c where c: "mc_content conn = Some c" "d = take (nat (mc_content_len conn)) c"
      by auto
    then have "k < length c"
      using name_at_less [OF d(2)] by simp
    then have "(False, k) \<in> var_places conn" "var_at conn (numbered ''key'' i) (False, k)"
      using c d(2) by (simp_all add: var_places_def var_at_def)
    then show ?thesis by blast
  next
    case False
    then obtain d k where "mc_query_string conn = Some d" "name_at d (numbered ''key'' i) k"
      using get_var_name [OF g] by auto
    then have "(True, k) \<in> var_places conn" "var_at conn (numbered ''key'' i) (True, k)"
      using name_at_less by (simp_all add: var_places_def var_at_def)
    then show ?thesis by blast
  qed
qed

lemma to_lower_numbered: "map to_lower (numbered ''key'' i) = numbered ''key'' i"
proof -
  have "to_lower c = c" if "c \<in> set (to_string (int i))" for c
    using nat_to_string_digits [of c i] that
    by (auto simp: to_string_def to_lower_def code_of_def is_digit_def)
  then show ?thesis
    by (simp add: numbered_def map_idI) (simp add: to_lower_def code_of_def)
qed

lemma numbered_inj: "numbered name i = numbered name j \<longleftrightarrow> i = j"
proof
  assume "numbered name i = numbered name j"
  then have "nat_to_string i = nat_to_string j"
    by (simp add: numbered_def to_string_def)
  then have "int i = int j"
    using digits_val_nat_to_string [of i] digits_val_nat_to_string [of j] by metis
  then show "i = j"
    by simp
qed simp

lemma numbered_no_equals: "CHR ''='' \<notin> set (numbered ''key'' i)"
  using nat_to_string_digits [of "CHR ''=''" i] by (auto simp: numbered_def to_string_def is_digit_def)

lemma var_at_unique:
  assumes "var_at conn (numbered ''key'' i) p" and "var_at conn (numbered ''key'' j) p"
  shows "i = j"
proof -
  obtain d k where "name_at d (numbered ''key'' i) k" "name_at d (numbered ''key'' j) k"
    using assms by (cases p) (auto simp: var_at_def split: if_splits)
  then show ?thesis
    using name_at_unique numbered_no_equals to_lower_numbered numbered_inj by metis
qed

lemma card_var_places:
  "finite (var_places conn)" "card (var_places conn) < request_fuel conn"
proof -
  show "finite (var_places conn)"
    by (auto simp: var_places_def split: option.splits)
  have "card (Pair b ` {..<n}) = n" for b :: bool and n :: nat
    by (simp add: card_image inj_on_def)
  then show "card (var_places conn) < request_fuel conn"
    by (auto simp: var_places_def request_fuel_def less_Suc_eq_le split: option.splits
        intro: order_trans [OF card_Un_le])
qed

lemma missing_key: "\<exists>n < request_fuel conn. (\<forall>i < n. has_key conn i) \<and> \<not> has_key conn n"
proof -
  have "\<exists>n < request_fuel conn. \<not> has_key conn n"
  proof (rule ccontr)
    assume all: "\<not> (\<exists>n < request_fuel conn. \<not> has_key conn n)"
    then have "\<forall>i \<in> {..<request_fuel conn}. \<exists>p. p \<in> var_places conn \<and> var_at conn (numbered ''key'' i) p"
      using has_key_place by blast
    then obtain f where f: "\<And>i. i < request_fuel conn \<Longrightarrow>
        f i \<in> var_places conn \<and> var_at conn (numbered ''key'' i) (f i)"
      by (metis lessThan_iff)
    have "inj_on f {..<request_fuel conn}"
      using f var_at_unique by (metis inj_onI lessThan_iff)
    moreover have "f ` {..<request_fuel conn} \<subseteq> var_places conn"
      using f by blast
    ultimately have "request_fuel conn \<le> card (var_places conn)"
      using card_inj_on_le [of f "{..<request_fuel conn}"] card_var_places(1) by simp
    then show False
      using card_var_places(2) [of conn] by simp
  qed
  then obtain n where n: "n < request_fuel conn" "\<not> has_key conn n" by blast
  have "\<not> has_key conn (LEAST n. \<not> has_key conn n)" "(LEAST n. \<not> has_key conn n) \<le> n"
    using LeastI [of "\<lambda>n. \<not> has_key conn n" n] Least_le [of "\<lambda>n. \<not> has_key conn n" n] n(2) by simp_all
  moreover have "has_key conn i" if "i < (LEAST n. \<not> has_key conn n)" for i
    using not_less_Least [OF that] by simp
  ultimately show ?thesis
    using n(1) by (meson le_less_trans)
qed

text \<open>The fields of the keys \<open>is\<close>, appended in turn.\<close>

definition append_key :: "mg_connection \<Rightarrow> nat \<Rightarrow> string \<Rightarrow> exn + string" where
  "append_key conn i builder =
     bind_res (mg_get_var conn (numbered ''key'' i) BUFFER_SIZE) (\<lambda>(keyLength, buffer).
     if keyLength \<noteq> 0 then append_numbered conn i buffer builder else Inr builder)"

fun append_keys :: "mg_connection \<Rightarrow> nat list \<Rightarrow> string \<Rightarrow> exn + string" where
  "append_keys conn [] builder = Inr builder"
| "append_keys conn (i # is) builder = bind_res (append_key conn i builder) (append_keys conn is)"

definition readable :: "mg_connection \<Rightarrow> bool" where
  "readable conn = (mc_content conn = None \<or> 0 \<le> mc_content_len conn)"

lemma has_key_var: "has_key conn i \<Longrightarrow>
  \<exists>n buffer. mg_get_var conn (numbered ''key'' i) BUFFER_SIZE = Inr (n, buffer) \<and> 0 \<le> n"
  by (auto simp: has_key_def split: sum.splits)

text \<open>A key that is missing ends the loop, or reaches the pointer outside the buffer.\<close>

definition loop_end :: "mg_connection \<Rightarrow> string \<Rightarrow> exn + string option" where
  "loop_end conn builder = (if readable conn then Inr (Some builder) else Inl (Undefined ''get_var''))"

lemma missing_key_end:
  assumes "\<not> has_key conn m"
  shows "debug_loop (Suc fuel) conn m builder = loop_end conn builder"
proof -
  obtain l out where g: "get_var (mc_query_string conn) (numbered ''key'' m) BUFFER_SIZE = (l, out)"
    by fastforce
  have l: "l < 0"
    using assms g by (auto simp: has_key_def mg_get_var_def split: sum.splits if_splits)
  show ?thesis
  proof (cases "readable conn")
    case True
    then obtain n buffer where v: "mg_get_var conn (numbered ''key'' m) BUFFER_SIZE = Inr (n, buffer)"
      using g l by (cases "get_var (map_option (take (nat (mc_content_len conn))) (mc_content conn))
          (numbered ''key'' m) BUFFER_SIZE") (auto simp: mg_get_var_def readable_def)
    with assms True show ?thesis
      by (simp add: has_key_def loop_end_def)
  next
    case False
    then have "mg_get_var conn (numbered ''key'' m) BUFFER_SIZE = Inl (Undefined ''get_var'')"
      using g l by (simp add: mg_get_var_def readable_def)
    with False show ?thesis
      by (simp add: loop_end_def)
  qed
qed

lemma debug_loop_runs:
  assumes "\<And>i. m \<le> i \<Longrightarrow> i < m + k \<Longrightarrow> has_key conn i" and "\<not> has_key conn (m + k)"
    and "k < fuel"
  shows "debug_loop fuel conn m builder =
    bind_res (append_keys conn [m..<m + k] builder) (loop_end conn)"
  using assms
proof (induction k arbitrary: m fuel builder)
  case 0
  then obtain fuel' where "fuel = Suc fuel'"
    by (cases fuel) simp_all
  with 0 missing_key_end show ?case
    by simp
next
  case (Suc k)
  obtain n buffer where v: "mg_get_var conn (numbered ''key'' m) BUFFER_SIZE = Inr (n, buffer)" "0 \<le> n"
    using Suc.prems(1) [of m] has_key_var [of conn m] by auto
  moreover obtain fuel' where "fuel = Suc fuel'" "k < fuel'"
    using Suc.prems(3) by (cases fuel) auto
  moreover have "debug_loop fuel' conn (Suc m) =
      (\<lambda>b. bind_res (append_keys conn [Suc m..<Suc m + k] b) (loop_end conn))"
    using Suc.prems \<open>k < fuel'\<close> by (intro ext Suc.IH) auto
  ultimately show ?case
    by (simp add: upt_conv_Cons append_key_def bind_res_assoc del: upt_Suc)
qed

lemma debug_loop_run:
  "\<exists>n < request_fuel conn. (\<forall>i < n. has_key conn i) \<and> \<not> has_key conn n \<and>
    debug_loop (request_fuel conn) conn 0 builder =
      bind_res (append_keys conn [0..<n] builder) (loop_end conn)"
  using missing_key [of conn] debug_loop_runs [of 0] by (metis add_0)

end
