(* ===== verification/YahooWeb_Properties.thy ===== *)
theory YahooWeb_Properties
  imports YahooWeb_Facts
begin

text \<open>
  The properties of the pages and of the parts of the web server below them, each with a
  concrete request.
\<close>

section \<open>Which files are served\<close>

definition sample_request :: string where
  "sample_request = ''GET /c/%2e./msg//../tabs.html HTTP/1.1'' @ crlf @ ''host: chat.yahoo.com.localhost:41337''
     @ crlf @ crlf"

definition null_connection :: mg_connection where
  "null_connection = \<lparr>mc_request_method = None, mc_uri = None, mc_http_version = None,
     mc_query_string = None, mc_http_headers = [], mc_content = None, mc_content_len = 0,
     mc_is_websocket = False, mc_status_code = 0, mc_wsbits = 0\<rparr>"

text \<open>The connection a handler gets, for a buffer that leads to one.\<close>

definition handled :: "string \<Rightarrow> mg_connection" where
  "handled buf = (case process_request [''/''] null_connection buf of
      Call_handler h sent conn \<Rightarrow> conn | _ \<Rightarrow> null_connection)"

lemma sample_handled:
  "process_request [''/''] null_connection sample_request = Call_handler ''/'' [] (handled sample_request)"
  "mc_uri (handled sample_request) = Some ''/c/msg/tabs.html''"
  "mc_status_code (handled sample_request) = 0"
  "mg_get_header (handled sample_request) ''Host'' = Some ''chat.yahoo.com.localhost:41337''"
  "host_name ''chat.yahoo.com.localhost:41337'' = ''chat.yahoo.com.localhost''"
  by code_simp+

lemma sample_reply:
  "\<exists>w. answer fs (web_start (handled sample_request)) = (Inr True, w) \<and>
    we_opened w = [''htdoc/chat.yahoo.com'' @ ''/c/msg/tabs.html'']"
  using file_reply_run [OF sample_handled(2-4), of "''htdoc/chat.yahoo.com''" fs] sample_handled(5)
  by auto











text \<open>
  A long frame length of \<open>0xffffffff\<close> becomes -1: the handler gets content of that length, and
  the frame that is removed from the input ends within its own header.
\<close>

lemma negative_frame_length:
  "deliver_frame (CHR 0x81 # CHR 0x7F # replicate 4 CHR 0x00 @ replicate 4 CHR 0xFF @ ''key0'') =
     Inr (Some (\<lparr>fr_wsbits = 0x81, fr_data_len = - 1, fr_content = ''key0''\<rparr>, CHR 0xFF # ''key0''))"
  by code_simp

text \<open>
  The IMV name is not cleaned: it is taken from the query, and \<open>..\<close> in it leaves the
  document root.
\<close>

definition climbing_request :: string where
  "climbing_request = ''GET /ycontent/?getimv=../../../secret HTTP/1.1'' @ crlf
     @ ''Host: insider.msg.yahoo.com.localhost'' @ crlf @ crlf"

lemma climbing_handled:
  "mc_uri (handled climbing_request) = Some ''/ycontent/''"
  "mg_get_header (handled climbing_request) ''Host'' = Some ''insider.msg.yahoo.com.localhost''"
  "host_name ''insider.msg.yahoo.com.localhost'' = ''insider.msg.yahoo.com.localhost''"
  "map_option (imv_name (GetFullURL (handled climbing_request)))
     (str_find ''?getimv='' (GetFullURL (handled climbing_request))) = Some ''../../../secret''"
  by code_simp+

lemma getimv_climbs:
  "we_opened (snd (answer (\<lambda>_. None) (web_start (handled climbing_request)))) =
     [''htdoc/insider.yahoo.com/imv/../../../secret.yim'']"
  "\<not> stays_below ''htdoc'' ''htdoc/insider.yahoo.com/imv/../../../secret.yim''"
proof -
  have "wp (answer (\<lambda>_. None)) (\<lambda>_ w. we_opened w = [''htdoc/insider.yahoo.com/imv/../../../secret.yim''])
      (\<lambda>_ _. False) (web_start (handled climbing_request))"
    using climbing_handled
    by (auto simp: answer_def MultiHost_OnRequest_def request_def wp on_connection_def web_start_def web_begin_def
        server_handlers_eq map_find_def Insider_OnRequest_def GenericServeFile_def Let_def)
  then show "we_opened (snd (answer (\<lambda>_. None) (web_start (handled climbing_request)))) =
     [''htdoc/insider.yahoo.com/imv/../../../secret.yim'']"
    by (auto simp: wp_def split: prod.splits sum.splits)
  show "\<not> stays_below ''htdoc'' ''htdoc/insider.yahoo.com/imv/../../../secret.yim''"
    by code_simp
qed

section \<open>Replies\<close>

text \<open>
  C38. A request to one of the two hosts of static files is answered with one status line, the
  header of a chunked body, and a body in which the client finds the contents of the file at
  the cleaned URI, or the URL when there is no such file, and nothing behind it. (An empty
  file is the exception: its only chunk is already the end of the body, and five more bytes
  stay on the connection.)
\<close>

theorem static_file_reply:
  assumes "mc_uri conn = Some uri" and "mc_status_code conn = 0"
    and "mg_get_header conn ''Host'' = Some headerHost"
    and "(host_name headerHost, root) \<in>
      {(''localhost'', ''htdoc''), (''chat.yahoo.com.localhost'', ''htdoc/chat.yahoo.com'')}"
    and "content = (case fs (root @ uri) of Some f \<Rightarrow> f | None \<Rightarrow> GetFullURL conn)"
  shows "\<exists>w body. answer fs (web_start conn) = (Inr True, w) \<and>
    co_remote_iobuf (we_connection w) =
      ''HTTP/1.1 200 OK'' @ crlf @ ''Transfer-Encoding: chunked'' @ crlf @ crlf @ body \<and>
    unchunk body = Some (content, if content = [] then terminating_chunk else [])"
proof -
  have "to_string 200 = ''200''"
    by code_simp
  then have head: "chunked_head (we_connection (web_start conn)) =
      ''HTTP/1.1 200 OK'' @ crlf @ ''Transfer-Encoding: chunked'' @ crlf @ crlf"
    using assms(2) by (simp add: chunked_head_def web_start_def web_begin_def status_line_def status_code_to_str_def)
  have "unchunk (chunk content @ terminating_chunk) =
      Some (content, if content = [] then terminating_chunk else [])"
    using unchunk_body [of "[content]"] by simp
  moreover obtain w where "answer fs (web_start conn) = (Inr True, w)"
    "co_remote_iobuf (we_connection w) =
      chunked_head (we_connection (web_start conn)) @ chunk content @ terminating_chunk"
    using file_reply_run [OF assms(1-4), of fs] assms(5) by blast
  ultimately show ?thesis
    using head by auto
qed

theorem static_file_reply_witness:
  "\<exists>w body. answer (\<lambda>_. Some ''<html/>'') (web_start (handled sample_request)) = (Inr True, w) \<and>
    co_remote_iobuf (we_connection w) =
      ''HTTP/1.1 200 OK'' @ crlf @ ''Transfer-Encoding: chunked'' @ crlf @ crlf @ body \<and>
    unchunk body = Some (''<html/>'', [])"
  using static_file_reply [OF sample_handled(2-4), of "''htdoc/chat.yahoo.com''" "''<html/>''"
      "\<lambda>_. Some ''<html/>''"] sample_handled(5) by simp

section \<open>The debug request\<close>

text \<open>
  C39. The loop over the fields of a debug request (\<open>key0\<close>, \<open>key1\<close> and so on, without an end
  condition but the first missing key) always ends: every key stands at its own place of
  the query or the content, so one is missing before their length is used up. What it builds
  is the fields of the keys before the first missing one, in order, or their first error. If
  there is content of a negative length, which the server accepts from a header, the search
  for the first missing key is where \<open>get_var\<close> computes a pointer outside the buffer
  (\<open>loop_end\<close>, which otherwise is the normal end).
\<close>

theorem debug_request_terminates:
  "\<exists>n < request_fuel conn. (\<forall>i < n. has_key conn i) \<and> \<not> has_key conn n \<and>
    debug_loop (request_fuel conn) conn 0 builder =
      bind_res (append_keys conn [0..<n] builder)
        (\<lambda>b. if mc_content conn \<noteq> None \<and> mc_content_len conn < 0 then Inl (Undefined ''get_var'')
              else Inr (Some b))"
proof -
  have "loop_end conn =
      (\<lambda>b. if mc_content conn \<noteq> None \<and> mc_content_len conn < 0 then Inl (Undefined ''get_var'')
            else Inr (Some b))"
    by (rule ext) (auto simp: loop_end_def readable_def)
  with debug_loop_run [of conn builder] show ?thesis
    by simp
qed

definition debug_query :: mg_connection where
  "debug_query = null_connection\<lparr>mc_query_string :=
     Some ''action=send&serviceid=4&attribute=0&key0=1&value0=bob&key1=14&value1=hi+there''\<rparr>"

lemma debug_query_keys:
  "has_key debug_query 0" "has_key debug_query 1" "\<not> has_key debug_query 2"
  by code_simp+

lemma debug_query_values:
  "mg_get_var debug_query (numbered ''key'' 0) BUFFER_SIZE = Inr (1, ''1'')"
  "mg_get_var debug_query (numbered ''key'' 1) BUFFER_SIZE = Inr (2, ''14'')"
  "mg_get_var debug_query (numbered ''value'' 0) BUFFER_SIZE = Inr (3, ''bob'')"
  "mg_get_var debug_query (numbered ''value'' 1) BUFFER_SIZE = Inr (8, ''hi there'')"
  "std_stol ''stol'' (c_str ''1'') = Inr 1" "std_stol ''stol'' (c_str ''14'') = Inr 14"
  "c_str ''bob'' = ''bob''" "c_str ''hi there'' = ''hi there''"
  by code_simp+

lemma debug_query_fields:
  "append_keys debug_query [0..<2] [] = Append_all [(1, ''bob''), (14, ''hi there'')] []"
proof -
  have last: "append_keys debug_query [] = Append_all []"
    by (rule ext) simp
  have "append_keys debug_query [1] b = Append_all [(14, ''hi there'')] b" for b
    using debug_query_values
    by (simp add: append_key_def append_numbered_def bind_res_assoc last del: One_nat_def)
  then have "append_keys debug_query [1] = Append_all [(14, ''hi there'')]"
    by (rule ext)
  then show ?thesis
    using debug_query_values
    by (simp add: upt_rec append_key_def append_numbered_def bind_res_assoc flip: One_nat_def)
qed

theorem debug_request_terminates_witness:
  "debug_loop (request_fuel debug_query) debug_query 0 [] =
     bind_res (Append_all [(1, ''bob''), (14, ''hi there'')] []) (\<lambda>b. Inr (Some b))"
proof -
  have "mc_content debug_query = None"
    by (simp add: debug_query_def null_connection_def)
  then obtain n where n: "\<forall>i < n. has_key debug_query i" "\<not> has_key debug_query n"
    "debug_loop (request_fuel debug_query) debug_query 0 [] =
      bind_res (append_keys debug_query [0..<n] []) (\<lambda>b. Inr (Some b))"
    using debug_request_terminates [of debug_query "[]"] by auto
  have "n \<le> 2"
    using n(1) debug_query_keys(3) by (meson not_le)
  moreover have "n \<noteq> 0" "n \<noteq> 1"
    using n(2) debug_query_keys(1,2) by metis+
  ultimately have "n = 2"
    by linarith
  with n(3) debug_query_fields show ?thesis
    by simp
qed

text \<open>A request without a service id ends in an exception that nothing on the way catches.\<close>

lemma missing_serviceid:
  "mc_query_string conn = Some ''action=send'' \<Longrightarrow> mc_content conn = None \<Longrightarrow>
   mc_uri conn = Some ''/tearoff/channel.html'' \<Longrightarrow>
   MyYahoo_OnRequest fs root (web_start conn) =
     (Inl (Invalid_argument ''invalid stoi argument''), web_start conn)"
  by (rule run_eqI)
    (simp add: MyYahoo_OnRequest_def OnDebugSendPacketRequest_def request_def web_start_def web_begin_def wp
      mg_get_var_def get_var_def BUFFER_SIZE_def mg_url_decode_def std_stol_def c_str_def
      scan_long_def scan_sign_def lowercase_def to_lower_def code_of_def numeral_eq_Suc Let_def)

text \<open>A negative length of the content reaches \<open>get_var\<close>.\<close>

definition negative_length :: string where
  "negative_length = ''GET / HTTP/1.1'' @ crlf @ ''Content-Length: -1'' @ crlf @ crlf"

lemma negative_content_length:
  "mg_get_var (handled negative_length) ''action'' 1024 = Inl (Undefined ''get_var'')"
  by code_simp

end
