(* ===== verification/YIMPatch_Properties.thy ===== *)
theory YIMPatch_Properties
  imports YIMPatch_Facts YahooWeb_Properties
begin

text \<open>
  The properties of the patch: what it leaves in the messenger's memory, and where the
  messenger's connections go, together with the server that answers them.
\<close>

section \<open>Memory after the patch\<close>

lemma length_returnTrueInEax: "length returnTrueInEax = 8"
  by (simp add: returnTrueInEax_def)

lemma flat_patch_bytes: "bytes_at (write_bytes mem 0x4c3603 returnTrueInEax) 0x4c3603 8 = returnTrueInEax"
  using bytes_at_write_bytes [of returnTrueInEax mem "0x4c3603"]
  by (simp add: length_returnTrueInEax del: bytes_at.simps write_bytes.simps)

lemma flat_patch_outside:
  "a \<notin> block 0x4c3603 8 \<Longrightarrow> write_bytes mem 0x4c3603 returnTrueInEax a = mem a"
  by (simp add: write_bytes_outside block_def length_returnTrueInEax del: write_bytes.simps)

lemma needed_window: "needed code p out \<inter> B = {} \<Longrightarrow> a \<in> block p 46 \<Longrightarrow> a \<notin> B"
  by (auto simp: needed_def)

text \<open>The hooks over a memory that differs from the original outside of what they need.\<close>

lemma sites_hooked:
  assumes run: "for_each (install w) hs s1 = (Inr (), s')"
    and "apart_sites (hook_sites w hs s1)"
    and needs: "\<forall>(code, p, h) \<in> set (hook_sites w hs s1). needed code p (hk_out h) \<inter> B = {}"
    and same: "\<And>a. a \<notin> B \<Longrightarrow> mem a = pr_Memory s1 a"
    and "(code, p, h) \<in> set (hook_sites w hs s1)"
  shows "hooked mem (pr_Memory s') code p (hk_proxy h) (hk_out h)"
proof (rule installs_hooked [OF run assms(2) _ assms(5)])
  fix code' p' h'
  assume site: "(code', p', h') \<in> set (hook_sites w hs s1)"
  have "needed code' p' (hk_out h') \<inter> B = {}"
    using bspec [OF needs site] by (simp only: prod.case)
  then have "a \<notin> B" if "a \<in> block p' 46" for a
    using that by (rule needed_window)
  then show "agree mem (pr_Memory s1) p' 46"
    by (intro agree_block same) simp_all
qed

text \<open>
  C12. What the patch leaves in a messenger's memory: at every function Windows found, among
  \<open>connect\<close>, \<open>CreateFileA\<close>, \<open>CreateFileW\<close>, \<open>InternetConnectA\<close> and \<open>InternetConnectW\<close>, a hook as
  in C28 over the original code, all of them working together; the eight bytes that return
  true, when the page could be made writable; and nothing else changed. Asked of Windows:
  the thunks, the functions and the patched bytes do not overlap.
\<close>

theorem patch_installed:
  assumes "no_module w messengers s = (Inr False, s0)"
    and "InstallHooks False w im s = (Inr (), s')"
    and "prepare w s = (Inr patched, s1)"
    and "sites = hook_sites (win32.truncate w) (hooks_of im) s1"
    and "apart_sites sites"
    and "\<forall>(code, p, h) \<in> set sites. needed code p (hk_out h) \<inter> block 0x4c3603 8 = {}"
  shows "(\<forall>(code, p, h) \<in> set sites.
        hooked (pr_Memory s) (pr_Memory s') code p (hk_proxy h) (hk_out h))
    \<and> bytes_at (pr_Memory s') 0x4c3603 8 =
        (if patched then returnTrueInEax else bytes_at (pr_Memory s) 0x4c3603 8)
    \<and> (\<forall>a. a \<notin> block 0x4c3603 8 \<longrightarrow> (\<forall>(code, p, h) \<in> set sites. a \<notin> written code p (hk_out h)) \<longrightarrow>
        pr_Memory s' a = pr_Memory s a)"
proof -
  have run: "for_each (install (win32.truncate w)) (hooks_of im) s1 = (Inr (), s')"
    using InstallHooks_run [OF assms(1), of im] assms(2,3) by simp
  have mem1: "pr_Memory s1 = (if patched then write_bytes (pr_Memory s) 0x4c3603 returnTrueInEax
      else pr_Memory s)"
    by (rule prepare_run [of w s]) (use assms(3) in simp)
  have same: "pr_Memory s a = pr_Memory s1 a" if "a \<notin> block 0x4c3603 8" for a
    using that by (simp add: mem1 flat_patch_outside del: write_bytes.simps)
  have frame: "pr_Memory s' a = pr_Memory s1 a"
    if "\<And>code p h. (code, p, h) \<in> set sites \<Longrightarrow> a \<notin> written code p (hk_out h)" for a
    by (rule installs_frame [OF run]) (use that assms(4) in simp)
  have "hooked (pr_Memory s) (pr_Memory s') code p (hk_proxy h) (hk_out h)"
    if "(code, p, h) \<in> set sites" for code p h
    using that assms(4-6) same by (intro sites_hooked [OF run]) auto
  moreover have "bytes_at (pr_Memory s') 0x4c3603 8 =
      (if patched then returnTrueInEax else bytes_at (pr_Memory s) 0x4c3603 8)"
  proof -
    have "agree (pr_Memory s') (pr_Memory s1) 0x4c3603 8"
    proof (rule agree_block)
      show "pr_Memory s' a = pr_Memory s1 a" if "a \<in> block 0x4c3603 8" for a
        using that assms(6) written_needed by (intro frame) blast
    qed simp
    then have "bytes_at (pr_Memory s') 0x4c3603 8 = bytes_at (pr_Memory s1) 0x4c3603 8"
      by (rule bytes_at_agree)
    then show ?thesis
      unfolding mem1 by (simp add: flat_patch_bytes del: bytes_at.simps write_bytes.simps)
  qed
  moreover have "pr_Memory s' a = pr_Memory s a"
    if "a \<notin> block 0x4c3603 8" "\<forall>(code, p, h) \<in> set sites. a \<notin> written code p (hk_out h)" for a
  proof -
    have "pr_Memory s' a = pr_Memory s1 a"
      by (rule frame) (use that(2) in auto)
    with same [OF that(1)] show ?thesis by simp
  qed
  ultimately show ?thesis by blast
qed

text \<open>The instance: two of the functions are found, in memory full of \<open>mov ecx, [ebx + d]\<close>, six bytes each.\<close>

definition movs :: memory where
  "movs = (\<lambda>_. 0x8b)"

lemma movs_relocation:
  "list_all (\<lambda>(dst, src). relocation movs dst src 6 256 6 (decode_all movs 1 src)
       (moved_all (getAddress dst) (decode_all movs 1 src))) [(0x20010, 0x1000), (0x30010, 0x8000)]"
  by code_simp

definition demo_api :: "nat patch_api" where
  "demo_api = \<lparr>w_GetModuleHandleA = \<lambda>m os. (if m = ''Wininet.dll'' then 0 else 0x400000, os),
     w_GetProcAddress = \<lambda>_ f os. (if f = ''connect'' then 0x1000 else if f = ''CreateFileA'' then 0x8000 else 0, os),
     w_VirtualAlloc = \<lambda>p _ _ _ os. if p = 0 then (if os = 0 then 0x20000 else 0x30000, os + 1) else (p, os),
     w_VirtualQuery = \<lambda>p os. (Some \<lparr>mbi_BaseAddress = p, mbi_RegionSize = 0x1000, mbi_Protect = 0x20\<rparr>, os),
     w_VirtualProtect = \<lambda>_ _ _ os. ((True, 0x20), os),
     w_VirtualProtect_null = \<lambda>_ _ _ os. (False, os),
     w_GetModuleHandleW = \<lambda>m os. (if m = ''ypager.exe'' then 0x400000 else 0, os),
     w_MessageBoxA = \<lambda>_ _ os. (1, os), w_AllocConsole = \<lambda>os. (True, os),
     w_SetConsoleTitle = \<lambda>_ os. (True, os), w_freopen = \<lambda>_ _ _ os. (1, os)\<rparr>"

definition demo_process :: "nat process" where
  "demo_process = \<lparr>pr_Memory = movs, pr_Os = 0\<rparr>"

definition demo_image :: image where
  "demo_image = \<lparr>im_proxy_connect = 0x50000, im_original_connect = 0x60000,
     im_proxy_CreateFileA = 0x50100, im_original_CreateFileA = 0x60004,
     im_proxy_CreateFileW = 0x50200, im_original_CreateFileW = 0x60008,
     im_proxy_InternetConnectA = 0x50300, im_original_InternetConnectA = 0x6000c,
     im_proxy_InternetConnectW = 0x50400, im_original_InternetConnectW = 0x60010\<rparr>"

lemma movs_thunk:
  assumes "(code + 16, p) \<in> set [(0x20010, 0x1000), (0x30010, 0x8000)]"
    and "agree movs mem p 46" and "clear_of_thunk code p" and "apart p (code + 16) 6"
  shows "\<exists>mem1. fill_thunk False code (code + 16) p proxy (zeroed mem code) = (Inr HOOK_SUCCESS, mem1)"
proof -
  let ?mem = "thunk_head (zeroed mem code) code proxy"
  have reloc: "relocation movs (code + 16) p 6 256 6 (decode_all movs 1 p)
      (moved_all (getAddress (code + 16)) (decode_all movs 1 p))"
    using movs_relocation assms(1) unfolding list_all_iff by fastforce
  have "agree movs ?mem p 46"
    using assms(2,3) by (simp add: agree_def clear_of_thunk_def thunk_head_outside zeroed_outside)
  then have "fst (RelocateCode False (code + 16) p 6 256 ?mem) = Inr (Some 6)"
    using reloc assms(4) by (intro RelocateCode_success [of _ _ _ movs]) simp_all
  then show ?thesis
    by (cases "RelocateCode False (code + 16) p 6 256 ?mem")
      (simp add: fill_thunk_def and_then_def put_u32_run head_bytes THUNK_BUFFER_SIZE_def
        Jump_run ret_def thunk_head_def)
qed

lemma demo_api_parts:
  "w_GetModuleHandleA (win32.truncate demo_api) = w_GetModuleHandleA demo_api"
  "w_GetProcAddress (win32.truncate demo_api) = w_GetProcAddress demo_api"
  "w_VirtualAlloc (win32.truncate demo_api) = w_VirtualAlloc demo_api"
  "w_VirtualQuery (win32.truncate demo_api) = w_VirtualQuery demo_api"
  "w_VirtualProtect (win32.truncate demo_api) = w_VirtualProtect demo_api"
  by (simp_all add: win32.truncate_def)

lemma demo_lookup:
  "w_GetModuleHandleA demo_api m os = (if m = ''Wininet.dll'' then 0 else 0x400000, os)"
  "w_GetProcAddress demo_api q f os =
     (if f = ''connect'' then 0x1000 else if f = ''CreateFileA'' then 0x8000 else 0, os)"
  by (simp_all add: demo_api_def)

lemma demo_found:
  assumes "hk_module h \<noteq> ''Wininet.dll''" and "(code + 16, p) \<in> set [(0x20010, 0x1000), (0x30010, 0x8000)]"
    and "hk_function h = (if p = 0x1000 then ''connect'' else ''CreateFileA'')"
    and "agree movs (pr_Memory s) p 46" and "code = (if pr_Os s = 0 then 0x20000 else 0x30000)"
  shows "hook_site (win32.truncate demo_api) h s = Some (code, p)"
    "\<exists>s1. install (win32.truncate demo_api) h s = (Inr (), s1) \<and> pr_Os s1 = pr_Os s + 1"
proof -
  let ?api = "win32.truncate demo_api"
  have p: "p = 0x1000 \<and> code = 0x20000 \<or> p = 0x8000 \<and> code = 0x30000"
    using assms(2) by auto
  have "clear_of_thunk code p" "apart p (code + 16) 6"
    using clear_blocks [of "0x20000" "0x1000" "0x1f000" 46] clear_blocks [of "0x30000" "0x8000" "0x28000" 46]
      apart_blocks [of "0x20010" "0x1000" "0x1f010" 6] apart_blocks [of "0x30010" "0x8000" "0x28010" 6] p
    by (auto simp: clear_of_thunk_def)
  then obtain mem1 where f: "fill_thunk False code (code + 16) p (hk_proxy h) (zeroed (pr_Memory s) code) =
      (Inr HOOK_SUCCESS, mem1)"
    using movs_thunk [OF assms(2,4)] by blast
  have nz: "p \<noteq> 0" "code \<noteq> 0" and found: "w_GetProcAddress demo_api m (hk_function h) os = (p, os)" for m os
    using p assms(3) by (auto simp: demo_api_def)
  have module: "w_GetModuleHandleA demo_api (hk_module h) os = (0x400000, os)" for os
    using assms(1) by (simp add: demo_api_def)
  show "hook_site ?api h s = Some (code, p)"
    using nz found unfolding hook_site_def thunk_address_def demo_api_parts
    by (simp add: module) (simp add: assms(5) demo_api_def)
  have calls: "w_VirtualAlloc ?api 0 n t prot (pr_Os s) = (code, pr_Os s + 1)"
    "q \<noteq> 0 \<Longrightarrow> w_VirtualAlloc ?api q n t prot os = (q, os)"
    "w_VirtualQuery ?api q os = (Some \<lparr>mbi_BaseAddress = q, mbi_RegionSize = 0x1000, mbi_Protect = 0x20\<rparr>, os)"
    "w_VirtualProtect ?api q n prot os = ((True, 0x20), os)" for n t prot q os
    unfolding demo_api_parts assms(5) by (simp_all add: demo_api_def)
  have at: "\<exists>s1. InstallHook_at False ?api p (hk_proxy h) (hk_out h) s = (Inr HOOK_SUCCESS, s1)
      \<and> pr_Os s1 = pr_Os s + 1"
    using f nz(2)
    by (simp add: InstallHook_at_def and_then_def api_def calls in_memory_def
        zoom_def fill_zero_run build_thunk_def redirect_def new_MemoryBlock_def MemoryBlock_Lock_def
        MemoryBlock_destroy_def MemoryBlock_Unlock_def scoped_def lift_res_def ret_def put_u32_run
        JumpIndirect_run finish_install_def zeroed_def del: write_bytes.simps bytes_at.simps)
  show "\<exists>s1. install ?api h s = (Inr (), s1) \<and> pr_Os s1 = pr_Os s + 1"
    using at assms(1) nz(1) found
    by (auto simp: install_def InstallHook_def and_then_def api_def demo_api_parts ret_def module)
qed

lemma block_range:
  "unat p + m \<le> 2 ^ 32 \<Longrightarrow> a \<in> block p m \<longleftrightarrow> unat p \<le> unat a \<and> unat a < unat p + m"
  unfolding block_def in_block_def by (auto simp: unat_sub_if')

lemma blocks_disjoint:
  "unat p + m \<le> 2 ^ 32 \<Longrightarrow> unat q + n \<le> 2 ^ 32 \<Longrightarrow> unat p + m \<le> unat q \<or> unat q + n \<le> unat p \<Longrightarrow>
   block p m \<inter> block q n = {}"
  by (auto simp: block_range)

lemma hook_layoutI:
  assumes "out \<noteq> 0" and "block code 256 \<inter> block p 46 = {}" "block code 256 \<inter> block out 4 = {}"
    and "block p 6 \<inter> block out 4 = {}"
  shows "hook_layout code p out"
proof -
  have "\<not> in_block code 256 (p + of_nat i)" if "i < 46" for i
    using in_blockI [OF that, of p] assms(2) by (auto simp: block_def)
  moreover have "\<not> in_block code 256 (out + of_nat i) \<and> \<not> in_block p 6 (out + of_nat i)" if "i < 4" for i
    using in_blockI [OF that, of out] assms(3,4) by (auto simp: block_def)
  ultimately show ?thesis
    using assms(1) by (simp add: hook_layout_def clear_of_thunk_def)
qed

lemma demo_missing:
  assumes "hk_module h = ''Wininet.dll'' \<or> hk_function h = ''CreateFileW''"
  shows "hook_site (win32.truncate demo_api) h s = None"
    "\<exists>s1. install (win32.truncate demo_api) h s = (Inr (), s1)"
  using assms
  by (auto simp: hook_site_def install_def InstallHook_def and_then_def api_def ret_def demo_api_parts
      demo_lookup)

lemmas demo_image_simps = demo_image_def hooks_of_def hook_of_def

lemma demo_prepare: "prepare demo_api demo_process =
    (Inr True, \<lparr>pr_Memory = write_bytes movs 0x4c3603 returnTrueInEax, pr_Os = 0\<rparr>)"
  by (rule run_eqI)
    (simp add: prepare_def messengers_def InitializeConsole_def ApplyFlatPatch_def in_memory_def wp
      demo_api_def demo_process_def length_returnTrueInEax del: write_bytes.simps)

lemma demo_sites:
  defines "hs \<equiv> hooks_of demo_image"
  shows "\<exists>s'. for_each (install (win32.truncate demo_api)) hs (snd (prepare demo_api demo_process)) = (Inr (), s')"
    "hook_sites (win32.truncate demo_api) hs (snd (prepare demo_api demo_process)) =
       [(0x20000, 0x1000, hs ! 0), (0x30000, 0x8000, hs ! 1)]"
proof -
  let ?api = "win32.truncate demo_api" and ?s = "snd (prepare demo_api demo_process)"
  obtain h1 h2 h3 h4 h5 where h: "hs = [h1, h2, h3, h4, h5]"
    "h1 = hook_of ''ws2_32.dll'' ''connect'' 0x50000 0x60000"
    "h2 = hook_of ''kernel32.dll'' ''CreateFileA'' 0x50100 0x60004"
    "h3 = hook_of ''kernel32.dll'' ''CreateFileW'' 0x50200 0x60008"
    "h4 = hook_of ''Wininet.dll'' ''InternetConnectA'' 0x50300 0x6000c"
    "h5 = hook_of ''Wininet.dll'' ''InternetConnectW'' 0x50400 0x60010"
    by (simp add: hs_def hooks_of_def demo_image_def)
  have movs: "movs a = write_bytes movs 0x4c3603 returnTrueInEax a" if "unat a < 0x4c3603" for a
    using that by (subst flat_patch_outside) (simp_all add: block_range)
  have a1: "agree movs (pr_Memory ?s) 0x1000 46"
    unfolding demo_prepare by (rule agree_block) (auto simp: block_range intro: movs)
  note f1 = demo_found [of h1 "0x20000" "0x1000" ?s, OF _ _ _ a1]
  have s1: "hook_site ?api h1 ?s = Some (0x20000, 0x1000)"
    by (rule f1) (simp_all add: h(2) hook_of_def demo_prepare)
  obtain t1 where t1: "install ?api h1 ?s = (Inr (), t1)" "pr_Os t1 = 1"
    using f1(2) by (auto simp: h(2) hook_of_def demo_prepare)
  have "pr_Memory t1 a = movs a" if "a \<in> block 0x8000 46" for a
  proof -
    have a: "unat a < 0x8100" "0x8000 \<le> unat a"
      using that by (simp_all add: block_range)
    then have "a \<notin> written 0x20000 0x1000 (hk_out h1)"
      by (simp add: written_def block_range h(2) hook_of_def)
    then show ?thesis
      using install_step [OF t1(1)] s1 movs [of a] a by (simp add: demo_prepare)
  qed
  then have a2: "agree movs (pr_Memory t1) 0x8000 46"
    by (intro agree_block) simp_all
  note f2 = demo_found [of h2 "0x30000" "0x8000" t1, OF _ _ _ a2]
  have s2: "hook_site ?api h2 t1 = Some (0x30000, 0x8000)"
    by (rule f2) (simp_all add: h(3) hook_of_def t1(2))
  obtain t2 where t2: "install ?api h2 t1 = (Inr (), t2)"
    using f2(2) by (auto simp: h(3) hook_of_def t1(2))
  have m: "hook_site ?api k s = None" "\<exists>s'. install ?api k s = (Inr (), s')" if "k \<in> {h3, h4, h5}" for k s
    using that by (intro demo_missing, auto simp: h(4-6) hook_of_def)+
  obtain t3 where t3: "install ?api h3 t2 = (Inr (), t3)" using m(2) by blast
  obtain t4 where t4: "install ?api h4 t3 = (Inr (), t4)" using m(2) by blast
  obtain t5 where t5: "install ?api h5 t4 = (Inr (), t5)" using m(2) by blast
  show "\<exists>s'. for_each (install ?api) hs ?s = (Inr (), s')"
    by (simp add: h(1) and_then_def t1 t2 t3 t4 t5 ret_def)
  show "hook_sites ?api hs ?s = [(0x20000, 0x1000, hs ! 0), (0x30000, 0x8000, hs ! 1)]"
    by (simp add: h(1) t1 t2 t3 t4 s1 s2 m(1))
qed

theorem patch_installed_witness:
  "\<exists>s'. InstallHooks False demo_api demo_image demo_process = (Inr (), s')
    \<and> hooked movs (pr_Memory s') 0x20000 0x1000 0x50000 0x60000
    \<and> hooked movs (pr_Memory s') 0x30000 0x8000 0x50100 0x60004
    \<and> bytes_at (pr_Memory s') 0x4c3603 8 = returnTrueInEax"
proof -
  let ?sites = "[(0x20000, 0x1000, hooks_of demo_image ! 0), (0x30000, 0x8000, hooks_of demo_image ! 1)]"
  have m: "no_module demo_api messengers demo_process = (Inr False, demo_process)"
    by (simp add: messengers_def demo_api_def demo_process_def and_then_def api_def ret_def)
  obtain s' where run: "InstallHooks False demo_api demo_image demo_process = (Inr (), s')"
    using demo_sites(1) InstallHooks_run [OF m] by metis
  have outs: "hk_out (hooks_of demo_image ! 0) = 0x60000" "hk_out (hooks_of demo_image ! 1) = 0x60004"
    "hk_proxy (hooks_of demo_image ! 0) = 0x50000" "hk_proxy (hooks_of demo_image ! 1) = 0x50100"
    by (simp_all add: demo_image_simps)
  have layout: "hook_layout 0x20000 0x1000 0x60000" "hook_layout 0x30000 0x8000 0x60004"
    by (rule hook_layoutI; simp add: blocks_disjoint)+
  have a: "apart_sites ?sites"
    "\<forall>(code, p, h) \<in> set ?sites. needed code p (hk_out h) \<inter> block 0x4c3603 8 = {}"
    by (simp_all add: outs layout written_def needed_def Int_Un_distrib Int_Un_distrib2 blocks_disjoint
        del: One_nat_def)
  have sites: "?sites = hook_sites (win32.truncate demo_api) (hooks_of demo_image)
      \<lparr>pr_Memory = write_bytes movs 0x4c3603 returnTrueInEax, pr_Os = 0\<rparr>"
    using demo_sites(2) by (simp add: demo_prepare del: One_nat_def)
  show ?thesis
    using patch_installed [OF m run demo_prepare sites a] run by (simp add: outs demo_process_def del: One_nat_def)
qed

section \<open>Where the connections go\<close>

text \<open>The page of each redirected host on the server; three of the six have none.\<close>

definition page_of :: "(string \<Rightarrow> string option) \<Rightarrow> string \<Rightarrow> (web, bool) cpp" where
  "page_of fs host =
     (if host = ''insider.msg.yahoo.com'' then Insider_OnRequest fs
      else if host = ''chat.yahoo.com'' then GenericHandler fs ''htdoc/chat.yahoo.com''
      else if host = ''my.yahoo.com'' then MyYahoo_OnRequest fs ''htdoc/my.yahoo.com''
      else ret False)"

lemma server_handlers_of:
  assumes "host \<in> set addresss"
  shows "(case map_find (server_handlers fs) (host @ ''.localhost'') of None \<Rightarrow> ret False | Some h \<Rightarrow> h) =
    page_of fs host"
  using assms by (auto simp: addresss_def server_handlers_eq map_find_Cons page_of_def)

lemma host_name_port: "CHR '':'' \<notin> set host \<Longrightarrow> host_name (host @ CHR '':'' # port) = host"
  by (simp add: host_name_def str_find_char_append)

lemma addresss_no_colon: "host \<in> set addresss \<Longrightarrow> CHR '':'' \<notin> set (host @ ''.localhost'')"
  by (auto simp: addresss_def)

lemma wide_inj: "wide a = wide b \<longleftrightarrow> a = b"
proof -
  have "inj (\<lambda>c :: char. of_nat (of_char c) :: uint16)"
  proof (rule injI)
    fix c d :: char
    assume e: "(of_nat (of_char c) :: uint16) = of_nat (of_char d)"
    have "(of_char c :: nat) mod 2 ^ 16 = of_char d mod 2 ^ 16"
      using arg_cong [OF e, of unat] by (simp add: unat_of_nat)
    then have "(of_char c :: nat) = of_char d"
      using of_char_lt_256 [of c] of_char_lt_256 [of d] by simp
    then show "c = d" by simp
  qed
  then show ?thesis by (simp add: wide_def inj_map_eq_map)
qed

lemma addresss_set:
  "set addresss = {''insider.msg.yahoo.com'', ''pgq.yahoo.com'', ''chat.yahoo.com'',
     ''calendar.yahoo.com'', ''my.yahoo.com'', ''address.yahoo.com''}"
  by (auto simp: addresss_def)

lemma redirect_name:
  "proxy_InternetConnectA original (call\<lparr>ic_lpszServerName := Some name\<rparr>) =
     original (if name \<in> set addresss
       then call\<lparr>ic_lpszServerName := Some (name @ ''.localhost''), ic_nServerPort := 41337\<rparr>
       else call\<lparr>ic_lpszServerName := Some name\<rparr>)"
  by (simp add: proxy_InternetConnectA_def redirect_to_def)

lemma redirect_wide_name:
  "proxy_InternetConnectW original (call\<lparr>ic_lpszServerName := Some words\<rparr>) =
     original (if words \<in> wide ` set addresss
       then call\<lparr>ic_lpszServerName := Some (words @ wide ''.localhost''), ic_nServerPort := 41337\<rparr>
       else call\<lparr>ic_lpszServerName := Some words\<rparr>)"
  by (simp add: proxy_InternetConnectW_def redirect_to_def)

text \<open>
  C26. Where the messenger's web requests go. A connection by name to one of the six hosts
  listed goes to the same name with \<open>.localhost\<close> behind it at port 41337, one by any other
  name where it was meant to go, and all other arguments are as they were; this is so for
  names of characters and for any string of 16-bit words. The server at that port answers a
  request for such a host, whose \<open>Host\<close> header names host and port, with the page of the host:
  of the six hosts \<open>insider\<close>, \<open>chat\<close> and \<open>my\<close> have one, the requests to the others get the
  answer for unhandled requests, the URL.
\<close>

theorem connections_redirected:
  assumes "mg_get_header (co_mg_conn (we_connection web)) ''Host'' = Some (host @ ''.localhost:41337'')"
    and "host \<in> {''insider.msg.yahoo.com'', ''pgq.yahoo.com'', ''chat.yahoo.com'',
      ''calendar.yahoo.com'', ''my.yahoo.com'', ''address.yahoo.com''}"
  shows "(let hosts = {''insider.msg.yahoo.com'', ''pgq.yahoo.com'', ''chat.yahoo.com'',
        ''calendar.yahoo.com'', ''my.yahoo.com'', ''address.yahoo.com''} in
    proxy_InternetConnectA original (call\<lparr>ic_lpszServerName := Some name\<rparr>) =
      original (if name \<in> hosts
        then call\<lparr>ic_lpszServerName := Some (name @ ''.localhost''), ic_nServerPort := 41337\<rparr>
        else call\<lparr>ic_lpszServerName := Some name\<rparr>)
    \<and> proxy_InternetConnectW originalW (callW\<lparr>ic_lpszServerName := Some words\<rparr>) =
      originalW (if words \<in> wide ` hosts
        then callW\<lparr>ic_lpszServerName := Some (words @ wide ''.localhost''), ic_nServerPort := 41337\<rparr>
        else callW\<lparr>ic_lpszServerName := Some words\<rparr>))
    \<and> MultiHost_OnRequest (server_handlers fs) web =
      and_then (page_of fs host) (\<lambda>handled.
        and_then (if \<not> handled then mg_send_string (GetFullURL (co_mg_conn (we_connection web))) else ret ())
          (\<lambda>_. ret True)) web"
proof -
  have host: "host \<in> set addresss"
    using assms(2) unfolding addresss_set .
  have "host_name (host @ ''.localhost:41337'') = host @ ''.localhost''"
    using host_name_port [OF addresss_no_colon [OF host], of "''41337''"] by simp
  then have "MultiHost_OnRequest (server_handlers fs) web =
      and_then (page_of fs host) (\<lambda>handled.
        and_then (if \<not> handled then mg_send_string (GetFullURL (co_mg_conn (we_connection web))) else ret ())
          (\<lambda>_. ret True)) web"
    using assms(1) server_handlers_of [OF host, of fs]
    by (simp add: MultiHost_OnRequest_def request_def and_then_def get_state_def)
  then show ?thesis
    unfolding Let_def addresss_set [symmetric] using redirect_name redirect_wide_name by blast
qed

text \<open>The instance: a request for a page of the chat host, and a connection to another host.\<close>

definition sample_call :: "char InternetConnect" where
  "sample_call = \<lparr>ic_hInternet = 1, ic_lpszServerName = None, ic_nServerPort = 80, ic_lpszUserName = None,
     ic_lpszPassword = None, ic_dwService = 3, ic_dwFlags = 0, ic_dwContext = 0\<rparr>"

theorem connections_redirected_witness:
  "MultiHost_OnRequest (server_handlers (\<lambda>_. None)) (web_start (handled sample_request)) =
     and_then (GenericHandler (\<lambda>_. None) ''htdoc/chat.yahoo.com'') (\<lambda>done.
       and_then (if \<not> done then mg_send_string (GetFullURL (handled sample_request)) else ret ())
         (\<lambda>_. ret True)) (web_start (handled sample_request))
   \<and> proxy_InternetConnectA (\<lambda>call. ret (ucast (ic_nServerPort call)))
       (sample_call\<lparr>ic_lpszServerName := Some ''address.yahoo.com''\<rparr>) () = (Inr 41337, ())"
proof -
  let ?web = "web_start (handled sample_request)"
  have conn: "co_mg_conn (we_connection ?web) = handled sample_request"
    by (simp add: web_start_def web_begin_def)
  then have header: "mg_get_header (co_mg_conn (we_connection ?web)) ''Host'' =
      Some (''chat.yahoo.com'' @ ''.localhost:41337'')"
    using sample_handled(4) by simp
  note at = connections_redirected [OF header, where original = "\<lambda>call. ret (ucast (ic_nServerPort call))"
      and call = sample_call and name = "''address.yahoo.com''" and fs = "\<lambda>_. None"]
  have "proxy_InternetConnectA (\<lambda>call. ret (ucast (ic_nServerPort call)))
      (sample_call\<lparr>ic_lpszServerName := Some ''address.yahoo.com''\<rparr>) = (ret 41337 :: (unit, ptr) cpp)"
    using at [THEN conjunct1, unfolded Let_def, THEN conjunct1] by (simp add: sample_call_def)
  then show ?thesis
    using at [THEN conjunct2] unfolding conn by (simp add: page_of_def ret_def)
qed

text \<open>
  Connections by address: the address 101.101.101.101 becomes 127.0.0.1, port and all other
  addresses stay, and whatever length was given, the original function is given sixteen.
\<close>

lemma proxy_connect_address:
  assumes "sa_family name = AF_INET" "16 \<le> length name"
  shows "proxy_connect original s name namelen =
    original s (if take 4 (drop 4 name) = [101, 101, 101, 101]
      then take 4 name @ [127, 0, 0, 1] @ take 8 (drop 8 name) else take 16 name) 16"
proof -
  have four: "take 4 (drop 4 name) = [name ! 4, name ! 5, name ! 6, name ! 7]"
    using assms(2) by (intro nth_equalityI) (auto simp: less_Suc_eq numeral_eq_Suc)
  have "(take 16 name)[4 := 127, 5 := 0, 6 := 0, 7 := 1] = take 4 name @ [127, 0, 0, 1] @ take 8 (drop 8 name)"
    using assms(2) by (intro nth_equalityI) (auto simp: nth_append nth_list_update nth_Cons')
  moreover have "ntohl (s_addr (take 16 name)) = 0x65656565" if "take 4 (drop 4 name) = [101, 101, 101, 101]"
  proof -
    have "ntohl 0x65656565 = 0x65656565" by code_simp
    then show ?thesis using that by (simp add: s_addr_def drop_take)
  qed
  ultimately show ?thesis
    using assms four
    by (simp add: proxy_connect_def sizeof_sockaddr_in_def Let_def INADDR_LOOPBACK_def)
qed

end
