(* ===== verification/Gloox_JID.thy ===== *)
theory Gloox_JID
  imports Std_String
begin

text \<open>
  Addresses of the bundled XMPP library (\<open>src/gloox-1.0.20/src/jid.cpp\<close>, \<open>jid.h\<close>, \<open>prep.cpp\<close>):
  splitting an address into node, server and resource, the bare and the full form, and the
  escaping of a node. The library is built without \<open>LIBIDN\<close> (\<open>config.h.win\<close>), so the four
  preparations only check the length. The lemmas show what an address is split into, that
  the full form is read back as the same address, and that unescaping undoes escaping.
\<close>

section \<open>Preparation\<close>

definition JID_PORTION_SIZE :: nat where
  "JID_PORTION_SIZE = 1023"

definition nodeprep :: "string \<Rightarrow> string option" where
  "nodeprep node = (if length node > JID_PORTION_SIZE then None else Some node)"

definition nameprep :: "string \<Rightarrow> string option" where
  "nameprep domain = (if length domain > JID_PORTION_SIZE then None else Some domain)"

definition resourceprep :: "string \<Rightarrow> string option" where
  "resourceprep resource = (if length resource > JID_PORTION_SIZE then None else Some resource)"

section \<open>JID\<close>

record JID =
  j_resource :: string
  j_username :: string
  j_server :: string
  j_serverRaw :: string
  j_bare :: string
  j_full :: string
  j_valid :: bool

definition JID_default :: JID where
  "JID_default = \<lparr>j_resource = [], j_username = [], j_server = [], j_serverRaw = [],
     j_bare = [], j_full = [], j_valid = False\<rparr>"

definition setBare :: "JID \<Rightarrow> JID" where
  "setBare j = j\<lparr>j_bare := (if j_username j \<noteq> [] then j_username j @ ''@'' else []) @ j_server j\<rparr>"

definition setFull :: "JID \<Rightarrow> JID" where
  "setFull j = j\<lparr>j_full := j_bare j @ (if j_resource j \<noteq> [] then ''/'' @ j_resource j else [])\<rparr>"

definition setStrings :: "JID \<Rightarrow> JID" where
  "setStrings j = setFull (setBare j)"

text \<open>
  The assignments in the conditions of \<open>setJID\<close>: a preparation that fails leaves the member
  as it was.
\<close>

definition prep_username :: "string \<Rightarrow> JID \<Rightarrow> JID" where
  "prep_username s j = (case nodeprep s of None \<Rightarrow> j\<lparr>j_valid := False\<rparr>
     | Some u \<Rightarrow> j\<lparr>j_username := u, j_valid := True\<rparr>)"

definition prep_server :: "JID \<Rightarrow> JID" where
  "prep_server j = (case nameprep (j_serverRaw j) of None \<Rightarrow> j\<lparr>j_valid := False\<rparr>
     | Some d \<Rightarrow> j\<lparr>j_server := d, j_valid := True\<rparr>)"

definition prep_resource :: "string \<Rightarrow> JID \<Rightarrow> JID" where
  "prep_resource s j = (case resourceprep s of None \<Rightarrow> j\<lparr>j_valid := False\<rparr>
     | Some r \<Rightarrow> j\<lparr>j_resource := r, j_valid := True\<rparr>)"

text \<open>
  The substring between \<open>at\<close> and \<open>slash\<close>. With \<open>npos\<close> for one of them the code's unsigned
  differences come out as the same positions.
\<close>

definition server_part :: "string \<Rightarrow> nat option \<Rightarrow> nat option \<Rightarrow> string" where
  "server_part jid at slash =
     (let start = (case at of None \<Rightarrow> 0 | Some a \<Rightarrow> a + 1)
      in drop start (case slash of None \<Rightarrow> jid | Some i \<Rightarrow> take i jid))"

definition setJID :: "string \<Rightarrow> JID \<Rightarrow> bool \<times> JID" where
  "setJID jid j =
     (if jid = [] then (False, JID_default)
      else let at = str_find ''@'' jid;
               slash = str_find_from ''/'' jid (case at of None \<Rightarrow> 0 | Some a \<Rightarrow> a);
               j1 = (case at of None \<Rightarrow> j | Some a \<Rightarrow> prep_username (take a jid) j)
      in if at \<noteq> None \<and> \<not> j_valid j1 then (False, j1)
      else let j2 = prep_server (j1\<lparr>j_serverRaw := server_part jid at slash\<rparr>)
      in if \<not> j_valid j2 then (False, j2)
      else let j3 = (case slash of None \<Rightarrow> j2 | Some i \<Rightarrow> prep_resource (drop (i + 1) jid) j2)
      in if slash \<noteq> None \<and> \<not> j_valid j3 then (False, j3)
      else (j_valid (setStrings j3), setStrings j3))"

text \<open>The constructors.\<close>

definition JID_new :: "string \<Rightarrow> JID" where
  "JID_new jid = snd (setJID jid (JID_default\<lparr>j_valid := True\<rparr>))"

definition bareJID :: "JID \<Rightarrow> JID" where
  "bareJID j = JID_new (j_bare j)"

definition setUsername :: "string \<Rightarrow> JID \<Rightarrow> bool \<times> JID" where
  "setUsername uname j = (let j1 = setStrings (prep_username uname j) in (j_valid j1, j1))"

definition setServer :: "string \<Rightarrow> JID \<Rightarrow> bool \<times> JID" where
  "setServer serv j =
     (let j1 = setStrings (prep_server (j\<lparr>j_serverRaw := serv\<rparr>)) in (j_valid j1, j1))"

definition setResource :: "string \<Rightarrow> JID \<Rightarrow> bool \<times> JID" where
  "setResource res j = (let j1 = setFull (prep_resource res j) in (j_valid j1, j1))"

text \<open>Comparisons are those of the full form.\<close>

definition JID_eq :: "JID \<Rightarrow> JID \<Rightarrow> bool" where
  "JID_eq a b = (j_full a = j_full b)"

section \<open>What an address is split into\<close>

text \<open>An address as text: node, server and resource, the first and the last may be missing.\<close>

definition jid_text :: "string \<Rightarrow> string \<Rightarrow> string \<Rightarrow> string" where
  "jid_text u s r =
     (if u \<noteq> [] then u @ ''@'' else []) @ s @ (if r \<noteq> [] then ''/'' @ r else [])"

text \<open>
  The parts such a text determines: no \<open>@\<close> in the node, no \<open>/\<close> in the server, and no \<open>@\<close>
  at all behind a missing node.
\<close>

definition jid_parts :: "string \<Rightarrow> string \<Rightarrow> string \<Rightarrow> bool" where
  "jid_parts u s r =
     (CHR ''@'' \<notin> set u \<and> CHR ''/'' \<notin> set s \<and> s \<noteq> []
      \<and> (u = [] \<longrightarrow> CHR ''@'' \<notin> set s \<union> set r)
      \<and> length u \<le> JID_PORTION_SIZE \<and> length s \<le> JID_PORTION_SIZE \<and> length r \<le> JID_PORTION_SIZE)"

lemma slash_found:
  assumes "CHR ''/'' \<notin> set s" "r \<noteq> []"
  shows "str_find ''/'' (s @ ''/'' @ r) = Some (length s)"
  using str_find_char_append [OF assms(1)] by simp

lemma slash_found_behind_at:
  assumes "CHR ''/'' \<notin> set s" "r \<noteq> []"
  shows "str_find_from ''/'' (u @ ''@'' @ s @ ''/'' @ r) (length u) = Some (length u + 1 + length s)"
  using slash_found [of "CHR ''@'' # s" r] assms by (simp add: str_find_from_def)

lemma slash_absent_behind_at:
  "CHR ''/'' \<notin> set s \<Longrightarrow> str_find_from ''/'' (u @ ''@'' @ s) (length u) = None"
  using str_find_char_absent [of "CHR ''/''" "CHR ''@'' # s"] by (simp add: str_find_from_def)

lemma JID_new_text:
  assumes "jid_parts u s r"
  shows "JID_new (jid_text u s r) =
    \<lparr>j_resource = r, j_username = u, j_server = s, j_serverRaw = s, j_bare = jid_text u s [],
     j_full = jid_text u s r, j_valid = True\<rparr>"
proof -
  note parts = assms [unfolded jid_parts_def]
  note defs = JID_new_def setJID_def jid_text_def prep_username_def prep_server_def
    prep_resource_def nodeprep_def nameprep_def resourceprep_def server_part_def Let_def
    setStrings_def setBare_def setFull_def JID_default_def
  show ?thesis
  proof (cases "u = []")
    case True
    then have no_at: "str_find ''@'' (s @ x) = None" if "set x \<subseteq> insert (CHR ''/'') (set r)" for x
      using parts that by (intro str_find_char_absent) auto
    show ?thesis
    proof (cases "r = []")
      case r: True
      then show ?thesis
        using True parts no_at [of "[]"] str_find_char_absent [of "CHR ''/''" s]
        by (simp add: defs str_find_from_def)
    next
      case False
      then show ?thesis
        using True parts no_at [of "''/'' @ r"] slash_found [of s r]
        by (simp add: defs str_find_from_def)
    qed
  next
    case False
    have at: "str_find ''@'' (u @ CHR ''@'' # x) = Some (length u)" for x
      using parts str_find_char_append by blast
    show ?thesis
      using False parts at slash_found_behind_at [of s r u] slash_absent_behind_at [of s u]
      by (cases "r = []") (simp_all add: defs)
  qed
qed

text \<open>An address read back from its full form is the same, and so is the bare one.\<close>

lemma JID_new_full:
  assumes "jid_parts u s r"
  shows "JID_new (j_full (JID_new (jid_text u s r))) = JID_new (jid_text u s r)"
  by (simp add: JID_new_text [OF assms])

lemma bareJID_text:
  assumes "jid_parts u s r"
  shows "bareJID (JID_new (jid_text u s r)) = JID_new (jid_text u s [])"
  by (simp add: bareJID_def JID_new_text [OF assms])

section \<open>Escaped nodes\<close>

definition escapeNode :: "string \<Rightarrow> string" where
  "escapeNode node =
     replaceAll ''@'' (CHR 0x5C # ''40'') (replaceAll ''>'' (CHR 0x5C # ''3e'')
     (replaceAll ''<'' (CHR 0x5C # ''3c'') (replaceAll '':'' (CHR 0x5C # ''3a'')
     (replaceAll ''/'' (CHR 0x5C # ''2f'') (replaceAll [CHR 0x27] (CHR 0x5C # ''27'')
     (replaceAll ''&'' (CHR 0x5C # ''26'') (replaceAll [CHR 0x22] (CHR 0x5C # ''22'')
     (replaceAll '' '' (CHR 0x5C # ''20'') (replaceAll [CHR 0x5C] (CHR 0x5C # ''5c'') node)))))))))"

definition unescapeNode :: "string \<Rightarrow> string" where
  "unescapeNode node =
     replaceAll (CHR 0x5C # ''5c'') [CHR 0x5C] (replaceAll (CHR 0x5C # ''40'') ''@''
     (replaceAll (CHR 0x5C # ''3e'') ''>'' (replaceAll (CHR 0x5C # ''3c'') ''<''
     (replaceAll (CHR 0x5C # ''3a'') '':'' (replaceAll (CHR 0x5C # ''2f'') ''/''
     (replaceAll (CHR 0x5C # ''27'') [CHR 0x27] (replaceAll (CHR 0x5C # ''26'') ''&''
     (replaceAll (CHR 0x5C # ''22'') [CHR 0x22] (replaceAll (CHR 0x5C # ''20'') '' '' node)))))))))"

text \<open>The code of a character, behind the backslash.\<close>

definition node_codes :: "(char \<times> string) list" where
  "node_codes = [(CHR 0x5C, ''5c''), (CHR '' '', ''20''), (CHR 0x22, ''22''), (CHR ''&'', ''26''),
     (CHR 0x27, ''27''), (CHR ''/'', ''2f''), (CHR '':'', ''3a''), (CHR ''<'', ''3c''),
     (CHR ''>'', ''3e''), (CHR ''@'', ''40'')]"

text \<open>A node in which the characters of \<open>cs\<close> are escaped.\<close>

definition coded :: "(char \<times> string) list \<Rightarrow> string \<Rightarrow> string" where
  "coded cs node =
     concat (map (\<lambda>c. case map_of cs c of None \<Rightarrow> [c] | Some code \<Rightarrow> CHR 0x5C # code) node)"

lemma coded_simps [simp]:
  "coded cs [] = []"
  "coded cs (c # s) = (case map_of cs c of None \<Rightarrow> [c] | Some code \<Rightarrow> CHR 0x5C # code) @ coded cs s"
  by (simp_all add: coded_def)

lemma coded_none: "coded [] s = s"
  by (induction s) simp_all

lemma escapeNode_coded: "escapeNode node = coded node_codes node"
  by (induction node) (simp_all add: escapeNode_def replaceAll_char coded_def node_codes_def)

text \<open>
  One step of unescaping: the codes of the other characters stay, and so does the
  backslash, as long as backslashes are escaped.
\<close>

lemma unescape_step:
  assumes "map_of cs c = Some [a, b]"
    and "list_all (\<lambda>(d, code). d = c \<or>
      (code \<noteq> [a, b] \<and> length code = 2 \<and> CHR 0x5C \<notin> set code)) cs"
    and "a \<noteq> CHR 0x5C" "b \<noteq> CHR 0x5C"
    and "c = CHR 0x5C \<or> map_of cs CHR 0x5C \<noteq> None"
  shows "replaceAll [CHR 0x5C, a, b] [c] (coded cs s) = coded (filter (\<lambda>(d, code). d \<noteq> c) cs) s"
proof -
  let ?f = "[CHR 0x5C, a, b]" and ?cs = "filter (\<lambda>(d, code). d \<noteq> c) cs"
  have gone: "map_of ?cs d = (if d = c then None else map_of cs d)" for d
    by (induction cs) auto
  show ?thesis
  proof (induction s)
    case (Cons d s)
    consider "d = c" | "d \<noteq> c" "map_of cs d = None" | code where "d \<noteq> c" "map_of cs d = Some code"
      by (cases "map_of cs d") auto
    then show ?case
    proof cases
      case 1
      then show ?thesis
        using assms(1) replaceAll_match [of ?f "[c]" "coded cs s"] Cons gone [of c] by simp
    next
      case 2
      then have "d \<noteq> CHR 0x5C" using assms(5) by auto
      then show ?thesis
        using 2 Cons gone [of d] replaceAll_skip [of ?f d "[c]" "coded cs s"] by auto
    next
      case (3 code)
      then have "code \<noteq> [a, b]" "length code = 2" "CHR 0x5C \<notin> set code"
        using assms(2) map_of_SomeD [OF 3(2)] by (auto simp: list_all_iff)
      moreover from \<open>length code = 2\<close> obtain x y where code: "code = [x, y]"
        unfolding numeral_2_eq_2 length_Suc_conv by blast
      ultimately have xy: "[x, y] \<noteq> [a, b]" "x \<noteq> CHR 0x5C" "y \<noteq> CHR 0x5C"
        by auto
      have "replaceAll ?f [c] (CHR 0x5C # x # y # t) = CHR 0x5C # x # y # replaceAll ?f [c] t" for t
        using xy replaceAll_Cons [of ?f "[c]" "CHR 0x5C" "x # y # t"]
          replaceAll_skip [of ?f x "[c]" "y # t"] replaceAll_skip [of ?f y "[c]" t] by auto
      then show ?thesis
        using 3 code Cons gone [of d] by simp
    qed
  qed simp
qed

lemma unescape_escape: "unescapeNode (escapeNode node) = node"
  unfolding escapeNode_coded unescapeNode_def node_codes_def
  by (simp add: unescape_step coded_none)

end
