(* ===== verification/Gloox_Roster.thy ===== *)
theory Gloox_Roster
  imports Gloox_JID Std_Map
begin

text \<open>
  The roster of the bundled XMPP library (\<open>src/gloox-1.0.20/src/rosteritemdata.h\<close>,
  \<open>resource.h\<close>, \<open>rosteritem.cpp\<close>, \<open>rostermanager.cpp\<close>): the entries a server sends, the
  resources a contact is online with, and the updates by roster pushes and presences.
  Stanza extensions of a resource are left out; \<open>setExtensions\<close> only creates the resource.
  The lemmas show that every operation keeps the roster in order, each item under the full
  form of its own address, and what a presence changes.
\<close>

section \<open>Items of a query\<close>

datatype SubscriptionType =
    S10nNone | S10nNoneOut | S10nNoneIn | S10nNoneOutIn | S10nTo | S10nToIn | S10nFrom
  | S10nFromOut | S10nBoth

record RosterItemData =
  rid_jidJID :: JID
  rid_name :: string
  rid_groups :: "string list"
  rid_subscription :: SubscriptionType
  rid_sub :: string
  rid_ask :: string
  rid_changed :: bool
  rid_remove :: bool

definition RosterItemData_new :: "JID \<Rightarrow> string \<Rightarrow> string list \<Rightarrow> RosterItemData" where
  "RosterItemData_new jid name groups =
     \<lparr>rid_jidJID = jid, rid_name = name, rid_groups = groups, rid_subscription = S10nNone,
      rid_sub = [], rid_ask = [], rid_changed = False, rid_remove = False\<rparr>"

definition RosterItemData_removal :: "JID \<Rightarrow> RosterItemData" where
  "RosterItemData_removal jid = (RosterItemData_new jid [] [])\<lparr>rid_remove := True\<rparr>"

text \<open>The copy constructor does not copy \<open>m_sub\<close> and \<open>m_ask\<close>.\<close>

definition RosterItemData_copy :: "RosterItemData \<Rightarrow> RosterItemData" where
  "RosterItemData_copy right = right\<lparr>rid_sub := [], rid_ask := []\<rparr>"

definition setName :: "string \<Rightarrow> RosterItemData \<Rightarrow> RosterItemData" where
  "setName name d = d\<lparr>rid_name := name, rid_changed := True\<rparr>"

definition setGroups :: "string list \<Rightarrow> RosterItemData \<Rightarrow> RosterItemData" where
  "setGroups groups d = d\<lparr>rid_groups := groups, rid_changed := True\<rparr>"

definition setSynchronized :: "RosterItemData \<Rightarrow> RosterItemData" where
  "setSynchronized d = d\<lparr>rid_changed := False\<rparr>"

definition setSubscription :: "string \<Rightarrow> string \<Rightarrow> RosterItemData \<Rightarrow> RosterItemData" where
  "setSubscription subscription ask d =
     d\<lparr>rid_sub := subscription, rid_ask := ask,
       rid_subscription :=
         (if subscription = ''from'' \<and> ask = [] then S10nFrom
          else if subscription = ''from'' \<and> ask \<noteq> [] then S10nFromOut
          else if subscription = ''to'' \<and> ask = [] then S10nTo
          else if subscription = ''to'' \<and> ask \<noteq> [] then S10nToIn
          else if subscription = ''none'' \<and> ask = [] then S10nNone
          else if subscription = ''none'' \<and> ask \<noteq> [] then S10nNoneOut
          else if subscription = ''both'' then S10nBoth
          else rid_subscription d)\<rparr>"

section \<open>Resources and items\<close>

datatype PresenceType =
    Presence_Available | Presence_Chat | Presence_Away | Presence_DND | Presence_XA
  | Presence_Unavailable | Presence_Probe | Presence_Error | Presence_Invalid

record Resource =
  res_priority :: int
  res_message :: string
  res_presence :: PresenceType

definition Resource_new :: "int \<Rightarrow> string \<Rightarrow> PresenceType \<Rightarrow> Resource" where
  "Resource_new priority msg presence =
     \<lparr>res_priority = priority, res_message = msg, res_presence = presence\<rparr>"

record RosterItem =
  ri_data :: RosterItemData
  ri_resources :: "(string, Resource) std_map"

definition RosterItem_new :: "string \<Rightarrow> string \<Rightarrow> RosterItem" where
  "RosterItem_new jid name =
     \<lparr>ri_data = RosterItemData_new (JID_new jid) name [], ri_resources = []\<rparr>"

definition RosterItem_of :: "RosterItemData \<Rightarrow> RosterItem" where
  "RosterItem_of d = \<lparr>ri_data = RosterItemData_copy d, ri_resources = []\<rparr>"

definition setData :: "RosterItemData \<Rightarrow> RosterItem \<Rightarrow> RosterItem" where
  "setData d item = item\<lparr>ri_data := RosterItemData_copy d\<rparr>"

text \<open>
  The setters of a resource share their shape: a resource that is not there is created, one
  that is there is changed.
\<close>

definition update_resource ::
  "string \<Rightarrow> Resource \<Rightarrow> (Resource \<Rightarrow> Resource) \<Rightarrow> RosterItem \<Rightarrow> RosterItem" where
  "update_resource resource fresh f item =
     item\<lparr>ri_resources :=
       (case map_find (ri_resources item) resource of
          None \<Rightarrow> map_assign resource fresh (ri_resources item)
        | Some r \<Rightarrow> map_adjust resource f (ri_resources item))\<rparr>"

definition setPresence :: "string \<Rightarrow> PresenceType \<Rightarrow> RosterItem \<Rightarrow> RosterItem" where
  "setPresence resource presence =
     update_resource resource (Resource_new 0 [] presence) (\<lambda>r. r\<lparr>res_presence := presence\<rparr>)"

definition setStatus :: "string \<Rightarrow> string \<Rightarrow> RosterItem \<Rightarrow> RosterItem" where
  "setStatus resource msg =
     update_resource resource (Resource_new 0 msg Presence_Unavailable) (\<lambda>r. r\<lparr>res_message := msg\<rparr>)"

definition setPriority :: "string \<Rightarrow> int \<Rightarrow> RosterItem \<Rightarrow> RosterItem" where
  "setPriority resource priority =
     update_resource resource (Resource_new priority [] Presence_Unavailable)
       (\<lambda>r. r\<lparr>res_priority := priority\<rparr>)"

definition setExtensions :: "string \<Rightarrow> RosterItem \<Rightarrow> RosterItem" where
  "setExtensions resource =
     update_resource resource (Resource_new 0 [] Presence_Unavailable) (\<lambda>r. r)"

definition removeResource :: "string \<Rightarrow> RosterItem \<Rightarrow> RosterItem" where
  "removeResource resource item = item\<lparr>ri_resources := map_erase resource (ri_resources item)\<rparr>"

definition online :: "RosterItem \<Rightarrow> bool" where
  "online item = (ri_resources item \<noteq> [])"

definition resource_of :: "string \<Rightarrow> RosterItem \<Rightarrow> Resource option" where
  "resource_of res item = map_find (ri_resources item) res"

text \<open>The first resource of the highest priority above -255.\<close>

fun highest_loop :: "int \<Rightarrow> Resource option \<Rightarrow> (string \<times> Resource) list \<Rightarrow> Resource option" where
  "highest_loop highestPriority best [] = best"
| "highest_loop highestPriority best ((name, r) # rs) =
     (if res_priority r > highestPriority then highest_loop (res_priority r) (Some r) rs
      else highest_loop highestPriority best rs)"

definition highestResource :: "RosterItem \<Rightarrow> Resource option" where
  "highestResource item = highest_loop (- 255) None (ri_resources item)"

section \<open>RosterManager\<close>

text \<open>What the roster listener is told, when there is one.\<close>

datatype roster_event =
    handleItemRemoved string
  | handleItemUpdated string
  | handleItemAdded string
  | handleRoster "(string, RosterItem) std_map"
  | handleRosterPresence RosterItem string PresenceType string
  | handleSelfPresence RosterItem string PresenceType string
  | handleNonrosterPresence string

record RosterManager =
  rm_roster :: "(string, RosterItem) std_map"
  rm_self :: RosterItem
  rm_hasListener :: bool
  rm_events :: "roster_event list"

record Presence =
  pres_from :: JID
  pres_presence :: PresenceType
  pres_status :: string
  pres_priority :: int

definition tell :: "roster_event \<Rightarrow> RosterManager \<Rightarrow> RosterManager" where
  "tell ev rm = (if rm_hasListener rm then rm\<lparr>rm_events := rm_events rm @ [ev]\<rparr> else rm)"

definition merge_item :: "RosterItemData \<Rightarrow> RosterManager \<Rightarrow> RosterManager" where
  "merge_item d rm =
     (let full = j_full (rid_jidJID d) in
      case map_find (rm_roster rm) full of
        Some item \<Rightarrow>
          if rid_remove d
          then (tell (handleItemRemoved full) rm)\<lparr>rm_roster := map_erase full (rm_roster rm)\<rparr>
          else tell (handleItemUpdated full)
                 (rm\<lparr>rm_roster := map_adjust full (setData d) (rm_roster rm)\<rparr>)
      | None \<Rightarrow>
          if \<not> rid_remove d
          then tell (handleItemAdded full)
                 (rm\<lparr>rm_roster := map_insert full (RosterItem_of d) (rm_roster rm)\<rparr>)
          else rm)"

definition mergePush :: "RosterItemData list \<Rightarrow> RosterManager \<Rightarrow> RosterManager" where
  "mergePush data rm = fold merge_item data rm"

definition mergeRoster :: "RosterItemData list \<Rightarrow> RosterManager \<Rightarrow> RosterManager" where
  "mergeRoster data rm =
     fold (\<lambda>d rm. rm\<lparr>rm_roster :=
       map_insert (j_full (rid_jidJID d)) (RosterItem_of d) (rm_roster rm)\<rparr>) data rm"

definition getRosterItem :: "JID \<Rightarrow> RosterManager \<Rightarrow> RosterItem option" where
  "getRosterItem jid rm = map_find (rm_roster rm) (j_bare jid)"

text \<open>The change of the item a presence is about.\<close>

definition apply_presence :: "Presence \<Rightarrow> RosterItem \<Rightarrow> RosterItem" where
  "apply_presence presence ri =
     (let resource = j_resource (pres_from presence) in
      if pres_presence presence = Presence_Unavailable then removeResource resource ri
      else setExtensions resource (setPriority resource (pres_priority presence)
             (setStatus resource (pres_status presence)
             (setPresence resource (pres_presence presence) ri))))"

definition RosterManager_handlePresence :: "Presence \<Rightarrow> RosterManager \<Rightarrow> RosterManager" where
  "RosterManager_handlePresence presence rm =
     (if pres_presence presence = Presence_Error then rm
      else let from = pres_from presence; resource = j_resource from in
        case map_find (rm_roster rm) (j_bare from) of
          Some item \<Rightarrow>
            tell (handleRosterPresence (apply_presence presence item) resource
                    (pres_presence presence) (pres_status presence))
              (rm\<lparr>rm_roster := map_adjust (j_bare from) (apply_presence presence) (rm_roster rm)\<rparr>)
        | None \<Rightarrow>
            if JID_eq (bareJID from) (rid_jidJID (ri_data (rm_self rm)))
            then tell (handleSelfPresence (apply_presence presence (rm_self rm)) resource
                         (pres_presence presence) (pres_status presence))
                   (rm\<lparr>rm_self := apply_presence presence (rm_self rm)\<rparr>)
            else tell (handleNonrosterPresence (j_full from)) rm)"

section \<open>A roster in order\<close>

definition item_ok :: "string \<Rightarrow> RosterItem \<Rightarrow> bool" where
  "item_ok k item = (k = j_full (rid_jidJID (ri_data item)) \<and> map_sorted (ri_resources item))"

definition roster_ok :: "RosterManager \<Rightarrow> bool" where
  "roster_ok rm = (map_sorted (rm_roster rm) \<and> (\<forall>(k, item) \<in> set (rm_roster rm). item_ok k item)
     \<and> map_sorted (ri_resources (rm_self rm)))"

lemma tell_simps [simp]:
  "rm_roster (tell ev rm) = rm_roster rm"
  "rm_self (tell ev rm) = rm_self rm"
  by (simp_all add: tell_def)

lemma copy_jid [simp]: "rid_jidJID (RosterItemData_copy d) = rid_jidJID d"
  by (simp add: RosterItemData_copy_def)

lemma item_ok_of: "item_ok (j_full (rid_jidJID d)) (RosterItem_of d)"
  by (simp add: item_ok_def RosterItem_of_def)

lemma roster_insert:
  "roster_ok rm \<Longrightarrow> item_ok k item \<Longrightarrow> roster_ok (rm\<lparr>rm_roster := map_insert k item (rm_roster rm)\<rparr>)"
  using set_map_insert [of k item "rm_roster rm"]
  by (fastforce simp: roster_ok_def map_sorted_insert)

lemma roster_erase: "roster_ok rm \<Longrightarrow> roster_ok (rm\<lparr>rm_roster := map_erase k (rm_roster rm)\<rparr>)"
  by (auto simp: roster_ok_def map_sorted_erase) (auto simp: map_erase_def)

lemma roster_adjust:
  "roster_ok rm \<Longrightarrow> (\<And>item. item_ok k item \<Longrightarrow> item_ok k (f item)) \<Longrightarrow>
   roster_ok (rm\<lparr>rm_roster := map_adjust k f (rm_roster rm)\<rparr>)"
  by (auto simp: roster_ok_def) (auto simp: map_adjust_def split: if_splits)

lemma roster_tell: "roster_ok (tell ev rm) = roster_ok rm"
  by (simp add: roster_ok_def)

lemma update_resource_ok: "item_ok k item \<Longrightarrow> item_ok k (update_resource res fresh f item)"
  by (auto simp: item_ok_def update_resource_def map_sorted_assign split: option.split)

lemmas resource_setters = setPresence_def setStatus_def setPriority_def setExtensions_def

lemma apply_presence_ok: "item_ok k item \<Longrightarrow> item_ok k (apply_presence presence item)"
proof (cases "pres_presence presence = Presence_Unavailable")
  case True
  then show "item_ok k item \<Longrightarrow> ?thesis"
    by (simp add: apply_presence_def removeResource_def item_ok_def map_sorted_erase)
next
  case False
  then show "item_ok k item \<Longrightarrow> ?thesis"
    by (simp add: apply_presence_def resource_setters update_resource_ok Let_def)
qed

lemma merge_item_ok: "roster_ok rm \<Longrightarrow> roster_ok (merge_item d rm)"
proof -
  let ?k = "j_full (rid_jidJID d)"
  have "item_ok ?k (setData d item)" if "item_ok ?k item" for item
    using that by (simp add: item_ok_def setData_def)
  moreover have "(tell ev rm)\<lparr>rm_roster := m\<rparr> = tell ev (rm\<lparr>rm_roster := m\<rparr>)" for ev m
    by (simp add: tell_def)
  ultimately show "roster_ok rm \<Longrightarrow> ?thesis"
    by (auto simp: merge_item_def Let_def roster_tell roster_insert item_ok_of roster_erase
        roster_adjust split: option.split)
qed

lemma mergePush_ok: "roster_ok rm \<Longrightarrow> roster_ok (mergePush data rm)"
  unfolding mergePush_def by (induction data arbitrary: rm) (simp_all add: merge_item_ok)

lemma mergeRoster_ok: "roster_ok rm \<Longrightarrow> roster_ok (mergeRoster data rm)"
  unfolding mergeRoster_def
  by (induction data arbitrary: rm) (simp_all add: roster_insert item_ok_of)

lemma handlePresence_ok: "roster_ok rm \<Longrightarrow> roster_ok (RosterManager_handlePresence presence rm)"
proof -
  assume ok: "roster_ok rm"
  then have "item_ok (j_full (rid_jidJID (ri_data (rm_self rm)))) (rm_self rm)"
    by (simp add: roster_ok_def item_ok_def)
  from apply_presence_ok [OF this] ok
  have "roster_ok (rm\<lparr>rm_self := apply_presence presence (rm_self rm)\<rparr>)"
    by (simp add: roster_ok_def item_ok_def)
  with ok show ?thesis
    by (auto simp: RosterManager_handlePresence_def Let_def roster_tell roster_adjust
        apply_presence_ok split: option.split)
qed

section \<open>What the operations do\<close>

lemma update_resource_find:
  "map_sorted (ri_resources item) \<Longrightarrow>
   map_find (ri_resources (update_resource res fresh f item)) a =
     (if a = res then Some (case map_find (ri_resources item) res of None \<Rightarrow> fresh | Some r \<Rightarrow> f r)
      else map_find (ri_resources item) a)"
  by (auto simp: update_resource_def map_find_assign map_find_adjust split: option.split)

lemma update_resource_sorted:
  "map_sorted (ri_resources item) \<Longrightarrow> map_sorted (ri_resources (update_resource res fresh f item))"
  by (auto simp: update_resource_def map_sorted_assign split: option.split)

lemma Resource_fields:
  "r\<lparr>res_priority := p, res_message := m, res_presence := t\<rparr> =
     \<lparr>res_priority = p, res_message = m, res_presence = t\<rparr>"
  by (cases r) simp

text \<open>
  A presence sets exactly the resource it comes from: to its values, or away when the
  contact is unavailable there.
\<close>

lemma apply_presence_resource:
  assumes "map_sorted (ri_resources item)"
  shows "map_find (ri_resources (apply_presence presence item)) a =
    (if a = j_resource (pres_from presence)
     then (if pres_presence presence = Presence_Unavailable then None
           else Some \<lparr>res_priority = pres_priority presence, res_message = pres_status presence,
                      res_presence = pres_presence presence\<rparr>)
     else map_find (ri_resources item) a)"
proof (cases "pres_presence presence = Presence_Unavailable")
  case True
  then show ?thesis
    by (simp add: apply_presence_def removeResource_def map_find_erase)
next
  case False
  then show ?thesis
    using assms
    by (simp add: apply_presence_def resource_setters update_resource_find
        update_resource_sorted Resource_new_def Let_def Resource_fields split: option.split)
qed

text \<open>After a push an item is there with the data pushed, or gone.\<close>

lemma merge_item_find:
  "roster_ok rm \<Longrightarrow>
   map_option ri_data (map_find (rm_roster (merge_item d rm)) k) =
     (if k = j_full (rid_jidJID d)
      then (if rid_remove d then None else Some (RosterItemData_copy d))
      else map_option ri_data (map_find (rm_roster rm) k))"
  by (auto simp: merge_item_def Let_def map_find_erase map_find_adjust map_find_insert roster_ok_def
      setData_def RosterItem_of_def split: option.split)

text \<open>
  The resource with the highest priority: none has a higher one, and of several it is the
  first.
\<close>

lemma highest_loop_max:
  "highest_loop p best rs = Some r \<Longrightarrow> (\<And>b. best = Some b \<Longrightarrow> res_priority b = p) \<Longrightarrow>
   (\<forall>(n, r') \<in> set rs. res_priority r' \<le> res_priority r) \<and> p \<le> res_priority r"
  by (induction p best rs rule: highest_loop.induct) (fastforce split: if_splits)+

lemma highestResource_max:
  assumes "highestResource item = Some r" "(n, r') \<in> set (ri_resources item)"
  shows "res_priority r' \<le> res_priority r"
  using highest_loop_max [of "- 255" None "ri_resources item" r] assms
  by (auto simp: highestResource_def)

end
