(* ===== verification/XMPP_Bridge.thy ===== *)
theory XMPP_Bridge
  imports Gloox_Roster YMsg_Machine
begin

text \<open>
  The bridge to an XMPP server (\<open>src/GlooxXMPPBridgeLibrary\<close>): an \<open>AuthenticationHandler\<close> that
  connects a client of the bundled XMPP library instead of starting the mock's session, and
  starts the session when that client is connected, with the contacts of its roster; and a
  \<open>PresenceHandler\<close> that passes presences on to the messenger.

  The network side of the library is a parameter: the results of \<open>connect\<close>, \<open>handle\<close> and
  \<open>recv\<close>, and what the server sends, which arrives as calls of the operations below. The
  clock of \<open>GetTimestamp\<close> is a parameter too (\<open>now\<close>, in milliseconds). \<open>RosterListener\<close> only
  prints and is registered nowhere.
\<close>

section \<open>The client\<close>

text \<open>
  A presence handler is an object with an address; the bridge's holds the time the session
  began. The roster manager registers itself when the client is made.
\<close>

datatype presence_handler = Roster_handler | Bridge_handler nat int

record client =
  cl_jid :: JID
  cl_password :: string
  cl_rosterManager :: "RosterManager option"
  cl_presenceJidHandlers :: "(JID \<times> presence_handler) list"
  cl_presenceHandlers :: "presence_handler list"
  cl_presenceHandler :: "presence_handler option"

definition ExtendedClient_new :: "JID \<Rightarrow> string \<Rightarrow> client" where
  "ExtendedClient_new jid password =
     \<lparr>cl_jid = jid, cl_password = password,
      cl_rosterManager = Some \<lparr>rm_roster = [], rm_self = RosterItem_new (j_bare jid) [],
        rm_hasListener = False, rm_events = []\<rparr>,
      cl_presenceJidHandlers = [], cl_presenceHandlers = [Roster_handler],
      cl_presenceHandler = None\<rparr>"

definition registerPresenceHandler :: "presence_handler option \<Rightarrow> client \<Rightarrow> client" where
  "registerPresenceHandler ph c = (case ph of None \<Rightarrow> c
     | Some h \<Rightarrow> c\<lparr>cl_presenceHandlers := cl_presenceHandlers c @ [h]\<rparr>)"

definition removePresenceHandler :: "presence_handler option \<Rightarrow> client \<Rightarrow> client" where
  "removePresenceHandler ph c = (case ph of None \<Rightarrow> c
     | Some h \<Rightarrow> c\<lparr>cl_presenceHandlers := filter (\<lambda>h'. h' \<noteq> h) (cl_presenceHandlers c)\<rparr>)"

text \<open>\<open>release()\<close> gives up the old handler without deleting it.\<close>

definition setPresenceHandler :: "presence_handler option \<Rightarrow> client \<Rightarrow> client" where
  "setPresenceHandler handler c =
     (let c1 = (if cl_presenceHandler c \<noteq> None
                then (removePresenceHandler (cl_presenceHandler c) c)\<lparr>cl_presenceHandler := None\<rparr>
                else c)
      in (registerPresenceHandler handler c1)\<lparr>cl_presenceHandler := handler\<rparr>)"

definition ExtendedClient_pump :: "bool \<Rightarrow> bool" where
  "ExtendedClient_pump recv_is_ConnNoError = recv_is_ConnNoError"

definition onTLSConnect :: bool where
  "onTLSConnect = True"

section \<open>PresenceHandler\<close>

definition handlePresence :: "int \<Rightarrow> int \<Rightarrow> Presence \<Rightarrow> (session, unit) cpp" where
  "handlePresence now sessionBeginTimestamp presence =
     (let showNotification = (now - sessionBeginTimestamp \<ge> 2000);
          contactId = j_bare (pres_from presence)
      in if pres_status presence \<noteq> []
         then OnContactStatusMessage contactId (pres_status presence)
                (pres_presence presence \<in> {Presence_Away, Presence_DND, Presence_XA}) showNotification
         else (case pres_presence presence of
            Presence_Available \<Rightarrow> OnContactAvailable contactId showNotification
          | Presence_Chat \<Rightarrow> OnContactAvailable contactId showNotification
          | Presence_Away \<Rightarrow> OnContactAway contactId Brb False
          | Presence_DND \<Rightarrow> OnContactAway contactId Busy True
          | Presence_XA \<Rightarrow> OnContactAway contactId Busy True
          | Presence_Unavailable \<Rightarrow> OnContactOffline contactId
          | _ \<Rightarrow> ret ()))"

section \<open>The bridge\<close>

text \<open>One connection: the peer, the client, and the sockets attached to the pump for it.\<close>

record bridge =
  br_peer :: peer
  br_client :: "client option"
  br_sockets :: "int list"

abbreviation on_peer :: "(peer, 'a) cpp \<Rightarrow> (bridge, 'a) cpp" where
  "on_peer \<equiv> zoom br_peer (\<lambda>p b. b\<lparr>br_peer := p\<rparr>)"

definition INVALID_SOCKET :: int where
  "INVALID_SOCKET = - 1"

text \<open>The client connects to the server; the session starts when it has.\<close>

definition Bridge_OnClientAuthenticated :: "bool \<Rightarrow> int \<Rightarrow> (bridge, unit) cpp" where
  "Bridge_OnClientAuthenticated connected socketHandle =
     and_then (modify (\<lambda>b. b\<lparr>br_client := Some (ExtendedClient_new
       (JID_new (ah_clientId (br_peer b) @ ''/giblet'')) (ah_password (br_peer b)))\<rparr>)) (\<lambda>_.
     if \<not> connected then throw (Runtime_error ''Connection failed'')
     else if socketHandle = INVALID_SOCKET then throw (Runtime_error ''Invalid socket handle'')
     else modify (\<lambda>b. b\<lparr>br_sockets := br_sockets b @ [socketHandle]\<rparr>))"

definition populate_item :: "bool \<Rightarrow> RosterItem \<Rightarrow> (contacts, unit) cpp" where
  "populate_item junk item =
     (if rid_groups (ri_data item) = []
      then throw (Runtime_error ''Don't know how to handle empty groups yet'')
      else for_each (\<lambda>grp. LoadContact
             (ContactInfo_default junk (j_full (rid_jidJID (ri_data item))) grp Linked))
           (rid_groups (ri_data item)))"

definition Populate :: "bool \<Rightarrow> RosterManager option \<Rightarrow> (contacts, unit) cpp" where
  "Populate junk rosterManager = (case rosterManager of
       None \<Rightarrow> throw (Runtime_error ''No roaster manager available'')
     | Some rm \<Rightarrow> for_each (\<lambda>(jid, item). populate_item junk item) (rm_roster rm))"

text \<open>The call back when the client is connected. \<open>address\<close> is where the new handler lives.\<close>

definition OnSessionAuthenticated :: "env \<Rightarrow> int \<Rightarrow> nat \<Rightarrow> (bridge, unit) cpp" where
  "OnSessionAuthenticated env now address =
     and_then (get_state br_client) (\<lambda>client. case client of
       None \<Rightarrow> throw (Undefined ''OnSessionAuthenticated without a client'')
     | Some c \<Rightarrow>
        and_then (on_peer (modify (\<lambda>p. p\<lparr>peer_session :=
          create_managers (ah_initialAvailability p) (peer_session p)\<rparr>))) (\<lambda>_.
        and_then (on_peer (modify (\<lambda>p. p\<lparr>peer_session := (peer_session p)\<lparr>s_profiles :=
          Profile_Load (ah_clientId p) [] (s_profiles (peer_session p))\<rparr>\<rparr>))) (\<lambda>_.
        and_then (on_peer (on_session (on_contacts
          (Populate (env_isInChat env) (cl_rosterManager c))))) (\<lambda>_.
        and_then (on_peer (on_session (on_blocked (modify (Blocked_Load mock_blocked))))) (\<lambda>_.
        and_then (modify (\<lambda>b. b\<lparr>br_client :=
          Some (setPresenceHandler (Some (Bridge_handler address now)) c)\<rparr>)) (\<lambda>_.
        and_then (on_peer (on_session (on_connection (modify (SetSessionId (env_rand env)))))) (\<lambda>_.
        and_then (on_peer (on_session Mock_BeginSession)) (\<lambda>_.
        on_peer (modify (SetDispatchMap V11_Create))))))))))"

text \<open>\<open>onConnect\<close> calls the handler the client was made with.\<close>

definition onConnect :: "env \<Rightarrow> int \<Rightarrow> nat \<Rightarrow> (bridge, unit) cpp" where
  "onConnect = OnSessionAuthenticated"

section \<open>What arrives\<close>

definition run_presence_handler ::
    "int \<Rightarrow> Presence \<Rightarrow> presence_handler \<Rightarrow> (bridge, unit) cpp" where
  "run_presence_handler now presence h = (case h of
       Roster_handler \<Rightarrow> modify (\<lambda>b. b\<lparr>br_client := map_option (\<lambda>c. c\<lparr>cl_rosterManager :=
         map_option (RosterManager_handlePresence presence) (cl_rosterManager c)\<rparr>) (br_client b)\<rparr>)
     | Bridge_handler address begin_time \<Rightarrow>
         on_peer (on_session (handlePresence now begin_time presence)))"

text \<open>Handlers registered for the address of the sender come first, and then no others run.\<close>

definition notifyPresenceHandlers :: "int \<Rightarrow> Presence \<Rightarrow> (bridge, unit) cpp" where
  "notifyPresenceHandlers now presence =
     and_then (get_state br_client) (\<lambda>client. case client of
       None \<Rightarrow> ret ()
     | Some c \<Rightarrow>
        let ours = map snd (filter (\<lambda>(jid, h). j_bare jid = j_bare (pres_from presence))
              (cl_presenceJidHandlers c))
        in for_each (run_presence_handler now presence)
             (if ours \<noteq> [] then ours else cl_presenceHandlers c))"

text \<open>A roster the server sends, whole or in pieces.\<close>

definition roster_arrives :: "bool \<Rightarrow> RosterItemData list \<Rightarrow> (bridge, unit) cpp" where
  "roster_arrives push data = modify (\<lambda>b. b\<lparr>br_client := map_option (\<lambda>c. c\<lparr>cl_rosterManager :=
     map_option (if push then mergePush data else mergeRoster data) (cl_rosterManager c)\<rparr>)
     (br_client b)\<rparr>)"

text \<open>
  The dispatcher with the bridge's \<open>AuthenticationHandler\<close>: the virtual call at the end of
  \<open>OnAuthenticate\<close> goes to the bridge.
\<close>

definition Bridge_OnAuthenticate ::
    "bool \<Rightarrow> int \<Rightarrow> Header \<Rightarrow> string \<Rightarrow> string \<Rightarrow> (bridge, unit) cpp" where
  "Bridge_OnAuthenticate connected socketHandle header payload after =
     and_then (on_peer (OnAuthenticate_fields header payload after))
       (\<lambda>_. Bridge_OnClientAuthenticated connected socketHandle)"

definition Bridge_Dispatch ::
    "env \<Rightarrow> bool \<Rightarrow> int \<Rightarrow> Header \<Rightarrow> string \<Rightarrow> string \<Rightarrow> (bridge, unit) cpp" where
  "Bridge_Dispatch env connected socketHandle header payload after =
     and_then (get_state (\<lambda>b. map_find (pd_processors (br_peer b)) (serviceId header)))
       (\<lambda>processor. if processor = Some Auth_OnAuthenticate
        then Bridge_OnAuthenticate connected socketHandle header payload after
        else on_peer (Dispatch env header payload after))"

text \<open>A connection that was just accepted.\<close>

definition bridge_new :: "u32 \<Rightarrow> u16 \<Rightarrow> nat \<Rightarrow> bridge" where
  "bridge_new sid pv socket =
     \<lparr>br_peer = peer_new sid pv socket, br_client = None, br_sockets = []\<rparr>"

end
