(* ===== verification/XMPP_Facts.thy ===== *)
theory XMPP_Facts
  imports XMPP_Bridge
begin

text \<open>
  What the bridge does: the contacts it makes of a roster, the effect of a presence on the
  messenger's contact list, and the states a bridged connection can be in.
\<close>

section \<open>Contacts of a roster\<close>

definition item_contact :: "bool \<Rightarrow> string \<times> RosterItem \<Rightarrow> string \<times> ContactInfo" where
  "item_contact junk = (\<lambda>(k, item).
     (k, ContactInfo_default junk k (hd (rid_groups (ri_data item))) Linked))"

definition one_group :: "string \<times> RosterItem \<Rightarrow> bool" where
  "one_group = (\<lambda>(k, item). length (rid_groups (ri_data item)) = 1)"

lemma map_insert_last:
  assumes "\<And>a. a \<in> fst ` set m \<Longrightarrow> a < k"
  shows "map_insert k v m = m @ [(k, v)]" "map_find m k = None"
    "map_insert k v (m @ [(k, w)]) = m @ [(k, w)]" "map_find (m @ [(k, w)]) k = Some w"
proof -
  have "map_insert k v m = m @ [(k, v)] \<and> map_find m k = None
      \<and> map_insert k v (m @ [(k, w)]) = m @ [(k, w)] \<and> map_find (m @ [(k, w)]) k = Some w"
    using assms
  proof (induction m)
    case (Cons x m)
    obtain a b where x: "x = (a, b)" by (cases x)
    then have "a < k" using Cons.prems by simp
    then have "\<not> k < a" "k \<noteq> a" by auto
    then show ?case using Cons x by (simp add: map_find_Cons)
  qed (simp add: map_find_Cons)
  then show "map_insert k v m = m @ [(k, v)]" "map_find m k = None"
    "map_insert k v (m @ [(k, w)]) = m @ [(k, w)]" "map_find (m @ [(k, w)]) k = Some w"
    by simp_all
qed

text \<open>
  Loading stops at the first item that is not in exactly one group: with no group nothing of
  it is loaded, with several its first is, and the second group finds the id taken.
\<close>

definition populate_error :: "string \<times> RosterItem \<Rightarrow> exn" where
  "populate_error = (\<lambda>(k, item).
     if rid_groups (ri_data item) = [] then Runtime_error ''Don't know how to handle empty groups yet''
     else Runtime_error ''Unable to insert contact'')"

definition populated :: "bool \<Rightarrow> (string \<times> RosterItem) list \<Rightarrow> contacts" where
  "populated junk roster = map (item_contact junk) (takeWhile one_group roster)
     @ (case dropWhile one_group roster of
          [] \<Rightarrow> [] | (k, item) # _ \<Rightarrow>
            if rid_groups (ri_data item) = [] then [] else [item_contact junk (k, item)])"

lemma wp_populate_item:
  assumes "item_ok k item" and "\<And>a. a \<in> fst ` set cs \<Longrightarrow> a < k"
  shows "wp (populate_item junk item) Q E cs =
    (if rid_groups (ri_data item) = [] then E (populate_error (k, item)) cs
     else if one_group (k, item) then Q () (cs @ [item_contact junk (k, item)])
     else E (populate_error (k, item)) (cs @ [item_contact junk (k, item)]))"
proof -
  have k: "j_full (rid_jidJID (ri_data item)) = k" using assms(1) by (simp add: item_ok_def)
  note last = map_insert_last [of cs k, OF assms(2)]
  show ?thesis
    using k last
    by (cases "rid_groups (ri_data item)"; cases "tl (rid_groups (ri_data item))")
      (auto simp: populate_item_def wp populate_error_def one_group_def item_contact_def)
qed

lemma wp_populate_list:
  assumes "map_sorted roster" "\<And>k item. (k, item) \<in> set roster \<Longrightarrow> item_ok k item"
    and "\<forall>a \<in> fst ` set cs. \<forall>k \<in> fst ` set roster. a < k"
  shows "wp (for_each (\<lambda>(jid, item). populate_item junk item) roster) Q E cs =
    (case dropWhile one_group roster of
       [] \<Rightarrow> Q () (cs @ populated junk roster)
     | r # _ \<Rightarrow> E (populate_error r) (cs @ populated junk roster))"
  using assms
proof (induction roster arbitrary: cs)
  case Nil
  then show ?case by (simp add: wp populated_def)
next
  case (Cons x roster)
  obtain k item where x: "x = (k, item)" by (cases x)
  have ok: "item_ok k item" using Cons.prems(2) x by simp
  have below: "a < k" if "a \<in> fst ` set cs" for a
    using Cons.prems(3) that x by auto
  note item = wp_populate_item [OF ok below]
  show ?case
  proof (cases "one_group x")
    case True
    let ?cs = "cs @ [item_contact junk (k, item)]"
    have "wp (for_each (\<lambda>(jid, item). populate_item junk item) roster) Q E ?cs =
      (case dropWhile one_group roster of
         [] \<Rightarrow> Q () (?cs @ populated junk roster)
       | r # _ \<Rightarrow> E (populate_error r) (?cs @ populated junk roster))"
      using Cons.prems x
      by (intro Cons.IH) (simp_all add: map_sorted_Cons item_contact_def)
    moreover have "rid_groups (ri_data item) \<noteq> []"
      using True x by (auto simp: one_group_def)
    ultimately show ?thesis
      using True x item by (simp add: wp populated_def cong: list.case_cong)
  next
    case False
    then show ?thesis using x item by (simp add: wp populated_def)
  qed
qed

lemma roster_items_ok: "roster_ok rm \<Longrightarrow> (k, item) \<in> set (rm_roster rm) \<Longrightarrow> item_ok k item"
  by (auto simp: roster_ok_def)

lemma wp_Populate:
  assumes "roster_ok rm"
  shows "wp (Populate junk (Some rm)) Q E [] =
    (case dropWhile one_group (rm_roster rm) of
       [] \<Rightarrow> Q () (map (item_contact junk) (rm_roster rm))
     | r # _ \<Rightarrow> E (populate_error r) (populated junk (rm_roster rm)))"
proof -
  have "map_sorted (rm_roster rm)" using assms by (simp add: roster_ok_def)
  moreover have "populated junk (rm_roster rm) = map (item_contact junk) (rm_roster rm)"
    if "dropWhile one_group (rm_roster rm) = []"
    using takeWhile_dropWhile_id [of one_group "rm_roster rm"]
    by (simp only: populated_def that list.case append_Nil2)
  ultimately show ?thesis
    using wp_populate_list [of "rm_roster rm" "[]"] roster_items_ok [OF assms]
    by (simp add: Populate_def del: dropWhile_eq_Nil_conv split: list.split)
qed

lemma item_contacts_wf:
  assumes "roster_ok rm"
  shows "contacts_wf (map (item_contact junk) (rm_roster rm))"
proof -
  have "fst \<circ> item_contact junk = fst"
    by (auto simp: item_contact_def fun_eq_iff)
  then have "map_sorted (map (item_contact junk) (rm_roster rm))"
    using assms by (simp add: roster_ok_def map_sorted_def)
  then show ?thesis
    by (auto simp: contacts_wf_def item_contact_def)
qed

section \<open>The start of a session\<close>

definition bridge_session :: "env \<Rightarrow> peer \<Rightarrow> RosterManager \<Rightarrow> session" where
  "bridge_session env p rm =
     \<lparr>s_connection = SetSessionId (env_rand env) (s_connection (peer_session p)),
      s_blocked = mock_blocked,
      s_profiles = \<lparr>pm_clientId = ah_clientId p, pm_profiles = []\<rparr>,
      s_contacts = map (item_contact (env_isInChat env)) (rm_roster rm),
      s_presence = PresenceProperties_new (ah_initialAvailability p)\<rparr>"

text \<open>What is left of a start that fails while the roster is loaded.\<close>

definition bridge_session_failed :: "env \<Rightarrow> peer \<Rightarrow> RosterManager \<Rightarrow> session" where
  "bridge_session_failed env p rm =
     \<lparr>s_connection = s_connection (peer_session p), s_blocked = [],
      s_profiles = \<lparr>pm_clientId = ah_clientId p, pm_profiles = []\<rparr>,
      s_contacts = populated (env_isInChat env) (rm_roster rm),
      s_presence = PresenceProperties_new (ah_initialAvailability p)\<rparr>"

lemma wp_OnSessionAuthenticated:
  assumes "br_client b = Some c" "cl_rosterManager c = Some rm" "roster_ok rm"
  shows "wp (OnSessionAuthenticated env now address) Q E b =
    (case dropWhile one_group (rm_roster rm) of
       [] \<Rightarrow>
         (let b1 = b\<lparr>br_client := Some (setPresenceHandler (Some (Bridge_handler address now)) c)\<rparr>
          in wp Mock_BeginSession
               (\<lambda>_ s. Q () (b1\<lparr>br_peer := (br_peer b)\<lparr>peer_session := s, pd_processors := V11_Create\<rparr>\<rparr>))
               (\<lambda>e s. E e (b1\<lparr>br_peer := (br_peer b)\<lparr>peer_session := s\<rparr>\<rparr>))
               (bridge_session env (br_peer b) rm))
     | r # _ \<Rightarrow> E (populate_error r)
         (b\<lparr>br_peer := (br_peer b)\<lparr>peer_session := bridge_session_failed env (br_peer b) rm\<rparr>\<rparr>))"
  using assms
  by (simp add: OnSessionAuthenticated_def wp create_managers_def Profile_Load_def wp_Populate
      Blocked_Load_def SetDispatchMap_def bridge_session_def bridge_session_failed_def Let_def
      del: dropWhile_eq_Nil_conv split: list.split)

section \<open>Presences\<close>

definition shown_as :: "Presence \<Rightarrow> ContactInfo \<Rightarrow> ContactInfo" where
  "shown_as presence c =
     (if pres_status presence \<noteq> []
      then c\<lparr>ci_availability := Custom,
             ci_isBusy := (pres_presence presence \<in> {Presence_Away, Presence_DND, Presence_XA}),
             ci_customMessage := pres_status presence\<rparr>
      else case pres_presence presence of
         Presence_Available \<Rightarrow> c\<lparr>ci_availability := Available\<rparr>
       | Presence_Chat \<Rightarrow> c\<lparr>ci_availability := Available\<rparr>
       | Presence_Away \<Rightarrow> c\<lparr>ci_availability := Brb, ci_isBusy := False\<rparr>
       | Presence_DND \<Rightarrow> c\<lparr>ci_availability := Busy, ci_isBusy := True\<rparr>
       | Presence_XA \<Rightarrow> c\<lparr>ci_availability := Busy, ci_isBusy := True\<rparr>
       | Presence_Unavailable \<Rightarrow> c\<lparr>ci_availability := Offline\<rparr>
       | _ \<Rightarrow> c)"

text \<open>The packet: a notification, or during the first two seconds a silent update.\<close>

definition presence_packet ::
    "bool \<Rightarrow> Presence \<Rightarrow> ContactInfo \<Rightarrow> u16 \<times> u32 \<times> (int \<times> string) list" where
  "presence_packet showNotification presence c =
     (if pres_status presence = [] \<and> pres_presence presence = Presence_Unavailable
      then offline_packet (j_bare (pres_from presence)) c
      else if showNotification \<or>
        (pres_status presence = [] \<and> pres_presence presence \<in> {Presence_Away, Presence_DND, Presence_XA})
      then status_packet (j_bare (pres_from presence)) c
      else (1, 0, [(0, []), (1, [])] @ AppendContact c))"

definition ignored :: "Presence \<Rightarrow> bool" where
  "ignored presence = (pres_status presence = []
     \<and> pres_presence presence \<in> {Presence_Probe, Presence_Error, Presence_Invalid})"

lemma handlePresence_run:
  "handlePresence now begin_time presence s =
     (if ignored presence then (Inr (), s)
      else case map_find (s_contacts s) (j_bare (pres_from presence)) of
        None \<Rightarrow> (Inl unknown_contact, s)
      | Some c \<Rightarrow> emits [presence_packet (now - begin_time \<ge> 2000) presence (shown_as presence c)]
          (s\<lparr>s_contacts := map_adjust (j_bare (pres_from presence)) (shown_as presence) (s_contacts s)\<rparr>))"
proof (rule run_eqI)
  have builds: "UpdateContactStatus_Build c = Build 1 1 ((8, ''1'') # AppendContact c)"
    "SetContactStatus_Build_one [] c = Build 1 0 ([(0, []), (1, [])] @ AppendContact c)" for c
    by (simp_all add: UpdateContactStatus_Build_def SetContactStatus_Build_one_def)
  note defs = handlePresence_def Let_def presence_event_defs contact_setters FindContact_def found_def builds
    ContactOffline_Build_def ignored_def shown_as_def [abs_def] presence_packet_def status_packet_def
    offline_packet_def
  let ?r = "if ignored presence then (Inr (), s)
      else case map_find (s_contacts s) (j_bare (pres_from presence)) of
        None \<Rightarrow> (Inl unknown_contact, s)
      | Some c \<Rightarrow> emits [presence_packet (now - begin_time \<ge> 2000) presence (shown_as presence c)]
          (s\<lparr>s_contacts := map_adjust (j_bare (pres_from presence)) (shown_as presence) (s_contacts s)\<rparr>)"
  show "wp (handlePresence now begin_time presence) (\<lambda>x t. ?r = (Inr x, t)) (\<lambda>e t. ?r = (Inl e, t)) s"
  proof (cases "pres_status presence = []")
    case True
    then show ?thesis
      by (cases "pres_presence presence"; cases "map_find (s_contacts s) (j_bare (pres_from presence))")
        (simp_all add: defs wp)
  next
    case False
    then show ?thesis
      by (cases "map_find (s_contacts s) (j_bare (pres_from presence))") (simp_all add: defs wp)
  qed
qed

context session_invariant begin

lemma handlePresence_keeps [keeps_intros]: "keeps P (handlePresence now t presence)"
  unfolding handlePresence_def Let_def
  by (cases "pres_presence presence") (simp_all add: keeps_intros)

end

end
