(* ===== verification/XMPP_Properties.thy ===== *)
theory XMPP_Properties
  imports XMPP_Facts
begin

text \<open>
  The states of a bridged connection, and the properties of the bridge.
\<close>

section \<open>Steps of a bridged connection\<close>

text \<open>
  What can happen, each without an exception: a packet of the messenger, the end of the
  client's connecting, a presence, a roster. A connection has one client: an authentication
  packet counts only while there is none (a second one, before the first client is
  connected, would make the program hold two).
\<close>

inductive bridge_step :: "bridge \<Rightarrow> bridge \<Rightarrow> bool" where
  packet: "Bridge_Dispatch env connected socketHandle header payload after b = (Inr (), b') \<Longrightarrow>
    map_find (pd_processors (br_peer b)) (serviceId header) = Some Auth_OnAuthenticate \<longrightarrow>
      br_client b = None \<Longrightarrow> bridge_step b b'"
| connect: "onConnect env now address b = (Inr (), b') \<Longrightarrow> bridge_step b b'"
| presence: "notifyPresenceHandlers now pres b = (Inr (), b') \<Longrightarrow> bridge_step b b'"
| roster: "roster_arrives push data b = (Inr (), b') \<Longrightarrow> bridge_step b b'"

inductive_cases bridge_stepE: "bridge_step b b'"

inductive bridge_reachable :: "bridge \<Rightarrow> bool" where
  accepted: "bridge_reachable (bridge_new sid pv socket)"
| step: "bridge_reachable b \<Longrightarrow> bridge_step b b' \<Longrightarrow> bridge_reachable b'"

definition client_ok :: "client \<Rightarrow> bool" where
  "client_ok c = ((\<exists>rm. cl_rosterManager c = Some rm \<and> roster_ok rm)
     \<and> cl_presenceJidHandlers c = []
     \<and> cl_presenceHandlers c = Roster_handler #
         (case cl_presenceHandler c of None \<Rightarrow> [] | Some h \<Rightarrow> [h])
     \<and> cl_presenceHandler c \<noteq> Some Roster_handler)"

definition in_session :: "bridge \<Rightarrow> bool" where
  "in_session b = (pd_processors (br_peer b) = V11_Create \<and> session_wf (peer_session (br_peer b))
     \<and> s_profiles (peer_session (br_peer b)) =
         \<lparr>pm_clientId = ah_clientId (br_peer b), pm_profiles = []\<rparr>
     \<and> (\<exists>c h. br_client b = Some c \<and> cl_presenceHandler c = Some h))"

definition bridge_ok :: "bridge \<Rightarrow> bool" where
  "bridge_ok b = ((\<forall>c. br_client b = Some c \<longrightarrow> client_ok c)
     \<and> ((pd_processors (br_peer b) = CreateDispatchMap
           \<and> (\<forall>c. br_client b = Some c \<longrightarrow> cl_presenceHandler c = None))
        \<or> in_session b))"

lemma client_new_ok: "client_ok (ExtendedClient_new jid password)"
  by (simp add: client_ok_def ExtendedClient_new_def roster_ok_def RosterItem_new_def)

lemma set_handler_ok:
  assumes "client_ok c"
  shows "client_ok (setPresenceHandler (Some (Bridge_handler a t)) c)"
    "cl_presenceHandler (setPresenceHandler (Some (Bridge_handler a t)) c) = Some (Bridge_handler a t)"
    "cl_rosterManager (setPresenceHandler (Some (Bridge_handler a t)) c) = cl_rosterManager c"
  using assms
  by (auto simp: client_ok_def setPresenceHandler_def removePresenceHandler_def
      registerPresenceHandler_def Let_def split: option.splits)

lemma on_peer_run: "on_peer m b = (r, b') \<Longrightarrow> \<exists>p. m (br_peer b) = (r, p) \<and> b' = b\<lparr>br_peer := p\<rparr>"
  by (auto simp: zoom_def split: prod.splits)

text \<open>Packets.\<close>

lemma Dispatch_keeps_login_map:
  assumes "pd_processors p = CreateDispatchMap"
    and "map_find CreateDispatchMap (serviceId header) \<noteq> Some Auth_OnAuthenticate"
    and "Dispatch env header payload after p = (Inr (), q)"
  shows "pd_processors q = CreateDispatchMap"
proof -
  have "wp (Dispatch env header payload after) (\<lambda>_ q. pd_processors q = CreateDispatchMap) (\<lambda>_ _. True) p"
  proof (cases "map_find CreateDispatchMap (serviceId header)")
    case None
    then show ?thesis using assms(1) by (simp add: Dispatch_def wp split: sum.split)
  next
    case (Some f)
    then have "f = Auth_OnProtocolSync \<or> f = Auth_OnChallengeRequest"
      using assms(2) CreateDispatchMap_login [of "serviceId header" f] by (auto simp: login_processors_def)
    then have "keeps (\<lambda>p. pd_processors p = CreateDispatchMap) (run_processor env f header payload after)"
      using login_handlers_map [of CreateDispatchMap header payload after] by (auto simp: run_processor_def)
    from keeps_wp [OF this assms(1)] show ?thesis
      using Some assms(1) by (simp add: Dispatch_def wp) (erule wp_mono, simp_all)
  qed
  from wp_Inr [OF this assms(3)] show ?thesis .
qed

lemma Dispatch_keeps_session:
  assumes "pd_processors p = V11_Create" "session_wf (peer_session p)"
    and "Dispatch env header payload after p = (r, q)"
  shows "pd_processors q = V11_Create \<and> session_wf (peer_session q) \<and> ah_clientId q = ah_clientId p
    \<and> s_profiles (peer_session q) = s_profiles (peer_session p)"
proof -
  have "wp (Dispatch env header payload after)
      (\<lambda>_ q. pd_processors q = V11_Create \<and> session_wf (peer_session q) \<and> ah_clientId q = ah_clientId p
        \<and> s_profiles (peer_session q) = s_profiles (peer_session p))
      (\<lambda>_ q. pd_processors q = V11_Create \<and> session_wf (peer_session q) \<and> ah_clientId q = ah_clientId p
        \<and> s_profiles (peer_session q) = s_profiles (peer_session p)) p"
    using wp_conj [OF Dispatch_keeps [OF wf.session_processor_keeps assms(2,1)]
        Dispatch_keeps [OF identity.session_processor_keeps session_identity_self assms(1)]]
    by (rule wp_mono) (simp_all add: session_identity_def)
  then show ?thesis using assms(3) by (auto simp: wp_def split: sum.splits)
qed

lemma packet_step_ok:
  assumes "bridge_ok b"
    and "map_find (pd_processors (br_peer b)) (serviceId header) = Some Auth_OnAuthenticate \<longrightarrow>
      br_client b = None"
    and "Bridge_Dispatch env connected socketHandle header payload after b = (Inr (), b')"
  shows "bridge_ok b'"
proof (cases "map_find (pd_processors (br_peer b)) (serviceId header) = Some Auth_OnAuthenticate")
  case True
  with assms(1) have map: "pd_processors (br_peer b) = CreateDispatchMap"
    using V11_Create_session [of "serviceId header" Auth_OnAuthenticate]
    by (auto simp: bridge_ok_def in_session_def login_processors_def)
  have "keeps (\<lambda>p. pd_processors p = CreateDispatchMap) (OnAuthenticate_fields header payload after)"
    unfolding OnAuthenticate_fields_def by (intro keeps_intros keeps_modify) simp_all
  from keeps_wp [OF this map]
  have "wp (Bridge_OnAuthenticate connected socketHandle header payload after)
      (\<lambda>_. bridge_ok) (\<lambda>_ _. True) b"
    unfolding Bridge_OnAuthenticate_def Bridge_OnClientAuthenticated_def wp
    by (rule wp_mono) (auto simp: bridge_ok_def client_new_ok, simp add: ExtendedClient_new_def)
  moreover have "Bridge_OnAuthenticate connected socketHandle header payload after b = (Inr (), b')"
    using assms(3) True by (simp add: Bridge_Dispatch_def and_then_def get_state_def)
  ultimately show ?thesis by (rule wp_Inr)
next
  case False
  then have "on_peer (Dispatch env header payload after) b = (Inr (), b')"
    using assms(3) by (simp add: Bridge_Dispatch_def and_then_def get_state_def)
  then obtain q where q: "Dispatch env header payload after (br_peer b) = (Inr (), q)"
      "b' = b\<lparr>br_peer := q\<rparr>"
    using on_peer_run by blast
  from assms(1) consider "pd_processors (br_peer b) = CreateDispatchMap"
      "\<forall>c. br_client b = Some c \<longrightarrow> cl_presenceHandler c = None" | "in_session b"
    by (auto simp: bridge_ok_def)
  then show ?thesis
  proof cases
    case 1
    then show ?thesis
      using Dispatch_keeps_login_map [OF 1(1) _ q(1)] False q(2) assms(1)
      by (auto simp: bridge_ok_def)
  next
    case 2
    then show ?thesis
      using Dispatch_keeps_session [OF _ _ q(1)] q(2) assms(1)
      by (auto simp: bridge_ok_def in_session_def)
  qed
qed

text \<open>The client is connected.\<close>

lemma bridge_session_wf: "roster_ok rm \<Longrightarrow> session_wf (bridge_session env p rm)"
  by (simp add: session_wf_def bridge_session_def item_contacts_wf mock_blocked_def)

lemma begin_keeps_profiles:
  assumes "session_wf s"
  shows "wp Mock_BeginSession (\<lambda>_ t. session_wf t \<and> s_profiles t = s_profiles s)
    (\<lambda>_ t. session_wf t \<and> s_profiles t = s_profiles s) s"
  using wp_conj [OF keeps_wp [OF wf.Mock_BeginSession_keeps assms]
      keeps_wp [OF identity.Mock_BeginSession_keeps session_identity_self]]
  by (rule wp_mono) (simp_all add: session_identity_def)

lemma connect_step_ok:
  assumes "bridge_ok b" "onConnect env now address b = (Inr (), b')"
  shows "bridge_ok b'"
proof (cases "br_client b")
  case None
  then show ?thesis
    using assms(2) by (simp add: onConnect_def OnSessionAuthenticated_def and_then_def get_state_def throw_def)
next
  case (Some c)
  then have ok: "client_ok c" using assms(1) by (simp add: bridge_ok_def)
  then obtain rm where rm: "cl_rosterManager c = Some rm" "roster_ok rm"
    by (auto simp: client_ok_def)
  let ?b = "b\<lparr>br_client := Some (setPresenceHandler (Some (Bridge_handler address now)) c)\<rparr>"
  have "wp (OnSessionAuthenticated env now address) (\<lambda>_. bridge_ok) (\<lambda>_ _. True) b"
    unfolding wp_OnSessionAuthenticated [OF Some rm] Let_def
  proof (cases "dropWhile one_group (rm_roster rm)")
    case Nil
    have "wp Mock_BeginSession
        (\<lambda>_ s. bridge_ok (?b\<lparr>br_peer := (br_peer b)\<lparr>peer_session := s, pd_processors := V11_Create\<rparr>\<rparr>))
        (\<lambda>_ _. True) (bridge_session env (br_peer b) rm)"
      using begin_keeps_profiles [OF bridge_session_wf [OF rm(2)], of env "br_peer b"]
      by (rule wp_mono)
        (simp_all add: bridge_ok_def in_session_def set_handler_ok [OF ok] bridge_session_def)
    then show "case dropWhile one_group (rm_roster rm) of
        [] \<Rightarrow> wp Mock_BeginSession
          (\<lambda>_ s. bridge_ok (?b\<lparr>br_peer := (br_peer b)\<lparr>peer_session := s, pd_processors := V11_Create\<rparr>\<rparr>))
          (\<lambda>_ _. True) (bridge_session env (br_peer b) rm)
      | r # rs \<Rightarrow> True"
      unfolding Nil by simp
  next
    case (Cons r rs)
    show "case dropWhile one_group (rm_roster rm) of
        [] \<Rightarrow> wp Mock_BeginSession
          (\<lambda>_ s. bridge_ok (?b\<lparr>br_peer := (br_peer b)\<lparr>peer_session := s, pd_processors := V11_Create\<rparr>\<rparr>))
          (\<lambda>_ _. True) (bridge_session env (br_peer b) rm)
      | r # rs \<Rightarrow> True"
      unfolding Cons by simp
  qed
  from wp_Inr [OF this] assms(2) show ?thesis by (simp add: onConnect_def)
qed

text \<open>Presences and rosters.\<close>

lemma roster_update_ok:
  assumes "bridge_ok b" "\<And>rm. roster_ok rm \<Longrightarrow> roster_ok (f rm)"
  shows "bridge_ok (b\<lparr>br_client := map_option (\<lambda>c. c\<lparr>cl_rosterManager :=
    map_option f (cl_rosterManager c)\<rparr>) (br_client b)\<rparr>)"
  using assms by (cases "br_client b") (auto simp: bridge_ok_def client_ok_def in_session_def)

lemma handler_step_ok:
  assumes "bridge_ok b" "h = Roster_handler \<or> in_session b"
  shows "wp (run_presence_handler now pres h) (\<lambda>_ b'. bridge_ok b' \<and> (in_session b \<longrightarrow> in_session b'))
    (\<lambda>_ _. True) b"
proof (cases h)
  case Roster_handler
  have "in_session b \<Longrightarrow> in_session (b\<lparr>br_client := map_option (\<lambda>c. c\<lparr>cl_rosterManager :=
      map_option f (cl_rosterManager c)\<rparr>) (br_client b)\<rparr>)" for f
    by (auto simp: in_session_def)
  then show ?thesis
    using roster_update_ok [OF assms(1) handlePresence_ok] Roster_handler
    by (simp add: run_presence_handler_def wp)
next
  case (Bridge_handler a t)
  then have b: "in_session b" using assms(2) by simp
  then have wf: "session_wf (peer_session (br_peer b))" by (simp add: in_session_def)
  have "wp (handlePresence now t pres)
      (\<lambda>_ s. session_wf s \<and> s_profiles s = s_profiles (peer_session (br_peer b)))
      (\<lambda>_ s. session_wf s \<and> s_profiles s = s_profiles (peer_session (br_peer b)))
      (peer_session (br_peer b))"
    using wp_conj [OF keeps_wp [OF wf.handlePresence_keeps wf]
        keeps_wp [OF identity.handlePresence_keeps session_identity_self]]
    by (rule wp_mono) (simp_all add: session_identity_def)
  then show ?thesis
    using b assms(1) Bridge_handler
    by (simp add: run_presence_handler_def wp) (erule wp_mono, auto simp: bridge_ok_def in_session_def)
qed

lemma presence_step_ok:
  assumes "bridge_ok b" "notifyPresenceHandlers now pres b = (Inr (), b')"
  shows "bridge_ok b'"
proof (cases "br_client b")
  case None
  then show ?thesis
    using assms by (simp add: notifyPresenceHandlers_def and_then_def get_state_def ret_def)
next
  case (Some c)
  let ?I = "\<lambda>b'. bridge_ok b' \<and> (in_session b \<longrightarrow> in_session b')"
  have c: "client_ok c" using assms(1) Some by (simp add: bridge_ok_def)
  have handlers: "h = Roster_handler \<or> in_session b" if "h \<in> set (cl_presenceHandlers c)" for h
    using that c assms(1) Some by (auto simp: client_ok_def bridge_ok_def split: option.splits)
  have "wp (for_each (run_presence_handler now pres) (cl_presenceHandlers c)) (\<lambda>_. ?I) (\<lambda>_ _. True) b"
  proof (rule wp_for_each)
    fix h b1
    assume h: "h \<in> set (cl_presenceHandlers c)" and I: "?I b1"
    have "wp (run_presence_handler now pres h)
        (\<lambda>_ b'. bridge_ok b' \<and> (in_session b1 \<longrightarrow> in_session b')) (\<lambda>_ _. True) b1"
      using I handlers [OF h] by (intro handler_step_ok) auto
    then show "wp (run_presence_handler now pres h) (\<lambda>_. ?I) (\<lambda>_ _. True) b1"
      by (rule wp_mono) (use I in auto)
  qed (use assms(1) in simp)
  moreover have "for_each (run_presence_handler now pres) (cl_presenceHandlers c) b = (Inr (), b')"
    using assms(2) Some c by (simp add: notifyPresenceHandlers_def and_then_def get_state_def
        Let_def client_ok_def)
  ultimately show ?thesis using wp_Inr by fastforce
qed

lemma roster_step_ok:
  assumes "bridge_ok b" "roster_arrives push data b = (Inr (), b')"
  shows "bridge_ok b'"
proof -
  have "roster_ok rm \<Longrightarrow> roster_ok ((if push then mergePush data else mergeRoster data) rm)" for rm
    by (simp add: mergePush_ok mergeRoster_ok)
  from roster_update_ok [where f = "if push then mergePush data else mergeRoster data",
      OF assms(1) this] assms(2)
  show ?thesis
    by (simp add: roster_arrives_def modify_def)
qed

lemma bridge_reachable_ok: "bridge_reachable b \<Longrightarrow> bridge_ok b"
proof (induction rule: bridge_reachable.induct)
  case (accepted sid pv socket)
  then show ?case by (simp add: bridge_ok_def bridge_new_def peer_new_def)
next
  case (step b b')
  from step.hyps(2) step.IH show ?case
    by (cases rule: bridge_step.cases)
      (blast intro: packet_step_ok connect_step_ok presence_step_ok roster_step_ok)+
qed

section \<open>A bridged login\<close>

text \<open>A connection that authenticated, whose client got a roster of one contact.\<close>

definition demo_item :: RosterItemData where
  "demo_item = RosterItemData_new (JID_new ''bob@host'') ''Bob'' [''Friends'']"

definition demo_roster :: RosterManager where
  "demo_roster = mergeRoster [demo_item]
     (the (cl_rosterManager (ExtendedClient_new (JID_new ''/giblet'') ''password'')))"

definition demo_bridge :: bridge where
  "demo_bridge =
     \<lparr>br_peer = (peer_new 0 0 5)\<lparr>ah_initialAvailability := Available, ah_password := ''password''\<rparr>,
      br_client = Some ((ExtendedClient_new (JID_new ''/giblet'') ''password'')
        \<lparr>cl_rosterManager := Some demo_roster\<rparr>),
      br_sockets = [7]\<rparr>"

lemma demo_item_jid: "j_full (rid_jidJID demo_item) = ''bob@host''"
  by code_simp

lemma demo_rm_roster: "rm_roster demo_roster = [(''bob@host'', RosterItem_of demo_item)]"
  by (simp add: demo_roster_def mergeRoster_def ExtendedClient_new_def demo_item_jid)

lemma demo_authenticated:
  "Bridge_Dispatch demo_env True 7 (demo_header 84) [] [] (bridge_new 0 0 5) =
     (Inr (), demo_bridge\<lparr>br_client := Some (ExtendedClient_new (JID_new ''/giblet'') ''password'')\<rparr>)"
  by (rule run_eqI)
    (simp add: Bridge_Dispatch_def wp bridge_new_def peer_new_def CreateDispatchMap_eq map_find_Cons
      demo_header_def Bridge_OnAuthenticate_def OnAuthenticate_fields_def Parse.simps [of _ _ "[]"]
      Bridge_OnClientAuthenticated_def INVALID_SOCKET_def demo_bridge_def)

lemma demo_bridge_reachable: "bridge_reachable demo_bridge"
proof -
  let ?b = "demo_bridge\<lparr>br_client := Some (ExtendedClient_new (JID_new ''/giblet'') ''password'')\<rparr>"
  have "bridge_step (bridge_new 0 0 5) ?b"
    using demo_authenticated by (rule bridge_step.packet) (simp add: bridge_new_def)
  with bridge_reachable.accepted have "bridge_reachable ?b" by (rule bridge_reachable.step)
  moreover have "roster_arrives False [demo_item] ?b = (Inr (), demo_bridge)"
    by (simp add: roster_arrives_def modify_def demo_bridge_def demo_roster_def ExtendedClient_new_def)
  then have "bridge_step ?b demo_bridge" by (rule bridge_step.roster)
  ultimately show ?thesis by (rule bridge_reachable.step)
qed

section \<open>Properties\<close>

text \<open>
  C40. In every state a bridged connection can be in, either the login's handlers are
  installed and no presence is passed on, or the session is complete: its processors are
  installed, contact list, blocked list and profile are in order, and exactly the roster
  manager and one bridge handler get the presences. The client's roster is ordered, every
  item under the full address it is for, whatever the server sent.
\<close>

theorem bridge_phases:
  assumes "bridge_reachable b"
  shows "((pd_processors (br_peer b) = CreateDispatchMap
        \<and> (\<forall>c. br_client b = Some c \<longrightarrow> cl_presenceHandlers c = [Roster_handler]))
      \<or> (pd_processors (br_peer b) = V11_Create
         \<and> contacts_wf (s_contacts (peer_session (br_peer b)))
         \<and> distinct (s_blocked (peer_session (br_peer b)))
         \<and> pm_clientId (s_profiles (peer_session (br_peer b))) = ah_clientId (br_peer b)
         \<and> (\<exists>c a t. br_client b = Some c
             \<and> cl_presenceHandlers c = [Roster_handler, Bridge_handler a t])))
    \<and> (\<forall>c. br_client b = Some c \<longrightarrow> (\<exists>rm. cl_rosterManager c = Some rm
         \<and> map_sorted (rm_roster rm)
         \<and> (\<forall>(k, item) \<in> set (rm_roster rm). k = j_full (rid_jidJID (ri_data item)))))"
proof -
  have ok: "bridge_ok b" using assms by (rule bridge_reachable_ok)
  have "\<exists>a t. cl_presenceHandlers c = [Roster_handler, Bridge_handler a t]"
    if "client_ok c" "cl_presenceHandler c = Some h" for c h
    using that by (cases h) (auto simp: client_ok_def)
  then have "in_session b \<Longrightarrow> \<exists>c a t. br_client b = Some c
      \<and> cl_presenceHandlers c = [Roster_handler, Bridge_handler a t]"
    using ok by (auto simp: bridge_ok_def in_session_def)
  moreover have "\<exists>rm. cl_rosterManager c = Some rm \<and> map_sorted (rm_roster rm)
      \<and> (\<forall>(k, item) \<in> set (rm_roster rm). k = j_full (rid_jidJID (ri_data item)))"
    if "br_client b = Some c" for c
    using ok that by (auto simp: bridge_ok_def client_ok_def roster_ok_def item_ok_def)
  ultimately show ?thesis
    using ok by (auto simp: bridge_ok_def in_session_def session_wf_def client_ok_def)
qed

theorem bridge_phases_witness:
  "\<exists>c rm. br_client demo_bridge = Some c \<and> cl_presenceHandlers c = [Roster_handler]
     \<and> cl_rosterManager c = Some rm \<and> map_sorted (rm_roster rm) \<and> map fst (rm_roster rm) = [''bob@host'']"
  using bridge_phases [OF demo_bridge_reachable] demo_rm_roster
  by (auto simp: demo_bridge_def peer_new_def ExtendedClient_new_def)

text \<open>
  C36. What the client's connecting comes to. When every item of the roster is in exactly one
  group, the contacts are the items, each under its address and in its group, offline, and
  the session starts with the packets of any session. Otherwise the first item in no group
  or in several ends the connection with an exception: the contacts before it are loaded,
  nothing was sent, and no session starts.
\<close>

theorem bridge_login:
  assumes "br_client b = Some c" "cl_rosterManager c = Some rm" "roster_ok rm"
  shows "onConnect env now address b =
    (case dropWhile one_group (rm_roster rm) of
       r # _ \<Rightarrow> (Inl (populate_error r),
         b\<lparr>br_peer := (br_peer b)\<lparr>peer_session := bridge_session_failed env (br_peer b) rm\<rparr>\<rparr>)
     | [] \<Rightarrow>
        (let b1 = b\<lparr>br_client := Some (setPresenceHandler (Some (Bridge_handler address now)) c)\<rparr>;
             s = bridge_session env (br_peer b) rm
         in case emits (begin_packets s) s of
              (Inl e, t) \<Rightarrow> (Inl e, b1\<lparr>br_peer := (br_peer b)\<lparr>peer_session := t\<rparr>\<rparr>)
            | (Inr _, t) \<Rightarrow>
                (Inr (), b1\<lparr>br_peer := (br_peer b)\<lparr>peer_session := t, pd_processors := V11_Create\<rparr>\<rparr>)))"
  unfolding onConnect_def
  by (rule run_eqI, subst wp_OnSessionAuthenticated [OF assms])
    (auto simp: Let_def wp_def Mock_BeginSession_packets simp del: dropWhile_eq_Nil_conv
      split: list.split prod.split sum.split)

lemma demo_bridge_session:
  "bridge_session demo_env (br_peer demo_bridge) demo_roster =
     \<lparr>s_connection = SetSessionId 42 (ClientConnection_new 0 0 5), s_blocked = mock_blocked,
      s_profiles = \<lparr>pm_clientId = [], pm_profiles = []\<rparr>,
      s_contacts = [(''bob@host'', ContactInfo_default False ''bob@host'' ''Friends'' Linked)],
      s_presence = PresenceProperties_new Available\<rparr>"
  by (simp add: bridge_session_def demo_bridge_def demo_rm_roster item_contact_def demo_env_def
      peer_new_def create_managers_def RosterItem_of_def RosterItemData_copy_def demo_item_def
      RosterItemData_new_def)

lemma demo_bridge_begins:
  "emits (begin_packets (bridge_session demo_env (br_peer demo_bridge) demo_roster))
     (bridge_session demo_env (br_peer demo_bridge) demo_roster) =
   (Inr (), snd (emits (begin_packets (bridge_session demo_env (br_peer demo_bridge) demo_roster))
     (bridge_session demo_env (br_peer demo_bridge) demo_roster)))"
proof -
  let ?s = "bridge_session demo_env (br_peer demo_bridge) demo_roster"
  have "fits (profile_fields ?s)" "fits (online_fields ?s)"
    unfolding demo_bridge_session
    by (rule fits_bound; simp add: profile_fields_def ClientProfile_fields_def mock_blocked_def
        group_contacts_def group_contact_def ContactInfo_default_def ContactInfo_new_def
        map_adjust_def contactListString_def comma_list_def ignoreListString_def
        profileNamesString_def LONG_MIN_def LONG_MAX_def online_fields_def onlineContacts_def
        IsOnline_def AppendContacts_def AppendContact_def bool_to_string_def to_string_def
        nat_to_string.simps)+
  then have "fst (emits (begin_packets ?s) ?s) = Inr ()"
    by (intro emits_all_fit) (auto simp: begin_packets_def demo_bridge_session Let_def)
  then show ?thesis by (simp add: prod_eq_iff)
qed

theorem bridge_login_witness:
  "\<exists>b t. onConnect demo_env 0 1 demo_bridge = (Inr (), b) \<and> pd_processors (br_peer b) = V11_Create
     \<and> s_contacts (peer_session (br_peer b)) =
         [(''bob@host'', ContactInfo_default False ''bob@host'' ''Friends'' Linked)]"
proof -
  let ?s = "bridge_session demo_env (br_peer demo_bridge) demo_roster"
  let ?c = "(ExtendedClient_new (JID_new ''/giblet'') ''password'')\<lparr>cl_rosterManager := Some demo_roster\<rparr>"
  have c: "br_client demo_bridge = Some ?c" "cl_rosterManager ?c = Some demo_roster"
    by (simp_all add: demo_bridge_def)
  have ok: "roster_ok demo_roster"
    unfolding demo_roster_def
    by (rule mergeRoster_ok) (simp add: roster_ok_def ExtendedClient_new_def RosterItem_new_def)
  have groups: "dropWhile one_group (rm_roster demo_roster) = []"
    by (simp add: demo_rm_roster one_group_def RosterItem_of_def RosterItemData_copy_def demo_item_def
        RosterItemData_new_def)
  have "s_contacts (snd (emits (begin_packets ?s) ?s)) = s_contacts ?s"
    using emits_managers by blast
  then have "s_contacts (snd (emits (begin_packets ?s) ?s)) =
      [(''bob@host'', ContactInfo_default False ''bob@host'' ''Friends'' Linked)]"
    by (simp add: demo_bridge_session)
  moreover obtain t where t: "emits (begin_packets ?s) ?s = (Inr (), t)"
    using demo_bridge_begins by blast
  ultimately show ?thesis
    using bridge_login [OF c ok, of demo_env 0 1]
    unfolding groups list.case Let_def t prod.case sum.case by simp
qed

text \<open>
  C19. What a presence of a contact comes to, for every kind of presence. A status text
  always shows as a custom message, even with a contact that went offline; without one the
  kind decides. Somebody who is not in the contact list (the user's own other connections,
  for instance) ends the program in an exception. The packet is a notification, or in the
  first two seconds of a session a silent update where the event allows it.
\<close>

theorem presence_decision:
  "handlePresence now begin_time presence s =
     (if ignored presence then (Inr (), s)
      else case map_find (s_contacts s) (j_bare (pres_from presence)) of
        None \<Rightarrow> (Inl unknown_contact, s)
      | Some contact \<Rightarrow>
          emits [presence_packet (now - begin_time \<ge> 2000) presence (shown_as presence contact)]
            (s\<lparr>s_contacts :=
              map_adjust (j_bare (pres_from presence)) (shown_as presence) (s_contacts s)\<rparr>))"
  by (rule handlePresence_run)

end
