(* ===== verification/Gloox_Tag.thy ===== *)
theory Gloox_Tag
  imports Std_String Std_Map
begin

text \<open>
  XML elements of the bundled XMPP library (\<open>src/gloox-1.0.20/src/tag.cpp\<close>, \<open>tag.h\<close>, and the
  escaping of \<open>util.cpp\<close>): building, searching, copying and writing them. An element is a
  value; its parent, which \<open>xmlns\<close> asks for a namespace it does not know, is given as the
  list of the elements around it, the nearest first. The lists of children and of texts are
  read off the list of nodes. Left out: the XPath-like search (\<open>findTag\<close>), comparison, and
  the constructor of an attribute from its parent, which nothing calls.
  The lemmas show what escaping does.
\<close>

section \<open>Escaping\<close>

definition valid_xml_char :: "char \<Rightarrow> bool" where
  "valid_xml_char c = (let current = of_char c :: nat in
     if current < 0x20 then current = 0x09 \<or> current = 0x0a \<or> current = 0x0d
     else if current \<ge> 0xf5 then False
     else if current = 0xc0 \<or> current = 0xc1 then False
     else True)"

definition checkValidXMLChars :: "string \<Rightarrow> bool" where
  "checkValidXMLChars data = list_all valid_xml_char data"

fun escape_seq :: "char \<Rightarrow> string option" where
  "escape_seq c =
     (if c = CHR ''&'' then Some ''amp;''
      else if c = CHR ''<'' then Some ''lt;''
      else if c = CHR ''>'' then Some ''gt;''
      else if c = CHR 0x27 then Some ''apos;''
      else if c = CHR 0x22 then Some ''quot;''
      else None)"

declare escape_seq.simps [simp del]

fun escape :: "string \<Rightarrow> string" where
  "escape [] = []"
| "escape (c # cs) = (case escape_seq c of
       Some s \<Rightarrow> CHR ''&'' # s @ escape cs
     | None \<Rightarrow> c # escape cs)"

text \<open>\<open>pending\<close> is the range of the data not written yet.\<close>

fun append_escaped_loop :: "string \<Rightarrow> string \<Rightarrow> string \<Rightarrow> string" where
  "append_escaped_loop target pending [] = target @ pending"
| "append_escaped_loop target pending (c # cs) = (case escape_seq c of
       Some s \<Rightarrow> append_escaped_loop (target @ pending @ CHR ''&'' # s) [] cs
     | None \<Rightarrow> append_escaped_loop target (pending @ [c]) cs)"

definition appendEscaped :: "string \<Rightarrow> string \<Rightarrow> string" where
  "appendEscaped target data = append_escaped_loop target [] data"

lemma append_escaped_loop_eq: "append_escaped_loop target pending data = target @ pending @ escape data"
  by (induction target pending data rule: append_escaped_loop.induct) (auto split: option.splits)

lemma appendEscaped_eq: "appendEscaped target data = target @ escape data"
  by (simp add: appendEscaped_def append_escaped_loop_eq)

lemma escape_append: "escape (a @ b) = escape a @ escape b"
  by (induction a) (auto split: option.split)

text \<open>A text without the five characters is written as it is.\<close>

lemma escape_plain: "(\<And>c. c \<in> set s \<Longrightarrow> escape_seq c = None) \<Longrightarrow> escape s = s"
  by (induction s) auto

section \<open>Attributes\<close>

definition XMLNS :: string where
  "XMLNS = ''xmlns''"

record Attribute =
  at_hasParent :: bool
  at_name :: string
  at_value :: string
  at_xmlns :: string
  at_prefix :: string

text \<open>\<open>init\<close> stops at the first part that is not valid.\<close>

definition Attribute_new :: "string \<Rightarrow> string \<Rightarrow> string \<Rightarrow> Attribute" where
  "Attribute_new name val ns =
     (let a = \<lparr>at_hasParent = False, at_name = [], at_value = [], at_xmlns = [], at_prefix = []\<rparr> in
      if \<not> checkValidXMLChars ns then a
      else let a1 = a\<lparr>at_xmlns := ns\<rparr> in
        if \<not> checkValidXMLChars val then a1
        else let a2 = a1\<lparr>at_value := val\<rparr> in
          if \<not> checkValidXMLChars name then a2 else a2\<lparr>at_name := name\<rparr>)"

definition Attribute_setValue :: "string \<Rightarrow> Attribute \<Rightarrow> bool \<times> Attribute" where
  "Attribute_setValue val a =
     (if \<not> checkValidXMLChars val then (False, a) else (True, a\<lparr>at_value := val\<rparr>))"

definition Attribute_setXmlns :: "string \<Rightarrow> Attribute \<Rightarrow> bool \<times> Attribute" where
  "Attribute_setXmlns ns a =
     (if \<not> checkValidXMLChars ns then (False, a) else (True, a\<lparr>at_xmlns := ns\<rparr>))"

definition Attribute_setPrefix :: "string \<Rightarrow> Attribute \<Rightarrow> bool \<times> Attribute" where
  "Attribute_setPrefix prefix a =
     (if \<not> checkValidXMLChars prefix then (False, a) else (True, a\<lparr>at_prefix := prefix\<rparr>))"

definition Attribute_xml :: "Attribute \<Rightarrow> string" where
  "Attribute_xml a =
     (if at_name a = [] then []
      else appendEscaped ('' '' @ (if at_prefix a \<noteq> [] then at_prefix a @ '':'' else [])
             @ at_name a @ ''='' @ [CHR 0x27]) (at_value a) @ [CHR 0x27])"

section \<open>Elements\<close>

datatype Tag =
    mk_Tag (tag_name: string) (tag_prefix: string) (tag_xmlns: string)
      (tag_xmlnss: "(string, string) std_map") (tag_attribs: "Attribute list") (tag_nodes: "Node list")
and Node = TypeTag Tag | TypeString string

definition set_prefix :: "string \<Rightarrow> Tag \<Rightarrow> Tag" where
  "set_prefix p t = mk_Tag (tag_name t) p (tag_xmlns t) (tag_xmlnss t) (tag_attribs t) (tag_nodes t)"

definition set_xmlns :: "string \<Rightarrow> Tag \<Rightarrow> Tag" where
  "set_xmlns ns t = mk_Tag (tag_name t) (tag_prefix t) ns (tag_xmlnss t) (tag_attribs t) (tag_nodes t)"

definition set_xmlnss :: "(string, string) std_map \<Rightarrow> Tag \<Rightarrow> Tag" where
  "set_xmlnss m t = mk_Tag (tag_name t) (tag_prefix t) (tag_xmlns t) m (tag_attribs t) (tag_nodes t)"

definition set_attribs :: "Attribute list \<Rightarrow> Tag \<Rightarrow> Tag" where
  "set_attribs as t = mk_Tag (tag_name t) (tag_prefix t) (tag_xmlns t) (tag_xmlnss t) as (tag_nodes t)"

definition set_nodes :: "Node list \<Rightarrow> Tag \<Rightarrow> Tag" where
  "set_nodes ns t = mk_Tag (tag_name t) (tag_prefix t) (tag_xmlns t) (tag_xmlnss t) (tag_attribs t) ns"

lemmas tag_setters = set_prefix_def set_xmlns_def set_xmlnss_def set_attribs_def set_nodes_def

definition addCData :: "string \<Rightarrow> Tag \<Rightarrow> bool \<times> Tag" where
  "addCData data t =
     (if data = [] \<or> \<not> checkValidXMLChars data then (False, t)
      else (True, set_nodes (tag_nodes t @ [TypeString data]) t))"

definition setCData :: "string \<Rightarrow> Tag \<Rightarrow> bool \<times> Tag" where
  "setCData data t =
     (if data = [] \<or> \<not> checkValidXMLChars data then (False, t)
      else addCData data (set_nodes (filter (\<lambda>n. case n of TypeTag _ \<Rightarrow> True | TypeString _ \<Rightarrow> False) (tag_nodes t)) t))"

definition Tag_new :: "string \<Rightarrow> string \<Rightarrow> Tag" where
  "Tag_new name data =
     snd (addCData data (mk_Tag (if checkValidXMLChars name then name else []) [] [] [] [] []))"

definition addChild :: "Tag \<Rightarrow> Tag \<Rightarrow> Tag" where
  "addChild child t = set_nodes (tag_nodes t @ [TypeTag child]) t"

definition children :: "Tag \<Rightarrow> Tag list" where
  "children t = concat (map (\<lambda>n. case n of TypeTag c \<Rightarrow> [c] | TypeString _ \<Rightarrow> []) (tag_nodes t))"

definition cdata :: "Tag \<Rightarrow> string" where
  "cdata t = concat (map (\<lambda>n. case n of TypeTag _ \<Rightarrow> [] | TypeString s \<Rightarrow> s) (tag_nodes t))"

definition Tag_setPrefix :: "string \<Rightarrow> Tag \<Rightarrow> bool \<times> Tag" where
  "Tag_setPrefix p t = (if \<not> checkValidXMLChars p then (False, t) else (True, set_prefix p t))"

subsection \<open>Searching\<close>

definition findAttribute :: "string \<Rightarrow> Tag \<Rightarrow> string" where
  "findAttribute name t = (case find (\<lambda>a. at_name a = name) (tag_attribs t) of
     None \<Rightarrow> [] | Some a \<Rightarrow> at_value a)"

definition hasAttribute :: "string \<Rightarrow> string \<Rightarrow> Tag \<Rightarrow> bool" where
  "hasAttribute name val t =
     (if name = [] then False
      else case find (\<lambda>a. at_name a = name) (tag_attribs t) of
        None \<Rightarrow> False | Some a \<Rightarrow> val = [] \<or> at_value a = val)"

definition findChild :: "string \<Rightarrow> Tag \<Rightarrow> Tag option" where
  "findChild name t = find (\<lambda>c. tag_name c = name) (children t)"

definition findChild_with :: "string \<Rightarrow> string \<Rightarrow> string \<Rightarrow> Tag \<Rightarrow> Tag option" where
  "findChild_with name attr val t =
     (if name = [] then None
      else find (\<lambda>c. tag_name c = name \<and> hasAttribute attr val c) (children t))"

definition hasChild :: "string \<Rightarrow> string \<Rightarrow> string \<Rightarrow> Tag \<Rightarrow> bool" where
  "hasChild name attr val t =
     (if attr = [] then findChild name t \<noteq> None else findChild_with name attr val t \<noteq> None)"

definition hasChildWithCData :: "string \<Rightarrow> string \<Rightarrow> Tag \<Rightarrow> bool" where
  "hasChildWithCData name data t =
     (name \<noteq> [] \<and> data \<noteq> [] \<and> find (\<lambda>c. tag_name c = name \<and> cdata c = data) (children t) \<noteq> None)"

definition findChildWithAttrib :: "string \<Rightarrow> string \<Rightarrow> Tag \<Rightarrow> Tag option" where
  "findChildWithAttrib attr val t =
     (if attr = [] then None else find (hasAttribute attr val) (children t))"

subsection \<open>Namespaces\<close>

text \<open>The element and those around it, the nearest first.\<close>

fun xmlns_of :: "string \<Rightarrow> Tag list \<Rightarrow> string" where
  "xmlns_of prefix [] = []"
| "xmlns_of prefix (t # around) =
     (if prefix = []
      then (if hasAttribute XMLNS [] t then findAttribute XMLNS t else tag_xmlns t)
      else case map_find (tag_xmlnss t) prefix of
        Some ns \<Rightarrow> ns | None \<Rightarrow> xmlns_of prefix around)"

definition xmlns :: "Tag list \<Rightarrow> Tag \<Rightarrow> string" where
  "xmlns around t = xmlns_of (tag_prefix t) (t # around)"

definition prefix_of :: "string \<Rightarrow> Tag \<Rightarrow> string" where
  "prefix_of ns t = (if ns = [] then []
     else case find (\<lambda>(p, n). n = ns) (tag_xmlnss t) of None \<Rightarrow> [] | Some (p, n) \<Rightarrow> p)"

definition Attribute_xmlns :: "Tag list \<Rightarrow> Tag \<Rightarrow> Attribute \<Rightarrow> string" where
  "Attribute_xmlns around t a =
     (if at_xmlns a \<noteq> [] then at_xmlns a
      else if at_hasParent a then xmlns_of (at_prefix a) (t # around) else [])"

definition Attribute_prefix :: "Tag \<Rightarrow> Attribute \<Rightarrow> string" where
  "Attribute_prefix t a =
     (if at_prefix a \<noteq> [] then at_prefix a
      else if at_hasParent a then prefix_of (at_xmlns a) t else [])"

text \<open>An attribute takes the place of the first one it means the same as.\<close>

fun replace_attribute :: "(Attribute \<Rightarrow> bool) \<Rightarrow> Attribute \<Rightarrow> Attribute list \<Rightarrow> Attribute list" where
  "replace_attribute same attr [] = [attr]"
| "replace_attribute same attr (a # as) =
     (if same a then attr # as else a # replace_attribute same attr as)"

definition addAttribute :: "Tag list \<Rightarrow> Attribute \<Rightarrow> Tag \<Rightarrow> bool \<times> Tag" where
  "addAttribute around attr t =
     (if at_name attr = [] then (False, t)
      else (True, set_attribs
        (replace_attribute (\<lambda>a. at_name a = at_name attr
             \<and> (Attribute_xmlns around t a = Attribute_xmlns around t attr
                \<or> Attribute_prefix t a = Attribute_prefix t attr)) attr (tag_attribs t)) t))"

definition add_attribute :: "Tag list \<Rightarrow> string \<Rightarrow> string \<Rightarrow> Tag \<Rightarrow> bool \<times> Tag" where
  "add_attribute around name val t =
     (if name = [] \<or> val = [] then (False, t)
      else addAttribute around (Attribute_new name val []) t)"

definition setAttributes :: "Attribute list \<Rightarrow> Tag \<Rightarrow> Tag" where
  "setAttributes as t = set_attribs (map (\<lambda>a. a\<lparr>at_hasParent := True\<rparr>) as) t"

definition setXmlns :: "Tag list \<Rightarrow> string \<Rightarrow> string \<Rightarrow> Tag \<Rightarrow> bool \<times> Tag" where
  "setXmlns around ns prefix t =
     (if \<not> checkValidXMLChars ns \<or> \<not> checkValidXMLChars prefix then (False, t)
      else if prefix = [] then add_attribute around XMLNS ns (set_xmlns ns t)
      else add_attribute around (XMLNS @ '':'' @ prefix) ns
             (set_xmlnss (map_assign prefix ns (tag_xmlnss t)) t))"

definition Tag_new_attribute :: "string \<Rightarrow> string \<Rightarrow> string \<Rightarrow> Tag" where
  "Tag_new_attribute name attrib val = snd (add_attribute [] attrib val (mk_Tag name [] [] [] [] []))"

definition findChildren :: "Tag list \<Rightarrow> string \<Rightarrow> string \<Rightarrow> Tag \<Rightarrow> Tag list" where
  "findChildren around name ns t =
     filter (\<lambda>c. tag_name c = name \<and> (ns = [] \<or> xmlns (t # around) c = ns)) (children t)"

subsection \<open>Copying and writing\<close>

primrec clone :: "Tag \<Rightarrow> Tag" and clone_node :: "Node \<Rightarrow> Tag \<Rightarrow> Tag" where
  "clone (mk_Tag name prefix ns nss as nodes) =
     foldl (\<lambda>t f. f t)
       (mk_Tag (if checkValidXMLChars name then name else []) prefix ns nss
         (map (\<lambda>a. a\<lparr>at_hasParent := True\<rparr>) as) []) (map clone_node nodes)"
| "clone_node (TypeTag c) t = addChild (clone c) t"
| "clone_node (TypeString s) t = snd (addCData s t)"

definition name_xml :: "string \<Rightarrow> string \<Rightarrow> string" where
  "name_xml prefix name = (if prefix \<noteq> [] then prefix @ '':'' else []) @ name"

primrec Tag_xml :: "Tag \<Rightarrow> string" and node_xml :: "Node \<Rightarrow> string" where
  "Tag_xml (mk_Tag name prefix ns nss as nodes) =
     (if name = [] then []
      else ''<'' @ name_xml prefix name @ concat (map Attribute_xml as) @
        (if nodes = [] then ''/>''
         else ''>'' @ concat (map node_xml nodes) @ ''</'' @ name_xml prefix name @ ''>''))"
| "node_xml (TypeTag c) = Tag_xml c"
| "node_xml (TypeString s) = appendEscaped [] s"

end
