(* ===== verification/Gloox_Parser.thy ===== *)
theory Gloox_Parser
  imports Gloox_Tag
begin

text \<open>
  The XML parser of the bundled XMPP library (\<open>src/gloox-1.0.20/src/parser.cpp\<close>,
  \<open>parser.h\<close>): a state machine over characters that keeps its state between calls of
  \<open>feed\<close>, hands a finished top-level element to its handler, and puts back what it cannot
  decide before more data arrives.

  The position in the data is what is left of it. The elements under construction are a
  stack, the innermost first: \<open>m_root\<close> is its last and \<open>m_current\<close> its first entry, and an
  element joins its parent when it is closed (in the program when it is opened; nothing is
  added to the parent in between). A handler is the list of elements it was given.
\<close>

section \<open>State\<close>

datatype ParserInternalState =
    Initial | InterTag | TagOpening | TagOpeningSlash | TagOpeningLt | TagInside
  | TagNameCollect | TagNameComplete | TagNameAlmostComplete | TagAttribute
  | TagAttributeComplete | TagAttributeEqual | TagClosing | TagClosingSlash | TagValueApos
  | TagAttributeValue | TagPreamble | TagCDATASection

datatype ForwardScanState = ForwardFound | ForwardNotFound | ForwardInsufficientSize

datatype DecodeState = DecodeValid | DecodeInvalid | DecodeInsufficient

record Parser =
  p_handled :: "Tag list"
  p_open :: "Tag list"
  p_xmlnss :: "(string, string) std_map"
  p_state :: ParserInternalState
  p_attribs :: "Attribute list"
  p_tag :: string
  p_cdata :: string
  p_attrib :: string
  p_value :: string
  p_xmlns :: string
  p_tagPrefix :: string
  p_attribPrefix :: string
  p_backBuffer :: string
  p_preamble :: nat
  p_quote :: bool
  p_haveTagPrefix :: bool
  p_haveAttribPrefix :: bool
  p_attribIsXmlns :: bool

definition Parser_new :: Parser where
  "Parser_new = \<lparr>p_handled = [], p_open = [], p_xmlnss = [], p_state = Initial, p_attribs = [],
     p_tag = [], p_cdata = [], p_attrib = [], p_value = [], p_xmlns = [], p_tagPrefix = [],
     p_attribPrefix = [], p_backBuffer = [], p_preamble = 0, p_quote = False,
     p_haveTagPrefix = False, p_haveAttribPrefix = False, p_attribIsXmlns = False\<rparr>"

text \<open>\<open>cleanup\<close> leaves the buffer, the quote and the mark of a namespace declaration as they are.\<close>

definition cleanup :: "Parser \<Rightarrow> Parser" where
  "cleanup p = p\<lparr>p_open := [], p_xmlnss := [], p_cdata := [], p_tag := [], p_attrib := [],
     p_attribPrefix := [], p_tagPrefix := [], p_haveAttribPrefix := False, p_haveTagPrefix := False,
     p_value := [], p_xmlns := [], p_attribs := [], p_state := Initial, p_preamble := 0\<rparr>"

definition streamEvent :: "Tag \<Rightarrow> Parser \<Rightarrow> Parser" where
  "streamEvent tag p = p\<lparr>p_handled := p_handled p @ [tag]\<rparr>"

definition isWhitespace :: "char \<Rightarrow> bool" where
  "isWhitespace c = (c = CHR 0x09 \<or> c = CHR 0x0a \<or> c = CHR 0x0d \<or> c = CHR 0x20)"

section \<open>References and scanning ahead\<close>

definition hex_digit_val :: "char \<Rightarrow> nat option" where
  "hex_digit_val c = (let n = of_char c :: nat in
     if is_digit c then Some (n - 48)
     else if 65 \<le> n \<and> n \<le> 70 then Some (n - 55)
     else if 97 \<le> n \<and> n \<le> 102 then Some (n - 87)
     else None)"

definition base_digit :: "nat \<Rightarrow> char \<Rightarrow> bool" where
  "base_digit base c = (case hex_digit_val c of None \<Rightarrow> False | Some d \<Rightarrow> d < base)"

text \<open>
  \<open>strtol(s, &end, base)\<close> for base 10 or 16: the number and what \<open>end\<close> points to. In base 16
  a prefix \<open>0x\<close> with a digit behind it is skipped; without any digit \<open>end\<close> is the start.
\<close>

definition strtol_end :: "nat \<Rightarrow> string \<Rightarrow> int \<times> string" where
  "strtol_end base s =
     (let (neg, t) = scan_sign (dropWhile is_space s);
          u = (if base = 16 \<and> (take 2 t = ''0x'' \<or> take 2 t = ''0X'')
                  \<and> takeWhile (base_digit base) (drop 2 t) \<noteq> [] then drop 2 t else t);
          digits = takeWhile (base_digit base) u;
          v = foldl (\<lambda>n c. n * int base + int (the (hex_digit_val c))) 0 digits
      in if digits = [] then (0, s)
         else (clamp_long (if neg then - v else v), dropWhile (base_digit base) u))"

definition byte :: "int \<Rightarrow> char" where
  "byte v = char_of (nat v)"

text \<open>The bytes of a character reference; \<open>None\<close> where the program refuses the number.\<close>

definition reference_bytes :: "int \<Rightarrow> string option" where
  "reference_bytes val =
     (if val = 0x9 \<or> val = 0xA \<or> val = 0xD \<or> (val \<ge> 0x20 \<and> val \<le> 0x7F) then Some [byte val]
      else if val \<ge> 0x80 \<and> val \<le> 0x7FF then Some [byte (192 + val div 64), byte (128 + val mod 64)]
      else if (val \<ge> 0x800 \<and> val \<le> 0xD7FF) \<or> (val \<ge> 0xE000 \<and> val \<le> 0xFFFD)
      then Some [byte (224 + val div 4096), byte (128 + val div 64 mod 64), byte (128 + val mod 64)]
      else if val \<ge> 0x100000 \<and> val < 0x10FFFF
      then Some [byte (240 + val div 262144), byte (128 + val div 4096 mod 64),
                 byte (128 + val div 64 mod 64), byte (128 + val mod 64)]
      else None)"

definition numeric_reference :: "string \<Rightarrow> string option" where
  "numeric_reference data =
     (let (base, idx) = (if data ! 2 = CHR ''x'' \<or> data ! 2 = CHR ''X'' then (16, 3) else (10, 2));
          (val, end_ptr) = strtol_end base (drop idx data)
      in if hd end_ptr \<noteq> CHR '';'' \<or> val < 0 then None else reference_bytes val)"

text \<open>
  \<open>decode\<close> on the data from the ampersand on: with the distance to the semicolon when it is
  valid.
\<close>

definition decode_bytes :: "nat \<Rightarrow> string \<Rightarrow> string option" where
  "decode_bytes diff data =
     (let c = data ! 1 in
      if c = CHR ''#'' then numeric_reference data
      else if c = CHR ''l'' then (if diff = 3 \<and> data ! 2 = CHR ''t'' then Some ''<'' else None)
      else if c = CHR ''g'' then (if diff = 3 \<and> data ! 2 = CHR ''t'' then Some ''>'' else None)
      else if c = CHR ''a'' then
        (if diff = 5 \<and> take 5 (drop 1 data) = ''apos;'' then Some [CHR 0x27]
         else if diff = 4 \<and> take 4 (drop 1 data) = ''amp;'' then Some ''&'' else None)
      else if c = CHR ''q'' then
        (if diff = 5 \<and> take 5 (drop 1 data) = ''quot;'' then Some [CHR 0x22] else None)
      else None)"

definition decode :: "string \<Rightarrow> Parser \<Rightarrow> DecodeState \<times> nat \<times> Parser" where
  "decode data p = (case str_find '';'' data of
       None \<Rightarrow> (DecodeInsufficient, 0, p\<lparr>p_backBuffer := data\<rparr>)
     | Some diff \<Rightarrow>
         if diff < 3 \<or> diff > 9 then (DecodeInvalid, 0, p)
         else case decode_bytes diff data of
           None \<Rightarrow> (DecodeInvalid, 0, p)
         | Some rep \<Rightarrow> (DecodeValid, diff,
             if p_state p = InterTag \<or> p_state p = TagInside then p\<lparr>p_cdata := p_cdata p @ rep\<rparr>
             else if p_state p = TagAttributeValue then p\<lparr>p_value := p_value p @ rep\<rparr>
             else p))"

definition forwardScan :: "string \<Rightarrow> string \<Rightarrow> Parser \<Rightarrow> ForwardScanState \<times> nat \<times> Parser" where
  "forwardScan data needle p =
     (if length needle \<le> length data
      then if take (length needle) data = needle then (ForwardFound, length needle - 1, p)
           else (ForwardNotFound, 0, p)
      else (ForwardInsufficientSize, 0, p\<lparr>p_backBuffer := data\<rparr>))"

section \<open>Building elements\<close>

definition XMLNS_STREAM :: string where
  "XMLNS_STREAM = ''http://etherx.jabber.org/streams''"

text \<open>The element of \<open>addTag\<close> before it is looked at; \<open>around\<close> are those around it.\<close>

definition opened_tag :: "Tag list \<Rightarrow> Parser \<Rightarrow> Tag" where
  "opened_tag around p =
     (let t = Tag_new (p_tag p) [];
          t1 = (if p_haveTagPrefix p then snd (Tag_setPrefix (p_tagPrefix p) t) else t);
          t2 = (if p_attribs p \<noteq> [] then setAttributes (p_attribs p) t1 else t1);
          t3 = (if p_xmlnss p \<noteq> [] then set_xmlnss (p_xmlnss p) t2 else t2)
      in snd (setXmlns around (p_xmlns p) [] t3))"

text \<open>The outermost element with everything that is open in it.\<close>

fun root_of :: "Tag list \<Rightarrow> Tag" where
  "root_of [] = Tag_new [] []"
| "root_of [t] = t"
| "root_of (t # parent # outer) = root_of (addChild t parent # outer)"

definition addTag :: "Parser \<Rightarrow> Parser" where
  "addTag p =
     (let t = opened_tag (p_open p) p;
          p1 = p\<lparr>p_open := t # p_open p, p_haveTagPrefix := False, p_attribs := [], p_xmlnss := [],
                 p_xmlns := []\<rparr>;
          root = root_of (p_open p1)
      in if p_tag p = ''stream'' \<and> xmlns [] root = XMLNS_STREAM then cleanup (streamEvent root p1)
         else
           let p2 = (if p_open p = [] \<and> p_tagPrefix p = ''stream''
                     then p1\<lparr>p_open := [snd (setXmlns [] XMLNS_STREAM (p_tagPrefix p) t)]\<rparr> else p1)
           in if p_tag p = ''xml'' \<and> p_preamble p = 2 then cleanup p2 else p2)"

definition p_addAttribute :: "Parser \<Rightarrow> Parser" where
  "p_addAttribute p =
     (let attr = Attribute_new (p_attrib p) (p_value p) [];
          (attr1, p1) =
            (if p_attribIsXmlns p
             then (snd (Attribute_setPrefix XMLNS attr),
                   p\<lparr>p_xmlnss := map_assign (p_attrib p) (p_value p) (p_xmlnss p)\<rparr>)
             else (if p_attribPrefix p \<noteq> [] then snd (Attribute_setPrefix (p_attribPrefix p) attr) else attr,
                   if p_attrib p = XMLNS then p\<lparr>p_xmlns := p_value p\<rparr> else p))
      in p1\<lparr>p_attribs := p_attribs p1 @ [attr1], p_attrib := [], p_value := [], p_attribPrefix := [],
            p_haveAttribPrefix := False, p_attribIsXmlns := False\<rparr>)"

definition p_addCData :: "Parser \<Rightarrow> Parser" where
  "p_addCData p = (case p_open p of
       [] \<Rightarrow> p
     | t # around \<Rightarrow>
         if p_cdata p = [] then p
         else p\<lparr>p_open := snd (addCData (p_cdata p) t) # around, p_cdata := []\<rparr>)"

text \<open>The end of an element: it joins its parent, or goes to the handler.\<close>

definition closeTag :: "Parser \<Rightarrow> bool \<times> Parser" where
  "closeTag p =
     (if p_tag p = ''stream'' \<and> p_tagPrefix p = ''stream'' then (True, p)
      else case p_open p of
        [] \<Rightarrow> (False, p)
      | t # around \<Rightarrow>
          if tag_name t \<noteq> p_tag p \<or> (tag_prefix t \<noteq> [] \<and> tag_prefix t \<noteq> p_tagPrefix p)
          then (False, p)
          else let p1 = p\<lparr>p_tagPrefix := [], p_haveTagPrefix := False\<rparr> in
            (True, case around of
               parent # outer \<Rightarrow> p1\<lparr>p_open := addChild t parent # outer\<rparr>
             | [] \<Rightarrow> cleanup (streamEvent t p1)))"

section \<open>One character\<close>

text \<open>
  What a character leads to: how many characters behind it are skipped, or the end of the
  call, because the input is wrong or because more is needed.
\<close>

datatype step = Next nat Parser | Wrong Parser | More Parser

definition wrong :: "Parser \<Rightarrow> step" where
  "wrong p = Wrong (cleanup p)"

text \<open>The three ways \<open>decode\<close> ends, with what follows when it succeeds.\<close>

definition decoded_ref :: "(Parser \<Rightarrow> Parser) \<Rightarrow> DecodeState \<times> nat \<times> Parser \<Rightarrow> step" where
  "decoded_ref f r = (case r of
       (DecodeValid, n, p) \<Rightarrow> Next n (f p)
     | (DecodeInvalid, n, p) \<Rightarrow> wrong p
     | (DecodeInsufficient, n, p) \<Rightarrow> More p)"

definition step_Initial :: "char \<Rightarrow> Parser \<Rightarrow> step" where
  "step_Initial c p =
     (if isWhitespace c then Next 0 p
      else if c = CHR ''<'' then Next 0 (p\<lparr>p_state := TagOpening\<rparr>)
      else wrong p)"

definition step_InterTag :: "char \<Rightarrow> string \<Rightarrow> Parser \<Rightarrow> step" where
  "step_InterTag c data q =
     (let p = q\<lparr>p_tag := []\<rparr> in
      if isWhitespace c
      then Next 0 (if p_open p \<noteq> [] then p\<lparr>p_state := TagInside, p_cdata := p_cdata p @ [c]\<rparr>
                   else p\<lparr>p_state := TagInside\<rparr>)
      else if c = CHR ''&'' then decoded_ref (\<lambda>p. p\<lparr>p_state := TagInside\<rparr>) (decode data p)
      else if c = CHR ''<'' then Next 0 (p\<lparr>p_state := TagOpening\<rparr>)
      else if p_open p \<noteq> [] then Next 0 (p\<lparr>p_cdata := p_cdata p @ [c], p_state := TagInside\<rparr>)
      else Next 0 p)"

definition step_TagOpening :: "char \<Rightarrow> string \<Rightarrow> Parser \<Rightarrow> step" where
  "step_TagOpening c data p =
     (if isWhitespace c then Next 0 p
      else if c = CHR ''<'' \<or> c = CHR ''>'' \<or> c = CHR ''&'' then wrong p
      else if c = CHR ''/'' then Next 0 (p\<lparr>p_state := TagClosingSlash\<rparr>)
      else if c = CHR ''?'' then Next 0 (p\<lparr>p_state := TagNameCollect, p_preamble := 1\<rparr>)
      else if c = CHR ''!'' then
        (case forwardScan data ''![CDATA['' p of
           (ForwardFound, n, p) \<Rightarrow> Next n (p\<lparr>p_state := TagCDATASection\<rparr>)
         | (ForwardNotFound, n, p) \<Rightarrow> wrong p
         | (ForwardInsufficientSize, n, p) \<Rightarrow> More p)
      else Next 0 (p\<lparr>p_tag := p_tag p @ [c], p_state := TagNameCollect\<rparr>))"

definition step_TagCDATASection :: "char \<Rightarrow> string \<Rightarrow> Parser \<Rightarrow> step" where
  "step_TagCDATASection c data p =
     (if c = CHR '']'' then
        (case forwardScan data '']]>'' p of
           (ForwardFound, n, p) \<Rightarrow> Next n (p\<lparr>p_state := TagInside\<rparr>)
         | (ForwardNotFound, n, p) \<Rightarrow> Next 0 (p\<lparr>p_cdata := p_cdata p @ [c]\<rparr>)
         | (ForwardInsufficientSize, n, p) \<Rightarrow> More p)
      else Next 0 (p\<lparr>p_cdata := p_cdata p @ [c]\<rparr>))"

definition prefix_tag :: "Parser \<Rightarrow> step" where
  "prefix_tag p =
     (if \<not> p_haveTagPrefix p
      then Next 0 (p\<lparr>p_haveTagPrefix := True, p_tagPrefix := p_tag p, p_tag := []\<rparr>)
      else wrong p)"

definition step_TagNameCollect :: "char \<Rightarrow> Parser \<Rightarrow> step" where
  "step_TagNameCollect c p =
     (if isWhitespace c then Next 0 (p\<lparr>p_state := TagNameComplete\<rparr>)
      else if c = CHR ''<'' \<or> c = CHR ''?'' \<or> c = CHR ''!'' \<or> c = CHR ''&'' then wrong p
      else if c = CHR ''/'' then Next 0 (p\<lparr>p_state := TagOpeningSlash\<rparr>)
      else if c = CHR ''>'' then Next 0 ((addTag p)\<lparr>p_state := TagInside\<rparr>)
      else if c = CHR '':'' then prefix_tag p
      else Next 0 (p\<lparr>p_tag := p_tag p @ [c]\<rparr>))"

definition step_TagInside :: "char \<Rightarrow> string \<Rightarrow> Parser \<Rightarrow> step" where
  "step_TagInside c data q =
     (let p = q\<lparr>p_tag := []\<rparr> in
      if c = CHR ''<'' then Next 0 ((p_addCData p)\<lparr>p_state := TagOpening\<rparr>)
      else if c = CHR ''&'' then decoded_ref (\<lambda>p. p) (decode data p)
      else Next 0 (p\<lparr>p_cdata := p_cdata p @ [c]\<rparr>))"

definition step_TagOpeningSlash :: "char \<Rightarrow> Parser \<Rightarrow> step" where
  "step_TagOpeningSlash c p =
     (if isWhitespace c then Next 0 p
      else if c = CHR ''>'' then
        (let (ok, p1) = closeTag (addTag p) in
         if \<not> ok then wrong p1 else Next 0 (p1\<lparr>p_state := InterTag\<rparr>))
      else wrong p)"

definition step_TagClosingSlash :: "char \<Rightarrow> Parser \<Rightarrow> step" where
  "step_TagClosingSlash c p =
     (if isWhitespace c then Next 0 p
      else if c = CHR ''>'' \<or> c = CHR ''<'' \<or> c = CHR ''/'' then wrong p
      else Next 0 (p\<lparr>p_tag := p_tag p @ [c], p_state := TagClosing\<rparr>))"

definition step_TagClosing :: "char \<Rightarrow> Parser \<Rightarrow> step" where
  "step_TagClosing c p =
     (if c = CHR ''<'' \<or> c = CHR ''/'' \<or> c = CHR ''!'' \<or> c = CHR ''?'' \<or> c = CHR ''&'' then wrong p
      else if c = CHR '':'' then prefix_tag p
      else if c = CHR ''>'' then
        (let (ok, p1) = closeTag p in
         if \<not> ok then wrong p1 else Next 0 (p1\<lparr>p_state := InterTag\<rparr>))
      else Next 0 (p\<lparr>p_tag := p_tag p @ [c]\<rparr>))"

text \<open>The ends of an opening tag two states share: \<open>>\<close> and, in a preamble, \<open>?\<close>.\<close>

definition end_of_opening :: "Parser \<Rightarrow> step" where
  "end_of_opening p =
     (if p_preamble p = 1 then wrong p else Next 0 (addTag (p\<lparr>p_state := TagInside\<rparr>)))"

definition end_of_preamble :: "Parser \<Rightarrow> step" where
  "end_of_preamble p = (if p_preamble p = 1 then Next 0 (p\<lparr>p_preamble := 2\<rparr>) else wrong p)"

definition step_TagNameComplete :: "char \<Rightarrow> Parser \<Rightarrow> step" where
  "step_TagNameComplete c p =
     (if isWhitespace c then Next 0 p
      else if c = CHR ''<'' \<or> c = CHR ''!'' \<or> c = CHR ''&'' then wrong p
      else if c = CHR ''/'' then Next 0 (p\<lparr>p_state := TagOpeningSlash\<rparr>)
      else if c = CHR ''>'' then end_of_opening p
      else if c = CHR ''?'' then end_of_preamble p
      else Next 0 (p\<lparr>p_attrib := p_attrib p @ [c], p_state := TagAttribute\<rparr>))"

definition step_TagAttribute :: "char \<Rightarrow> Parser \<Rightarrow> step" where
  "step_TagAttribute c p =
     (if isWhitespace c then Next 0 (p\<lparr>p_state := TagAttributeComplete\<rparr>)
      else if c = CHR ''<'' \<or> c = CHR ''/'' \<or> c = CHR ''>'' \<or> c = CHR ''?'' \<or> c = CHR ''!''
        \<or> c = CHR ''&'' then wrong p
      else if c = CHR ''='' then Next 0 (p\<lparr>p_state := TagAttributeEqual\<rparr>)
      else if c = CHR '':'' then
        (if \<not> p_haveAttribPrefix p \<and> p_attrib p \<noteq> XMLNS
         then Next 0 (p\<lparr>p_haveAttribPrefix := True, p_attribPrefix := p_attrib p, p_attrib := []\<rparr>)
         else if p_attrib p = XMLNS then Next 0 (p\<lparr>p_attribIsXmlns := True, p_attrib := []\<rparr>)
         else wrong p)
      else Next 0 (p\<lparr>p_attrib := p_attrib p @ [c]\<rparr>))"

definition step_TagAttributeComplete :: "char \<Rightarrow> Parser \<Rightarrow> step" where
  "step_TagAttributeComplete c p =
     (if isWhitespace c then Next 0 p
      else if c = CHR ''='' then Next 0 (p\<lparr>p_state := TagAttributeEqual\<rparr>)
      else wrong p)"

definition step_TagAttributeEqual :: "char \<Rightarrow> Parser \<Rightarrow> step" where
  "step_TagAttributeEqual c p =
     (if isWhitespace c then Next 0 p
      else if c = CHR 0x22 then Next 0 (p\<lparr>p_quote := True, p_state := TagAttributeValue\<rparr>)
      else if c = CHR 0x27 then Next 0 (p\<lparr>p_state := TagAttributeValue\<rparr>)
      else wrong p)"

definition step_TagAttributeValue :: "char \<Rightarrow> string \<Rightarrow> Parser \<Rightarrow> step" where
  "step_TagAttributeValue c data p =
     (if c = CHR ''<'' then wrong p
      else if c = CHR 0x27 \<and> p_quote p then Next 0 (p\<lparr>p_value := p_value p @ [c]\<rparr>)
      else if c = CHR 0x27 \<or> c = CHR 0x22
      then Next 0 ((p_addAttribute p)\<lparr>p_state := TagNameAlmostComplete, p_quote := False\<rparr>)
      else if c = CHR ''&'' then decoded_ref (\<lambda>p. p) (decode data p)
      else Next 0 (p\<lparr>p_value := p_value p @ [c]\<rparr>))"

definition step_TagNameAlmostComplete :: "char \<Rightarrow> Parser \<Rightarrow> step" where
  "step_TagNameAlmostComplete c p =
     (if isWhitespace c then Next 0 (p\<lparr>p_state := TagNameComplete\<rparr>)
      else if c = CHR ''/'' then Next 0 (p\<lparr>p_state := TagOpeningSlash\<rparr>)
      else if c = CHR ''>'' then end_of_opening p
      else if c = CHR ''?'' then end_of_preamble p
      else wrong p)"

text \<open>\<open>data\<close> is what is left, with the character \<open>c\<close> in front.\<close>

definition parse_char :: "char \<Rightarrow> string \<Rightarrow> Parser \<Rightarrow> step" where
  "parse_char c data p = (case p_state p of
       Initial \<Rightarrow> step_Initial c p
     | InterTag \<Rightarrow> step_InterTag c data p
     | TagOpening \<Rightarrow> step_TagOpening c data p
     | TagCDATASection \<Rightarrow> step_TagCDATASection c data p
     | TagNameCollect \<Rightarrow> step_TagNameCollect c p
     | TagInside \<Rightarrow> step_TagInside c data p
     | TagOpeningSlash \<Rightarrow> step_TagOpeningSlash c p
     | TagClosingSlash \<Rightarrow> step_TagClosingSlash c p
     | TagClosing \<Rightarrow> step_TagClosing c p
     | TagNameComplete \<Rightarrow> step_TagNameComplete c p
     | TagAttribute \<Rightarrow> step_TagAttribute c p
     | TagAttributeComplete \<Rightarrow> step_TagAttributeComplete c p
     | TagAttributeEqual \<Rightarrow> step_TagAttributeEqual c p
     | TagAttributeValue \<Rightarrow> step_TagAttributeValue c data p
     | TagNameAlmostComplete \<Rightarrow> step_TagNameAlmostComplete c p
     | _ \<Rightarrow> Next 0 p)"

section \<open>feed\<close>

text \<open>The loop from position \<open>i\<close> on: the result is a position, or -1.\<close>

function feed_loop :: "int \<Rightarrow> string \<Rightarrow> Parser \<Rightarrow> int \<times> Parser" where
  "feed_loop i [] p = (- 1, p)"
| "feed_loop i (c # cs) p = (case parse_char c (c # cs) p of
       Next n p' \<Rightarrow> feed_loop (i + 1 + int n) (drop n cs) p'
     | Wrong p' \<Rightarrow> (i, p')
     | More p' \<Rightarrow> (- 1, p'))"
  by pat_completeness auto
termination by (relation "measure (\<lambda>(i, data, p). length data)") auto

definition Parser_feed :: "string \<Rightarrow> Parser \<Rightarrow> int \<times> Parser" where
  "Parser_feed data p =
     (if p_backBuffer p \<noteq> [] then feed_loop 0 (p_backBuffer p @ data) (p\<lparr>p_backBuffer := []\<rparr>)
      else feed_loop 0 data p)"

end
