(* ===== verification/Gloox_Roundtrip.thy ===== *)
theory Gloox_Roundtrip
  imports Gloox_Parser_Facts
begin

text \<open>
  The parser on what \<open>Tag_xml\<close> writes: it hands over the element that was written, as the
  parser represents it.
\<close>

section \<open>Reading a piece of the input\<close>

text \<open>
  Reading \<open>s\<close> takes the parser from \<open>p\<close> to \<open>q\<close>, whatever comes behind \<open>s\<close>.
\<close>

definition consumes :: "Parser \<Rightarrow> string \<Rightarrow> Parser \<Rightarrow> bool" where
  "consumes p s q \<longleftrightarrow> (\<forall>r. verdict (s @ r) p = verdict r q)"

lemma run_Nil [simp]: "verdict [] p = (True, p)"
  by (simp add: verdict_def)

lemma run_Cons: "verdict (c # cs) p = (case parse_char c (c # cs) p of
    Next n q \<Rightarrow> verdict (drop n cs) q | Wrong q \<Rightarrow> (False, q) | More q \<Rightarrow> (True, q))"
  using run_from [of "1 + int n" "drop n cs" for n]
  by (simp add: verdict_def split: step.split)

lemma reads_Nil [simp]: "consumes p [] p"
  by (simp add: consumes_def)

lemma reads_trans: "consumes p s q \<Longrightarrow> consumes q t u \<Longrightarrow> consumes p (s @ t) u"
  by (simp add: consumes_def)

lemma reads_run: "consumes p s q \<Longrightarrow> verdict s p = (True, q)"
  using run_Nil by (auto simp: consumes_def dest: spec [of _ "[]"])

lemma reads_char: "(\<And>d. parse_char c d p = Next 0 q) \<Longrightarrow> consumes p [c] q"
  by (simp add: consumes_def run_Cons)

lemma reads_skip:
  "(\<And>r. parse_char c (c # s @ r) p = Next (length s) q) \<Longrightarrow> consumes p (c # s) q"
  by (simp add: consumes_def run_Cons)

lemma reads_Cons: "(\<And>d. parse_char c d p = Next 0 q) \<Longrightarrow> consumes q s u \<Longrightarrow> consumes p (c # s) u"
  using reads_trans [OF reads_char] by fastforce

section \<open>Text\<close>

lemma decode_escape:
  assumes "escape_seq c = Some e"
  shows "decode (CHR ''&'' # e @ r) p = (DecodeValid, length e,
    if p_state p = InterTag \<or> p_state p = TagInside then p\<lparr>p_cdata := p_cdata p @ [c]\<rparr>
    else if p_state p = TagAttributeValue then p\<lparr>p_value := p_value p @ [c]\<rparr> else p)"
  using assms by (auto simp: escape_seq.simps decode_def decode_bytes_def Let_def split: if_splits)

lemma escape_seq_None: "escape_seq c = None \<Longrightarrow> c \<noteq> CHR ''&'' \<and> c \<noteq> CHR ''<'' \<and> c \<noteq> CHR 0x27 \<and> c \<noteq> CHR 0x22"
  by (auto simp: escape_seq.simps)

lemma escape_Cons: "escape (c # s) = escape [c] @ escape s"
  by (simp split: option.split)

text \<open>A character of the text of an open element.\<close>

lemma reads_text_char:
  assumes "p_state p = TagInside \<or> p_state p = InterTag" "p_open p \<noteq> []"
  shows "consumes p (escape [c]) (p\<lparr>p_state := TagInside, p_tag := [], p_cdata := p_cdata p @ [c]\<rparr>)"
proof (cases "escape_seq c")
  case None
  with assms escape_seq_None [OF None] show ?thesis
    by (auto simp: parse_char_def step_TagInside_def step_InterTag_def Let_def intro!: reads_char)
next
  case (Some e)
  with assms decode_escape [OF Some] show ?thesis
    by (auto simp: parse_char_def step_TagInside_def step_InterTag_def Let_def isWhitespace_def
        decoded_ref_def intro!: reads_skip)
qed

lemma reads_text:
  assumes "p_state p = TagInside \<or> p_state p = InterTag" "p_open p \<noteq> []" "s \<noteq> []"
  shows "consumes p (escape s) (p\<lparr>p_state := TagInside, p_tag := [], p_cdata := p_cdata p @ s\<rparr>)"
  using assms
proof (induction s arbitrary: p)
  case (Cons c s)
  note char = reads_text_char [OF Cons.prems(1,2), of c]
  show ?case
  proof (cases "s = []")
    case True
    with char show ?thesis by simp
  next
    case False
    with reads_trans [OF char Cons.IH] Cons.prems show ?thesis
      by (simp only: escape_Cons [of c s]) simp
  qed
qed simp

text \<open>The value of an attribute.\<close>

lemma reads_value:
  assumes "p_state p = TagAttributeValue"
  shows "consumes p (escape s) (p\<lparr>p_value := p_value p @ s\<rparr>)"
  using assms
proof (induction s arbitrary: p)
  case (Cons c s)
  have "consumes p (escape [c]) (p\<lparr>p_value := p_value p @ [c]\<rparr>)"
  proof (cases "escape_seq c")
    case None
    with Cons.prems escape_seq_None [OF None] show ?thesis
      by (auto simp: parse_char_def step_TagAttributeValue_def intro!: reads_char)
  next
    case (Some e)
    with Cons.prems decode_escape [OF Some] show ?thesis
      by (auto simp: parse_char_def step_TagAttributeValue_def decoded_ref_def intro!: reads_skip)
  qed
  from reads_trans [OF this Cons.IH] Cons.prems show ?case
    by (simp only: escape_Cons [of c s]) simp
qed simp

section \<open>Names and attributes\<close>

definition name_char :: "char \<Rightarrow> bool" where
  "name_char c \<longleftrightarrow> valid_xml_char c \<and> \<not> isWhitespace c \<and> c \<notin> set ''<>&/?!:=''"

definition name_ok :: "string \<Rightarrow> bool" where
  "name_ok s \<longleftrightarrow> s \<noteq> [] \<and> list_all name_char s"

lemma name_char_simps:
  "name_char c \<Longrightarrow> \<not> isWhitespace c" "name_char c \<Longrightarrow> c \<noteq> CHR ''<''" "name_char c \<Longrightarrow> c \<noteq> CHR ''>''"
  "name_char c \<Longrightarrow> c \<noteq> CHR ''&''" "name_char c \<Longrightarrow> c \<noteq> CHR ''/''" "name_char c \<Longrightarrow> c \<noteq> CHR ''?''"
  "name_char c \<Longrightarrow> c \<noteq> CHR ''!''" "name_char c \<Longrightarrow> c \<noteq> CHR '':''" "name_char c \<Longrightarrow> c \<noteq> CHR ''=''"
  by (auto simp: name_char_def)

lemma name_ok_valid: "list_all name_char s \<Longrightarrow> checkValidXMLChars s"
  by (auto simp: checkValidXMLChars_def name_char_def list_all_iff)

lemma checkValidXMLChars_Nil [simp]: "checkValidXMLChars []"
  by (simp add: checkValidXMLChars_def)

lemma parse_name_char:
  assumes "name_char c"
  shows "p_state p = TagOpening \<Longrightarrow>
      parse_char c d p = Next 0 (p\<lparr>p_tag := p_tag p @ [c], p_state := TagNameCollect\<rparr>)"
    and "p_state p = TagNameCollect \<Longrightarrow> parse_char c d p = Next 0 (p\<lparr>p_tag := p_tag p @ [c]\<rparr>)"
    and "p_state p = TagClosingSlash \<Longrightarrow>
      parse_char c d p = Next 0 (p\<lparr>p_tag := p_tag p @ [c], p_state := TagClosing\<rparr>)"
    and "p_state p = TagClosing \<Longrightarrow> parse_char c d p = Next 0 (p\<lparr>p_tag := p_tag p @ [c]\<rparr>)"
    and "p_state p = TagNameComplete \<Longrightarrow>
      parse_char c d p = Next 0 (p\<lparr>p_attrib := p_attrib p @ [c], p_state := TagAttribute\<rparr>)"
    and "p_state p = TagAttribute \<Longrightarrow> parse_char c d p = Next 0 (p\<lparr>p_attrib := p_attrib p @ [c]\<rparr>)"
  using name_char_simps [OF assms]
  by (simp_all add: parse_char_def step_TagOpening_def step_TagNameCollect_def
      step_TagClosingSlash_def step_TagClosing_def step_TagNameComplete_def step_TagAttribute_def)

text \<open>The rest of a name, in the three states that collect one.\<close>

lemma reads_collect:
  assumes "list_all name_char s" "P p"
    and "\<And>c d p. name_char c \<Longrightarrow> P p \<Longrightarrow> parse_char c d p = Next 0 (f [c] p) \<and> P (f [c] p)"
    and "\<And>p. f [] p = p" "\<And>a b p. f b (f a p) = f (a @ b) p"
  shows "consumes p s (f s p)"
  using assms(1,2)
proof (induction s arbitrary: p)
  case (Cons c s)
  from Cons.prems assms(3) have "\<And>d. parse_char c d p = Next 0 (f [c] p)" "P (f [c] p)"
    by auto
  with reads_Cons [OF this(1) Cons.IH] Cons.prems show ?case by (simp add: assms(5))
qed (simp add: assms(4))

lemma reads_chars:
  assumes "list_all name_char s"
  shows "p_state p = TagNameCollect \<Longrightarrow> consumes p s (p\<lparr>p_tag := p_tag p @ s\<rparr>)"
    and "p_state p = TagClosing \<Longrightarrow> consumes p s (p\<lparr>p_tag := p_tag p @ s\<rparr>)"
    and "p_state p = TagAttribute \<Longrightarrow> consumes p s (p\<lparr>p_attrib := p_attrib p @ s\<rparr>)"
  by (rule reads_collect [OF assms, of "\<lambda>p. p_state p = TagNameCollect" _ "\<lambda>s p. p\<lparr>p_tag := p_tag p @ s\<rparr>"];
      simp add: parse_name_char)
    (rule reads_collect [OF assms, of "\<lambda>p. p_state p = TagClosing" _ "\<lambda>s p. p\<lparr>p_tag := p_tag p @ s\<rparr>"]
        reads_collect [OF assms, of "\<lambda>p. p_state p = TagAttribute" _ "\<lambda>s p. p\<lparr>p_attrib := p_attrib p @ s\<rparr>"];
      simp add: parse_name_char)+

text \<open>A whole name, from the state before it.\<close>

lemma reads_name:
  assumes "name_ok s"
  shows "p_state p = TagOpening \<Longrightarrow> consumes p s (p\<lparr>p_state := TagNameCollect, p_tag := p_tag p @ s\<rparr>)"
    and "p_state p = TagClosingSlash \<Longrightarrow> consumes p s (p\<lparr>p_state := TagClosing, p_tag := p_tag p @ s\<rparr>)"
    and "p_state p = TagNameComplete \<Longrightarrow>
      consumes p s (p\<lparr>p_state := TagAttribute, p_attrib := p_attrib p @ s\<rparr>)"
proof -
  obtain c s' where s: "s = c # s'" "name_char c" "list_all name_char s'"
    using assms by (cases s) (auto simp: name_ok_def)
  note [simp] = s(1)
  show "consumes p s (p\<lparr>p_state := TagNameCollect, p_tag := p_tag p @ s\<rparr>)" if "p_state p = TagOpening"
    using reads_Cons [OF parse_name_char(1) [OF s(2) that] reads_chars(1) [OF s(3)]] by simp
  show "consumes p s (p\<lparr>p_state := TagClosing, p_tag := p_tag p @ s\<rparr>)" if "p_state p = TagClosingSlash"
    using reads_Cons [OF parse_name_char(3) [OF s(2) that] reads_chars(2) [OF s(3)]] by simp
  show "consumes p s (p\<lparr>p_state := TagAttribute, p_attrib := p_attrib p @ s\<rparr>)" if "p_state p = TagNameComplete"
    using reads_Cons [OF parse_name_char(5) [OF s(2) that] reads_chars(3) [OF s(3)]] by simp
qed

text \<open>An attribute that can be written and read again.\<close>

definition writable_attribute :: "Attribute \<Rightarrow> bool" where
  "writable_attribute a \<longleftrightarrow> name_ok (at_name a) \<and> (at_prefix a = [] \<or> name_ok (at_prefix a))
     \<and> checkValidXMLChars (at_value a)
     \<and> (at_name a = XMLNS \<longrightarrow> at_prefix a = [] \<and> at_value a \<noteq> [])"

text \<open>The namespaces an attribute declares: of a prefix, or of the element.\<close>

definition declare_prefix :: "Attribute \<Rightarrow> (string, string) std_map \<Rightarrow> (string, string) std_map" where
  "declare_prefix a m = (if at_prefix a = XMLNS then map_assign (at_name a) (at_value a) m else m)"

definition declare_default :: "Attribute \<Rightarrow> string \<Rightarrow> string" where
  "declare_default a ns = (if at_prefix a = [] \<and> at_name a = XMLNS then at_value a else ns)"

definition parsed_attribute :: "Attribute \<Rightarrow> Attribute" where
  "parsed_attribute a = a\<lparr>at_hasParent := False, at_xmlns := []\<rparr>"

text \<open>No attribute is under construction.\<close>

definition no_attribute :: "Parser \<Rightarrow> bool" where
  "no_attribute p \<longleftrightarrow> p_attrib p = [] \<and> p_value p = [] \<and> p_attribPrefix p = []
     \<and> \<not> p_quote p \<and> \<not> p_haveAttribPrefix p \<and> \<not> p_attribIsXmlns p"

lemma XMLNS_not_Nil [simp]: "XMLNS \<noteq> []" "[] \<noteq> XMLNS"
  by (simp_all add: XMLNS_def)

lemma name_ok_XMLNS [simp]: "name_ok XMLNS"
  by (simp add: name_ok_def XMLNS_def name_char_def valid_xml_char_def isWhitespace_def Let_def)

lemma parse_delimiters:
  "p_state p = TagNameCollect \<Longrightarrow> parse_char CHR '' '' d p = Next 0 (p\<lparr>p_state := TagNameComplete\<rparr>)"
  "p_state p = TagNameAlmostComplete \<Longrightarrow> parse_char CHR '' '' d p = Next 0 (p\<lparr>p_state := TagNameComplete\<rparr>)"
  "p_state p = TagAttribute \<Longrightarrow> parse_char CHR ''='' d p = Next 0 (p\<lparr>p_state := TagAttributeEqual\<rparr>)"
  "p_state p = TagAttributeEqual \<Longrightarrow> parse_char CHR 0x27 d p = Next 0 (p\<lparr>p_state := TagAttributeValue\<rparr>)"
  "p_state p = TagAttributeValue \<Longrightarrow> \<not> p_quote p \<Longrightarrow>
     parse_char CHR 0x27 d p = Next 0 ((p_addAttribute p)\<lparr>p_state := TagNameAlmostComplete, p_quote := False\<rparr>)"
  by (simp_all add: parse_char_def step_TagNameCollect_def step_TagNameAlmostComplete_def
      step_TagAttribute_def step_TagAttributeEqual_def step_TagAttributeValue_def isWhitespace_def)

lemma parse_attribute_colon:
  assumes "p_state p = TagAttribute"
  shows "p_attrib p = XMLNS \<Longrightarrow>
      parse_char CHR '':'' d p = Next 0 (p\<lparr>p_attribIsXmlns := True, p_attrib := []\<rparr>)"
    and "p_attrib p \<noteq> XMLNS \<Longrightarrow> \<not> p_haveAttribPrefix p \<Longrightarrow> parse_char CHR '':'' d p =
      Next 0 (p\<lparr>p_haveAttribPrefix := True, p_attribPrefix := p_attrib p, p_attrib := []\<rparr>)"
  using assms by (simp_all add: parse_char_def step_TagAttribute_def isWhitespace_def)

text \<open>The name of an attribute with its prefix.\<close>

lemma reads_attribute_name:
  assumes "writable_attribute a" "no_attribute p" "p_state p = TagNameComplete"
  shows "consumes p (name_xml (at_prefix a) (at_name a))
    (p\<lparr>p_state := TagAttribute, p_attrib := at_name a,
       p_attribPrefix := (if at_prefix a = XMLNS then [] else at_prefix a),
       p_haveAttribPrefix := (at_prefix a \<noteq> [] \<and> at_prefix a \<noteq> XMLNS),
       p_attribIsXmlns := (at_prefix a = XMLNS)\<rparr>)"
proof -
  have ok: "name_ok (at_name a)" "list_all name_char (at_name a)"
    using assms by (auto simp: writable_attribute_def name_ok_def)
  show ?thesis
  proof (cases "at_prefix a = []")
    case True
    with reads_name(3) [OF ok(1) assms(3)] assms show ?thesis
      by (cases p) (auto simp: name_xml_def no_attribute_def XMLNS_def)
  next
    case False
    with assms have pre: "name_ok (at_prefix a)" by (simp add: writable_attribute_def)
    note colon = reads_trans [OF reads_name(3) [OF pre assms(3)] reads_Cons [OF _ reads_chars(3) [OF ok(2)]]]
    show ?thesis
    proof (cases "at_prefix a = XMLNS")
      case True
      show ?thesis
        using colon [OF parse_attribute_colon(1)] True assms False
        by (cases p) (auto simp: name_xml_def no_attribute_def)
    next
      case other: False
      show ?thesis
        using colon [OF parse_attribute_colon(2)] other assms False
        by (cases p) (auto simp: name_xml_def no_attribute_def)
    qed
  qed
qed

lemma addAttribute_writable:
  assumes "writable_attribute a" "p_attrib p = at_name a" "p_value p = at_value a"
    "p_attribPrefix p = (if at_prefix a = XMLNS then [] else at_prefix a)"
    "p_attribIsXmlns p = (at_prefix a = XMLNS)"
  shows "p_addAttribute p = p\<lparr>p_xmlnss := declare_prefix a (p_xmlnss p),
    p_attribs := p_attribs p @ [parsed_attribute a], p_attrib := [], p_value := [],
    p_xmlns := declare_default a (p_xmlns p), p_attribPrefix := [],
    p_haveAttribPrefix := False, p_attribIsXmlns := False\<rparr>"
proof -
  have valid: "checkValidXMLChars (at_name a)" "checkValidXMLChars (at_prefix a)"
    "checkValidXMLChars (at_value a)"
    using assms(1) by (auto simp: writable_attribute_def name_ok_def intro: name_ok_valid)
  have xmlns: "checkValidXMLChars XMLNS"
    using name_ok_XMLNS by (auto simp: name_ok_def intro: name_ok_valid)
  from valid have new: "Attribute_new (at_name a) (at_value a) [] =
      \<lparr>at_hasParent = False, at_name = at_name a, at_value = at_value a, at_xmlns = [], at_prefix = []\<rparr>"
    by (simp add: Attribute_new_def Let_def)
  have parsed: "parsed_attribute a = \<lparr>at_hasParent = False, at_name = at_name a,
      at_value = at_value a, at_xmlns = [], at_prefix = at_prefix a\<rparr>"
    by (cases a) (simp add: parsed_attribute_def)
  have name: "at_name a \<noteq> XMLNS" if "at_prefix a \<noteq> []"
    using assms(1) that by (auto simp: writable_attribute_def)
  note unfolded = p_addAttribute_def Let_def assms(2-) new parsed Attribute_setPrefix_def
    declare_prefix_def declare_default_def
  consider "at_prefix a = XMLNS" "at_name a \<noteq> XMLNS" | "at_prefix a = []" "at_name a = XMLNS"
    | "at_prefix a = []" "at_name a \<noteq> XMLNS"
    | "at_prefix a \<noteq> []" "at_prefix a \<noteq> XMLNS" "at_name a \<noteq> XMLNS"
    using name by auto
  then show ?thesis
  proof cases
    case 1
    then show ?thesis by (intro Parser.equality) (simp_all add: unfolded xmlns)
  next
    case 2
    note new = new [unfolded this]
    from 2 show ?thesis by (intro Parser.equality) (simp_all add: unfolded new)
  next
    case 3
    then show ?thesis by (intro Parser.equality) (simp_all add: unfolded)
  next
    case 4
    then show ?thesis by (intro Parser.equality) (simp_all add: unfolded valid)
  qed
qed

lemma reads_attribute:
  assumes "writable_attribute a" "no_attribute p"
    "p_state p = TagNameCollect \<or> p_state p = TagNameAlmostComplete"
  shows "consumes p (Attribute_xml a) (p\<lparr>p_xmlnss := declare_prefix a (p_xmlnss p),
    p_state := TagNameAlmostComplete, p_attribs := p_attribs p @ [parsed_attribute a],
    p_xmlns := declare_default a (p_xmlns p)\<rparr>)"
proof -
  let ?q = "p\<lparr>p_state := TagNameComplete\<rparr>"
  let ?v = "\<lambda>st. p\<lparr>p_state := st, p_attrib := at_name a,
       p_attribPrefix := (if at_prefix a = XMLNS then [] else at_prefix a),
       p_haveAttribPrefix := (at_prefix a \<noteq> [] \<and> at_prefix a \<noteq> XMLNS),
       p_attribIsXmlns := (at_prefix a = XMLNS)\<rparr>"
  have space: "parse_char CHR '' '' d p = Next 0 ?q" for d
    using assms(3) parse_delimiters(1,2) by blast
  have name: "consumes ?q (name_xml (at_prefix a) (at_name a)) (?v TagAttribute)"
    using reads_attribute_name [OF assms(1), of ?q] assms(2) by (simp add: no_attribute_def)
  have eq: "consumes (?v TagAttribute) [CHR ''='', CHR 0x27] (?v TagAttributeValue)"
    by (rule reads_Cons [OF parse_delimiters(3) reads_char]) (simp_all add: parse_delimiters)
  have val: "consumes (?v TagAttributeValue) (escape (at_value a)) ((?v TagAttributeValue)\<lparr>p_value := at_value a\<rparr>)"
    using reads_value [of "?v TagAttributeValue" "at_value a"] assms(2) by (simp add: no_attribute_def)
  have quote: "consumes ((?v TagAttributeValue)\<lparr>p_value := at_value a\<rparr>) [CHR 0x27] (p\<lparr>p_xmlnss := declare_prefix a (p_xmlnss p),
    p_state := TagNameAlmostComplete, p_attribs := p_attribs p @ [parsed_attribute a],
    p_xmlns := declare_default a (p_xmlns p)\<rparr>)"
    using assms(2)
    by (intro reads_char, subst parse_delimiters(5), simp_all add: no_attribute_def
        addAttribute_writable [OF assms(1)])
  have "Attribute_xml a = CHR '' '' # name_xml (at_prefix a) (at_name a) @ [CHR ''='', CHR 0x27]
      @ escape (at_value a) @ [CHR 0x27]"
    using assms(1) by (auto simp: Attribute_xml_def appendEscaped_eq name_xml_def writable_attribute_def name_ok_def)
  with reads_Cons [OF space reads_trans [OF name reads_trans [OF eq reads_trans [OF val quote]]]]
  show ?thesis by simp
qed

lemma reads_attributes:
  assumes "list_all writable_attribute as" "no_attribute p"
    "p_state p = TagNameCollect \<or> p_state p = TagNameAlmostComplete"
  shows "consumes p (concat (map Attribute_xml as)) (p\<lparr>p_xmlnss := fold declare_prefix as (p_xmlnss p),
    p_state := (if as = [] then p_state p else TagNameAlmostComplete),
    p_attribs := p_attribs p @ map parsed_attribute as,
    p_xmlns := fold declare_default as (p_xmlns p)\<rparr>)"
  using assms
proof (induction as arbitrary: p)
  case Nil
  then show ?case by (cases p) simp
next
  case (Cons a as)
  let ?q = "p\<lparr>p_xmlnss := declare_prefix a (p_xmlnss p), p_state := TagNameAlmostComplete,
    p_attribs := p_attribs p @ [parsed_attribute a], p_xmlns := declare_default a (p_xmlns p)\<rparr>"
  have "consumes p (Attribute_xml a) ?q" using Cons.prems by (intro reads_attribute) auto
  moreover have "no_attribute ?q" using Cons.prems(2) by (simp add: no_attribute_def)
  ultimately show ?case
    using reads_trans [OF _ Cons.IH [of ?q]] Cons.prems(1) by (simp cong: if_cong)
qed

section \<open>The opening of an element\<close>

text \<open>The attribute that declares the namespace of its element.\<close>

definition is_default :: "Attribute \<Rightarrow> bool" where
  "is_default a \<longleftrightarrow> at_prefix a = [] \<and> at_name a = XMLNS"

text \<open>An attribute as the parser leaves it in an element.\<close>

definition read_attribute :: "Attribute \<Rightarrow> Attribute" where
  "read_attribute a = a\<lparr>at_hasParent := \<not> is_default a, at_xmlns := []\<rparr>"

definition writable_head :: "string \<Rightarrow> string \<Rightarrow> Attribute list \<Rightarrow> bool" where
  "writable_head name prefix as \<longleftrightarrow> name_ok name \<and> name \<noteq> ''stream''
     \<and> (prefix = [] \<or> name_ok prefix) \<and> prefix \<noteq> ''stream''
     \<and> list_all writable_attribute as \<and> length (filter is_default as) \<le> 1"

text \<open>An element without content as it is read.\<close>

definition read_head :: "string \<Rightarrow> string \<Rightarrow> Attribute list \<Rightarrow> Node list \<Rightarrow> Tag" where
  "read_head name prefix as nodes = mk_Tag name prefix (fold declare_default as [])
     (fold declare_prefix as []) (map read_attribute as) nodes"

lemma fold_default_none: "filter is_default as = [] \<Longrightarrow> fold declare_default as ns = ns"
  by (induction as) (auto simp: declare_default_def is_default_def split: if_splits)

lemma one_default:
  assumes "length (filter is_default as) \<le> 1"
  obtains (none) "filter is_default as = []"
  | (one) u d v where "as = u @ d # v" "is_default d" "filter is_default u = []" "filter is_default v = []"
proof (cases "filter is_default as")
  case Nil
  then show ?thesis by (rule none)
next
  case (Cons d ds)
  with assms have "ds = []" by simp
  from Cons obtain u v where "as = u @ d # v" "\<forall>a\<in>set u. \<not> is_default a" "is_default d"
    "ds = filter is_default v"
    unfolding filter_eq_Cons_iff by blast
  with \<open>ds = []\<close> show ?thesis by (intro one [of u d v]) (simp_all add: filter_empty_conv)
qed

lemma replace_attribute_first:
  "(\<And>a. a \<in> set u \<Longrightarrow> \<not> same a) \<Longrightarrow> same d \<Longrightarrow> replace_attribute same b (u @ d # v) = u @ b # v"
  by (induction u) auto

lemma read_attribute_default:
  assumes "writable_attribute d" "is_default d"
  shows "Attribute_new XMLNS (at_value d) [] = read_attribute d"
proof -
  have "checkValidXMLChars XMLNS" "checkValidXMLChars (at_value d)"
    using name_ok_XMLNS assms(1) by (auto simp: name_ok_def writable_attribute_def intro: name_ok_valid)
  with assms(2) show ?thesis
    by (cases d) (simp add: Attribute_new_def Let_def read_attribute_def is_default_def)
qed

lemma setXmlns_head:
  assumes "list_all writable_attribute as" "length (filter is_default as) \<le> 1"
  shows "snd (setXmlns around (fold declare_default as []) []
      (mk_Tag name prefix [] nss (map (\<lambda>a. (parsed_attribute a)\<lparr>at_hasParent := True\<rparr>) as) []))
    = mk_Tag name prefix (fold declare_default as []) nss (map read_attribute as) []"
  using assms(2)
proof (cases rule: one_default)
  case none
  then have "map read_attribute as = map (\<lambda>a. (parsed_attribute a)\<lparr>at_hasParent := True\<rparr>) as"
    by (auto simp: read_attribute_def parsed_attribute_def filter_empty_conv)
  with none show ?thesis
    by (simp add: fold_default_none setXmlns_def add_attribute_def set_xmlns_def)
next
  case (one u d v)
  let ?f = "\<lambda>a. (parsed_attribute a)\<lparr>at_hasParent := True\<rparr>"
  let ?t = "mk_Tag name prefix (at_value d) nss (map ?f as) []"
  have d: "writable_attribute d" "at_name d = XMLNS" "at_prefix d = []" "at_value d \<noteq> []"
    "checkValidXMLChars (at_value d)"
    using assms(1) one(1,2) by (auto simp: is_default_def writable_attribute_def)
  have ns: "fold declare_default as [] = at_value d"
    using one d by (simp add: fold_default_none declare_default_def)
  have others: "map read_attribute w = map ?f w" if "filter is_default w = []" for w
    using that by (auto simp: read_attribute_def parsed_attribute_def filter_empty_conv)
  have name: "at_name (?f a) \<noteq> XMLNS" if "a \<in> set u" for a
  proof -
    have "writable_attribute a" "\<not> is_default a"
      using that one(1,3) assms(1) by (auto simp: filter_empty_conv list_all_iff)
    then show ?thesis by (auto simp: is_default_def writable_attribute_def parsed_attribute_def)
  qed
  have read: "at_name (read_attribute d) = XMLNS" "at_name (?f d) = XMLNS"
    using d by (simp_all add: read_attribute_def parsed_attribute_def)
  have "Attribute_prefix ?t (?f d) = Attribute_prefix ?t (read_attribute d)"
    using d one(2) by (simp add: Attribute_prefix_def parsed_attribute_def read_attribute_def prefix_of_def)
  then have "replace_attribute (\<lambda>a. at_name a = at_name (read_attribute d)
       \<and> (Attribute_xmlns around ?t a = Attribute_xmlns around ?t (read_attribute d)
        \<or> Attribute_prefix ?t a = Attribute_prefix ?t (read_attribute d))) (read_attribute d)
      (map ?f u @ ?f d # map ?f v) = map ?f u @ read_attribute d # map ?f v"
    using name read by (intro replace_attribute_first) auto
  moreover have "map ?f as = map ?f u @ ?f d # map ?f v"
    "map read_attribute as = map ?f u @ read_attribute d # map ?f v"
    using one(1) others [OF one(3)] others [OF one(4)] by simp_all
  ultimately have "snd (addAttribute around (read_attribute d) ?t) = set_attribs (map read_attribute as) ?t"
    using read by (simp add: addAttribute_def)
  then show ?thesis
    using d by (simp add: ns setXmlns_def add_attribute_def set_xmlns_def
        read_attribute_default [OF d(1) one(2)] set_attribs_def)
qed

text \<open>The parser with a head read: its name, its prefix and its attributes.\<close>

definition has_head :: "string \<Rightarrow> string \<Rightarrow> Attribute list \<Rightarrow> Parser \<Rightarrow> bool" where
  "has_head name prefix as p \<longleftrightarrow> p_tag p = name \<and> p_haveTagPrefix p = (prefix \<noteq> [])
     \<and> (prefix \<noteq> [] \<longrightarrow> p_tagPrefix p = prefix) \<and> p_attribs p = map parsed_attribute as
     \<and> p_xmlnss p = fold declare_prefix as [] \<and> p_xmlns p = fold declare_default as []"

lemma opened_head:
  assumes "writable_head name prefix as" "has_head name prefix as p"
  shows "opened_tag around p = read_head name prefix as []"
proof -
  have valid: "checkValidXMLChars name" "checkValidXMLChars prefix"
    using assms(1) by (auto simp: writable_head_def name_ok_def intro: name_ok_valid)
  have "opened_tag around p = snd (setXmlns around (fold declare_default as []) []
      (mk_Tag name prefix [] (fold declare_prefix as [])
        (map (\<lambda>a. (parsed_attribute a)\<lparr>at_hasParent := True\<rparr>) as) []))"
    using assms(2) valid
    by (simp add: opened_tag_def has_head_def Let_def Tag_new_def addCData_def Tag_setPrefix_def
        setAttributes_def tag_setters o_def)
  also have "\<dots> = read_head name prefix as []"
    using assms(1) by (simp add: setXmlns_head writable_head_def read_head_def)
  finally show ?thesis .
qed

lemma addTag_head:
  assumes "writable_head name prefix as" "has_head name prefix as p"
    "p_preamble p = 0" "p_tagPrefix p \<noteq> ''stream''"
  shows "addTag p = p\<lparr>p_open := read_head name prefix as [] # p_open p, p_xmlnss := [],
    p_attribs := [], p_xmlns := [], p_haveTagPrefix := False\<rparr>"
proof -
  have "p_tag p \<noteq> ''stream''" using assms(1,2) by (simp add: writable_head_def has_head_def)
  with assms(3,4) show ?thesis
    by (simp add: addTag_def Let_def opened_head [OF assms(1,2)])
qed

text \<open>Between two pieces of the content of an element, or outside of all.\<close>

definition between :: "Parser \<Rightarrow> bool" where
  "between p \<longleftrightarrow> no_attribute p \<and> p_attribs p = [] \<and> p_xmlnss p = [] \<and> p_xmlns p = []
     \<and> \<not> p_haveTagPrefix p \<and> p_preamble p = 0 \<and> p_tagPrefix p \<noteq> ''stream''"

lemma parse_colon:
  "p_state p = TagNameCollect \<or> p_state p = TagClosing \<Longrightarrow> \<not> p_haveTagPrefix p \<Longrightarrow>
     parse_char CHR '':'' d p = Next 0 (p\<lparr>p_haveTagPrefix := True, p_tagPrefix := p_tag p, p_tag := []\<rparr>)"
  by (auto simp: parse_char_def step_TagNameCollect_def step_TagClosing_def prefix_tag_def isWhitespace_def)

text \<open>The name of an element with its prefix, in an opening and in a closing tag.\<close>

lemma reads_tag_name:
  assumes "name_ok name" "prefix = [] \<or> name_ok prefix" "p_tag p = []" "\<not> p_haveTagPrefix p"
    "p_state p = TagOpening \<and> st = TagNameCollect \<or> p_state p = TagClosingSlash \<and> st = TagClosing"
  shows "consumes p (name_xml prefix name) (p\<lparr>p_state := st, p_tag := name,
    p_tagPrefix := (if prefix = [] then p_tagPrefix p else prefix), p_haveTagPrefix := (prefix \<noteq> [])\<rparr>)"
proof -
  have first: "consumes p s (p\<lparr>p_state := st, p_tag := s\<rparr>)" if "name_ok s" for s
    using reads_name(1,2) [OF that, of p] assms(3,5) by auto
  show ?thesis
  proof (cases "prefix = []")
    case True
    with first [OF assms(1)] assms(4) show ?thesis by (cases p) (simp add: name_xml_def)
  next
    case False
    let ?q = "p\<lparr>p_state := st, p_tag := [], p_tagPrefix := prefix, p_haveTagPrefix := True\<rparr>"
    have "parse_char CHR '':'' d (p\<lparr>p_state := st, p_tag := prefix\<rparr>) = Next 0 ?q" for d
      using assms(4,5) by (subst parse_colon) auto
    moreover have q: "p\<lparr>p_state := st, p_tag := name, p_tagPrefix := prefix, p_haveTagPrefix := True\<rparr>
        = ?q\<lparr>p_tag := p_tag ?q @ name\<rparr>"
      by simp
    have "consumes ?q name
        (p\<lparr>p_state := st, p_tag := name, p_tagPrefix := prefix, p_haveTagPrefix := True\<rparr>)"
      unfolding q using assms(1,5) reads_chars(1,2) [of name ?q] by (auto simp: name_ok_def simp del: append_Nil)
    ultimately show ?thesis
      using reads_trans [OF first reads_Cons, of prefix "CHR '':''" ?q name] False assms(2)
      by (simp add: name_xml_def)
  qed
qed

lemma reads_head:
  assumes "writable_head name prefix as" "between p" "p_state p = TagOpening" "p_tag p = []"
  obtains q where "consumes p (name_xml prefix name @ concat (map Attribute_xml as)) q"
    "has_head name prefix as q" "p_tagPrefix q \<noteq> ''stream''" "no_attribute q" "p_preamble q = 0"
    "p_state q = TagNameCollect \<or> p_state q = TagNameAlmostComplete"
    "p_handled q = p_handled p" "p_open q = p_open p" "p_cdata q = p_cdata p"
proof -
  let ?q = "p\<lparr>p_state := TagNameCollect, p_tag := name,
    p_tagPrefix := (if prefix = [] then p_tagPrefix p else prefix), p_haveTagPrefix := (prefix \<noteq> [])\<rparr>"
  have name: "consumes p (name_xml prefix name) ?q"
    using assms by (intro reads_tag_name) (auto simp: writable_head_def between_def)
  have "no_attribute ?q" using assms(2) by (simp add: between_def no_attribute_def)
  with assms(1) have attribs: "consumes ?q (concat (map Attribute_xml as))
      (?q\<lparr>p_xmlnss := fold declare_prefix as (p_xmlnss ?q),
        p_state := (if as = [] then p_state ?q else TagNameAlmostComplete),
        p_attribs := p_attribs ?q @ map parsed_attribute as,
        p_xmlns := fold declare_default as (p_xmlns ?q)\<rparr>)"
    by (intro reads_attributes) (simp_all add: writable_head_def)
  show ?thesis
    by (rule that [OF reads_trans [OF name attribs]])
      (use assms in \<open>simp_all add: writable_head_def between_def has_head_def no_attribute_def\<close>)
qed

section \<open>Elements\<close>

text \<open>
  An element joins the one around it, or goes to the handler; the parser is ready for what
  follows.
\<close>

definition received :: "Tag \<Rightarrow> Tag list \<Rightarrow> Tag list \<Rightarrow> Parser \<Rightarrow> bool" where
  "received t around handled q \<longleftrightarrow> between q \<and> p_state q = InterTag \<and> p_cdata q = []
     \<and> (case around of
          [] \<Rightarrow> p_handled q = handled @ [t] \<and> p_open q = []
        | parent # outer \<Rightarrow> p_handled q = handled \<and> p_open q = addChild t parent # outer)"

lemma closeTag_received:
  assumes "p_open p = t # around" "tag_name t = p_tag p" "tag_prefix t = [] \<or> tag_prefix t = p_tagPrefix p"
    "p_tag p \<noteq> ''stream''" "no_attribute p" "p_attribs p = []" "p_xmlnss p = []" "p_xmlns p = []"
    "p_preamble p = 0" "p_cdata p = []"
  obtains q where "closeTag p = (True, q)" "received t around (p_handled p) (q\<lparr>p_state := InterTag\<rparr>)"
  using assms that
  by (cases around)
    (auto simp: closeTag_def Let_def received_def between_def no_attribute_def cleanup_def streamEvent_def)

text \<open>The two ends of an element: \<open>/>\<close> behind its head, and a closing tag.\<close>

lemma reads_empty_end:
  assumes "writable_head name prefix as" "has_head name prefix as p"
    "p_tagPrefix p \<noteq> ''stream''" "no_attribute p" "p_preamble p = 0" "p_cdata p = []"
    "p_state p = TagNameCollect \<or> p_state p = TagNameAlmostComplete"
  obtains q where "consumes p ''/>'' q" "received (read_head name prefix as []) (p_open p) (p_handled p) q"
proof -
  let ?s = "p\<lparr>p_state := TagOpeningSlash\<rparr>"
  have slash: "parse_char CHR ''/'' d p = Next 0 ?s" for d
    using assms(7) by (auto simp: parse_char_def step_TagNameCollect_def step_TagNameAlmostComplete_def
        isWhitespace_def)
  have head: "has_head name prefix as ?s" using assms(2) by (simp add: has_head_def)
  have add: "addTag ?s = ?s\<lparr>p_open := read_head name prefix as [] # p_open p, p_xmlnss := [],
    p_attribs := [], p_xmlns := [], p_haveTagPrefix := False\<rparr>"
    using addTag_head [OF assms(1) head] assms(3,5) by simp
  have name: "p_tag p = name" "name \<noteq> ''stream''" "prefix = [] \<or> prefix = p_tagPrefix p"
    using assms(1,2) by (auto simp: writable_head_def has_head_def)
  obtain q where q: "closeTag (addTag ?s) = (True, q)"
    "received (read_head name prefix as []) (p_open p) (p_handled p) (q\<lparr>p_state := InterTag\<rparr>)"
    by (rule closeTag_received [of "addTag ?s" "read_head name prefix as []" "p_open p"])
      (use assms(4-6) name in \<open>auto simp: add no_attribute_def read_head_def\<close>)
  have "parse_char CHR ''>'' d ?s = Next 0 (q\<lparr>p_state := InterTag\<rparr>)" for d
    using q(1) by (simp add: parse_char_def step_TagOpeningSlash_def isWhitespace_def)
  with reads_Cons [OF slash reads_char] q(2) that show ?thesis by blast
qed

lemma reads_closing_tag:
  assumes "name_ok (tag_name t)" "tag_name t \<noteq> ''stream''" "tag_prefix t = [] \<or> name_ok (tag_prefix t)"
    "p_open p = t # around" "between p" "p_state p = TagOpening" "p_tag p = []" "p_cdata p = []"
  obtains q where "consumes p (''/'' @ name_xml (tag_prefix t) (tag_name t) @ ''>'') q"
    "received t around (p_handled p) q"
proof -
  let ?s = "p\<lparr>p_state := TagClosingSlash\<rparr>"
  let ?n = "p\<lparr>p_state := TagClosing, p_tag := tag_name t,
    p_tagPrefix := (if tag_prefix t = [] then p_tagPrefix p else tag_prefix t),
    p_haveTagPrefix := (tag_prefix t \<noteq> [])\<rparr>"
  have slash: "parse_char CHR ''/'' d p = Next 0 ?s" for d
    using assms(6) by (simp add: parse_char_def step_TagOpening_def isWhitespace_def)
  have name: "consumes ?s (name_xml (tag_prefix t) (tag_name t)) ?n"
    using reads_tag_name [of "tag_name t" "tag_prefix t" ?s TagClosing] assms
    by (simp add: between_def cong: if_cong)
  obtain q where q: "closeTag ?n = (True, q)" "received t around (p_handled p) (q\<lparr>p_state := InterTag\<rparr>)"
    by (rule closeTag_received [of ?n t around])
      (use assms in \<open>auto simp: between_def no_attribute_def\<close>)
  have "parse_char CHR ''>'' d ?n = Next 0 (q\<lparr>p_state := InterTag\<rparr>)" for d
    using q(1) by (simp add: parse_char_def step_TagClosing_def)
  from reads_Cons [OF slash reads_trans [OF name reads_char [OF this]]] q(2) that show ?thesis by simp
qed

lemma reads_head_end:
  assumes "writable_head name prefix as" "has_head name prefix as p"
    "p_tagPrefix p \<noteq> ''stream''" "no_attribute p" "p_preamble p = 0" "p_cdata p = []"
    "p_state p = TagNameCollect \<or> p_state p = TagNameAlmostComplete"
  obtains q where "consumes p ''>'' q" "between q" "p_state q = TagInside" "p_cdata q = []"
    "p_open q = read_head name prefix as [] # p_open p" "p_handled q = p_handled p"
proof -
  let ?s = "p\<lparr>p_state := TagInside\<rparr>"
  let ?q = "p\<lparr>p_open := read_head name prefix as [] # p_open p, p_xmlnss := [], p_state := TagInside,
    p_attribs := [], p_xmlns := [], p_haveTagPrefix := False\<rparr>"
  have head: "has_head name prefix as ?s" using assms(2) by (simp add: has_head_def)
  have "(addTag p)\<lparr>p_state := TagInside\<rparr> = ?q" "addTag ?s = ?q"
    using addTag_head [OF assms(1,2)] addTag_head [OF assms(1) head] assms(3,5) by simp_all
  then have "parse_char CHR ''>'' d p = Next 0 ?q" for d
    using assms(5,7) by (auto simp: parse_char_def step_TagNameCollect_def step_TagNameAlmostComplete_def
        isWhitespace_def end_of_opening_def)
  then show ?thesis
    by (rule that [OF reads_char])
      (use assms in \<open>simp_all add: between_def no_attribute_def\<close>)
qed

section \<open>What comes back\<close>

definition text_node :: "string \<Rightarrow> Node list" where
  "text_node s = (if s = [] then [] else [TypeString s])"

text \<open>Texts side by side are one text to the parser.\<close>

fun join_texts :: "string \<Rightarrow> Node list \<Rightarrow> Node list" where
  "join_texts s [] = text_node s"
| "join_texts s (TypeString t # ns) = join_texts (s @ t) ns"
| "join_texts s (TypeTag c # ns) = text_node s @ TypeTag c # join_texts [] ns"

primrec writable :: "Tag \<Rightarrow> bool" and writable_node :: "Node \<Rightarrow> bool" where
  "writable (mk_Tag name prefix ns nss as nodes) =
     (writable_head name prefix as \<and> list_all id (map writable_node nodes))"
| "writable_node (TypeTag c) = writable c"
| "writable_node (TypeString s) = (s \<noteq> [] \<and> checkValidXMLChars s)"

primrec parsed :: "Tag \<Rightarrow> Tag" and parsed_node :: "Node \<Rightarrow> Node" where
  "parsed (mk_Tag name prefix ns nss as nodes) =
     read_head name prefix as (join_texts [] (map parsed_node nodes))"
| "parsed_node (TypeTag c) = TypeTag (parsed c)"
| "parsed_node (TypeString s) = TypeString s"

text \<open>In the content of the element \<open>t\<close>, with a text that is not finished.\<close>

definition inside :: "Parser \<Rightarrow> Tag \<Rightarrow> Tag list \<Rightarrow> bool" where
  "inside p t around \<longleftrightarrow> between p \<and> p_open p = t # around \<and> checkValidXMLChars (p_cdata p)
     \<and> (p_state p = TagInside \<or> p_state p = InterTag \<and> p_cdata p = [])"

definition append_nodes :: "Node list \<Rightarrow> Tag \<Rightarrow> Tag" where
  "append_nodes ns t = set_nodes (tag_nodes t @ ns) t"

lemma append_nodes_simps [simp]:
  "append_nodes ns (append_nodes ms t) = append_nodes (ms @ ns) t"
  "append_nodes [] t = t"
  "addChild c t = append_nodes [TypeTag c] t"
  "append_nodes ns (read_head name prefix as ms) = read_head name prefix as (ms @ ns)"
  by (simp_all add: append_nodes_def set_nodes_def addChild_def read_head_def)

lemma append_text_node:
  "checkValidXMLChars s \<Longrightarrow> append_nodes (text_node s) t = (if s = [] then t else snd (addCData s t))"
  by (cases t) (simp add: text_node_def append_nodes_def addCData_def set_nodes_def)

text \<open>An opening bracket ends the text.\<close>

lemma reads_bracket:
  assumes "inside p t around"
  shows "consumes p ''<'' (p\<lparr>p_open := append_nodes (text_node (p_cdata p)) t # around,
    p_state := TagOpening, p_tag := [], p_cdata := []\<rparr>)"
proof -
  have *: "append_nodes (text_node (p_cdata p)) t = (if p_cdata p = [] then t else snd (addCData (p_cdata p) t))"
    using assms by (intro append_text_node) (simp add: inside_def)
  have "parse_char CHR ''<'' d p = Next 0 (p\<lparr>p_open := append_nodes (text_node (p_cdata p)) t # around,
    p_state := TagOpening, p_tag := [], p_cdata := []\<rparr>)" for d
    using assms unfolding *
    by (auto simp: inside_def parse_char_def step_TagInside_def step_InterTag_def Let_def
        isWhitespace_def p_addCData_def intro!: Parser.equality)
  then show ?thesis by (rule reads_char)
qed

text \<open>The statement of the induction: of an element behind its bracket, and of a node.\<close>

definition element_read :: "Tag \<Rightarrow> bool" where
  "element_read t \<longleftrightarrow> (writable t \<longrightarrow>
     (\<forall>p. between p \<and> p_state p = TagOpening \<and> p_tag p = [] \<and> p_cdata p = [] \<longrightarrow>
       (\<exists>q. consumes p (tl (Tag_xml t)) q \<and> received (parsed t) (p_open p) (p_handled p) q)))"

definition node_read :: "Node \<Rightarrow> bool" where
  "node_read n \<longleftrightarrow> (case n of TypeTag c \<Rightarrow> element_read c | TypeString s \<Rightarrow> True)"

lemma Tag_xml_not_Nil: "writable t \<Longrightarrow> Tag_xml t \<noteq> []"
  by (cases t) (auto simp: writable_head_def name_ok_def)

lemma Tag_xml_bracket: "writable t \<Longrightarrow> Tag_xml t = CHR ''<'' # tl (Tag_xml t)"
  by (cases t) (auto simp: writable_head_def name_ok_def)

lemma reads_nodes:
  assumes "list_all node_read ns" "list_all writable_node ns" "inside p t around"
  shows "\<exists>q t'. consumes p (concat (map node_xml ns)) q \<and> inside q t' around \<and> p_handled q = p_handled p
    \<and> append_nodes (text_node (p_cdata q)) t' = append_nodes (join_texts (p_cdata p) (map parsed_node ns)) t"
  using assms
proof (induction ns arbitrary: p t)
  case Nil
  then show ?case by (intro exI [of _ p] exI [of _ t]) simp
next
  case (Cons n ns)
  show ?case
  proof (cases n)
    case (TypeString s)
    let ?p = "p\<lparr>p_state := TagInside, p_tag := [], p_cdata := p_cdata p @ s\<rparr>"
    have s: "s \<noteq> []" "checkValidXMLChars s" using Cons.prems(2) TypeString by auto
    then have "consumes p (escape s) ?p"
      using Cons.prems(3) by (intro reads_text) (auto simp: inside_def)
    moreover have "inside ?p t around"
      using Cons.prems(3) s(2) by (auto simp: inside_def between_def no_attribute_def checkValidXMLChars_def)
    ultimately show ?thesis
      using Cons.IH [of ?p t] Cons.prems(1,2) TypeString
      by (auto simp: appendEscaped_eq dest: reads_trans)
  next
    case (TypeTag c)
    then have c: "writable c" "element_read c" using Cons.prems(1,2) by (auto simp: node_read_def)
    let ?p = "p\<lparr>p_open := append_nodes (text_node (p_cdata p)) t # around,
      p_state := TagOpening, p_tag := [], p_cdata := []\<rparr>"
    have "between ?p" using Cons.prems(3) by (simp add: inside_def between_def no_attribute_def)
    then obtain q where q: "consumes ?p (tl (Tag_xml c)) q"
      "received (parsed c) (append_nodes (text_node (p_cdata p)) t # around) (p_handled p) q"
      using c by (auto simp: element_read_def)
    then have xml: "consumes p (Tag_xml c) q"
      using reads_trans [OF reads_bracket [OF Cons.prems(3)] q(1)] Tag_xml_bracket [OF c(1)] by simp
    have "inside q (append_nodes (text_node (p_cdata p) @ [TypeTag (parsed c)]) t) around"
      "p_cdata q = []" "p_handled q = p_handled p"
      using q(2) by (simp_all add: received_def inside_def)
    with Cons.IH [of q] Cons.prems(1,2) TypeTag show ?thesis
      using reads_trans [OF xml] by fastforce
  qed
qed

lemma element_read_all: "element_read t" and node_read_all: "node_read n"
proof (induction t and n)
  case (mk_Tag name prefix ns nss as nodes)
  show ?case
    unfolding element_read_def
  proof (intro impI allI, elim conjE)
    fix p :: Parser
    assume w: "writable (mk_Tag name prefix ns nss as nodes)" and p: "between p"
      "p_state p = TagOpening" "p_tag p = []" "p_cdata p = []"
    have head: "writable_head name prefix as" and nodes: "list_all writable_node nodes"
      using w by (auto simp: list_all_iff)
    obtain h where h: "consumes p (name_xml prefix name @ concat (map Attribute_xml as)) h"
      "has_head name prefix as h" "p_tagPrefix h \<noteq> ''stream''" "no_attribute h" "p_preamble h = 0"
      "p_state h = TagNameCollect \<or> p_state h = TagNameAlmostComplete"
      "p_handled h = p_handled p" "p_open h = p_open p" "p_cdata h = p_cdata p"
      by (rule reads_head [OF head p(1-3)])
    have name: "name \<noteq> []" using head by (auto simp: writable_head_def name_ok_def)
    show "\<exists>q. consumes p (tl (Tag_xml (mk_Tag name prefix ns nss as nodes))) q
      \<and> received (parsed (mk_Tag name prefix ns nss as nodes)) (p_open p) (p_handled p) q"
    proof (cases "nodes = []")
      case True
      obtain q where "consumes h ''/>'' q"
        "received (read_head name prefix as []) (p_open p) (p_handled p) q"
        using reads_empty_end [OF head h(2-5) _ h(6)] h(7-9) p(4) by auto
      with reads_trans [OF h(1)] name True show ?thesis by (auto simp: text_node_def)
    next
      case False
      obtain i where i: "consumes h ''>'' i" "between i" "p_state i = TagInside" "p_cdata i = []"
        "p_open i = read_head name prefix as [] # p_open h" "p_handled i = p_handled h"
        using reads_head_end [OF head h(2-5) _ h(6)] h(9) p(4) by auto
      have "inside i (read_head name prefix as []) (p_open p)"
        using i h(8) by (simp add: inside_def)
      with reads_nodes [OF _ nodes this] mk_Tag.IH obtain j t' where
        j: "consumes i (concat (map node_xml nodes)) j" "inside j t' (p_open p)" "p_handled j = p_handled p"
          "append_nodes (text_node (p_cdata j)) t' = parsed (mk_Tag name prefix ns nss as nodes)"
        using i(4,6) h(7) by (auto simp: list_all_iff)
      let ?t = "parsed (mk_Tag name prefix ns nss as nodes)"
      let ?k = "j\<lparr>p_open := ?t # p_open p, p_state := TagOpening, p_tag := [], p_cdata := []\<rparr>"
      have k: "consumes j ''<'' ?k" "between ?k"
        using reads_bracket [OF j(2)] j(2,4) by (simp_all add: inside_def between_def no_attribute_def)
      obtain q where q: "consumes ?k (''/'' @ name_xml prefix name @ ''>'') q"
        "received ?t (p_open p) (p_handled p) q"
        by (rule reads_closing_tag [of ?t ?k "p_open p"])
          (use head k(2) j(3) in \<open>auto simp: writable_head_def read_head_def\<close>)
      have "tl (Tag_xml (mk_Tag name prefix ns nss as nodes)) =
        (name_xml prefix name @ concat (map Attribute_xml as)) @ ''>'' @ concat (map node_xml nodes)
          @ ''<'' @ ''/'' @ name_xml prefix name @ ''>''"
        using name False by simp
      with reads_trans [OF h(1) reads_trans [OF i(1) reads_trans [OF j(1) reads_trans [OF k(1) q(1)]]]] q(2)
      show ?thesis by (simp only:) blast
    qed
  qed
qed (simp_all add: node_read_def)

section \<open>Stanzas\<close>

text \<open>The parser outside of every element.\<close>

definition idle :: "Parser \<Rightarrow> bool" where
  "idle p \<longleftrightarrow> between p \<and> p_open p = [] \<and> p_cdata p = []
     \<and> (p_state p = Initial \<and> p_tag p = [] \<or> p_state p = InterTag)"

lemma idle_new: "idle Parser_new"
  by (simp add: idle_def between_def no_attribute_def Parser_new_def)

lemma reads_stanza:
  assumes "writable t" "idle p"
  obtains q where "consumes p (Tag_xml t) q" "idle q" "p_handled q = p_handled p @ [parsed t]"
proof -
  let ?p = "p\<lparr>p_state := TagOpening, p_tag := []\<rparr>"
  have "parse_char CHR ''<'' d p = Next 0 ?p" for d
    using assms(2) by (auto simp: idle_def parse_char_def step_Initial_def step_InterTag_def Let_def
        isWhitespace_def intro!: Parser.equality)
  then have bracket: "consumes p ''<'' ?p" by (rule reads_char)
  have "between ?p" using assms(2) by (simp add: idle_def between_def no_attribute_def)
  then obtain q where "consumes ?p (tl (Tag_xml t)) q" "received (parsed t) [] (p_handled p) q"
    using element_read_all [of t] assms by (auto simp: element_read_def idle_def)
  moreover from this have "idle q" "p_handled q = p_handled p @ [parsed t]"
    by (simp_all add: received_def idle_def)
  moreover have "consumes p (Tag_xml t) q" if "consumes ?p (tl (Tag_xml t)) q" for q
    using reads_trans [OF bracket that] Tag_xml_bracket [OF assms(1)] by simp
  ultimately show ?thesis using that by blast
qed

lemma reads_stanzas:
  "list_all writable ts \<Longrightarrow> idle p \<Longrightarrow>
     \<exists>q. consumes p (concat (map Tag_xml ts)) q \<and> idle q \<and> p_handled q = p_handled p @ map parsed ts"
proof (induction ts arbitrary: p)
  case Nil
  then show ?case by (intro exI [of _ p]) simp
next
  case (Cons t ts)
  then obtain q where q: "consumes p (Tag_xml t) q" "idle q" "p_handled q = p_handled p @ [parsed t]"
    using reads_stanza [of t p] by auto
  with Cons show ?case using reads_trans [OF q(1)] by fastforce
qed

text \<open>However the connection cuts what was written.\<close>

lemma feeds_stanzas:
  assumes "list_all writable ts" "idle p" "p_backBuffer p = []" "concat ds = concat (map Tag_xml ts)"
  shows "\<exists>q. feeds ds p = (True, q) \<and> idle q \<and> p_handled q = p_handled p @ map parsed ts"
proof (cases ds)
  case Nil
  then have "concat (map Tag_xml ts) = []" using assms(4) by simp
  then have "ts = []"
    using assms(1) Tag_xml_not_Nil by (cases ts) auto
  with Nil assms(2) show ?thesis by simp
next
  case (Cons d es)
  from reads_stanzas [OF assms(1,2)] feeds_run [of d es p] assms(3,4) Cons show ?thesis
    by (auto simp: backBuffer_same dest: reads_run)
qed

text \<open>What the parser makes of an element is written as the element was.\<close>

lemma node_xml_join:
  "concat (map node_xml (join_texts s ns)) = escape s @ concat (map node_xml ns)"
  by (induction s ns rule: join_texts.induct) (simp_all add: text_node_def appendEscaped_eq escape_append)

lemma join_texts_Nil:
  "join_texts s ns = [] \<longleftrightarrow> s = [] \<and> list_all (\<lambda>n. n = TypeString []) ns"
  by (induction s ns rule: join_texts.induct) (auto simp: text_node_def)

lemma Tag_xml_parsed: "writable t \<Longrightarrow> Tag_xml (parsed t) = Tag_xml t"
  and node_xml_parsed: "writable_node n \<Longrightarrow> node_xml (parsed_node n) = node_xml n"
proof (induction t and n)
  case (mk_Tag name prefix ns nss as nodes)
  have "writable_node n" if "n \<in> set nodes" for n
    using mk_Tag.prems that by (auto simp: list_all_iff)
  then have nodes: "map (node_xml \<circ> parsed_node) nodes = map node_xml nodes"
    "\<not> list_all (\<lambda>n. parsed_node n = TypeString []) nodes \<or> nodes = []"
    using mk_Tag.IH by (auto simp: list_all_iff neq_Nil_conv) (metis Node.exhaust parsed_node.simps(1) parsed_node.simps(2) writable_node.simps(2) Node.distinct(1) Node.inject(2))
  then have "join_texts [] (map parsed_node nodes) = [] \<longleftrightarrow> nodes = []"
    by (auto simp: join_texts_Nil list_all_iff)
  moreover have "Attribute_xml (read_attribute a) = Attribute_xml a" for a
    by (simp add: Attribute_xml_def read_attribute_def)
  ultimately show ?case
    using nodes(1) by (simp add: read_head_def node_xml_join o_def cong: map_cong)
qed simp_all

end
