(* ===== verification/Gloox_Presence.thy ===== *)
theory Gloox_Presence
  imports Gloox_Roundtrip XMPP_Properties
begin

text \<open>
  Presence stanzas of the bundled XMPP library (\<open>src/gloox-1.0.20/src/presence.cpp\<close>,
  \<open>stanza.cpp\<close>, the lookup tables of \<open>util.cpp\<close>): what is read off an element, and the element
  that is written; and the way of an element from the parser to the handlers
  (\<open>ClientBase::handleTag\<close> of \<open>clientbase.cpp\<close>). The sequence number and the counters of
  stanzas are left out, and so are the extensions read off an element, which no handler of
  the bridge asks for.
\<close>

section \<open>Tables and numbers\<close>

text \<open>The position of the first entry that is the string, or the length of the table.\<close>

definition lookup_code :: "string \<Rightarrow> string list \<Rightarrow> nat" where
  "lookup_code str values = length (takeWhile (\<lambda>v. str \<noteq> v) values)"

definition lookup_string :: "nat \<Rightarrow> string list \<Rightarrow> string" where
  "lookup_string code values = (if code < length values then values ! code else [])"

function long2string_loop :: "nat \<Rightarrow> string \<Rightarrow> string" where
  "long2string_loop n out =
     (if out = [] \<or> n > 0 then long2string_loop (n div 10) (digit_char (n mod 10) # out) else out)"
  by pat_completeness auto
termination by (relation "measure (\<lambda>(n, out). n + (if out = [] then 1 else 0))") auto

declare long2string_loop.simps [simp del]

definition int2string :: "int \<Rightarrow> string" where
  "int2string n =
     (if n = 0 then ''0'' else (if n < 0 then ''-'' else '''') @ long2string_loop (nat \<bar>n\<bar>) [])"

section \<open>Stanzas\<close>

definition msgTypeStringValues :: "string list" where
  "msgTypeStringValues = [''available'', '''', '''', '''', '''', ''unavailable'', ''probe'', ''error'']"

definition msgShowStringValues :: "string list" where
  "msgShowStringValues = ['''', ''chat'', ''away'', ''dnd'', ''xa'', '''', '''', '''']"

text \<open>The values of the enumeration, in both directions.\<close>

definition PresenceType_values :: "PresenceType list" where
  "PresenceType_values = [Presence_Available, Presence_Chat, Presence_Away, Presence_DND, Presence_XA,
     Presence_Unavailable, Presence_Probe, Presence_Error, Presence_Invalid]"

definition PresenceType_code :: "PresenceType \<Rightarrow> nat" where
  "PresenceType_code t = length (takeWhile (\<lambda>u. u \<noteq> t) PresenceType_values)"

definition typeString :: "PresenceType \<Rightarrow> string" where
  "typeString t = lookup_string (PresenceType_code t) msgTypeStringValues"

definition showString :: "PresenceType \<Rightarrow> string" where
  "showString t = lookup_string (PresenceType_code t) msgShowStringValues"

text \<open>A text and its translations; a map that is not there is empty.\<close>

definition setLang_text :: "string \<Rightarrow> string \<Rightarrow> (string, string) std_map \<times> string \<Rightarrow>
    (string, string) std_map \<times> string" where
  "setLang_text data xmllang = (\<lambda>(m, defaultLang).
     if data = [] then (m, defaultLang)
     else if xmllang = [] then (m, data)
     else (map_assign xmllang data m, defaultLang))"

definition setLang :: "Tag \<Rightarrow> (string, string) std_map \<times> string \<Rightarrow>
    (string, string) std_map \<times> string" where
  "setLang tag = setLang_text (cdata tag) (findAttribute ''xml:lang'' tag)"

definition findLang :: "(string, string) std_map \<Rightarrow> string \<Rightarrow> string \<Rightarrow> string" where
  "findLang m defaultData lang =
     (if m \<noteq> [] \<and> lang \<noteq> ''default''
      then (case map_find m lang of Some s \<Rightarrow> s | None \<Rightarrow> defaultData) else defaultData)"

definition getLangs :: "(string, string) std_map \<Rightarrow> string \<Rightarrow> string \<Rightarrow> Tag \<Rightarrow> Tag" where
  "getLangs m defaultData name tag =
     (let t = (if defaultData \<noteq> [] then addChild (Tag_new name defaultData) tag else tag)
      in foldl (\<lambda>t (lang, s). addChild (snd (setCData s (Tag_new_attribute name ''xml:lang'' lang))) t) t m)"

section \<open>Reading a presence\<close>

text \<open>The sender of a stanza.\<close>

definition Stanza_from :: "Tag \<Rightarrow> JID" where
  "Stanza_from tag = snd (setJID (findAttribute ''from'' tag) JID_default)"

definition Presence_subtype :: "Tag \<Rightarrow> PresenceType" where
  "Presence_subtype tag =
     (let type = findAttribute ''type'' tag;
          subtype = (if type = [] then Presence_Available
                     else PresenceType_values ! lookup_code type msgTypeStringValues)
      in if subtype = Presence_Available
         then (case findChild ''show'' tag of
                 None \<Rightarrow> subtype
               | Some t \<Rightarrow> PresenceType_values ! lookup_code (cdata t) msgShowStringValues)
         else subtype)"

text \<open>
  The loop over the children: translations, text and priority. The C standard leaves \<open>atoi\<close>
  of a number outside \<open>int\<close> open; the platform's library documents that it gives the nearest
  bound, and that is \<open>strtol\<close> of \<open>CString\<close>, both types having 32 bits.
\<close>

definition Presence_child ::
    "Tag \<Rightarrow> ((string, string) std_map \<times> string) \<times> int \<Rightarrow> ((string, string) std_map \<times> string) \<times> int" where
  "Presence_child c = (\<lambda>(status, priority).
     if tag_name c = ''status'' then (setLang c status, priority)
     else if tag_name c = ''priority'' then (status, strtol (cdata c))
     else (status, priority))"

definition Presence_of_tag :: "Tag \<Rightarrow> Presence" where
  "Presence_of_tag tag =
     (if tag_name tag \<noteq> ''presence''
      then \<lparr>pres_from = Stanza_from tag, pres_presence = Presence_Invalid, pres_status = [], pres_priority = 0\<rparr>
      else let ((stati, status), priority) = fold Presence_child (children tag) (([], []), 0)
        in \<lparr>pres_from = Stanza_from tag, pres_presence = Presence_subtype tag,
            pres_status = findLang stati status ''default'', pres_priority = priority\<rparr>)"

section \<open>Writing a presence\<close>

text \<open>With the receiver, the translations of the text and the elements of the extensions.\<close>

definition Presence_tag ::
    "JID \<Rightarrow> (string, string) std_map \<Rightarrow> Tag list \<Rightarrow> Presence \<Rightarrow> Tag option" where
  "Presence_tag to stati extensions p =
     (if pres_presence p = Presence_Invalid then None
      else
        let t = Tag_new ''presence'' [];
            t1 = (if j_valid to then snd (add_attribute [] ''to'' (j_full to) t) else t);
            t2 = (if j_valid (pres_from p) then snd (add_attribute [] ''from'' (j_full (pres_from p)) t1) else t1);
            type = typeString (pres_presence p);
            show = showString (pres_presence p);
            t3 = (if type \<noteq> []
                  then (if type \<noteq> ''available'' then snd (add_attribute [] ''type'' type t2) else t2)
                  else (if show \<noteq> [] then addChild (Tag_new ''show'' show) t2 else t2));
            t4 = addChild (Tag_new ''priority'' (int2string (pres_priority p))) t3;
            t5 = getLangs stati (pres_status p) ''status'' t4
        in Some (foldl (\<lambda>t e. addChild e t) t5 extensions))"

section \<open>From the parser to the handlers\<close>

datatype SMContext = CtxSMInvalid | CtxSMFailed | CtxSMEnable | CtxSMResume | CtxSMEnabled | CtxSMResumed

definition XMLNS_CLIENT :: string where "XMLNS_CLIENT = ''jabber:client''"
definition XMLNS_STREAM_TLS :: string where "XMLNS_STREAM_TLS = ''urn:ietf:params:xml:ns:xmpp-tls''"
definition XMLNS_STREAM_SASL :: string where "XMLNS_STREAM_SASL = ''urn:ietf:params:xml:ns:xmpp-sasl''"
definition XMLNS_COMPRESSION :: string where "XMLNS_COMPRESSION = ''http://jabber.org/protocol/compress''"
definition XMLNS_STREAM_MANAGEMENT :: string where "XMLNS_STREAM_MANAGEMENT = ''urn:xmpp:sm:3''"

text \<open>
  Whether \<open>Client::handleNormalNode\<close> takes an element: the result of its chain of tests. What it
  does with the elements of the negotiation is not modelled. \<open>verified\<close> is the result of
  \<open>processSASLSuccess\<close>.
\<close>

definition handleNormalNode_result :: "SMContext \<Rightarrow> bool \<Rightarrow> Tag \<Rightarrow> bool" where
  "handleNormalNode_result smContext verified tag =
     (if tag_name tag = ''features'' \<and> xmlns [] tag = XMLNS_STREAM then True
      else let name = tag_name tag; ns = findAttribute XMLNS tag in
        if name = ''proceed'' \<and> ns = XMLNS_STREAM_TLS then True
        else if name = ''failure'' then True
        else if name = ''compressed'' \<and> ns = XMLNS_COMPRESSION then True
        else if name = ''challenge'' \<and> ns = XMLNS_STREAM_SASL then True
        else if name = ''success'' \<and> ns = XMLNS_STREAM_SASL then verified
        else if name = ''enabled'' \<and> ns = XMLNS_STREAM_MANAGEMENT then True
        else if name = ''resumed'' \<and> ns = XMLNS_STREAM_MANAGEMENT \<and> smContext = CtxSMResume then True
        else if name = ''a'' \<and> ns = XMLNS_STREAM_MANAGEMENT \<and> smContext \<in> {CtxSMEnabled, CtxSMResumed} then True
        else if name = ''r'' \<and> ns = XMLNS_STREAM_MANAGEMENT then True
        else if name = ''failed'' \<and> ns = XMLNS_STREAM_MANAGEMENT then True
        else False)"

text \<open>The branch \<open>ClientBase::handleTag\<close> takes for an element.\<close>

datatype route =
    Stream_start | Stream_error | Negotiation | Iq_stanza | Message_stanza
  | Subscription_stanza | Presence_stanza | Invalid_stanza | Foreign_tag

definition handleTag_route :: "SMContext \<Rightarrow> bool \<Rightarrow> Tag \<Rightarrow> route" where
  "handleTag_route smContext verified tag =
     (if tag_name tag = ''stream'' \<and> xmlns [] tag = XMLNS_STREAM then Stream_start
      else if tag_name tag = ''error'' \<and> xmlns [] tag = XMLNS_STREAM then Stream_error
      else if handleNormalNode_result smContext verified tag then Negotiation
      else if xmlns [] tag = [] \<or> xmlns [] tag = XMLNS_CLIENT then
        (if tag_name tag = ''iq'' then Iq_stanza
         else if tag_name tag = ''message'' then Message_stanza
         else if tag_name tag = ''presence'' then
           (if findAttribute ''type'' tag \<in> {''subscribe'', ''unsubscribe'', ''subscribed'', ''unsubscribed''}
            then Subscription_stanza else Presence_stanza)
         else Invalid_stanza)
      else Foreign_tag)"

text \<open>
  An element that comes from the parser, as far as it is a presence. The other branches do not
  reach the bridge, but for a roster, which is \<open>roster_arrives\<close>.
\<close>

definition deliver_presence :: "SMContext \<Rightarrow> bool \<Rightarrow> int \<Rightarrow> Tag \<Rightarrow> (bridge, unit) cpp" where
  "deliver_presence smContext verified now tag =
     (if handleTag_route smContext verified tag = Presence_stanza
      then notifyPresenceHandlers now (Presence_of_tag tag) else ret ())"

section \<open>The parser and the presence\<close>

text \<open>The numbers of the library are those of \<open>to_string\<close>.\<close>

lemma long2string_loop_digits: "0 < n \<Longrightarrow> long2string_loop n out = nat_to_string n @ out"
proof (induction n arbitrary: out rule: less_induct)
  case (less n)
  have step: "long2string_loop n out = long2string_loop (n div 10) (digit_char (n mod 10) # out)"
    using less.prems by (subst long2string_loop.simps) simp
  show ?case
  proof (cases "n < 10")
    case True
    then show ?thesis
      by (simp add: step long2string_loop.simps [of 0 "_ # _"] nat_to_string.simps [of n])
  next
    case False
    then show ?thesis
      using less.IH [of "n div 10"] by (simp add: step nat_to_string.simps [of n])
  qed
qed

lemma int2string_to_string: "int2string n = to_string n"
proof -
  have "nat_to_string 0 = ''0''" by code_simp
  then show ?thesis
    by (auto simp: int2string_def to_string_def long2string_loop_digits)
qed

text \<open>What a stanza is read from is the same in the element that comes back.\<close>

lemma cdata_join: "concat (map (\<lambda>n. case n of TypeTag _ \<Rightarrow> [] | TypeString s \<Rightarrow> s) (join_texts s ns))
    = s @ concat (map (\<lambda>n. case n of TypeTag _ \<Rightarrow> [] | TypeString s \<Rightarrow> s) ns)"
  by (induction s ns rule: join_texts.induct) (auto simp: text_node_def)

lemma children_join: "concat (map (\<lambda>n. case n of TypeTag c \<Rightarrow> [c] | TypeString _ \<Rightarrow> []) (join_texts s ns))
    = concat (map (\<lambda>n. case n of TypeTag c \<Rightarrow> [c] | TypeString _ \<Rightarrow> []) ns)"
  by (induction s ns rule: join_texts.induct) (auto simp: text_node_def)

lemma tag_name_parsed [simp]: "tag_name (parsed t) = tag_name t"
  by (cases t) (simp add: read_head_def)

lemma cdata_parsed [simp]: "cdata (parsed t) = cdata t"
proof (cases t)
  case (mk_Tag name prefix ns nss as nodes)
  have "(case parsed_node n of TypeTag _ \<Rightarrow> [] | TypeString s \<Rightarrow> s)
      = (case n of TypeTag _ \<Rightarrow> [] | TypeString s \<Rightarrow> s)" for n
    by (cases n) simp_all
  with mk_Tag show ?thesis by (simp add: cdata_def read_head_def cdata_join o_def)
qed

lemma children_parsed [simp]: "children (parsed t) = map parsed (children t)"
proof (cases t)
  case (mk_Tag name prefix ns nss as nodes)
  have "(case parsed_node n of TypeTag c \<Rightarrow> [c] | TypeString _ \<Rightarrow> [])
      = map parsed (case n of TypeTag c \<Rightarrow> [c] | TypeString _ \<Rightarrow> [])" for n
    by (cases n) simp_all
  with mk_Tag show ?thesis
    by (simp add: children_def read_head_def children_join o_def map_concat)
qed

lemma find_map: "find P (map f xs) = map_option f (find (P \<circ> f) xs)"
  by (induction xs) auto

lemma read_attribute_simps [simp]:
  "at_name (read_attribute a) = at_name a" "at_value (read_attribute a) = at_value a"
  "at_prefix (read_attribute a) = at_prefix a"
  by (simp_all add: read_attribute_def)

lemma findAttribute_parsed [simp]: "findAttribute name (parsed t) = findAttribute name t"
  by (cases t) (simp add: findAttribute_def read_head_def find_map o_def option.case_eq_if option.map_sel)

lemma findChild_parsed [simp]: "findChild name (parsed t) = map_option parsed (findChild name t)"
  by (simp add: findChild_def find_map o_def)

lemma Presence_of_tag_parsed: "Presence_of_tag (parsed t) = Presence_of_tag t"
proof -
  have "setLang (parsed c) = setLang c" for c by (simp add: setLang_def)
  then have "Presence_child (parsed c) = Presence_child c" for c
    by (simp add: Presence_child_def cong: if_cong)
  then have "fold Presence_child (children (parsed t)) = fold Presence_child (children t)"
    by (simp add: fold_map o_def)
  moreover have "Presence_subtype (parsed t) = Presence_subtype t"
    by (simp add: Presence_subtype_def Let_def option.case_eq_if option.map_sel)
  ultimately show ?thesis by (simp add: Presence_of_tag_def Stanza_from_def Let_def)
qed

lemma xmlns_parsed:
  assumes "writable t" "tag_prefix t = []"
  shows "xmlns [] (parsed t) = findAttribute XMLNS t"
proof (cases t)
  case (mk_Tag name prefix ns nss as nodes)
  have name: "is_default a \<longleftrightarrow> at_name a = XMLNS" if "a \<in> set as" for a
    using assms(1) that mk_Tag
    by (auto simp: writable_head_def list_all_iff is_default_def writable_attribute_def)
  show ?thesis
  proof (cases "find (\<lambda>a. at_name a = XMLNS) as")
    case None
    then have "filter is_default as = []"
      using name by (auto simp: find_None_iff filter_empty_conv)
    with None mk_Tag assms(2) show ?thesis
      by (simp add: xmlns_def read_head_def hasAttribute_def findAttribute_def find_map o_def fold_default_none)
  next
    case (Some a)
    with mk_Tag assms(2) show ?thesis
      by (simp add: xmlns_def read_head_def hasAttribute_def findAttribute_def find_map o_def)
  qed
qed

text \<open>A presence among the elements, and its way to the handlers of a session.\<close>

definition presence_element :: "Tag \<Rightarrow> bool" where
  "presence_element t \<longleftrightarrow> writable t \<and> tag_name t = ''presence'' \<and> tag_prefix t = []
     \<and> findAttribute XMLNS t \<in> {[], XMLNS_CLIENT}
     \<and> findAttribute ''type'' t \<notin> {''subscribe'', ''unsubscribe'', ''subscribed'', ''unsubscribed''}"

lemma presence_route:
  "presence_element t \<Longrightarrow> handleTag_route smContext verified (parsed t) = Presence_stanza"
  by (auto simp: presence_element_def handleTag_route_def handleNormalNode_result_def Let_def xmlns_parsed)

lemma notify_session_handlers:
  assumes "br_client b = Some c" "cl_presenceJidHandlers c = []"
    "cl_presenceHandlers c = [Roster_handler, Bridge_handler a begin_time]"
  shows "notifyPresenceHandlers now presence b =
    (let b1 = b\<lparr>br_client := Some (c\<lparr>cl_rosterManager :=
           map_option (RosterManager_handlePresence presence) (cl_rosterManager c)\<rparr>)\<rparr>
     in case handlePresence now begin_time presence (peer_session (br_peer b)) of
       (r, s) \<Rightarrow> (r, b1\<lparr>br_peer := (br_peer b)\<lparr>peer_session := s\<rparr>\<rparr>))"
  using assms
  by (cases "handlePresence now begin_time presence (peer_session (br_peer b))")
    (auto simp: notifyPresenceHandlers_def and_then_def get_state_def run_presence_handler_def modify_def
      zoom_def ret_def Let_def split: sum.splits)

section \<open>A presence that is written\<close>

lemma setJID_default: "snd (setJID s JID_default) = JID_new s"
proof (cases "s = []")
  case True
  then show ?thesis by (simp add: JID_new_def setJID_def)
next
  case False
  have user: "prep_username u (JID_default\<lparr>j_valid := v\<rparr>) = prep_username u JID_default" for u v
    by (simp add: prep_username_def split: option.split)
  have server: "prep_server ((JID_default\<lparr>j_valid := v\<rparr>)\<lparr>j_serverRaw := x\<rparr>)
      = prep_server (JID_default\<lparr>j_serverRaw := x\<rparr>)" for x v
    by (simp add: prep_server_def split: option.split)
  show ?thesis
  proof (cases "str_find ''@'' s")
    case None
    then show ?thesis using False
      unfolding JID_new_def setJID_def Let_def None option.case server by simp
  next
    case (Some a)
    then show ?thesis using False
      unfolding JID_new_def setJID_def Let_def Some option.case user by simp
  qed
qed

lemma Stanza_from_eq: "Stanza_from t = JID_new (findAttribute ''from'' t)"
  by (simp add: Stanza_from_def setJID_default)

lemma checkValid_append [simp]:
  "checkValidXMLChars (a @ b) \<longleftrightarrow> checkValidXMLChars a \<and> checkValidXMLChars b"
  by (simp add: checkValidXMLChars_def)

lemma digit_valid: "is_digit c \<Longrightarrow> valid_xml_char c"
  by (auto simp: is_digit_def valid_xml_char_def Let_def)

lemma to_string_valid: "checkValidXMLChars (to_string n) \<and> to_string n \<noteq> []"
proof -
  have "checkValidXMLChars (nat_to_string m)" for m
    using nat_to_string_digits digit_valid by (auto simp: checkValidXMLChars_def list_all_iff)
  moreover have "valid_xml_char CHR ''-''" by code_simp
  moreover have "nat_to_string m \<noteq> []" for m by (subst nat_to_string.simps) simp
  ultimately show ?thesis by (simp add: to_string_def checkValidXMLChars_def)
qed

text \<open>The element of a presence without translations and extensions.\<close>

definition plain_attribute :: "string \<Rightarrow> string \<Rightarrow> Attribute" where
  "plain_attribute name v =
     \<lparr>at_hasParent = False, at_name = name, at_value = v, at_xmlns = [], at_prefix = []\<rparr>"

definition text_element :: "string \<Rightarrow> string \<Rightarrow> Tag" where
  "text_element name s = mk_Tag name [] [] [] [] (text_node s)"

definition presence_attributes :: "JID \<Rightarrow> Presence \<Rightarrow> Attribute list" where
  "presence_attributes to p =
     (if j_valid to \<and> j_full to \<noteq> [] then [plain_attribute ''to'' (j_full to)] else []) @
     (if j_valid (pres_from p) \<and> j_full (pres_from p) \<noteq> []
      then [plain_attribute ''from'' (j_full (pres_from p))] else []) @
     (if pres_presence p \<in> {Presence_Unavailable, Presence_Probe, Presence_Error}
      then [plain_attribute ''type'' (typeString (pres_presence p))] else [])"

definition presence_nodes :: "Presence \<Rightarrow> Tag list" where
  "presence_nodes p =
     (if pres_presence p \<in> {Presence_Chat, Presence_Away, Presence_DND, Presence_XA}
      then [text_element ''show'' (showString (pres_presence p))] else []) @
     [text_element ''priority'' (to_string (pres_priority p))] @
     (if pres_status p \<noteq> [] then [text_element ''status'' (pres_status p)] else [])"

definition presence_written :: "JID \<Rightarrow> Presence \<Rightarrow> Tag" where
  "presence_written to p = mk_Tag ''presence'' [] [] [] (presence_attributes to p)
     (map TypeTag (presence_nodes p))"

lemma kind_strings:
  "typeString t = (case t of Presence_Available \<Rightarrow> ''available'' | Presence_Unavailable \<Rightarrow> ''unavailable''
     | Presence_Probe \<Rightarrow> ''probe'' | Presence_Error \<Rightarrow> ''error'' | _ \<Rightarrow> [])"
  "showString t = (case t of Presence_Chat \<Rightarrow> ''chat'' | Presence_Away \<Rightarrow> ''away''
     | Presence_DND \<Rightarrow> ''dnd'' | Presence_XA \<Rightarrow> ''xa'' | _ \<Rightarrow> [])"
  by (cases t; hypsubst; code_simp)+

lemma names_valid:
  "checkValidXMLChars ''presence''" "checkValidXMLChars ''to''" "checkValidXMLChars ''from''"
  "checkValidXMLChars ''type''" "checkValidXMLChars ''show''" "checkValidXMLChars ''priority''"
  "checkValidXMLChars ''status''" "checkValidXMLChars ''chat''" "checkValidXMLChars ''away''"
  "checkValidXMLChars ''dnd''" "checkValidXMLChars ''xa''" "checkValidXMLChars ''unavailable''"
  "checkValidXMLChars ''probe''" "checkValidXMLChars ''error''"
  by code_simp+

lemma Tag_new_text:
  "checkValidXMLChars name \<Longrightarrow> checkValidXMLChars s \<Longrightarrow> Tag_new name s = text_element name s"
  by (simp add: Tag_new_def addCData_def text_element_def text_node_def set_nodes_def)

text \<open>An attribute of a new name is added at the end.\<close>

lemma add_plain_attribute:
  assumes "checkValidXMLChars name" "checkValidXMLChars v" "name \<noteq> []"
    "name \<notin> at_name ` set as"
  shows "snd (add_attribute around name v (mk_Tag n p ns nss as nodes)) =
    mk_Tag n p ns nss (as @ (if v = [] then [] else [plain_attribute name v])) nodes"
proof -
  have last: "replace_attribute same a bs = bs @ [a]" if "\<forall>b\<in>set bs. \<not> same b" for same a bs
    using that by (induction bs) auto
  have "Attribute_new name v [] = plain_attribute name v"
    using assms(1,2) by (simp add: Attribute_new_def Let_def plain_attribute_def)
  moreover have "at_name a \<noteq> name" if "a \<in> set as" for a
    using assms(4) that by auto
  ultimately show ?thesis
    using assms(3) last [of as]
    by (auto simp: add_attribute_def addAttribute_def set_attribs_def plain_attribute_def)
qed

lemma presence_tag_written:
  assumes "checkValidXMLChars (j_full to)" "checkValidXMLChars (j_full (pres_from p))"
    "checkValidXMLChars (pres_status p)" "pres_presence p \<noteq> Presence_Invalid"
  shows "Presence_tag to [] [] p = Some (presence_written to p)"
proof -
  have new: "Tag_new ''presence'' [] = mk_Tag ''presence'' [] [] [] [] []"
    using names_valid(1) by (simp add: Tag_new_def addCData_def)
  have child: "addChild c (mk_Tag n pr ns nss as nodes) = mk_Tag n pr ns nss as (nodes @ [TypeTag c])"
    for c n pr ns nss as nodes
    by (simp add: append_nodes_def set_nodes_def)
  note texts = Tag_new_text [OF names_valid(5)] Tag_new_text [OF names_valid(7) assms(3)]
    Tag_new_text [OF names_valid(6) to_string_valid [THEN conjunct1]]
  note attribs = add_plain_attribute [OF names_valid(2) assms(1)] add_plain_attribute [OF names_valid(3) assms(2)]
    add_plain_attribute [OF names_valid(4)]
  show ?thesis
    using assms(4)
    by (cases "pres_presence p"; cases "j_valid to"; cases "j_valid (pres_from p)")
      (simp_all add: Presence_tag_def Let_def new texts attribs kind_strings int2string_to_string child
        getLangs_def presence_written_def presence_attributes_def presence_nodes_def plain_attribute_def
        names_valid del: append_nodes_simps(3))
qed

lemma writable_presence:
  assumes "checkValidXMLChars (j_full to)" "checkValidXMLChars (j_full (pres_from p))"
    "checkValidXMLChars (pres_status p)"
  shows "writable (presence_written to p)"
proof -
  have names: "name_ok ''presence''" "name_ok ''to''" "name_ok ''from''" "name_ok ''type''"
    "name_ok ''show''" "name_ok ''priority''" "name_ok ''status''"
    by code_simp+
  have attribute: "writable_attribute (plain_attribute name v) \<longleftrightarrow> name_ok name \<and> checkValidXMLChars v"
    if "name \<noteq> XMLNS" for name v
    using that by (simp add: writable_attribute_def plain_attribute_def)
  have child: "writable (text_element name s)" if "name_ok name" "name \<noteq> ''stream''" "checkValidXMLChars s" for name s
    using that by (simp add: text_element_def text_node_def writable_head_def)
  have kinds: "checkValidXMLChars (typeString t)" "checkValidXMLChars (showString t)" for t
    by (cases t; simp add: kind_strings names_valid; code_simp)+
  have default: "\<not> is_default (plain_attribute name v)" if "name \<noteq> XMLNS" for name v
    using that by (simp add: is_default_def plain_attribute_def)
  show ?thesis
    using assms names kinds to_string_valid
    by (simp add: presence_written_def presence_attributes_def presence_nodes_def writable_head_def
        attribute child default XMLNS_def)
qed

text \<open>Read again, it is the presence that was written.\<close>

lemma Presence_of_written:
  assumes "jid_parts u s r" "pres_from p = JID_new (jid_text u s r)"
    "pres_presence p \<noteq> Presence_Invalid" "LONG_MIN \<le> pres_priority p" "pres_priority p \<le> LONG_MAX"
  shows "Presence_of_tag (presence_written to p) = p"
proof -
  let ?t = "presence_written to p"
  have from_jid: "pres_from p = JID_new (j_full (pres_from p))" "j_valid (pres_from p)"
    using assms(1,2) by (simp_all add: JID_new_text [OF assms(1)])
  have "findAttribute ''from'' ?t = j_full (pres_from p)"
    using from_jid(2)
    by (auto simp: presence_written_def presence_attributes_def findAttribute_def plain_attribute_def)
  then have sender: "Stanza_from ?t = pres_from p"
    using from_jid(1) by (simp add: Stanza_from_eq)
  have attrib: "findAttribute ''type'' ?t =
      (if pres_presence p \<in> {Presence_Unavailable, Presence_Probe, Presence_Error}
       then typeString (pres_presence p) else [])"
    by (auto simp: presence_written_def presence_attributes_def findAttribute_def plain_attribute_def)
  have kids: "children ?t = presence_nodes p"
    by (simp add: presence_written_def children_def o_def)
  have elem: "cdata (text_element name s) = s" "tag_name (text_element name s) = name"
    "findAttribute a (text_element name s) = []" for a name s
    by (simp_all add: text_element_def text_node_def cdata_def findAttribute_def)
  have show_child: "findChild ''show'' ?t =
      (if pres_presence p \<in> {Presence_Chat, Presence_Away, Presence_DND, Presence_XA}
       then Some (text_element ''show'' (showString (pres_presence p))) else None)"
    by (auto simp: findChild_def kids presence_nodes_def elem)
  have kind: "Presence_subtype ?t = pres_presence p"
    using assms(3)
    by (cases "pres_presence p"; simp add: Presence_subtype_def attrib show_child Let_def kind_strings elem; code_simp)
  have "fold Presence_child (children ?t) (([], []), 0) = (([], pres_status p), pres_priority p)"
    using strtol_to_string [OF assms(4,5)]
    by (auto simp: kids presence_nodes_def Presence_child_def elem setLang_def setLang_text_def)
  with sender kind show ?thesis
    by (simp add: Presence_of_tag_def findLang_def presence_written_def)
qed

end
