(* ===== verification/Gloox_Properties.thy ===== *)
theory Gloox_Properties
  imports Gloox_Presence
begin

text \<open>
  The contracts of the XML layer: the parser does not depend on how its input is cut, and it
  reads back what \<open>Tag_xml\<close> writes; and what the bytes of a presence come to.
\<close>

text \<open>
  C22. The parser is a function of the bytes: fed in any pieces, it gives the verdict and ends
  in the state (open elements, names and texts half read, data put back) it has when all bytes
  come at once, also when the input is wrong and also when a piece ends within a character
  reference or a CDATA bracket.
\<close>

theorem feed_in_pieces: "feeds (d # ds) p = feeds [d @ concat ds] p"
  unfolding feeds_accepts by (rule xml.accepts_recut) simp

lemma stanzas_back:
  assumes "list_all writable ts" "concat ds = concat (map Tag_xml ts)"
  shows "\<exists>q. feeds ds Parser_new = (True, q) \<and> p_handled q = map parsed ts"
proof -
  have new: "p_backBuffer Parser_new = []" "p_handled Parser_new = []"
    by (simp_all add: Parser_new_def)
  from feeds_stanzas [OF assms(1) idle_new new(1) assms(2)] new(2) show ?thesis by auto
qed

text \<open>
  C25. What is written is read back. Elements with proper names, attributes and texts, written
  one behind the other and received in any pieces, reach the handler in order, each as the
  parser represents it; written again, it is the text of the element it came from.
\<close>

theorem stanzas_come_back:
  assumes "list_all writable ts" "concat ds = concat (map Tag_xml ts)"
  shows "\<exists>q. feeds ds Parser_new = (True, q) \<and> p_handled q = map parsed ts
    \<and> map Tag_xml (p_handled q) = map Tag_xml ts"
  using stanzas_back [OF assms] assms(1) by (force simp: list_all_iff Tag_xml_parsed)

definition demo_stanzas :: "Tag list" where
  "demo_stanzas =
     [mk_Tag ''presence'' [] [] [] [\<lparr>at_hasParent = False, at_name = ''from'', at_value = ''a@b/<c>'',
          at_xmlns = [], at_prefix = []\<rparr>]
        [TypeTag (mk_Tag ''show'' [] [] [] [] [TypeString ''away'']),
         TypeTag (mk_Tag ''status'' [] [] [] [] [TypeString ''fish & '', TypeString ''chips''])],
      mk_Tag ''q'' ''x'' [] [] [\<lparr>at_hasParent = False, at_name = ''x'', at_value = ''urn:x'',
          at_xmlns = [], at_prefix = ''xmlns''\<rparr>] []]"

definition demo_pieces :: "string list" where
  "demo_pieces =
     [''<presence from='' @ [CHR 0x27] @ ''a@b/&l'', ''t;c&gt;'' @ [CHR 0x27] @ ''><show>away</sh'',
      ''ow><status>fish &amp'', ''; chips</status></presence><x:q xmlns:x='' @ [CHR 0x27],
      ''urn:x'' @ [CHR 0x27] @ ''/>'']"

lemma stanzas_come_back_witness:
  "\<exists>q. feeds demo_pieces Parser_new = (True, q) \<and> p_handled q = map parsed demo_stanzas
    \<and> map Tag_xml (p_handled q) = map Tag_xml demo_stanzas"
  by (rule stanzas_come_back) code_simp+

text \<open>
  C23. From the bytes the XMPP server sends to the packet the messenger gets. The bytes of a
  presence element, in whatever pieces they arrive, are one element to the parser; it goes to
  the handlers of the session, and these update the roster and decide, by the sender, kind and
  text written in the element: nothing, an exception for somebody who is not in the contact
  list, or the new state of the contact and one packet.
\<close>

theorem presence_reaches_messenger:
  assumes "presence_element t" "concat ds = Tag_xml t"
    and "br_client b = Some c" "cl_presenceJidHandlers c = []"
      "cl_presenceHandlers c = [Roster_handler, Bridge_handler a begin_time]"
  shows "\<exists>q tag. feeds ds Parser_new = (True, q) \<and> p_handled q = [tag]
    \<and> deliver_presence smContext verified now tag b =
      (let presence = Presence_of_tag t; sender = j_bare (pres_from presence);
           b1 = b\<lparr>br_client := Some (c\<lparr>cl_rosterManager :=
             map_option (RosterManager_handlePresence presence) (cl_rosterManager c)\<rparr>)\<rparr>;
           s = peer_session (br_peer b)
       in if ignored presence then (Inr (), b1)
          else case map_find (s_contacts s) sender of
            None \<Rightarrow> (Inl unknown_contact, b1)
          | Some contact \<Rightarrow>
              (case emits [presence_packet (now - begin_time \<ge> 2000) presence (shown_as presence contact)]
                  (s\<lparr>s_contacts := map_adjust sender (shown_as presence) (s_contacts s)\<rparr>) of
                 (r, s') \<Rightarrow> (r, b1\<lparr>br_peer := (br_peer b)\<lparr>peer_session := s'\<rparr>\<rparr>)))"
proof -
  have same: "b1\<lparr>br_peer := (br_peer b)\<lparr>peer_session := peer_session (br_peer b)\<rparr>\<rparr> = b1"
    if "br_peer b1 = br_peer b" for b1
    using that by (metis bridge.surjective bridge.update_convs(1) peer.surjective peer.update_convs)
  have "list_all writable [t]" using assms(1) by (simp add: presence_element_def)
  with stanzas_back [of "[t]" ds] assms(2) obtain q where q: "feeds ds Parser_new = (True, q)"
    "p_handled q = [parsed t]" by auto
  have "deliver_presence smContext verified now (parsed t) b
      = notifyPresenceHandlers now (Presence_of_tag t) b"
    by (simp add: deliver_presence_def presence_route [OF assms(1)] Presence_of_tag_parsed)
  with q show ?thesis
    by (intro exI [of _ q] exI [of _ "parsed t"])
      (simp add: notify_session_handlers [OF assms(3-5)] handlePresence_run Let_def same split: option.split)
qed

text \<open>
  The library at the other end: a presence of somebody with a proper address, written by
  \<open>Presence::tag\<close> and read from the bytes, is the presence that was written.
\<close>

theorem presence_comes_back:
  assumes "jid_parts u s r" "pres_from p = JID_new (jid_text u s r)"
    "pres_presence p \<noteq> Presence_Invalid" "LONG_MIN \<le> pres_priority p" "pres_priority p \<le> LONG_MAX"
    "checkValidXMLChars (j_full to)" "checkValidXMLChars (jid_text u s r)" "checkValidXMLChars (pres_status p)"
  shows "\<exists>t. Presence_tag to [] [] p = Some t \<and> (concat ds = Tag_xml t \<longrightarrow>
    (\<exists>q tag. feeds ds Parser_new = (True, q) \<and> p_handled q = [tag] \<and> Presence_of_tag tag = p))"
proof -
  have sender: "checkValidXMLChars (j_full (pres_from p))"
    using assms(7) by (simp add: assms(2) JID_new_text [OF assms(1)])
  have "\<exists>q tag. feeds ds Parser_new = (True, q) \<and> p_handled q = [tag] \<and> Presence_of_tag tag = p"
    if "concat ds = Tag_xml (presence_written to p)"
    using stanzas_back [of "[presence_written to p]" ds] that
      writable_presence [OF assms(6) sender assms(8)] Presence_of_written [OF assms(1-5)]
    by (auto simp: Presence_of_tag_parsed)
  then show ?thesis
    using presence_tag_written [OF assms(6) sender assms(8,3)] by auto
qed

definition demo_presence :: Tag where
  "demo_presence = mk_Tag ''presence'' [] [] []
     [\<lparr>at_hasParent = False, at_name = ''from'', at_value = ''bob@host/home'', at_xmlns = [], at_prefix = []\<rparr>]
     [TypeTag (mk_Tag ''show'' [] [] [] [] [TypeString ''dnd'']),
      TypeTag (mk_Tag ''status'' [] [] [] [] [TypeString ''R&D''])]"

definition demo_presence_pieces :: "string list" where
  "demo_presence_pieces = [''<presence from='' @ [CHR 0x27] @ ''bob@ho'', ''st/home'' @ [CHR 0x27],
     ''><show>dnd</show><status>R&a'', ''mp;D</status></presence>'']"

definition demo_contact :: ContactInfo where
  "demo_contact = ContactInfo_default False ''bob@host'' ''Friends'' Linked"

definition demo_client :: client where
  "demo_client = (ExtendedClient_new (JID_new ''ann@host/giblet'') ''password'')
     \<lparr>cl_presenceHandlers := [Roster_handler, Bridge_handler 1 0]\<rparr>"

definition demo_session_bridge :: bridge where
  "demo_session_bridge = demo_bridge
     \<lparr>br_peer := (br_peer demo_bridge)\<lparr>peer_session :=
        (peer_session (br_peer demo_bridge))\<lparr>s_contacts := [(''bob@host'', demo_contact)]\<rparr>\<rparr>,
      br_client := Some demo_client\<rparr>"

lemma demo_presence_read:
  "pres_presence (Presence_of_tag demo_presence) = Presence_DND"
  "pres_status (Presence_of_tag demo_presence) = ''R&D''"
  "j_bare (pres_from (Presence_of_tag demo_presence)) = ''bob@host''"
  by code_simp+

lemma presence_reaches_messenger_witness:
  "\<exists>q tag. feeds demo_presence_pieces Parser_new = (True, q) \<and> p_handled q = [tag]
    \<and> s_contacts (peer_session (br_peer (snd
        (deliver_presence CtxSMInvalid False 5000 tag demo_session_bridge)))) =
      [(''bob@host'', demo_contact\<lparr>ci_availability := Custom, ci_isBusy := True, ci_customMessage := ''R&D''\<rparr>)]"
proof -
  let ?p = "Presence_of_tag demo_presence"
  have element: "presence_element demo_presence" by code_simp
  have pieces: "concat demo_presence_pieces = Tag_xml demo_presence" by code_simp
  have client: "br_client demo_session_bridge = Some demo_client" "cl_presenceJidHandlers demo_client = []"
    "cl_presenceHandlers demo_client = [Roster_handler, Bridge_handler 1 0]"
    by (simp_all add: demo_session_bridge_def demo_client_def ExtendedClient_new_def)
  have find: "map_find (s_contacts (peer_session (br_peer demo_session_bridge))) ''bob@host'' = Some demo_contact"
    by (simp add: demo_session_bridge_def map_find_Cons)
  have shown: "\<not> ignored ?p" "shown_as ?p demo_contact =
      demo_contact\<lparr>ci_availability := Custom, ci_isBusy := True, ci_customMessage := ''R&D''\<rparr>"
    by (simp_all add: ignored_def shown_as_def demo_presence_read)
  have adjusted: "map_adjust ''bob@host'' (shown_as ?p) (s_contacts (peer_session (br_peer demo_session_bridge)))
      = [(''bob@host'', shown_as ?p demo_contact)]"
    by (simp add: demo_session_bridge_def map_adjust_def)
  from presence_reaches_messenger [OF element pieces client, of CtxSMInvalid False 5000] show ?thesis
    by (elim exE conjE)
      (simp add: Let_def demo_presence_read find adjusted shown(1) emits_managers prod.case_eq_if shown(2))
qed

text \<open>
  The text of an element can have characters that were sent outside of it: of white space
  between two elements, all but the first character.
\<close>

lemma whitespace_becomes_text:
  "\<exists>q. feeds [''<a/>   <b>x</b>''] Parser_new = (True, q)
    \<and> map (\<lambda>t. (tag_name t, cdata t)) (p_handled q) = [(''a'', ''''), (''b'', ''  x'')]"
proof -
  have "(\<lambda>(ok, q). ok \<and> map (\<lambda>t. (tag_name t, cdata t)) (p_handled q) = [(''a'', ''''), (''b'', ''  x'')])
    (feeds [''<a/>   <b>x</b>''] Parser_new)"
    by code_simp
  then show ?thesis by (auto split: prod.splits)
qed

end
