(* ===== verification/Spec2Isabelle.thy ===== *)
theory Spec2Isabelle
  imports Launcher YIMPatch_Properties XMPP_Properties Gloox_Properties
begin

text \<open>
  A verification library for Giblet, a private server for the Yahoo! Messenger 5.5/5.6
  protocol (YMSG). This file imports every theory and holds the properties of the program;
  the theories it imports hold the model and the lemmas.

  The program and its parts. A messenger connects to the server, which runs the connection in
  a select loop (\<open>ConnectionPump\<close>). The bytes of a socket are cut into packets by a
  \<open>ProtocolStream\<close> and handed to a \<open>PacketDispatcher\<close>, a map from service ids to handlers.
  At first the map holds the three handlers of the login (\<open>AuthenticationHandler\<close>); the
  last of them creates the session with its managers and installs the map of the session
  (\<open>DispatchMaps::V11\<close>). A session handler parses the payload into a \<open>Payload\<close> and gives it to
  a \<open>Processor\<close>, which calls a link (here the mock's, \<open>Protocols/YMsgMock\<close>); the link checks
  the request and triggers an event, which updates a manager (contacts, blocked contacts,
  profiles, presence) and sends the answer with a \<open>Builder\<close> through the \<open>ClientConnection\<close>.

  Theories, bottom up, and the sources they follow (under \<open>src/Protocols/YMsg\<close> unless said
  otherwise):
  \<open>Giblet_Prelude\<close>: exceptions as values, stateful functions that may throw as state
  transformers, a weakest-precondition calculus (\<open>wp\<close>, \<open>keeps\<close>, \<open>only_raises\<close>).
  \<open>CString\<close>, \<open>Std_Map\<close>: the parts of the C++ standard library the code uses (string views on
  a buffer, \<open>strtol\<close>, \<open>atoi\<close>, \<open>stol\<close>, \<open>to_string\<close>; \<open>std::map\<close> as an ordered list, under the
  contract \<open>ordered_map\<close>).
  \<open>YMsg_Types\<close>, \<open>YMsg_Header\<close>, \<open>YMsg_Parser\<close>, \<open>YMsg_Builder\<close>: \<open>Types.h\<close>, \<open>Header.h\<close> and
  \<open>Server/Header.cpp\<close>, \<open>Parser.cpp\<close>, \<open>Builder.cpp\<close> and \<open>ClientConnection.cpp\<close>.
  \<open>YMsg_Managers\<close>, \<open>YMsg_ContactManager\<close>: the managers, the blocked list under the contract
  \<open>set_like\<close>.
  \<open>YMsg_ServerBuilders\<close>, \<open>YMsg_Payloads\<close>: \<open>Server/Builders\<close> and \<open>Server/Payloads\<close>, the
  payloads under the contracts \<open>payload_reader\<close>, \<open>strict_reader\<close> and \<open>field_reader\<close>.
  \<open>YMsg_Session\<close>, \<open>YMsg_Events\<close>, \<open>YMsg_Mock\<close>, \<open>YMsg_Processors\<close>: \<open>SessionContext.cpp\<close>, the
  four event classes, \<open>src/Protocols/YMsgMock\<close>, \<open>Server/Processors\<close>. The locale
  \<open>session_invariant\<close> is what every handler keeps; its instances are the well-formedness of the
  managers and the identity of the session.
  \<open>YMsg_Dispatch\<close>, \<open>YMsg_Machine\<close>: \<open>PacketDispatcher.cpp\<close>, \<open>AuthenticationHandler.cpp\<close>,
  \<open>DispatchMaps.cpp\<close>; the peer as a state machine with its reachable states.
  \<open>YMsg_Stream\<close>: \<open>ProtocolStream.cpp\<close> and \<open>ConnectionPump.cpp\<close>.
  \<open>Session_Thread\<close>: \<open>YMSGSessionThread\<close> of \<open>src/TestHarness/TestHarness.cpp\<close>, which puts pump,
  stream, dispatcher and peer together, with C13.

  The second part of the program patches the messenger so that it talks to this server: the
  library \<open>src/CodeHook\<close> decodes the first x86 instructions of a Windows function, moves them
  to a buffer (the thunk) with their branches adjusted, and overwrites them with a jump.
  \<open>CodeHook_Types\<close>: memory, \<open>OpcodeIterator\<close>, \<open>Operand\<close>, \<open>Register\<close>, \<open>PostByte\<close>, \<open>OpcodeInfo\<close>.
  \<open>CodeHook_Tables\<close>: \<open>cpuIA32_Tables.cpp\<close>, row by row, with the start-up check.
  \<open>CodeHook_Instruction\<close>: \<open>cpuIA32_Instruction.cpp\<close> (decode, relocate, emit).
  \<open>CodeHook_Hook\<close>: \<open>cpuIA32_Assembler.cpp\<close>, \<open>cpuIA32_HookSystem.cpp\<close> and
  \<open>cpu_Win32MemoryBlock.cpp\<close>.
  \<open>CodeHook_Bytes\<close>, \<open>CodeHook_Decode\<close>, \<open>CodeHook_Relocation\<close>, \<open>CodeHook_Install\<close>: the bytes an
  instruction takes and gives, what the decoder does on every input, the loop of
  \<open>RelocateCode\<close> against a description over the list of instructions, and the two scopes of
  \<open>InstallHook\<close>. \<open>CodeHook_Properties\<close> holds the properties C27 to C35.

  The patch itself is \<open>src/YIMPatch\<close>, loaded into the messenger by \<open>src/Launcher\<close> or by the test
  harness. \<open>YIMPatch\<close>: the proxies of the five hooked functions, the eight bytes of
  \<open>CopyPatcha.cpp\<close>, \<open>InstallHooks\<close> and \<open>DllMain\<close>. \<open>YIMPatch_Facts\<close>: one hook by name, and several
  whose blocks lie apart. \<open>YIMPatch_Properties\<close>: C12 and C26. \<open>Launcher\<close>: \<open>Launcher.cpp\<close> and, of
  \<open>TestHarness.cpp\<close>, \<open>main\<close>, \<open>LaunchMessenger\<close> and the listener.

  The third part is the web pages the messenger asks for: \<open>src/YahooWeb\<close> on top of the bundled
  web server \<open>src/mongoose/mongoose.c\<close>, which calls it with a parsed request.
  \<open>Mongoose_Websocket\<close>: the handshake of a websocket (with SHA-1 and base64, which mongoose
  brings along) and the frames that are cut out of the buffer. \<open>Mongoose_Http\<close>: from the bytes of a
  request to the call of a handler, once or per frame of a websocket, and the lookup of
  headers and form variables. \<open>Mongoose_Reply\<close>: status line, headers and chunks, with a
  description of what a client reads back. \<open>Mongoose_Facts\<close>: cleaned URIs, URL encoding,
  comparison without case. \<open>YahooWeb\<close>: the hosts and their pages, put together as
  \<open>HTTPServerThread\<close> of \<open>src/TestHarness/TestHarness.cpp\<close> does. \<open>YahooWeb_Facts\<close>: the paths a
  request can open and the loop over numbered variables. \<open>YahooWeb_Properties\<close>: C37 to C39.

  The fourth part replaces the mock by a real server: \<open>src/GlooxXMPPBridgeLibrary\<close> logs in to an
  XMPP server with the bundled library \<open>src/gloox-1.0.20\<close>, shows the roster as the contact list
  and passes presences on.
  \<open>Std_String\<close>: \<open>std::string::find\<close> and \<open>replaceAll\<close> of \<open>util.cpp\<close>. \<open>Gloox_JID\<close>: addresses
  (\<open>jid.cpp\<close>, \<open>jid.h\<close>, \<open>prep.cpp\<close>). \<open>Gloox_Roster\<close>: \<open>rosteritemdata.h\<close>, \<open>resource.h\<close>,
  \<open>rosteritem.cpp\<close>, \<open>rostermanager.cpp\<close>. \<open>XMPP_Bridge\<close>: the bridge's
  \<open>AuthenticationHandler.cpp\<close>, \<open>ExtendedClient.cpp\<close> and \<open>PresenceHandler.cpp\<close>, and how
  \<open>clientbase.cpp\<close> keeps and calls presence handlers. \<open>XMPP_Facts\<close>: the contacts made of a
  roster and the effect of a presence. \<open>XMPP_Properties\<close>: the states of a bridged connection
  as a step relation, with C19, C36 and C40.
  \<open>Gloox_Tag\<close>: XML elements and escaping (\<open>tag.cpp\<close>, \<open>tag.h\<close>, \<open>util.cpp\<close>). \<open>Gloox_Parser\<close>: the
  parser of the stream (\<open>parser.cpp\<close>, \<open>parser.h\<close>), one definition for each of its states.
  \<open>Gloox_Parser_Facts\<close>: what a step decides and what it puts back,
  and the contract \<open>incremental\<close> of a reader of pieces. \<open>Gloox_Roundtrip\<close>: the
  parser on what \<open>Tag_xml\<close> writes. \<open>Gloox_Presence\<close>: presences as elements (\<open>presence.cpp\<close>,
  \<open>stanza.cpp\<close>) and the branches of \<open>ClientBase::handleTag\<close>. \<open>Gloox_Properties\<close>: C22, C23 and
  C25.

  How state and errors are modelled. A shared object is part of one state record (\<open>session\<close>,
  \<open>peer\<close>, \<open>stream\<close>, \<open>pump\<close>): in the program every class holds a pointer to the same managers
  and the same connection. A function returns its outcome and the new state, and an exception
  keeps what was done before it. \<open>Undefined\<close> marks a call the language gives no meaning to
  (a null pointer or the end of the buffer in \<open>atoi\<close> and \<open>stol\<close>, the end iterator in
  \<open>erase\<close>, a write past a fixed array of the decoder, a form variable of negative length);
  what the program does from there on, nothing is said about. It does not mark everything
  the standard calls undefined: a member no constructor sets is read as an arbitrary value,
  a union member written as another is read as the compiler lays both out, an overflow of
  \<open>atoi\<close> gives the bound the platform documents, and that the login's handlers are destroyed
  while one of them runs (the map that owns them is replaced by \<open>SetDispatchMap\<close>) is not
  modelled: what the running handler does after that uses none of its members. What the program takes from outside is a parameter: the clock, random numbers and
  uninitialized members (\<open>env\<close>), the results of \<open>recv\<close>, \<open>select\<close> and \<open>ioctlsocket\<close>. Integers
  of the wire are words; \<open>int\<close> and \<open>long\<close> have 32 bits, as on the platform. All loops are
  structural or end by a measure on the bytes left, so no fuel is needed, with three exceptions named below;
  the endless outer loop of the pump runs over a list of what the environment reports.

  In the code patcher memory is a function from 32-bit addresses to bytes, which the code
  reads and writes with wrap-around. The flag \<open>dbg\<close> tells a debug build, in which a failed
  \<open>assert\<close> ends the process (\<open>Aborted\<close>), from a release build. Windows is a parameter, a
  record of the functions called. The loop of \<open>RelocateCode\<close> has a bound, the minimum number
  of bytes asked for; it is enough because every instruction has a byte (C30). A decoder
  reads at most the 40 bytes from its start on (the window of \<open>apart\<close>); an instruction has at
  most fifteen.

  In the web pages the file system is a parameter, a map from paths to contents. The padding
  of SHA-1 has a bound of 64 turns, one for each byte of a block (\<open>sha1_pad_enough\<close>). The loop
  over \<open>key0\<close>, \<open>key1\<close> and so on has the bound \<open>request_fuel\<close>, one more than the request has
  places for a variable; C39 shows that it is enough.

  The properties. C1, C2 and C14 are about the state machine of a peer and C13 about the
  thread that runs it, C3, C4 and C21 about the stream of packets, C5 and C20
  about the formats, C6 to C10 and C15 to C18 about the requests of a client and the managers,
  C11 about the login and C24 about malformed payloads. C27 to C30
  are about moving code and installing a hook, C31 to C35 about the decoder: C33 says which
  input makes it overrun its prefix array, C35 what kind of operands it gives; C12 is about the messenger's memory after the patch and C26 about where its web
  requests go then. C37 is about the files the web pages open, C38 about the bytes of a reply and C39
  about the debug request. C19, C36 and C40 are about the bridge: what a presence does, what
  connecting comes to, and the states of a connection; C22 and C25
  about the XML it arrives as, and C23 about the whole way of a presence, from bytes to packet.

  Not modelled: log output; the reuse of a builder after \<open>Send\<close> (every caller uses a new one);
  partial writes of \<open>send\<close>, whose result the code drops; the null checks of the constructors
  and the ownership of the shared pointers; in the code patcher what is compiled only with
  \<open>INCLUDE_TESTING\<close> (\<open>Dump\<close>, \<open>DecodeStream\<close>), the floating-point setters of \<open>Operand\<close>, the
  effect of page protection on reads and writes, and the message box of \<open>HookError\<close>; of
  mongoose what no page uses: CGI, its own files, directory listings and
  passwords, the poll loop with the pings it sends to idle websockets, and the buffers' allocation
  (\<open>spool\<close> always succeeds); of gloox its
  network side, the negotiation of a stream and its IQ and message stanzas, so that rosters
  arrive as calls; of the bridge a
  second client, when a messenger authenticates twice before the first client is connected,
  and \<open>RosterListener\<close>, which prints.
\<close>

section \<open>The state machine of a peer\<close>

text \<open>
  C1. In every state packets can lead to, the dispatch map and the rest of the peer agree:
  either the login's handlers are installed, or the login is complete, the fifteen session
  processors are installed, the contact list is ordered with every contact filed under its
  own id, no id is blocked twice, and the profile manager holds the id the login gave.
\<close>

theorem peer_phases:
  assumes "reachable p"
  shows "pd_processors p = CreateDispatchMap \<or>
    (pd_processors p = V11_Create \<and> contacts_wf (s_contacts (peer_session p))
     \<and> distinct (s_blocked (peer_session p))
     \<and> pm_clientId (s_profiles (peer_session p)) = ah_clientId p
     \<and> pm_profiles (s_profiles (peer_session p)) = mock_profiles)"
  using reachable_ok [OF assms] by (auto simp: peer_ok_def logged_in_def session_wf_def)

theorem peer_phases_witness:
  "pd_processors demo_peer = V11_Create \<and> contacts_wf (s_contacts (peer_session demo_peer))"
  using peer_phases [OF demo_reachable] demo_map by simp

text \<open>
  C2. Where conversions go wrong. The services whose processors convert a field of the
  packet to a number (3 \<open>SetAway\<close>, 6 \<open>PrivateMessage\<close>, 23 \<open>MassPrivateMessage\<close>, 75
  \<open>ServiceOperation\<close>) can, in every state after the login, be made to hand \<open>atoi\<close> or \<open>stol\<close> a
  null pointer or a text without an end; no packet for another service can, and none before
  the login. The two other calls without a meaning the server's code contains are never
  reached: the contact manager does not erase the end iterator and \<open>Send\<close> does not write the
  header into a buffer that has no room for it.
\<close>

theorem conversion_faults_confined:
  assumes "reachable p"
  shows "((\<exists>env payload after e q. Dispatch env header payload after p = (Inl e, q) \<and> e \<in> conversion_faults)
      \<longleftrightarrow> pd_processors p = V11_Create \<and> serviceId header \<in> {3, 6, 23, 75})
    \<and> fst (Dispatch env header payload after p) \<noteq> Inl (Undefined ''erase of the end iterator'')
    \<and> fst (Dispatch env header payload after p) \<noteq> Inl (Undefined ''header of an empty buffer'')"
proof (intro conjI iffI)
  assume "\<exists>env payload after e q. Dispatch env header payload after p = (Inl e, q) \<and> e \<in> conversion_faults"
  then show "pd_processors p = V11_Create" "serviceId header \<in> {3, 6, 23, 75}"
    using Dispatch_undefined [OF reachable_ok [OF assms]] conversion_faults_undefined
    unfolding logged_in_def by blast+
next
  assume "pd_processors p = V11_Create \<and> serviceId header \<in> {3, 6, 23, 75}"
  then show "\<exists>env payload after e q. Dispatch env header payload after p = (Inl e, q) \<and> e \<in> conversion_faults"
    using fault_occurs by blast
next
  show "fst (Dispatch env header payload after p) \<noteq> Inl (Undefined ''erase of the end iterator'')"
    "fst (Dispatch env header payload after p) \<noteq> Inl (Undefined ''header of an empty buffer'')"
    using Dispatch_fault [of env header payload after p]
    by (auto simp: conversion_faults_def prod_eq_iff)
qed

theorem conversion_faults_confined_witness:
  "\<exists>env payload after e q. Dispatch env (demo_header 3) payload after demo_peer = (Inl e, q)
     \<and> e \<in> conversion_faults"
  using conversion_faults_confined [OF demo_reachable, of "demo_header 3"] demo_map
  by (simp add: demo_header_def)

section \<open>The stream of packets\<close>

text \<open>
  C3. Whatever way the bytes of a connection are cut into reads, what the dispatcher has been
  given is the packets at the start of the byte sequence, in order, once each, and the
  buffer holds exactly the bytes behind them. A read hands on at most one packet.
\<close>

theorem stream_delivers_frames:
  "\<exists>s. reads log_frame cs \<lparr>ps_data = [], ps_world = []\<rparr> = (Inr (), s)
    \<and> frames (concat cs) = (ps_world s @ fst (frames (ps_data s)), snd (frames (ps_data s)))
    \<and> split_frames (length (ps_world s)) (concat cs) = Some (ps_world s, ps_data s)
    \<and> length (ps_world s) \<le> length cs"
  using reads_log [of "\<lparr>ps_data = [], ps_world = []\<rparr>" "[]" cs] split_frames_frames by fastforce

text \<open>
  C4. From builder to dispatcher: the bytes \<open>Send\<close> hands out for a list of fields, received in
  any number of non-empty reads, come out as one packet with the header that was sent, the
  number of payload bytes filled in, and a payload the parser reads back as the same fields.
\<close>

theorem sent_packet_is_received:
  assumes "fits flds" "\<And>kv. kv \<in> set flds \<Longrightarrow> clean_field kv"
    and "concat cs = packet h flds" "[] \<notin> set cs"
  shows "reads log_frame cs \<lparr>ps_data = [], ps_world = []\<rparr> =
      (Inr (), \<lparr>ps_data = [],
        ps_world = [(h\<lparr>payloadSize := of_nat (length (encode_pairs flds))\<rparr>, encode_pairs flds)]\<rparr>)
    \<and> plain_pairs (fst (key_pairs (encode_pairs flds) after)) = flds
    \<and> snd (key_pairs (encode_pairs flds) after) = None"
  using reads_one [of "\<lparr>ps_data = [], ps_world = []\<rparr>" cs "packet h flds"]
    packet_HasPacket [OF assms(1), of h] key_pairs_encode_pairs [of flds after] assms(2-4)
  by simp

theorem sent_packet_is_received_witness:
  "\<exists>s. reads log_frame (let p = packet (Header_new 7 11 6 1) [(1, ''bob''), (14, ''hi'')] in [[hd p], tl p])
      \<lparr>ps_data = [], ps_world = []\<rparr> = (Inr (), s)
    \<and> map snd (ps_world s) = [encode_pairs [(1, ''bob''), (14, ''hi'')]]"
proof -
  let ?p = "packet (Header_new 7 11 6 1) [(1, ''bob''), (14, ''hi'')]"
  have 1: "fits [(1, ''bob''), (14, ''hi'')]"
    by (simp add: fits_def sizeof_RawHeader_def PaxPayloadSize_def encode_pair_def to_string_def
        nat_to_string.simps)
  have 2: "clean_field kv" if "kv \<in> set [(1, ''bob''), (14, ''hi'')]" for kv
    using that by (auto simp: LONG_MIN_def LONG_MAX_def intro!: clean_fieldI)
  have "?p \<noteq> []" "length ?p > 1" by (simp_all add: packet_def flip: length_greater_0_conv)
  then have 3: "concat [[hd ?p], tl ?p] = ?p" and 4: "[] \<notin> set [[hd ?p], tl ?p]"
    by (auto simp: Nil_tl)
  show ?thesis
    using sent_packet_is_received [OF 1 2 3 4] by (auto simp: Let_def)
qed

text \<open>
  C5. A builder's packet, exactly: when header and fields stay below 64K one packet goes out,
  the header of the connection's session followed by the fields; otherwise the one
  exception is thrown and nothing goes out.
\<close>

theorem builder_sends_exactly:
  "build_and_send (Build service attr flds) c =
     (if fits flds
      then (Inr (), c\<lparr>conn_sent := conn_sent c @ [packet (packet_header c service attr) flds]\<rparr>)
      else (Inl (Runtime_error ''Payload size too large. Not handled!''), c))"
  by (rule run_eqI) (simp add: wp SendToClient_def payload_too_large_def)

section \<open>Requests of a client\<close>

text \<open>
  C6. The decision table of \<open>AddContact\<close>. In this order: an empty group, a contact that is
  in the list already, a blocked contact and the id the mock refuses each get one result
  packet and change nothing; any other contact is entered as pending and the client gets
  the result and its new profile, and the request back when it added one of its own ids.
\<close>

theorem AddContact_decision:
  "AddContact env clientId contactId grp message s =
    (let answer = (\<lambda>g status. (131, 1, add_result_fields clientId contactId g status));
         s' = s\<lparr>s_contacts := map_insert contactId
           (ContactInfo_default (env_isInChat env) contactId grp AddPendingState) (s_contacts s)\<rparr>
     in if grp = [] then emits [answer [] GroupAlreadyExists] s
        else if IsContact contactId (s_contacts s) then emits [answer grp DuplicateContact] s
        else if IsBlocked contactId (s_blocked s) then emits [answer grp AddGeneralFailure] s
        else if contactId = ''grag'' then emits [answer grp AddContactDoesNotExist] s
        else emits ([answer grp AddPending, (85, 0, profile_fields s')]
          @ (if IsClientOrProfileId contactId (s_profiles s)
             then [(15, 3, [(1, contactId), (3, clientId), (14, message),
                            (15, to_string (env_time env))])] else [])) s')"
  by (rule run_eqI)
    (simp add: AddContact_def contact_event_defs AddContactRequestResult_swapped wp Let_def
      AddContactRequest_Build_def IsContact_def FindContact_def)

text \<open>
  C7. \<open>RemoveContact\<close>: a contact in the list is removed and the client told so and sent its
  profile; for any other id the client gets the failure status and nothing changes. The
  manager's undefined \<open>erase\<close> is never reached.
\<close>

theorem RemoveContact_decision:
  "RemoveContact clientId contactId grp s =
    (if IsContact contactId (s_contacts s)
     then let s' = s\<lparr>s_contacts := map_erase contactId (s_contacts s)\<rparr>
          in emits [(132, 1, removed_fields clientId contactId grp RemoveSuccess),
                    (85, 0, profile_fields s')] s'
     else emits [(132, 1, removed_fields clientId contactId grp RemoveGeneralFailure)] s)"
  by (rule run_eqI)
    (simp add: RemoveContact_def OnContactRemoved_def OnRemoveContactFailed_def
      ContactRemoved_Build_fields wp Let_def)

text \<open>
  C8. \<open>RenameGroup\<close>: equal names change nothing and are not answered. Otherwise every contact
  of the group moves, and the client is told with the two names in each other's place: the
  old name under key 67, which is the key of the new name, and the new one under key 65.
\<close>

theorem RenameGroup_decision:
  "RenameGroup currentName newName s =
    (if currentName = newName then (Inr (), s)
     else let s' = s\<lparr>s_contacts := rename_group currentName newName (s_contacts s)\<rparr>
          in emits [(137, 1, [(1, pm_clientId (s_profiles s)), (66, ''0''), (67, currentName),
                              (65, newName)]),
                    (85, 0, profile_fields s')] s')"
  by (rule run_eqI)
    (simp add: RenameGroup_def OnGroupRenameFailed_def OnGroupRenamed_def wp Let_def
      ContactGroupRenamed_Build_def GetClientId_def)

text \<open>
  C9. Blocking and unblocking refine insertion into and removal from the set of blocked ids:
  the list gains or loses the id, still without a repetition, no other part of the session
  changes but the one packet that goes out. Asking for what is already so is an exception,
  and the session, with the packets sent, is exactly as it was.
\<close>

theorem blocking_refines_set:
  assumes "distinct (s_blocked s)"
  shows "if contactId \<in> set (s_blocked s)
    then Blocked_link_Add clientId contactId s = (Inl (Invalid_argument
           ''[WIP] Adding duplicate contacts to blocked list not supported yet''), s)
       \<and> (\<exists>bs. distinct bs \<and> set bs = set (s_blocked s) - {contactId}
            \<and> Blocked_link_Remove clientId contactId s =
                emits [(133, 1, [(1, clientId), (5, contactId), (4, ''2''), (66, '' '')])]
                  (s\<lparr>s_blocked := bs\<rparr>))
    else Blocked_link_Remove clientId contactId s = (Inl (Invalid_argument
           ''[WIP] Removing contacts that do not exist in blocked list not supported yet''), s)
       \<and> (\<exists>bs. distinct bs \<and> set bs = insert contactId (set (s_blocked s))
            \<and> Blocked_link_Add clientId contactId s =
                emits [(133, 1, [(1, clientId), (5, contactId), (4, ''1''), (66, '' '')])]
                  (s\<lparr>s_blocked := bs\<rparr>))"
proof (cases "contactId \<in> set (s_blocked s)")
  case True
  have "distinct (Blocked_Remove contactId (s_blocked s))"
    "set (Blocked_Remove contactId (s_blocked s)) = set (s_blocked s) - {contactId}"
    using assms by (rule blocked.invar_remove, rule blocked.abs_remove)
  then show ?thesis
    using True
    by (simp only: if_True Blocked_link_Add_run Blocked_link_Remove_run if_not_P not_not
        OnAlreadyBlocked_def throw_def simp_thms) blast
next
  case False
  have "distinct (Blocked_Add contactId (s_blocked s))"
    "set (Blocked_Add contactId (s_blocked s)) = insert contactId (set (s_blocked s))"
    using assms by (rule blocked.invar_add, intro blocked.abs_add)
  then show ?thesis
    using False
    by (simp only: if_False Blocked_link_Add_run Blocked_link_Remove_run if_P not_False_eq_True
        OnNotInBlockedList_def throw_def simp_thms) blast
qed

theorem blocking_refines_set_witness:
  "set (s_blocked (snd (Blocked_link_Remove ''bob'' ''jerk''
     (login_session demo_env (peer_new 0 0 5))))) = {''wierdo'', ''germinator''}"
proof -
  let ?s = "login_session demo_env (peer_new 0 0 5)"
  have blocked: "s_blocked ?s = mock_blocked"
    by (simp add: login_session_def)
  then have "distinct (s_blocked ?s)" and member: "''jerk'' \<in> set (s_blocked ?s)"
    by (simp_all add: mock_blocked_def)
  from blocking_refines_set [OF this(1), of "''jerk''" "''bob''", unfolded if_P [OF member]]
  obtain bs ps where "set bs = set (s_blocked ?s) - {''jerk''}"
    "Blocked_link_Remove ''bob'' ''jerk'' ?s = emits ps (?s\<lparr>s_blocked := bs\<rparr>)"
    by blast
  then show ?thesis
    by (auto simp: emits_managers blocked mock_blocked_def)
qed

text \<open>
  C10. A change of presence sets the client's own state and the entries of its profiles in
  the contact list, leaves every other entry alone, and announces each profile that is a
  contact with one packet made of the changed entry; it only fails when a packet is too
  large. This is so for all five changes; going invisible announces the contact as offline.
\<close>

theorem presence_changes:
  "wp SetAvailable
     (\<lambda>_. changed Presence_SetAvailable (\<lambda>c. c\<lparr>ci_availability := Available\<rparr>) status_packet s)
     (\<lambda>e _. e = payload_too_large) s
   \<and> wp (SetIdle message isBusy idleUnknown)
     (\<lambda>_. changed (Presence_SetIdle message isBusy idleUnknown)
       (\<lambda>c. c\<lparr>ci_idleUnknown := idleUnknown, ci_availability := Idle, ci_isBusy := isBusy,
             ci_customMessage := message\<rparr>) status_packet s)
     (\<lambda>e _. e = payload_too_large) s
   \<and> wp (SetAway availability isBusy)
     (\<lambda>_. changed (Presence_SetAway availability isBusy)
       (\<lambda>c. c\<lparr>ci_availability := availability, ci_isBusy := isBusy\<rparr>) status_packet s)
     (\<lambda>e _. e = payload_too_large) s
   \<and> wp (SetCustomStatus message isBusy)
     (\<lambda>_. changed (Presence_SetCustomStatus message isBusy)
       (\<lambda>c. c\<lparr>ci_availability := Custom, ci_isBusy := isBusy, ci_customMessage := message\<rparr>)
       status_packet s)
     (\<lambda>e _. e = payload_too_large) s
   \<and> wp SetInvisible
     (\<lambda>_. changed Presence_SetInvisible (\<lambda>c. c\<lparr>ci_availability := Offline\<rparr>) offline_packet s)
     (\<lambda>e _. e = payload_too_large) s"
  unfolding presence_link_defs presence_events_update
  by (intro conjI presence_link_changes)
    (simp_all add: presence_builds status_packet_def offline_packet_def)

section \<open>The login\<close>

text \<open>
  C11. The login, exactly. A payload the parser refuses changes nothing. Any other is
  accepted: neither the client id nor the responses it carries play a part, only the
  attribute of the header, which chooses the initial availability. The session gets the id
  of the challenge, the fixed profiles, contacts and blocked ids, a new session id, and the
  packets every session starts with; its map replaces the login's when all of them fit.
\<close>

theorem login_effect:
  "OnAuthenticate env header payload after p =
    (case Parse Authentication_OnKeyPair Authentication_new payload after of
       Inl e \<Rightarrow> (Inl e, p)
     | Inr _ \<Rightarrow>
        (let p' = p\<lparr>ah_initialAvailability := (if attribute header = 12 then Offline else Available),
                   ah_password := ''password''\<rparr>;
             s = login_session env p'
         in case emits (begin_packets s) s of
              (Inl e, t) \<Rightarrow> (Inl e, p'\<lparr>peer_session := t\<rparr>)
            | (Inr _, t) \<Rightarrow> (Inr (), p'\<lparr>peer_session := t, pd_processors := V11_Create\<rparr>)))"
  by (rule run_eqI)
    (simp add: OnAuthenticate_defs wp Let_def split: sum.split, simp add: wp_def
      Mock_BeginSession_packets split: prod.split sum.split)

text \<open>
  What every session starts with, in this order: the client's profile, the contacts that
  are online, the ping configuration; then, by the characters of the client id, the alert,
  the two mail notifications and the offline message. The first that does not fit ends it.
\<close>

theorem session_start:
  "Mock_BeginSession s = emits (begin_packets s) s
   \<and> take 3 (begin_packets s) =
      [(85, 0, profile_fields s), (1, 0, online_fields s), (18, 0, [(143, ''60''), (144, ''13'')])]
   \<and> map (\<lambda>(service, attr, flds). service) (drop 3 (begin_packets s)) =
      (let clientId = pm_clientId (s_profiles s)
       in (if CHR ''*'' \<in> set clientId then [300] else [])
        @ (if CHR ''-'' \<in> set clientId then [11] else [])
        @ (if CHR ''_'' \<in> set clientId then [11] else [])
        @ (if CHR ''.'' \<in> set clientId then [6] else []))"
  by (simp add: Mock_BeginSession_packets begin_packets_def Let_def)

text \<open>
  The services of a session: once the login is complete the map holds these fifteen and
  no other. A packet of any other service, the login's own (76, 84, 87) included, is read to
  its end and has no effect; the only thing it can bring about is the parser's exception.
\<close>

theorem session_services:
  assumes "pd_processors p = V11_Create"
    and "serviceId header \<notin> {3, 4, 6, 7, 8, 23, 75, 85, 131, 132, 133, 134, 137, 150, 152}"
  shows "Dispatch env header payload after p =
      ((case snd (key_pairs payload after) of None \<Rightarrow> Inr () | Some e \<Rightarrow> Inl empty_key), p)"
proof -
  have "map_find V11_Create (serviceId header) = None"
    using assms(2) by (simp add: V11_Create_eq map_find_Cons)
  then have "Dispatch env header payload after p = (Parse Payload_OnKeyPair () payload after, p)"
    by (simp add: Dispatch_def and_then_def get_state_def lift_res_def assms(1))
  moreover have "Parse Payload_OnKeyPair () payload after =
      (case snd (key_pairs payload after) of None \<Rightarrow> Inr () | Some e \<Rightarrow> Inl empty_key)"
    using base_payload.Parse_strict [of "()" payload after] key_pairs_error [of payload after]
    by (cases "Parse Payload_OnKeyPair () payload after") (auto split: option.split)
  ultimately show ?thesis by simp
qed

theorem session_services_witness:
  "Dispatch demo_env (demo_header 84) [] [] demo_peer = (Inr (), demo_peer)"
  using session_services [OF demo_map, of "demo_header 84" demo_env "[]" "[]"]
  by (simp add: demo_header_def key_pairs.simps [of "[]"])

text \<open>
  C14. A session keeps what identifies it, whatever packets follow the login: the client and
  profile ids, the session id, the protocol version (a late \<open>ProtocolSync\<close> is ignored) and
  the installed map stay, and what was sent is only added to.
\<close>

theorem session_identity_is_kept:
  assumes "rtranclp serves p q" "pd_processors p = V11_Create"
  shows "pd_processors q = V11_Create \<and> s_profiles (peer_session q) = s_profiles (peer_session p)
    \<and> conn_sessionId (s_connection (peer_session q)) = conn_sessionId (s_connection (peer_session p))
    \<and> conn_protocolVersion (s_connection (peer_session q)) =
        conn_protocolVersion (s_connection (peer_session p))
    \<and> (\<exists>more. conn_sent (s_connection (peer_session q)) =
        conn_sent (s_connection (peer_session p)) @ more)"
  using serves_identity [OF assms] assms(2) by (simp add: same_identity_def session_identity_def)

theorem session_identity_is_kept_witness:
  "\<exists>q. serves demo_peer q \<and> s_profiles (peer_session q) = s_profiles (peer_session demo_peer)"
proof -
  have "Dispatch demo_env (demo_header 76) [] [] demo_peer = (Inr (), demo_peer)"
    by (rule run_eqI)
      (simp add: Dispatch_def wp demo_map V11_Create_eq map_find_Cons demo_header_def
        Parse.simps [of _ _ "[]"])
  then have step: "serves demo_peer demo_peer" by (rule serves.packet)
  then have "rtranclp serves demo_peer demo_peer" by (rule r_into_rtranclp)
  from step session_identity_is_kept [OF this demo_map] show ?thesis by blast
qed

section \<open>The managers\<close>

text \<open>
  C15. The contact list is a finite map from ids to entries, and each operation of the contact
  manager is the map's. Loading a contact and entering a pending one add the entry, or
  throw on an id that is taken and change nothing; removing deletes one entry, and is the
  erasure of the end iterator, without effect, when there is none; \<open>SetContactAdded\<close> always
  throws; renaming a group rewrites the group of the entries that have it and no other part
  of any entry; the five setters change the one entry they find and return it, or return a
  null pointer and change nothing. All of them keep the list well formed.
\<close>

theorem contact_manager_refines_map:
  assumes "contacts_wf cs"
  shows "(IsContact i cs \<longleftrightarrow> i \<in> dom (map_find cs))
    \<and> adds_contact c ''Unable to insert contact'' (LoadContact c) cs
    \<and> adds_contact (ContactInfo_default junk i g AddPendingState)
        ''Unable to insert contact information'' (AddPendingContact junk i g) cs
    \<and> SetContactAdded i g cs = (Inl (Runtime_error ''Not implemented''), cs)
    \<and> fst (ContactManager_RemoveContact i g cs) =
        (if i \<in> dom (map_find cs) then Inr () else Inl (Undefined ''erase of the end iterator''))
    \<and> map_find (snd (ContactManager_RemoveContact i g cs)) = (map_find cs)(i := None)
    \<and> contacts_wf (snd (ContactManager_RemoveContact i g cs))
    \<and> fst (ContactManager_RenameGroup a b cs) = Inr ()
    \<and> map_find (snd (ContactManager_RenameGroup a b cs)) =
        map_option (\<lambda>c. if ci_group c = a then c\<lparr>ci_group := b\<rparr> else c) \<circ> map_find cs
    \<and> contacts_wf (snd (ContactManager_RenameGroup a b cs))
    \<and> sets_contact i (\<lambda>c. c\<lparr>ci_availability := Available\<rparr>) (SetContactAvailable i) cs
    \<and> sets_contact i (\<lambda>c. c\<lparr>ci_idleUnknown := u, ci_availability := Idle, ci_isBusy := busy,
        ci_customMessage := m\<rparr>) (SetContactIdle i u m busy) cs
    \<and> sets_contact i (\<lambda>c. c\<lparr>ci_availability := v, ci_isBusy := busy\<rparr>) (SetContactAway i v busy) cs
    \<and> sets_contact i (\<lambda>c. c\<lparr>ci_availability := Custom, ci_isBusy := busy, ci_customMessage := m\<rparr>)
        (SetContactStatusMessage i m busy) cs
    \<and> sets_contact i (\<lambda>c. c\<lparr>ci_availability := Offline\<rparr>) (SetContactOffline i) cs"
proof (intro conjI adds_contacts sets_contacts assms)
  note find = std_map.find_erase [OF contacts_wf_sorted [OF assms]]
  show "IsContact i cs \<longleftrightarrow> i \<in> dom (map_find cs)"
    by (auto simp: IsContact_def FindContact_def)
  show "fst (ContactManager_RemoveContact i g cs) =
      (if i \<in> dom (map_find cs) then Inr () else Inl (Undefined ''erase of the end iterator''))"
    "map_find (snd (ContactManager_RemoveContact i g cs)) = (map_find cs)(i := None)"
    by (auto simp: ContactManager_RemoveContact_def FindContact_def find fun_eq_iff domIff
        split: option.split)
  show "map_find (snd (ContactManager_RenameGroup a b cs)) =
      map_option (\<lambda>c. if ci_group c = a then c\<lparr>ci_group := b\<rparr> else c) \<circ> map_find cs"
    by (simp add: ContactManager_RenameGroup_def modify_def map_find_rename_group fun_eq_iff
        flip: rename_group_def)
  show "contacts_wf (snd (ContactManager_RemoveContact i g cs))"
    "contacts_wf (snd (ContactManager_RenameGroup a b cs))"
    by (rule keepsD [where P = contacts_wf, OF _ assms], rule keeps_intros)+
qed (simp_all add: SetContactAdded_def throw_def ContactManager_RenameGroup_def modify_def)

theorem contact_manager_refines_map_witness:
  "map_find (snd (LoadContact (ContactInfo_default False ''bob'' ''x'' Linked)
     (mock_contact_map False Available))) ''bob'' = Some (ContactInfo_default False ''bob'' ''x'' Linked)"
proof -
  let ?cs = "mock_contact_map False Available"
  have "contacts_wf ?cs"
    by (simp add: contacts_wf_def mock_contact_map_def map_sorted_def)
  from contact_manager_refines_map [OF this]
  have "adds_contact c ''Unable to insert contact'' (LoadContact c) ?cs" for c
    by blast
  from this [of "ContactInfo_default False ''bob'' ''x'' Linked"] show ?thesis
    by (simp add: adds_contact_def domIff mock_contact_map_def map_find_Cons ContactInfo_default_def
        ContactInfo_new_def)
qed

text \<open>
  C16. The profile's contact list field tells the client exactly its contact list: decoded
  line by line it gives the groups in order, and under each group the ids of its contacts in
  order, provided no name holds a separator of the format.
\<close>

theorem profile_lists_contacts:
  assumes "listable (group_contacts cs)"
  shows "decode_contact_list (contactListString (group_contacts cs)) = group_contacts cs
    \<and> map_sorted (group_contacts cs)
    \<and> map_find (group_contacts cs) g =
        (if group_ids g cs = [] then None else Some (group_ids g cs))"
  using decode_contactListString [OF assms] group_contacts_sorted map_find_group_contacts by blast

theorem profile_lists_contacts_witness:
  "decode_contact_list (contactListString (group_contacts (mock_contact_map False Available))) =
     [(''Friends'', [''david'', ''donna'', ''jay'']),
      (''Myself'', [''blinky'', ''brad'', ''dinky'', ''winky''])]"
proof -
  have g: "group_contacts (mock_contact_map False Available) =
      [(''Friends'', [''david'', ''donna'', ''jay'']),
       (''Myself'', [''blinky'', ''brad'', ''dinky'', ''winky''])]"
    by (simp add: group_contacts_def group_contact_def mock_contact_map_def ContactInfo_new_def
        map_adjust_def)
  then have "listable (group_contacts (mock_contact_map False Available))"
    by (simp add: listable_def)
  from profile_lists_contacts [OF this] g show ?thesis by simp
qed

section \<open>Fields on their way through the server\<close>

text \<open>
  C17. An \<open>AddContact\<close> packet from the wire to the link: the fields the link is called with
  are the values of the last pairs with the keys 1, 7, 65 and 14 (empty when there is none),
  whatever other pairs the payload holds, and the peer changes in its session only.
\<close>

theorem AddContact_from_the_wire:
  assumes "pd_processors p = V11_Create" "serviceId header = 131"
    and "snd (key_pairs payload after) = None"
  shows "Dispatch env header payload after p =
    (let field = (\<lambda>k. sv_str (last_value k (fst (key_pairs payload after)) Null_view))
     in case AddContact env (field 1) (field 7) (field 65) (field 14) (peer_session p) of
          (r, s) \<Rightarrow> (r, p\<lparr>peer_session := s\<rparr>))"
proof -
  obtain q where q: "Parse AddContact_OnKeyPair AddContact_new payload after = Inr q"
    using adc.Parse_strict [of AddContact_new payload after] assms(3)
    by (cases "Parse AddContact_OnKeyPair AddContact_new payload after") auto
  note fields = adc_clientId.Parse_field [OF q] adc_contactId.Parse_field [OF q]
    adc_group.Parse_field [OF q] adc_message.Parse_field [OF q]
  show ?thesis
    using assms(1,2) q
    by (simp add: Dispatch_def and_then_def get_state_def V11_Create_eq map_find_Cons
        run_processor_def run_session_processor_def PacketProcessor_Parse_def lift_res_def zoom_def
        Process_AddContact_def fields AddContact_new_def Let_def)
qed

theorem AddContact_from_the_wire_witness:
  "\<exists>s. Dispatch demo_env (demo_header 131) [] [] demo_peer = (Inr (), demo_peer\<lparr>peer_session := s\<rparr>)"
proof -
  have "snd (key_pairs [] []) = None" by (simp add: key_pairs.simps [of "[]"])
  from AddContact_from_the_wire [OF demo_map _ this, of "demo_header 131" demo_env]
  show ?thesis
    by (auto simp: demo_header_def AddContact_decision Let_def key_pairs.simps [of "[]"]
        fits_def sizeof_RawHeader_def PaxPayloadSize_def add_result_fields_def encode_pair_def
        to_string_def nat_to_string.simps)
qed

text \<open>
  C18. A private message is relayed faithfully: the packet the server answers with is read
  back as exactly the client id, the contact id, the client id again, the text and the
  encoding of the message that was received, whatever bytes they hold.
\<close>

theorem private_message_is_relayed:
  assumes "Parse PrivateMessage_OnKeyPair (PrivateMessage_new junk) payload after = Inr m"
  shows "let flds = [(1, sv_str (pvm_clientId m)), (5, sv_str (pvm_contactId m)),
                     (4, sv_str (pvm_clientId m)), (14, sv_str (pvm_message m)),
                     (97, to_string (TextEncoding_value (pvm_encoding m)))]
    in Process_PrivateMessage header m s = emits [(6, 1, flds)] s
       \<and> plain_pairs (fst (key_pairs (encode_pairs flds) after')) = flds
       \<and> snd (key_pairs (encode_pairs flds) after') = None"
proof -
  let ?flds = "[(1, sv_str (pvm_clientId m)), (5, sv_str (pvm_contactId m)),
      (4, sv_str (pvm_clientId m)), (14, sv_str (pvm_message m)),
      (97, to_string (TextEncoding_value (pvm_encoding m)))]"
  have "clean_field kv" if "kv \<in> set ?flds" for kv
    using that pvm_clientId.Parse_field [OF assms] pvm_contactId.Parse_field [OF assms]
      pvm_message.Parse_field [OF assms]
    by (auto simp: clean_field_def PrivateMessage_new_def last_value_clean no_terminator_to_string
        LONG_MIN_def LONG_MAX_def)
  moreover have "Process_PrivateMessage header m s = emits [(6, 1, ?flds)] s"
    by (rule run_eqI) (simp add: Process_PrivateMessage_def PrivateMessage_Build_def wp)
  ultimately show ?thesis unfolding Let_def using key_pairs_encode_pairs by blast
qed

theorem private_message_is_relayed_witness:
  "plain_pairs (fst (key_pairs (encode_pairs
     [(1, []), (5, []), (4, []), (14, []), (97, ''1'')]) [])) =
   [(1, []), (5, []), (4, []), (14, []), (97, ''1'')]"
proof -
  have "Parse PrivateMessage_OnKeyPair (PrivateMessage_new TextEncoding_None) [] [] =
      Inr (PrivateMessage_new TextEncoding_None)"
    by (simp add: Parse.simps [of _ _ "[]"])
  from private_message_is_relayed [OF this] show ?thesis
    by (simp add: PrivateMessage_new_def Let_def)
qed

text \<open>
  \<open>SetAway\<close> by status number: 12 is invisible, 999 idle, 99 a custom message and every
  other number, named or not, is passed on as the availability. This is for numbers as
  \<open>to_string\<close> writes them with something that is no digit behind them; the busy flag needs a
  NUL byte somewhere behind it as well, in or after the packet.
\<close>

theorem SetAway_decision:
  assumes "saw_statusId m = View (to_string n) (c # r)" "\<not> is_digit c"
    and "saw_busyState m = View (to_string k) (d # t)" "\<not> is_digit d" "CHR 0x00 \<in> set (d # t)"
    and "LONG_MIN \<le> n" "n \<le> LONG_MAX" "LONG_MIN \<le> k" "k \<le> LONG_MAX"
  shows "Process_SetAway header m s =
    (if n = 12 then SetInvisible s
     else if n = 999 then SetIdle (sv_str (saw_customMessage m)) (k \<noteq> 0) (sv_str (saw_idleUnknown m)) s
     else if n = 99 then SetCustomStatus (sv_str (saw_customMessage m)) (k \<noteq> 0) s
     else SetAway (Availability_of_int n) (k \<noteq> 0) s)"
proof -
  have status: "to_enum Availability_of_int (saw_statusId m) = Inr (Availability_of_int n)"
    unfolding assms(1) by (rule to_enum_to_string) (use assms in simp_all)
  have busy: "stol_data (saw_busyState m) = Inr k"
    unfolding assms(3) by (rule stol_data_to_string) (use assms in simp_all)
  have names: "Availability_of_int n = Invisible \<longleftrightarrow> n = 12"
    "Availability_of_int n = Idle \<longleftrightarrow> n = 999" "Availability_of_int n = Custom \<longleftrightarrow> n = 99"
    using Availability_value_of_int [of n] Availability_of_named
    by (auto simp: Availability_of_int_def Availability_names_def)
  have "\<not> sv_empty (saw_busyState m)" by (simp add: assms(3) sv_empty_def)
  then show ?thesis
    by (simp add: Process_SetAway_def and_then_def lift_res_def ret_def status busy names)
qed

theorem SetAway_decision_witness:
  "Process_SetAway (demo_header 3)
     \<lparr>saw_statusId = View (to_string 12) (CHR 0xC0 # []), saw_customMessage = Null_view,
      saw_busyState = View (to_string 0) (CHR 0xC0 # [CHR 0x00]), saw_idleUnknown = Null_view\<rparr>
     (login_session demo_env (peer_new 0 0 5)) =
   SetInvisible (login_session demo_env (peer_new 0 0 5))"
proof -
  have "\<not> is_digit CHR 0xC0" by (simp add: is_digit_def)
  from SetAway_decision [of _ 12 "CHR 0xC0" "[]" 0 "CHR 0xC0" "[CHR 0x00]" "demo_header 3"
        "login_session demo_env (peer_new 0 0 5)",
      OF _ this _ this]
  show ?thesis by (simp add: LONG_MIN_def LONG_MAX_def)
qed

section \<open>Limits and errors\<close>

text \<open>
  C20. \<open>Append\<close> checks the size of the buffer and of the key, not of the value: it takes a
  value of any length, so the buffer can grow past 64K. \<open>Send\<close> catches this, so the size
  field of a header that is sent is never cut to 16 bits.
\<close>

theorem Append_ignores_value_length:
  assumes "length b + length (to_string key) + 4 < PaxPayloadSize" "PaxPayloadSize \<le> length val"
  shows "\<exists>b'. Append key val b = Inr b' \<and> PaxPayloadSize \<le> length b'
    \<and> Send b' c = (Inl payload_too_large, c)"
  using assms
  by (auto simp: Append_def Let_def Send_def throw_def)

theorem Append_ignores_value_length_witness:
  "\<exists>b'. Append 14 (replicate 65536 CHR ''x'') (replicate 20 CHR 0x00) = Inr b'
    \<and> PaxPayloadSize \<le> length b'"
proof -
  have "length (to_string 14) \<le> 11" by (rule length_to_string_int) (simp_all add: LONG_MIN_def LONG_MAX_def)
  then have "length (replicate 20 CHR 0x00) + length (to_string 14) + 4 < PaxPayloadSize"
    "PaxPayloadSize \<le> length (replicate 65536 CHR ''x'')" by (simp_all add: PaxPayloadSize_def)
  from Append_ignores_value_length [OF this] show ?thesis by blast
qed

text \<open>
  C21. Of two packets that arrive in one read the first is handed on and the second stays in
  the buffer, complete, until more bytes arrive: the reader asks \<open>if\<close>, not \<open>while\<close>, there is
  a packet.
\<close>

theorem second_packet_waits:
  assumes "fits f1" "fits f2"
  shows "reads log_frame [packet h1 f1 @ packet h2 f2] \<lparr>ps_data = [], ps_world = []\<rparr> =
      (Inr (), \<lparr>ps_data = packet h2 f2,
        ps_world = [(h1\<lparr>payloadSize := of_nat (length (encode_pairs f1))\<rparr>, encode_pairs f1)]\<rparr>)
    \<and> HasPacket (packet h2 f2)"
proof
  let ?w = "packet h1 f1 @ packet h2 f2"
  note p1 = packet_HasPacket [OF assms(1), of h1]
  have w: "HasPacket ?w" "frame ?w = frame (packet h1 f1)" "drop (frame_length ?w) ?w = packet h2 f2"
    using HasPacket_append [OF p1(1), of "packet h2 f2"] p1(2) by simp_all
  have "packet h1 f1 \<noteq> []" using length_packet [of h1 f1] by auto
  then show "reads log_frame [?w] \<lparr>ps_data = [], ps_world = []\<rparr> =
      (Inr (), \<lparr>ps_data = packet h2 f2,
        ps_world = [(h1\<lparr>payloadSize := of_nat (length (encode_pairs f1))\<rparr>, encode_pairs f1)]\<rparr>)"
    by (intro run_eqI) (simp add: reads_def wp Let_def w log_frame_def p1(3) del: drop_append)
  show "HasPacket (packet h2 f2)" by (rule packet_HasPacket [OF assms(2)])
qed

theorem second_packet_waits_witness:
  "HasPacket (packet (Header_new 0 11 4 0) [])"
proof -
  have "fits []" by (simp add: fits_def sizeof_RawHeader_def PaxPayloadSize_def)
  from second_packet_waits [OF this this] show ?thesis by blast
qed

text \<open>
  An exception in the dispatcher leaves the packet in the buffer: the bytes of the read
  stay appended and nothing is erased, while what the dispatcher did before stays done.
\<close>

theorem exception_keeps_packet:
  assumes "HasPacket (d @ c)" "c \<noteq> []"
    and "dispatcher (fst (frame (d @ c))) (snd (frame (d @ c)))
      (drop (frame_length (d @ c)) (d @ c)) w = (Inl e, w')"
  shows "ProcessPendingData dispatcher (Some c) (length c) \<lparr>ps_data = d, ps_world = w\<rparr> =
    (Inl e, \<lparr>ps_data = d @ c, ps_world = w'\<rparr>)"
  by (rule run_eqI) (simp add: wp Let_def assms(1,2) del: drop_append, simp add: wp_def assms(3) del: drop_append)

theorem exception_keeps_packet_witness:
  "ProcessPendingData (\<lambda>h p a. throw empty_key) (Some (packet (Header_new 0 11 4 0) []))
     (length (packet (Header_new 0 11 4 0) [])) \<lparr>ps_data = [], ps_world = ()\<rparr> =
   (Inl empty_key, \<lparr>ps_data = packet (Header_new 0 11 4 0) [], ps_world = ()\<rparr>)"
proof -
  have "HasPacket ([] @ packet (Header_new 0 11 4 0) [])"
    by (simp add: packet_HasPacket fits_def sizeof_RawHeader_def PaxPayloadSize_def)
  moreover have "packet (Header_new 0 11 4 0) [] \<noteq> []"
    using length_packet [of "Header_new 0 11 4 0" "[]"] by auto
  ultimately show ?thesis
    using exception_keeps_packet [of "[]" _ "\<lambda>h p a. throw empty_key" "()" empty_key "()"]
    by (simp add: throw_def)
qed

text \<open>
  A turn of the pump: \<open>select\<close> reports sockets it was asked about, each at most once, and
  then the pump's own exception cannot come up; whatever is thrown comes from a callback.
  Callbacks are only ever removed.
\<close>

theorem pump_turn_finds_callbacks:
  assumes "\<And>socket f n. (socket, f) \<in> set (pump_callbacks p) \<Longrightarrow> only_raises X (f socket n)"
    and "set (map fst ready) \<subseteq> fst ` set (pump_callbacks p)" "distinct (map fst ready)"
  shows "wp (Pump_ready ready run) (\<lambda>_ q. set (pump_callbacks q) \<subseteq> set (pump_callbacks p))
    (\<lambda>e _. X e) p"
  using assms by (rule Pump_ready_callbacks)

theorem pump_turn_finds_callbacks_witness:
  "fst (Pump_ready [(5, Some 20)] True
     (AttachSocket 5 (\<lambda>socket n. ret False) \<lparr>pump_callbacks = [], pump_world = ()\<rparr>)) = Inr True"
proof -
  let ?p = "AttachSocket 5 (\<lambda>socket n. ret False) \<lparr>pump_callbacks = [], pump_world = ()\<rparr>"
  have "wp (Pump_ready [(5, Some 20)] True)
      (\<lambda>_ q. set (pump_callbacks q) \<subseteq> set (pump_callbacks ?p)) (\<lambda>e _. False) ?p"
    by (rule pump_turn_finds_callbacks) (auto simp: AttachSocket_def raises_ret)
  then show ?thesis
    by (simp add: wp_def AttachSocket_def and_then_def get_state_def map_find_Cons zoom_def ret_def
        modify_def)
qed

text \<open>
  C24. A payload that starts with a terminator ends the process: whatever the service and the
  state of the peer, the dispatcher throws the parser's exception and changes nothing.
\<close>

theorem empty_key_is_fatal:
  "Dispatch env header (terminator @ rest) after p = (Inl empty_key, p)"
proof -
  have Parse: "Parse on q (terminator @ rest) after = Inl empty_key"
    for on :: "'p on_key_pair" and q
    by (simp add: Parse.simps [of on q "TerminatorByte1 # TerminatorByte2 # rest"])
  have processor: "PacketProcessor_Parse on q f header (terminator @ rest) after s = (Inl empty_key, s)"
    for on :: "'p on_key_pair" and q f s
    by (simp only: PacketProcessor_Parse_def Parse and_then_def lift_res_def prod.case sum.case)
  have same: "p\<lparr>peer_session := peer_session p\<rparr> = p" by simp
  have "run_processor env f header (terminator @ rest) after p = (Inl empty_key, p)" for f
    unfolding run_processor_def run_session_processor_def OnProtocolSync_def OnChallengeRequest_def
      OnAuthenticate_defs
    by (cases f) (simp_all only: processor.case Parse processor zoom_def and_then_def lift_res_def
        prod.case sum.case same)
  then show ?thesis
    by (cases "map_find (pd_processors p) (serviceId header)")
      (simp_all only: Dispatch_def and_then_def get_state_def prod.case sum.case option.case Parse
        lift_res_def)
qed

section \<open>Formats\<close>

text \<open>
  The header and its twenty bytes determine each other: a header written to the buffer
  is read back, behind it may be anything, and carries a valid signature; and a buffer with
  a valid header starts with exactly the bytes its header would be written as.
\<close>

theorem header_roundtrip:
  "Header_of_bytes (Header_bytes h @ r) = h \<and> IsValidHeader (Header_bytes h @ r)
   \<and> length (Header_bytes h) = sizeof_RawHeader
   \<and> (IsValidHeader b \<longrightarrow> Header_bytes (Header_of_bytes b) = take sizeof_RawHeader b)"
proof (intro conjI impI)
  show "IsValidHeader (Header_bytes h @ r)"
    by (simp add: IsValidHeader_def HasHeader_def GetRawHeader_def sizeof_RawHeader_def
        Header_bytes_def raw_of_Header_def)
  assume valid: "IsValidHeader b"
  then have "sizeof_RawHeader \<le> length b" "htonl (raw_signature (raw_of_bytes b)) = Signature"
    by (auto simp: IsValidHeader_def HasHeader_def GetRawHeader_def)
  then show "Header_bytes (Header_of_bytes b) = take sizeof_RawHeader b"
    by (simp add: Header_bytes_def Header_of_bytes_def raw_of_Header_of_raw raw_bytes_raw_of_bytes)
qed (simp_all add: sizeof_RawHeader_def)

theorem header_roundtrip_witness:
  "Header_bytes (Header_of_bytes (Header_bytes (Header_new 7 11 6 1))) = Header_bytes (Header_new 7 11 6 1)"
proof -
  define b where "b = Header_bytes (Header_new 7 11 6 1)"
  have "IsValidHeader (b @ [])"
    unfolding b_def by (rule header_roundtrip [THEN conjunct2, THEN conjunct1])
  then have valid: "IsValidHeader b" by (simp only: append_Nil2)
  have "IsValidHeader b \<longrightarrow> Header_bytes (Header_of_bytes b) = take sizeof_RawHeader b"
    by (rule header_roundtrip [THEN conjunct2, THEN conjunct2, THEN conjunct2])
  with valid have "Header_bytes (Header_of_bytes b) = take sizeof_RawHeader b" by blast
  moreover have "length b \<le> sizeof_RawHeader" by (simp add: b_def sizeof_RawHeader_def)
  ultimately have "Header_bytes (Header_of_bytes b) = b" by (simp only: take_all)
  then show ?thesis unfolding b_def .
qed

text \<open>
  Parsing what was built hands the payload its fields, in order and unchanged, and then
  succeeds: for fields whose keys are machine integers and whose values hold no terminator.
\<close>

theorem parser_reads_back:
  assumes "\<And>kv. kv \<in> set flds \<Longrightarrow> clean_field kv"
  shows "\<exists>kvs. plain_pairs kvs = flds \<and> Parse on p (encode_pairs flds) after = feed on kvs p"
proof (intro exI conjI)
  let ?kp = "key_pairs (encode_pairs flds) after"
  have kp: "plain_pairs (fst ?kp) = flds" "snd ?kp = None"
    using key_pairs_encode_pairs [of flds after] assms by blast+
  show "plain_pairs (fst ?kp) = flds" by (rule kp)
  show "Parse on p (encode_pairs flds) after = feed on (fst ?kp) p"
    by (cases "feed on (fst ?kp) p") (simp_all add: Parse_key_pairs kp parse_result_def)
qed

theorem parser_reads_back_witness:
  "\<exists>kvs. plain_pairs kvs = [(1, ''bob''), (65, [])]
    \<and> Parse AddContact_OnKeyPair AddContact_new (encode_pairs [(1, ''bob''), (65, [])]) [] =
      feed AddContact_OnKeyPair kvs AddContact_new"
proof -
  have "clean_field kv" if "kv \<in> set [(1, ''bob''), (65, [])]" for kv
    using that by (auto simp: LONG_MIN_def LONG_MAX_def intro!: clean_fieldI)
  then show ?thesis by (rule parser_reads_back)
qed

end
